(* ===== verification/Go_Prelude.thy ===== *)
theory Go_Prelude
  imports Main "HOL-Library.Word" "HOL-Library.List_Lexorder" "HOL-Library.Char_ord"
begin

text \<open>
  What the service uses of the Go language and its standard library: error values and
  \<open>errors.Is\<close>, the string functions of \<open>strings\<close>, the verbs \<open>%d\<close> and \<open>%x\<close> of \<open>fmt\<close>,
  \<open>strconv.ParseInt\<close>, \<open>fmt.Sscanf\<close> with \<open>%d\<close>, \<open>hex.EncodeToString\<close>, \<open>time.Format\<close> with the
  RFC 3339 layout, \<open>filepath.Join\<close>, JSON values and the rounding of a JSON number to a float64.
  A Go \<open>string\<close> is a byte string and is modelled by HOL's \<open>string\<close>; times are nanoseconds since
  the epoch, in UTC.
\<close>

named_theorems go_simps "equations of the Go library model that proofs unfold"

type_synonym byte = "8 word"
type_synonym bytes = "byte list"

section \<open>Error values\<close>

text \<open>
  One constructor per sentinel error of the source, the failure of an external call, a statement
  the database rejects, an error built by \<open>fmt.Errorf\<close> without and with \<open>%w\<close>, and a panic.
\<close>

datatype go_error =
    ErrOperationNotFound
  | ErrPortsOperationNotFound
  | ErrAlreadyTerminal
  | ErrInvalidState
  | ErrInvalidStateForRetry
  | ErrResultNotReady
  | ErrResultExpired
  | ErrNoHealthyWorker
  | ErrInvalidTransition
  | ErrVersionMismatch
  | ErrInvalidStateForOp
  | ErrExternal string
  | ErrSQL string
  | ErrMsg string
  | ErrWrap string go_error
  | Panic string

fun errors_is :: "go_error \<Rightarrow> go_error \<Rightarrow> bool" where
  "errors_is (ErrWrap m e) t = (ErrWrap m e = t \<or> errors_is e t)"
| "errors_is e t = (e = t)"

fun is_panic :: "go_error \<Rightarrow> bool" where
  "is_panic (Panic _) = True"
| "is_panic _ = False"

section \<open>Package strings\<close>

definition has_prefix :: "string \<Rightarrow> string \<Rightarrow> bool" where
  "has_prefix s p = (take (length p) s = p)"

definition has_suffix :: "string \<Rightarrow> string \<Rightarrow> bool" where
  "has_suffix s suf = (length suf \<le> length s \<and> drop (length s - length suf) s = suf)"

definition trim_suffix :: "string \<Rightarrow> string \<Rightarrow> string" where
  "trim_suffix s suf = (if has_suffix s suf then take (length s - length suf) s else s)"

fun contains_sub :: "string \<Rightarrow> string \<Rightarrow> bool" where
  "contains_sub [] sub = (sub = [])"
| "contains_sub (c # cs) sub = (has_prefix (c # cs) sub \<or> contains_sub cs sub)"

lemma has_suffix_append [simp]: "has_suffix (s @ suf) suf"
  by (simp add: has_suffix_def)

lemma has_suffix_append_longer:
  assumes "length suf' \<le> length suf"
  shows "has_suffix (s @ suf) suf' = has_suffix suf suf'"
  using assms by (auto simp: has_suffix_def drop_append)

lemma trim_suffix_append [simp]: "trim_suffix (s @ suf) suf = s"
  by (simp add: trim_suffix_def)

lemma has_prefix_append [simp]: "has_prefix (p @ s) p"
  by (simp add: has_prefix_def)

lemma contains_sub_prefix: "has_prefix s sub \<Longrightarrow> contains_sub s sub"
  by (cases s) (auto simp: has_prefix_def)

lemma contains_sub_append: "contains_sub t sub \<Longrightarrow> contains_sub (s @ t) sub"
  by (induction s) auto

lemma contains_sub_infix: "contains_sub (a @ sub @ b) sub"
  by (rule contains_sub_append) (rule contains_sub_prefix, simp)

section \<open>Numbers as text\<close>

definition digit_char :: "nat \<Rightarrow> char" where
  "digit_char d = char_of (if d < 10 then 48 + d else 87 + d)"

definition char_digit :: "char \<Rightarrow> nat" where
  "char_digit c = (let n = of_char c in if n < 58 then n - 48 else n - 87)"

definition is_digit :: "char \<Rightarrow> bool" where
  "is_digit c = (48 \<le> (of_char c :: nat) \<and> (of_char c :: nat) \<le> 57)"

fun show_base :: "nat \<Rightarrow> nat \<Rightarrow> string" where
  "show_base b n =
     (if n < b \<or> b < 2 then [digit_char n] else show_base b (n div b) @ [digit_char (n mod b)])"

declare show_base.simps [simp del]

text \<open>The verb \<open>%d\<close> and the verb \<open>%x\<close> of an integer.\<close>

definition fmt_d :: "int \<Rightarrow> string" where
  "fmt_d i = (if i < 0 then CHR ''-'' # show_base 10 (nat (- i)) else show_base 10 (nat i))"

definition fmt_x :: "int \<Rightarrow> string" where
  "fmt_x i = (if i < 0 then CHR ''-'' # show_base 16 (nat (- i)) else show_base 16 (nat i))"

text \<open>The value of a run of decimal digits, most significant first.\<close>

definition digits_value :: "string \<Rightarrow> nat" where
  "digits_value s = foldl (\<lambda>v c. 10 * v + char_digit c) 0 s"

lemma of_char_digit_char:
  "d < 16 \<Longrightarrow> (of_char (digit_char d) :: nat) = (if d < 10 then 48 + d else 87 + d)"
  by (simp add: digit_char_def)

lemma char_digit_digit_char: "d < 16 \<Longrightarrow> char_digit (digit_char d) = d"
  by (simp add: char_digit_def of_char_digit_char Let_def)

lemma is_digit_digit_char: "d < 10 \<Longrightarrow> is_digit (digit_char d)"
  by (simp add: is_digit_def of_char_digit_char)

lemma digit_char_inj: "a < 16 \<Longrightarrow> b < 16 \<Longrightarrow> digit_char a = digit_char b \<Longrightarrow> a = b"
  by (metis char_digit_digit_char)

lemma show_base_10_digits: "list_all is_digit (show_base 10 n)"
proof (induction n rule: less_induct)
  case (less n)
  show ?case
  proof (cases "n < 10")
    case True
    then show ?thesis by (simp add: show_base.simps is_digit_digit_char)
  next
    case False
    then have "list_all is_digit (show_base 10 (n div 10))" by (intro less) simp
    with False show ?thesis by (simp add: show_base.simps [of 10 n] is_digit_digit_char)
  qed
qed

lemma show_base_not_Nil [simp]: "show_base b n \<noteq> []"
  by (subst show_base.simps) simp

lemma digits_value_snoc: "digits_value (s @ [c]) = 10 * digits_value s + char_digit c"
  by (simp add: digits_value_def)

lemma digits_value_show [go_simps]: "digits_value (show_base 10 n) = n"
proof (induction n rule: less_induct)
  case (less n)
  show ?case
  proof (cases "n < 10")
    case True
    then show ?thesis by (simp add: show_base.simps digits_value_def char_digit_digit_char)
  next
    case False
    then have "digits_value (show_base 10 (n div 10)) = n div 10" by (intro less) simp
    with False show ?thesis
      by (simp add: show_base.simps [of 10 n] digits_value_snoc char_digit_digit_char)
  qed
qed

lemma length_show_base_10: "n < 10 ^ k \<Longrightarrow> 0 < k \<Longrightarrow> length (show_base 10 n) \<le> k"
proof (induction k arbitrary: n)
  case 0
  then show ?case by simp
next
  case (Suc k)
  show ?case
  proof (cases "n < 10")
    case True
    then show ?thesis by (simp add: show_base.simps)
  next
    case False
    then have "0 < k" using Suc.prems(1) by (cases k) auto
    moreover have "n div 10 < 10 ^ k" using Suc.prems(1) by (simp add: div_less_iff_less_mult mult.commute)
    ultimately have "length (show_base 10 (n div 10)) \<le> k" by (intro Suc.IH)
    then show ?thesis using False by (simp add: show_base.simps [of 10 n])
  qed
qed

lemma show_base_10_hd_digit: "is_digit (hd (show_base 10 n))"
  using show_base_10_digits [of n] by (cases "show_base 10 n") (auto simp: show_base_not_Nil)

lemma fmt_d_inj: "fmt_d i = fmt_d j \<Longrightarrow> i = j"
proof -
  assume eq: "fmt_d i = fmt_d j"
  have hd_digit: "hd (show_base 10 n) \<noteq> CHR ''-''" for n
    using show_base_10_hd_digit [of n] by (auto simp: is_digit_def)
  have "(i < 0) = (j < 0)"
    using eq hd_digit [of "nat i"] hd_digit [of "nat j"]
    by (auto simp: fmt_d_def split: if_splits) (metis list.sel(1))+
  then have "show_base 10 (nat \<bar>i\<bar>) = show_base 10 (nat \<bar>j\<bar>)"
    using eq by (auto simp: fmt_d_def split: if_splits)
  then have "nat \<bar>i\<bar> = nat \<bar>j\<bar>" by (metis digits_value_show)
  with \<open>(i < 0) = (j < 0)\<close> show "i = j" by linarith
qed

text \<open>
  \<open>strconv.ParseInt(s, 10, 64)\<close>: the value and whether an error was returned with it. A syntax
  error gives 0; a number out of range gives the nearest int64.
\<close>

definition max_int64 :: int where "max_int64 = 2 ^ 63 - 1"
definition min_int64 :: int where "min_int64 = - (2 ^ 63)"

text \<open>Addition of two \<open>int64\<close> wraps around.\<close>

definition int64_add :: "int \<Rightarrow> int \<Rightarrow> int" where
  "int64_add a b = (a + b + 2 ^ 63) mod 2 ^ 64 - 2 ^ 63"

lemma int64_add_exact [go_simps]:
  assumes "min_int64 \<le> a + b" and "a + b \<le> max_int64"
  shows "int64_add a b = a + b"
proof -
  have "(a + b + 2 ^ 63) mod 2 ^ 64 = a + b + 2 ^ 63"
    using assms by (intro mod_pos_pos_trivial) (simp_all add: min_int64_def max_int64_def)
  then show ?thesis by (simp add: int64_add_def)
qed

lemma int64_add_wraps: "int64_add max_int64 1 = min_int64"
  by (simp add: int64_add_def max_int64_def min_int64_def)

definition parse_int64 :: "string \<Rightarrow> int \<times> bool" where
  "parse_int64 s =
     (let neg = (s \<noteq> [] \<and> hd s = CHR ''-'');
          body = (if s \<noteq> [] \<and> (hd s = CHR ''-'' \<or> hd s = CHR ''+'') then tl s else s);
          v = (if neg then - int (digits_value body) else int (digits_value body))
      in if body = [] \<or> \<not> list_all is_digit body then (0, True)
         else if v > max_int64 then (max_int64, True)
         else if v < min_int64 then (min_int64, True)
         else (v, False))"

lemma parse_int64_show:
  "parse_int64 (show_base 10 n) =
     (if int n > max_int64 then (max_int64, True) else (int n, False))"
proof -
  have h: "hd (show_base 10 n) \<noteq> CHR ''-''" "hd (show_base 10 n) \<noteq> CHR ''+''"
    using show_base_10_hd_digit [of n] by (auto simp: is_digit_def)
  show ?thesis
    using h by (simp add: parse_int64_def Let_def show_base_10_digits digits_value_show
        min_int64_def)
qed

text \<open>
  \<open>fmt.Sscanf(s, "%d", &v)\<close>: leading blanks are skipped, a sign and the longest run of digits are
  read, what follows is left unread. \<open>None\<close> is an error, which leaves the variable as it was.
\<close>

definition sscanf_d :: "string \<Rightarrow> int option" where
  "sscanf_d s =
     (let t = dropWhile (\<lambda>c. c = CHR '' '' \<or> c = CHR 0x09) s;
          neg = (t \<noteq> [] \<and> hd t = CHR ''-'');
          body = (if t \<noteq> [] \<and> (hd t = CHR ''-'' \<or> hd t = CHR ''+'') then tl t else t);
          ds = takeWhile is_digit body;
          v = (if neg then - int (digits_value ds) else int (digits_value ds))
      in if ds = [] \<or> v > max_int64 \<or> v < min_int64 then None else Some v)"

lemma takeWhile_all_digits: "list_all is_digit s \<Longrightarrow> takeWhile is_digit s = s"
  by (simp add: list_all_iff takeWhile_eq_all_conv)

lemma sscanf_d_show:
  assumes "int n \<le> max_int64"
  shows "sscanf_d (show_base 10 n) = Some (int n)"
proof -
  have d: "is_digit (hd (show_base 10 n))" by (rule show_base_10_hd_digit)
  then have h: "hd (show_base 10 n) \<noteq> CHR ''-''" "hd (show_base 10 n) \<noteq> CHR ''+''"
    "hd (show_base 10 n) \<noteq> CHR '' ''" "hd (show_base 10 n) \<noteq> CHR 0x09"
    by (auto simp: is_digit_def)
  have "dropWhile (\<lambda>c. c = CHR '' '' \<or> c = CHR 0x09) (show_base 10 n) = show_base 10 n"
    using h(3,4) by (cases "show_base 10 n") auto
  then show ?thesis
    using h(1,2) assms by (simp add: sscanf_d_def Let_def takeWhile_all_digits
        show_base_10_digits digits_value_show min_int64_def)
qed

lemma sscanf_d_fmt_d [go_simps]:
  "0 \<le> i \<Longrightarrow> i \<le> max_int64 \<Longrightarrow> sscanf_d (fmt_d i) = Some i"
  using sscanf_d_show [of "nat i"] by (simp add: fmt_d_def)

section \<open>Package encoding/hex\<close>

fun hex_encode :: "bytes \<Rightarrow> string" where
  "hex_encode [] = []"
| "hex_encode (b # bs) = digit_char (unat b div 16) # digit_char (unat b mod 16) # hex_encode bs"

lemma length_hex_encode [simp]: "length (hex_encode bs) = 2 * length bs"
  by (induction bs) auto

lemma unat_byte_less: "unat (b :: byte) < 256"
proof -
  have "unat b < 2 ^ LENGTH(8)" by (rule unsigned_less)
  then show ?thesis by simp
qed

lemma hex_encode_inj: "hex_encode xs = hex_encode ys \<Longrightarrow> xs = ys"
proof (induction xs arbitrary: ys)
  case Nil
  then show ?case by (cases ys) auto
next
  case (Cons x xs)
  then obtain y zs where ys: "ys = y # zs" by (cases ys) auto
  have less: "unat x div 16 < 16" "unat y div 16 < 16"
    using unat_byte_less [of x] unat_byte_less [of y] by auto
  have "digit_char (unat x div 16) = digit_char (unat y div 16)"
    "digit_char (unat x mod 16) = digit_char (unat y mod 16)"
    using Cons.prems unfolding ys by (simp_all only: hex_encode.simps list.inject)
  with less have "unat x div 16 = unat y div 16" "unat x mod 16 = unat y mod 16"
    by (simp_all only: digit_char_inj mod_less_divisor)
  then have "unat x = unat y" by (metis div_mult_mod_eq)
  then have "x = y" by (simp add: word_unat_eq_iff)
  with Cons ys show ?case by simp
qed

section \<open>Times and paths\<close>

text \<open>Durations are nanoseconds.\<close>

definition seconds :: "int \<Rightarrow> int" where "seconds n = n * 1000000000"
definition minutes :: "int \<Rightarrow> int" where "minutes n = seconds (n * 60)"
definition hours :: "int \<Rightarrow> int" where "hours n = minutes (n * 60)"

text \<open>The proleptic Gregorian date of a day count since 1970-01-01.\<close>

definition civil_from_days :: "int \<Rightarrow> int \<times> int \<times> int" where
  "civil_from_days days =
     (let z = days + 719468;
          era = z div 146097;
          doe = z mod 146097;
          yoe = (doe - doe div 1460 + doe div 36524 - doe div 146096) div 365;
          doy = doe - (365 * yoe + yoe div 4 - yoe div 100);
          mp = (5 * doy + 2) div 153;
          d = doy - (153 * mp + 2) div 5 + 1;
          m = (if mp < 10 then mp + 3 else mp - 9);
          y = yoe + era * 400
      in (if m \<le> 2 then y + 1 else y, m, d))"

definition pad_d :: "nat \<Rightarrow> int \<Rightarrow> string" where
  "pad_d w i = (let s = fmt_d i in replicate (w - length s) (CHR ''0'') @ s)"

definition rfc3339 :: "int \<Rightarrow> string" where
  "rfc3339 t =
     (let secs = t div 1000000000;
          (y, m, d) = civil_from_days (secs div 86400);
          sod = secs mod 86400
      in pad_d 4 y @ ''-'' @ pad_d 2 m @ ''-'' @ pad_d 2 d @ ''T'' @ pad_d 2 (sod div 3600) @ '':'' @
         pad_d 2 (sod mod 3600 div 60) @ '':'' @ pad_d 2 (sod mod 60) @ ''Z'')"

text \<open>
  \<open>filepath.Join\<close> skips empty elements. The cleaning it also does is the identity on the paths of
  this program, whose elements are generated ids, fixed names and the configured staging directory.
\<close>

fun filepath_join :: "string list \<Rightarrow> string" where
  "filepath_join [] = []"
| "filepath_join (p # ps) =
     (let rest = filepath_join ps
      in if p = [] then rest else if rest = [] then p else p @ ''/'' @ rest)"

section \<open>JSON\<close>

text \<open>
  A JSON document, as \<open>encoding/json\<close> writes and reads it. The numbers of the program are integers.
\<close>

datatype json =
    JNull
  | JBool bool
  | JInt int
  | JStr string
  | JArr "json list"
  | JObj "(string \<times> json) list"

type_synonym json_map = "(string \<times> json) list"

text \<open>A number decoded into \<open>any\<close> is a float64: 53 significant bits, ties to even.\<close>

function bit_len :: "int \<Rightarrow> nat" where
  "bit_len n = (if n \<le> 0 then 0 else Suc (bit_len (n div 2)))"
  by pat_completeness auto
termination
  by (relation "measure nat") auto

declare bit_len.simps [simp del]

definition f64_of_int :: "int \<Rightarrow> int" where
  "f64_of_int i =
     (if \<bar>i\<bar> \<le> 2 ^ 53 then i
      else let k = bit_len \<bar>i\<bar> - 53;
               q = \<bar>i\<bar> div 2 ^ k;
               r = \<bar>i\<bar> mod 2 ^ k;
               up = (r > 2 ^ (k - 1) \<or> r = 2 ^ (k - 1) \<and> odd q)
           in sgn i * (if up then q + 1 else q) * 2 ^ k)"

lemma f64_of_int_exact [go_simps]: "\<bar>i\<bar> \<le> 2 ^ 53 \<Longrightarrow> f64_of_int i = i"
  by (simp add: f64_of_int_def)

text \<open>The value that \<open>json.Unmarshal\<close> puts into a variable of type \<open>any\<close>.\<close>

fun json_any :: "json \<Rightarrow> json" where
  "json_any (JInt i) = JInt (f64_of_int i)"
| "json_any (JArr xs) = JArr (map json_any xs)"
| "json_any (JObj kvs) = JObj (map (map_prod id json_any) kvs)"
| "json_any j = j"

definition json_map_any :: "json_map \<Rightarrow> json_map" where
  "json_map_any = map (map_prod id json_any)"

lemma json_any_JObj [simp]: "json_any (JObj kvs) = JObj (json_map_any kvs)"
  by (simp add: json_map_any_def)

lemma json_map_any_simps [simp]:
  "json_map_any [] = []"
  "json_map_any ((k, v) # m) = (k, json_any v) # json_map_any m"
  by (simp_all add: json_map_any_def)

lemma map_of_json_map_any: "map_of (json_map_any m) k = map_option json_any (map_of m k)"
  by (induction m) auto

text \<open>The two-value type assertions \<open>m[k].(string)\<close> and \<open>m[k].(float64)\<close>.\<close>

definition field_string :: "json_map \<Rightarrow> string \<Rightarrow> string" where
  "field_string m k = (case map_of m k of Some (JStr s) \<Rightarrow> s | _ \<Rightarrow> [])"

definition field_float :: "json_map \<Rightarrow> string \<Rightarrow> int" where
  "field_float m k = (case map_of m k of Some (JInt i) \<Rightarrow> i | _ \<Rightarrow> 0)"

text \<open>
  \<open>json.Unmarshal\<close> into a struct finds the key of a field by exact match, or else up to letter case.
\<close>

definition lower_char :: "char \<Rightarrow> char" where
  "lower_char c = (let n = of_char c :: nat in if 65 \<le> n \<and> n \<le> 90 then char_of (n + 32) else c)"

definition fold_case :: "string \<Rightarrow> string" where
  "fold_case s = map lower_char s"

definition struct_values :: "json_map \<Rightarrow> string \<Rightarrow> json list" where
  "struct_values m tag = map snd (filter (\<lambda>(k, _). fold_case k = fold_case tag) m)"

text \<open>
  The value decoded into a field of type \<open>string\<close> or \<open>map[string]any\<close>: the zero value when the key
  is absent or null, \<open>None\<close> (an \<open>UnmarshalTypeError\<close>) when the JSON value has another type.
\<close>

definition struct_string :: "json_map \<Rightarrow> string \<Rightarrow> string option" where
  "struct_string m tag =
     foldl (\<lambda>acc v. case acc of None \<Rightarrow> None | Some s \<Rightarrow>
       (case v of JStr t \<Rightarrow> Some t | JNull \<Rightarrow> Some s | _ \<Rightarrow> None)) (Some []) (struct_values m tag)"

definition struct_map :: "json_map \<Rightarrow> string \<Rightarrow> json_map option" where
  "struct_map m tag =
     foldl (\<lambda>acc v. case acc of None \<Rightarrow> None | Some s \<Rightarrow>
       (case v of JObj kvs \<Rightarrow> Some (json_map_any kvs) | JNull \<Rightarrow> Some [] | _ \<Rightarrow> None))
       (Some []) (struct_values m tag)"

text \<open>
  The text that \<open>json.Marshal\<close> writes: no blanks, the members of an object in the order given, and
  quotes, backslashes, control characters and \<open><\<close>, \<open>>\<close>, \<open>&\<close> escaped. A time is written with the
  fraction of its second, without trailing zeros.
\<close>

definition json_escape_char :: "char \<Rightarrow> string" where
  "json_escape_char c =
     (let n = of_char c :: nat;
          u = CHR 0x5C # ''u00'' @ [digit_char (n div 16), digit_char (n mod 16)]
      in if c = CHR 0x22 then [CHR 0x5C, CHR 0x22]
         else if c = CHR 0x5C then [CHR 0x5C, CHR 0x5C]
         else if n = 8 then [CHR 0x5C, CHR ''b''] else if n = 9 then [CHR 0x5C, CHR ''t''] else if n = 10 then [CHR 0x5C, CHR ''n'']
         else if n = 12 then [CHR 0x5C, CHR ''f''] else if n = 13 then [CHR 0x5C, CHR ''r'']
         else if n < 32 \<or> c = CHR ''<'' \<or> c = CHR ''>'' \<or> c = CHR ''&'' then u
         else [c])"

definition json_quote :: "string \<Rightarrow> string" where
  "json_quote s = [CHR 0x22] @ concat (map json_escape_char s) @ [CHR 0x22]"

fun join_with :: "string \<Rightarrow> string list \<Rightarrow> string" where
  "join_with sep [] = []"
| "join_with sep [s] = s"
| "join_with sep (s # ss) = s @ sep @ join_with sep ss"

fun json_text :: "json \<Rightarrow> string" where
  "json_text JNull = ''null''"
| "json_text (JBool b) = (if b then ''true'' else ''false'')"
| "json_text (JInt i) = fmt_d i"
| "json_text (JStr s) = json_quote s"
| "json_text (JArr js) = ''['' @ join_with '','' (map json_text js) @ '']''"
| "json_text (JObj kvs) =
     ''{'' @ join_with '','' (map (\<lambda>(k, t). json_quote k @ '':'' @ t) (map (map_prod id json_text) kvs)) @ ''}''"

definition rfc3339_nano :: "int \<Rightarrow> string" where
  "rfc3339_nano t =
     (let ns = t mod 1000000000;
          frac = rev (dropWhile (\<lambda>c. c = CHR ''0'') (rev (pad_d 9 ns)))
      in butlast (rfc3339 t) @ (if ns = 0 then [] else ''.'' @ frac) @ ''Z'')"

text \<open>\<open>time.Parse\<close> with the RFC 3339 layout, for a time in UTC with up to nine fraction digits.\<close>

definition days_from_civil :: "int \<Rightarrow> int \<Rightarrow> int \<Rightarrow> int" where
  "days_from_civil y m d =
     (let y' = (if m \<le> 2 then y - 1 else y);
          era = y' div 400;
          yoe = y' mod 400;
          doy = (153 * (if m > 2 then m - 3 else m + 9) + 2) div 5 + d - 1;
          doe = yoe * 365 + yoe div 4 - yoe div 100 + doy
      in era * 146097 + doe - 719468)"

definition parse_rfc3339 :: "string \<Rightarrow> int option" where
  "parse_rfc3339 s =
     (let num = (\<lambda>i n. int (digits_value (take n (drop i s))));
          dig = (\<lambda>i n. list_all is_digit (take n (drop i s)));
          frac = (if length s > 20 then butlast (drop 20 s) else [])
      in if length s < 20 \<or> last s \<noteq> CHR ''Z'' \<or>
            \<not> (dig 0 4 \<and> dig 5 2 \<and> dig 8 2 \<and> dig 11 2 \<and> dig 14 2 \<and> dig 17 2) \<or>
            s ! 4 \<noteq> CHR ''-'' \<or> s ! 7 \<noteq> CHR ''-'' \<or> s ! 10 \<noteq> CHR ''T'' \<or>
            s ! 13 \<noteq> CHR '':'' \<or> s ! 16 \<noteq> CHR '':'' \<or>
            (length s > 20 \<and> (s ! 19 \<noteq> CHR ''.'' \<or> frac = [] \<or> length frac > 9 \<or>
               \<not> list_all is_digit frac)) \<or>
            num 5 2 < 1 \<or> num 5 2 > 12 \<or> num 11 2 > 23 \<or> num 14 2 > 59 \<or> num 17 2 > 59 \<or>
            civil_from_days (days_from_civil (num 0 4) (num 5 2) (num 8 2)) \<noteq>
              (num 0 4, num 5 2, num 8 2)
         then None
         else Some ((days_from_civil (num 0 4) (num 5 2) (num 8 2) * 86400 +
           num 11 2 * 3600 + num 14 2 * 60 + num 17 2) * 1000000000 +
           int (digits_value (take 9 (frac @ replicate 9 (CHR ''0''))))))"

text \<open>Integer division truncates towards zero.\<close>

definition go_div :: "int \<Rightarrow> int \<Rightarrow> int" where
  "go_div a b = sgn a * sgn b * (\<bar>a\<bar> div \<bar>b\<bar>)"

lemma go_div_nonneg [go_simps]: "0 \<le> a \<Longrightarrow> 0 < b \<Longrightarrow> go_div a b = a div b"
  by (cases "a = 0") (simp_all add: go_div_def)

text \<open>The bytes of a string, and the verb \<open>%x\<close> of a string.\<close>

definition bytes_of_string :: "string \<Rightarrow> bytes" where
  "bytes_of_string s = map (\<lambda>c. word_of_int (int (of_char c))) s"

definition fmt_x_string :: "string \<Rightarrow> string" where
  "fmt_x_string s = hex_encode (bytes_of_string s)"

end
