(* ===== verification/Sha256_Vector.thy ===== *)
theory Sha256_Vector
  imports Sha256
begin

text \<open>
  The model of SHA-256 evaluated in the kernel on the message \<open>abc\<close>, against the digest that
  FIPS 180-4 publishes for it.
\<close>

lemma sha256_abc:
  "sha256_hex (bytes_of_string ''abc'') =
     ''ba7816bf8f01cfea414140de5dae2223b00361a396177a9cb410ff61f20015ad''"
  by code_simp

end
