(* ===== verification/Domain.thy ===== *)
theory Domain
  imports Sha256
begin

text \<open>
  The domain packages under \<open>src/internal/domain\<close>: the statuses and stages of an operation, of jobs,
  attempts, transfers and nodes, the entity structs, the node roles and the transition guard of
  \<open>operation/transition.go\<close>. A field's name carries a prefix for its struct (\<open>op_\<close>, \<open>job_\<close>, \<open>att_\<close>,
  \<open>tr_\<close>, \<open>ck_\<close>, \<open>ev_\<close>, \<open>nd_\<close>, \<open>hb_\<close>, \<open>rs_\<close>); a nil pointer is \<open>None\<close>. Counters and versions, Go
  \<open>int\<close> and \<open>int64\<close>, are \<open>int\<close>: nothing the program computes with them comes near the word size.
\<close>

section \<open>Operations (domain/operation/operation.go)\<close>

text \<open>
  \<open>OperationStatus\<close> and \<open>OperationStage\<close> are strings; a value that is none of the named ones is
  \<open>StatusOther\<close> or \<open>StageOther\<close>.
\<close>

datatype op_status =
    StatusCreated
  | StatusQueued
  | StatusDispatched
  | StatusTransferring
  | StatusTransferred
  | StatusProcessing
  | StatusCompleted
  | StatusFailed
  | StatusTimeout
  | StatusCancelled
  | StatusOther string

fun op_status_string :: "op_status \<Rightarrow> string" where
  "op_status_string StatusCreated = ''CREATED''"
| "op_status_string StatusQueued = ''QUEUED''"
| "op_status_string StatusDispatched = ''DISPATCHED''"
| "op_status_string StatusTransferring = ''TRANSFERRING''"
| "op_status_string StatusTransferred = ''TRANSFERRED''"
| "op_status_string StatusProcessing = ''PROCESSING''"
| "op_status_string StatusCompleted = ''COMPLETED''"
| "op_status_string StatusFailed = ''FAILED''"
| "op_status_string StatusTimeout = ''TIMEOUT''"
| "op_status_string StatusCancelled = ''CANCELLED''"
| "op_status_string (StatusOther s) = s"

datatype op_stage =
    StageWaitingForUpload
  | StageQueued
  | StageScheduling
  | StageWaitingForAck
  | StageTransferring
  | StageTransferred
  | StageVerifying
  | StageProcessing
  | StageCompleted
  | StageFailed
  | StageTimeout
  | StageCancelled
  | StageOther string

fun op_stage_string :: "op_stage \<Rightarrow> string" where
  "op_stage_string StageWaitingForUpload = ''WAITING_FOR_UPLOAD''"
| "op_stage_string StageQueued = ''QUEUED''"
| "op_stage_string StageScheduling = ''SCHEDULING''"
| "op_stage_string StageWaitingForAck = ''WAITING_FOR_ACK''"
| "op_stage_string StageTransferring = ''TRANSFERRING''"
| "op_stage_string StageTransferred = ''TRANSFERRED''"
| "op_stage_string StageVerifying = ''VERIFYING''"
| "op_stage_string StageProcessing = ''PROCESSING''"
| "op_stage_string StageCompleted = ''COMPLETED''"
| "op_stage_string StageFailed = ''FAILED''"
| "op_stage_string StageTimeout = ''TIMEOUT''"
| "op_stage_string StageCancelled = ''CANCELLED''"
| "op_stage_string (StageOther s) = s"

text \<open>The named value a string stands for.\<close>

definition op_status_of_string :: "string \<Rightarrow> op_status" where
  "op_status_of_string s =
     (case filter (\<lambda>x. op_status_string x = s)
        [StatusCreated, StatusQueued, StatusDispatched, StatusTransferring, StatusTransferred,
         StatusProcessing, StatusCompleted, StatusFailed, StatusTimeout, StatusCancelled] of
        [] \<Rightarrow> StatusOther s
      | x # _ \<Rightarrow> x)"

definition op_stage_of_string :: "string \<Rightarrow> op_stage" where
  "op_stage_of_string s =
     (case filter (\<lambda>x. op_stage_string x = s)
        [StageWaitingForUpload, StageQueued, StageScheduling, StageWaitingForAck,
         StageTransferring, StageTransferred, StageVerifying, StageProcessing, StageCompleted,
         StageFailed, StageTimeout, StageCancelled] of
        [] \<Rightarrow> StageOther s
      | x # _ \<Rightarrow> x)"

text \<open>
  \<open>OperationError\<close> of an operation and \<open>JobError\<close> of a job, an attempt or a transfer have the same
  fields; nil \<open>Details\<close> is \<open>None\<close>.
\<close>

record error_info =
  err_code :: string
  err_message :: string
  err_details :: "json_map option"

record input_file =
  if_size_bytes :: int
  if_sha256 :: string
  if_file_name :: string

record upload_target =
  ut_method :: string
  ut_url :: string
  ut_headers :: "(string \<times> string) list"
  ut_expires :: int
  ut_max_bytes :: int

record operation =
  op_id :: string
  op_status :: op_status
  op_stage :: op_stage
  op_processor :: string
  op_retry_count :: int
  op_max_attempts :: int
  op_client_reference :: string
  op_created_at :: int
  op_updated_at :: int
  op_deadline :: "int option"
  op_input_file :: "input_file option"
  op_current_job_id :: "string option"
  op_current_attempt_id :: "string option"
  op_current_transfer_id :: "string option"
  op_cancel_requested_at :: "int option"
  op_error :: "error_info option"
  op_version :: int

section \<open>Jobs, attempts, transfers and chunks (domain/job/job.go)\<close>

datatype job_status =
    JobStatusCreated
  | JobStatusAssigned
  | JobStatusDispatched
  | JobStatusAcknowledged
  | JobStatusExecuting
  | JobStatusSucceeded
  | JobStatusFailed
  | JobStatusTimeout
  | JobStatusCancelled

record job =
  job_id :: string
  job_operation_id :: string
  job_worker_node_id :: string
  job_status :: job_status
  job_processor :: string
  job_requirements :: "json_map option"
  job_assigned_at :: int
  job_dispatched_at :: "int option"
  job_acknowledged_at :: "int option"
  job_completed_at :: "int option"
  job_error :: "error_info option"
  job_version :: int

datatype attempt_status =
    AttemptStatusPending
  | AttemptStatusCommandSent
  | AttemptStatusAcknowledged
  | AttemptStatusTransferring
  | AttemptStatusTransferred
  | AttemptStatusProcessing
  | AttemptStatusSucceeded
  | AttemptStatusFailed
  | AttemptStatusTimeout
  | AttemptStatusCancelled

record job_attempt =
  att_id :: string
  att_job_id :: string
  att_operation_id :: string
  att_node_id :: string
  att_attempt_number :: int
  att_status :: attempt_status
  att_command_id :: string
  att_claim_token :: string
  att_lease_until :: int
  att_processing_id :: "string option"
  att_error :: "error_info option"
  att_started_at :: "int option"
  att_completed_at :: "int option"
  att_version :: int

datatype transfer_status =
    TransferStatusCreated
  | TransferStatusAccepted
  | TransferStatusTransferring
  | TransferStatusVerifying
  | TransferStatusCompleted
  | TransferStatusFailed
  | TransferStatusTimeout
  | TransferStatusCancelled

record file_transfer =
  tr_id :: string
  tr_attempt_id :: string
  tr_operation_id :: string
  tr_file_id :: string
  tr_source_node_id :: string
  tr_destination_node_id :: string
  tr_file_size_bytes :: int
  tr_chunk_size_bytes :: int
  tr_total_chunks :: int
  tr_file_checksum :: string
  tr_checksum_algorithm :: string
  tr_status :: transfer_status
  tr_staging_path :: string
  tr_staging_reservation_id :: "string option"
  tr_deadline_at :: int
  tr_accepted_at :: "int option"
  tr_completed_at :: "int option"
  tr_received_chunks :: int
  tr_error :: "error_info option"
  tr_version :: int

record file_chunk =
  ck_id :: string
  ck_transfer_id :: string
  ck_chunk_index :: int
  ck_chunk_offset :: int
  ck_chunk_size :: int
  ck_checksum :: string
  ck_publish_state :: string
  ck_ack_state :: string
  ck_received_at :: "int option"
  ck_acknowledged_at :: "int option"
  ck_version :: int

section \<open>Events and results (domain/event/event.go, domain/result/result.go)\<close>

datatype event_type =
    EventTypeOperationCreated
  | EventTypeOperationQueued
  | EventTypeOperationDispatched
  | EventTypeOperationTransferred
  | EventTypeOperationProcessing
  | EventTypeOperationCompleted
  | EventTypeOperationFailed
  | EventTypeOperationTimedOut
  | EventTypeOperationCancelled
  | EventTypeOperationRetryScheduled
  | EventTypeCommandAccepted
  | EventTypeTransferAccepted
  | EventTypeChunkAccepted
  | EventTypeTransferVerified
  | EventTypeTransferFailed
  | EventTypeProcessingStarted
  | EventTypeProcessingSucceeded
  | EventTypeProcessingFailed
  | EventTypeCancelAccepted
  | EventTypeCancelled

fun event_type_string :: "event_type \<Rightarrow> string" where
  "event_type_string EventTypeOperationCreated = ''OperationCreated''"
| "event_type_string EventTypeOperationQueued = ''OperationQueued''"
| "event_type_string EventTypeOperationDispatched = ''OperationDispatched''"
| "event_type_string EventTypeOperationTransferred = ''OperationTransferred''"
| "event_type_string EventTypeOperationProcessing = ''OperationProcessing''"
| "event_type_string EventTypeOperationCompleted = ''OperationCompleted''"
| "event_type_string EventTypeOperationFailed = ''OperationFailed''"
| "event_type_string EventTypeOperationTimedOut = ''OperationTimedOut''"
| "event_type_string EventTypeOperationCancelled = ''OperationCancelled''"
| "event_type_string EventTypeOperationRetryScheduled = ''OperationRetryScheduled''"
| "event_type_string EventTypeCommandAccepted = ''CommandAccepted''"
| "event_type_string EventTypeTransferAccepted = ''TransferAccepted''"
| "event_type_string EventTypeChunkAccepted = ''ChunkAccepted''"
| "event_type_string EventTypeTransferVerified = ''TransferVerified''"
| "event_type_string EventTypeTransferFailed = ''TransferFailed''"
| "event_type_string EventTypeProcessingStarted = ''ProcessingStarted''"
| "event_type_string EventTypeProcessingSucceeded = ''ProcessingSucceeded''"
| "event_type_string EventTypeProcessingFailed = ''ProcessingFailed''"
| "event_type_string EventTypeCancelAccepted = ''CancelAccepted''"
| "event_type_string EventTypeCancelled = ''Cancelled''"

record operation_event =
  ev_id :: string
  ev_operation_id :: string
  ev_type :: event_type
  ev_job_id :: "string option"
  ev_attempt_id :: "string option"
  ev_transfer_id :: "string option"
  ev_payload :: json_map
  ev_correlation_id :: string
  ev_issued_at :: int
  ev_actor_node_id :: string
  ev_version :: int

record op_result =
  rs_id :: string
  rs_operation_id :: string
  rs_processor :: string
  rs_schema_version :: int
  rs_value :: "json_map option"
  rs_produced_at :: int
  rs_expires_at :: "int option"
  rs_size_bytes :: int
  rs_checksum :: string

section \<open>Nodes (domain/node/node.go, domain/node/role.go)\<close>

datatype node_status =
    NodeStatusStarting
  | NodeStatusHealthy
  | NodeStatusDegraded
  | NodeStatusUnhealthy
  | NodeStatusDraining
  | NodeStatusOffline

record node =
  nd_id :: string
  nd_incarnation_id :: string
  nd_incarnation_started_at :: int
  nd_status :: node_status
  nd_roles :: "string list"
  nd_heartbeat_sequence :: int
  nd_last_heartbeat_at :: "int option"
  nd_heartbeat_deadline_at :: "int option"
  nd_active_job_count :: int
  nd_active_transfer_count :: int
  nd_max_concurrent_jobs :: "int option"
  nd_disk_free_bytes :: "int option"
  nd_disk_total_bytes :: "int option"
  nd_cpu_sample :: "json_map option"
  nd_memory_sample :: "json_map option"
  nd_self_checks :: "json_map option"
  nd_draining :: bool
  nd_shutdown_deadline_at :: "int option"
  nd_registered_at :: int
  nd_updated_at :: int

record heartbeat =
  hb_node_id :: string
  hb_incarnation_id :: string
  hb_sequence :: int
  hb_status :: node_status
  hb_capabilities :: "string list"
  hb_active_jobs :: int
  hb_active_transfers :: int
  hb_resources :: "json_map option"
  hb_self_checks :: "json_map option"
  hb_draining :: bool
  hb_shutdown_deadline_at :: "int option"
  hb_observed_at :: int
  hb_heartbeat_deadline_at :: int

datatype role = RoleEntry | RoleWorker | RoleHybrid

definition parse_role :: "string \<Rightarrow> role" where
  "parse_role s =
     (if s = ''entry'' then RoleEntry
      else if s = ''worker'' then RoleWorker
      else if s = ''hybrid'' then RoleHybrid
      else RoleEntry)"

fun role_string :: "role \<Rightarrow> string" where
  "role_string RoleEntry = ''entry''"
| "role_string RoleWorker = ''worker''"
| "role_string RoleHybrid = ''hybrid''"

definition is_entry :: "role \<Rightarrow> bool" where
  "is_entry r = (r = RoleEntry \<or> r = RoleHybrid)"

definition is_worker :: "role \<Rightarrow> bool" where
  "is_worker r = (r = RoleWorker \<or> r = RoleHybrid)"

lemma parse_role_string [simp]: "parse_role (role_string r) = r"
  by (cases r) (simp_all add: parse_role_def)

lemma every_role_has_a_task: "is_entry r \<or> is_worker r"
  by (cases r) (simp_all add: is_entry_def is_worker_def)

end
