(* ===== verification/Schema.thy ===== *)
theory Schema
  imports Domain
begin

text \<open>
  The MariaDB schema of \<open>src/internal/infrastructure/mariadb/migrations\<close>: one row type per table, the
  state of the database, and the statements every repository is built from. A table is the list of
  its rows in insertion order; a \<open>VARCHAR(n)\<close> column rejects a string of more than \<open>n\<close> characters and an
  integer column a number out of its range (strict mode, MariaDB's default), a primary key or unique
  index rejects a second row with the same key, and \<open>DATETIME(6)\<close> keeps microseconds. A string is its
  bytes, which are taken to be well-formed UTF-8. Strings compare bytewise: the schema's
  case-insensitive collation is not modelled, since every key the program stores is generated in
  lower case.
\<close>

section \<open>Columns\<close>

definition datetime6 :: "int \<Rightarrow> int" where
  "datetime6 t = t - t mod 1000"

text \<open>
  The width of a column counts characters of the character set \<open>utf8mb4\<close>: every byte begins one, but for
  the continuation bytes \<open>10xxxxxx\<close>.
\<close>

definition begins_character :: "char \<Rightarrow> bool" where
  "begins_character c = ((of_char c :: nat) < 128 \<or> 192 \<le> (of_char c :: nat))"

definition char_count :: "string \<Rightarrow> nat" where
  "char_count s = length (filter begins_character s)"

definition varchar :: "nat \<Rightarrow> string \<Rightarrow> bool" where
  "varchar n s = (char_count s \<le> n)"

definition varchar_opt :: "nat \<Rightarrow> string option \<Rightarrow> bool" where
  "varchar_opt n s = (case s of None \<Rightarrow> True | Some x \<Rightarrow> varchar n x)"

text \<open>The ranges of \<open>INT\<close>, \<open>BIGINT\<close> and \<open>BIGINT UNSIGNED\<close> columns.\<close>

definition sql_int :: "int \<Rightarrow> bool" where
  "sql_int i = (- (2 ^ 31) \<le> i \<and> i < 2 ^ 31)"

definition sql_bigint :: "int \<Rightarrow> bool" where
  "sql_bigint i = (min_int64 \<le> i \<and> i \<le> max_int64)"

definition sql_unsigned :: "int \<Rightarrow> bool" where
  "sql_unsigned i = (0 \<le> i \<and> i < 2 ^ 64)"

definition sql_null :: "('a \<Rightarrow> bool) \<Rightarrow> 'a option \<Rightarrow> bool" where
  "sql_null p v = (case v of None \<Rightarrow> True | Some x \<Rightarrow> p x)"

lemma sql_null_simps [simp]: "sql_null p None" "sql_null p (Some x) = p x"
  by (simp_all add: sql_null_def)

lemma char_count_le: "char_count s \<le> length s"
  by (simp add: char_count_def)

lemma varchar_short: "length s \<le> n \<Longrightarrow> varchar n s"
  using char_count_le [of s] by (simp add: varchar_def)

lemma char_count_append [simp]: "char_count (s @ t) = char_count s + char_count t"
  by (simp add: char_count_def)

lemma varchar_append: "varchar m s \<Longrightarrow> length t \<le> n \<Longrightarrow> m + n \<le> k \<Longrightarrow> varchar k (s @ t)"
  using char_count_le [of t] by (simp add: varchar_def)

lemmas sql_ranges = sql_int_def sql_bigint_def sql_unsigned_def min_int64_def max_int64_def

lemma varchar_Nil [simp]: "varchar n []"
  by (simp add: varchar_short)

lemma datetime6_idem [simp]: "datetime6 (datetime6 t) = datetime6 t"
  by (simp add: datetime6_def)

lemma datetime6_le: "datetime6 t \<le> t"
  by (simp add: datetime6_def)

text \<open>The three nullable error columns of the tables that have them.\<close>

record err_cols =
  c_error_code :: "string option"
  c_error_message :: "string option"
  c_error_details :: "json_map option"

definition null_string :: "string \<Rightarrow> string option" where
  "null_string s = (if s \<noteq> [] then Some s else None)"

definition string_of_null :: "string option \<Rightarrow> string" where
  "string_of_null s = (case s of None \<Rightarrow> [] | Some x \<Rightarrow> x)"

definition no_err_cols :: err_cols where
  "no_err_cols = \<lparr>c_error_code = None, c_error_message = None, c_error_details = None\<rparr>"

definition error_to_cols :: "error_info option \<Rightarrow> err_cols" where
  "error_to_cols e =
     (case e of
        None \<Rightarrow> no_err_cols
      | Some x \<Rightarrow> \<lparr>c_error_code = null_string (err_code x),
                   c_error_message = null_string (err_message x),
                   c_error_details = err_details x\<rparr>)"

definition cols_to_error :: "err_cols \<Rightarrow> error_info option" where
  "cols_to_error c =
     (if c_error_code c \<noteq> None \<or> c_error_message c \<noteq> None then
        Some \<lparr>err_code = string_of_null (c_error_code c),
              err_message = string_of_null (c_error_message c),
              err_details = map_option json_map_any (c_error_details c)\<rparr>
      else None)"

definition err_cols_fit :: "err_cols \<Rightarrow> bool" where
  "err_cols_fit c = (varchar_opt 64 (c_error_code c) \<and> varchar_opt 1024 (c_error_message c))"

lemma string_of_null_string [simp]: "string_of_null (null_string s) = s"
  by (simp add: null_string_def string_of_null_def)

lemma null_string_None_iff [simp]: "null_string s = None \<longleftrightarrow> s = []"
  by (simp add: null_string_def)

lemma varchar_opt_null_string [simp]: "varchar_opt n (null_string s) = varchar n s"
  by (simp add: varchar_opt_def null_string_def)

lemma varchar_opt_None [simp]: "varchar_opt n None"
  by (simp add: varchar_opt_def)

lemma varchar_opt_Some [simp]: "varchar_opt n (Some s) = varchar n s"
  by (simp add: varchar_opt_def)

lemma cols_to_error_to_cols:
  "cols_to_error (error_to_cols e) =
     (case e of None \<Rightarrow> None
      | Some x \<Rightarrow> if err_code x = [] \<and> err_message x = [] then None
          else Some (x\<lparr>err_details := map_option json_map_any (err_details x)\<rparr>))"
  by (auto simp: error_to_cols_def cols_to_error_def no_err_cols_def split: option.split)

lemma err_cols_fit_stored:
  "err_cols_fit c \<Longrightarrow> err_cols_fit (error_to_cols (cols_to_error c))"
  by (auto simp: err_cols_fit_def error_to_cols_def cols_to_error_def no_err_cols_def
      string_of_null_def varchar_opt_def null_string_def split: option.splits)

section \<open>Rows\<close>

record op_row =
  r_id :: string
  r_status :: op_status
  r_stage :: op_stage
  r_processor :: string
  r_retry_count :: int
  r_max_attempts :: int
  r_client_reference :: string
  r_created_at :: int
  r_updated_at :: int
  r_deadline :: "int option"
  r_input_file_size :: "int option"
  r_input_file_sha256 :: "string option"
  r_input_file_name :: "string option"
  r_current_job_id :: "string option"
  r_current_attempt_id :: "string option"
  r_current_transfer_id :: "string option"
  r_cancel_requested_at :: "int option"
  r_err :: err_cols
  r_version :: int

text \<open>
  A row of \<open>jobs\<close>, \<open>job_attempts\<close> or \<open>file_transfers\<close> has the fields of its struct with the error
  columns added; the struct's own error field is not a column and stays \<open>None\<close>.
\<close>

record job_row = job + jr_err :: err_cols
record attempt_row = job_attempt + ar_err :: err_cols
record transfer_row = file_transfer + xr_err :: err_cols

record idempotency_row =
  i_key :: string
  i_method :: string
  i_path :: string
  i_fingerprint :: string
  i_response :: json
  i_expires_at :: int

text \<open>
  The columns that \<open>001_initial_schema.sql\<close> gives the table \<open>idempotency_keys\<close>. A statement that names
  a column the table does not have is rejected when it is prepared.
\<close>

definition idempotency_keys_columns :: "string list" where
  "idempotency_keys_columns =
     [''idempotency_key'', ''method'', ''path'', ''fingerprint'', ''response'', ''expires_at'',
      ''created_at'']"

definition columns_known :: "string list \<Rightarrow> string list \<Rightarrow> bool" where
  "columns_known cols used = list_all (\<lambda>c. c \<in> set cols) used"

record db =
  t_operations :: "op_row list"
  t_jobs :: "job_row list"
  t_attempts :: "attempt_row list"
  t_transfers :: "transfer_row list"
  t_chunks :: "file_chunk list"
  t_results :: "op_result list"
  t_events :: "operation_event list"
  t_idempotency :: "idempotency_row list"
  t_nodes :: "node list"
  t_heartbeats :: "heartbeat list"

definition empty_db :: db where
  "empty_db =
     \<lparr>t_operations = [], t_jobs = [], t_attempts = [], t_transfers = [], t_chunks = [],
      t_results = [], t_events = [], t_idempotency = [], t_nodes = [], t_heartbeats = []\<rparr>"

section \<open>Statements\<close>

type_synonym 'a stmt = "db \<Rightarrow> go_error + ('a \<times> db)"

text \<open>\<open>SELECT ... WHERE p\<close> with \<open>QueryRow\<close>: the first row, if there is one.\<close>

definition sql_first :: "('r \<Rightarrow> bool) \<Rightarrow> 'r list \<Rightarrow> 'r option" where
  "sql_first p t = List.find p t"

text \<open>\<open>INSERT\<close>: rejected when a row with the same key is there.\<close>

definition sql_insert :: "('r \<Rightarrow> 'k) \<Rightarrow> 'r \<Rightarrow> 'r list \<Rightarrow> go_error + 'r list" where
  "sql_insert key r t =
     (if \<exists>x\<in>set t. key x = key r then Inl (ErrSQL ''duplicate entry'') else Inr (t @ [r]))"

text \<open>\<open>UPDATE ... WHERE p\<close>, and the number of rows it changed.\<close>

definition sql_update :: "('r \<Rightarrow> bool) \<Rightarrow> ('r \<Rightarrow> 'r) \<Rightarrow> 'r list \<Rightarrow> 'r list" where
  "sql_update p f t = map (\<lambda>r. if p r then f r else r) t"

definition sql_changed :: "('r \<Rightarrow> bool) \<Rightarrow> ('r \<Rightarrow> 'r) \<Rightarrow> 'r list \<Rightarrow> nat" where
  "sql_changed p f t = length (filter (\<lambda>r. p r \<and> f r \<noteq> r) t)"

text \<open>\<open>INSERT ... ON DUPLICATE KEY UPDATE\<close>.\<close>

definition sql_upsert :: "('r \<Rightarrow> 'k) \<Rightarrow> 'r \<Rightarrow> ('r \<Rightarrow> 'r) \<Rightarrow> 'r list \<Rightarrow> 'r list" where
  "sql_upsert key r f t =
     (if \<exists>x\<in>set t. key x = key r then sql_update (\<lambda>x. key x = key r) f t else t @ [r])"

text \<open>\<open>ORDER BY\<close>, ascending and descending, and \<open>LIMIT\<close>.\<close>

definition sql_order_by :: "('r \<Rightarrow> 'k :: linorder) \<Rightarrow> 'r list \<Rightarrow> 'r list" where
  "sql_order_by k t = sort_key k t"

definition sql_limit :: "int \<Rightarrow> 'r list \<Rightarrow> 'r list" where
  "sql_limit n t = take (nat n) t"

section \<open>Tables with a key\<close>

text \<open>
  The interface of a keyed table to the code above it: an update that keeps keys. Each table is an
  interpretation; its facts say what a lookup returns after an insert or an update, and that the keys
  stay distinct.
\<close>

definition keys_distinct :: "('r \<Rightarrow> 'k) \<Rightarrow> 'r list \<Rightarrow> bool" where
  "keys_distinct key t = distinct (map key t)"

locale keyed_table =
  fixes key :: "'r \<Rightarrow> 'k"
    and get :: "'k \<Rightarrow> 'r list \<Rightarrow> 'r option"
    and put :: "'r \<Rightarrow> 'r list \<Rightarrow> go_error + 'r list"
  assumes get_is_first: "get k t = sql_first (\<lambda>r. key r = k) t"
    and put_is_insert: "put r t = sql_insert key r t"
begin

lemma get_Some_iff:
  "keys_distinct key t \<Longrightarrow> get k t = Some r \<longleftrightarrow> r \<in> set t \<and> key r = k"
  unfolding get_is_first sql_first_def keys_distinct_def
  by (induction t) (auto simp: image_iff)

lemma get_None_iff: "get k t = None \<longleftrightarrow> (\<forall>r\<in>set t. key r \<noteq> k)"
  by (auto simp: get_is_first sql_first_def find_None_iff)

lemma put_Inr_iff: "put r t = Inr t' \<longleftrightarrow> get (key r) t = None \<and> t' = t @ [r]"
  by (auto simp: put_is_insert sql_insert_def get_None_iff)

lemma get_after_put:
  "put r t = Inr t' \<Longrightarrow> get k t' = (if k = key r then Some r else get k t)"
  unfolding put_Inr_iff get_None_iff
  by (induction t arbitrary: t') (auto simp: get_is_first sql_first_def)

lemma put_distinct: "put r t = Inr t' \<Longrightarrow> keys_distinct key t \<Longrightarrow> keys_distinct key t'"
  by (auto simp: put_Inr_iff get_None_iff keys_distinct_def)

lemma update_distinct:
  "(\<And>r. key (f r) = key r) \<Longrightarrow> keys_distinct key t \<Longrightarrow> keys_distinct key (sql_update p f t)"
  by (simp add: keys_distinct_def sql_update_def comp_def if_distrib [of key] cong: if_cong)

lemma get_after_update:
  assumes "\<And>r. key (f r) = key r"
  shows "get k (sql_update p f t) = map_option (\<lambda>r. if p r then f r else r) (get k t)"
  using assms by (induction t) (auto simp: get_is_first sql_first_def sql_update_def)

lemma get_key: "get k t = Some x \<Longrightarrow> key x = k"
  by (auto simp: get_is_first sql_first_def find_Some_iff)

lemma get_append:
  "get k (t @ [r]) =
     (case get k t of None \<Rightarrow> (if key r = k then Some r else None) | Some x \<Rightarrow> Some x)"
  by (induction t) (auto simp: get_is_first sql_first_def)

lemma get_map_at_key:
  assumes "\<And>x. key x = key r \<Longrightarrow> key (f x) = key x"
  shows "get k (sql_update (\<lambda>x. key x = key r) f t) =
     map_option (\<lambda>x. if key x = key r then f x else x) (get k t)"
  using assms by (induction t) (auto simp: get_is_first sql_first_def sql_update_def)

lemma get_after_upsert:
  assumes "\<And>x. key x = key r \<Longrightarrow> key (f x) = key x"
  shows "get k (sql_upsert key r f t) =
     (if k = key r then Some (case get k t of None \<Rightarrow> r | Some x \<Rightarrow> f x) else get k t)"
proof (cases "get (key r) t")
  case None
  then have "sql_upsert key r f t = t @ [r]" by (auto simp: sql_upsert_def get_None_iff)
  then show ?thesis using None by (auto simp: get_append split: option.split)
next
  case (Some y)
  then have "\<exists>x\<in>set t. key x = key r" by (metis get_None_iff option.distinct(1))
  then have "sql_upsert key r f t = sql_update (\<lambda>x. key x = key r) f t"
    by (simp add: sql_upsert_def)
  then show ?thesis using Some get_map_at_key [where k = k and t = t, OF assms]
    by (cases "get k t") (auto dest: get_key)
qed

end

lemma sql_update_cong_set:
  "(\<And>r. r \<in> set t \<Longrightarrow> \<not> p r) \<Longrightarrow> sql_update p f t = t"
  by (simp add: sql_update_def map_idI)

lemma sql_first_Some: "sql_first p t = Some r \<Longrightarrow> r \<in> set t \<and> p r"
  by (auto simp: sql_first_def find_Some_iff)

lemma sql_first_None: "sql_first p t = None \<longleftrightarrow> (\<forall>r\<in>set t. \<not> p r)"
  by (auto simp: sql_first_def find_None_iff)

lemma set_sql_order_by [simp]: "set (sql_order_by k t) = set t"
  by (simp add: sql_order_by_def)

lemma sql_limit_subset: "set (sql_limit n t) \<subseteq> set t"
  by (simp add: sql_limit_def set_take_subset)

lemma length_sql_limit: "length (sql_limit n t) \<le> nat n"
  by (simp add: sql_limit_def)

end
