(* ===== verification/World.thy ===== *)
theory World
  imports Schema
begin

text \<open>
  Effects. The state of the world is the shared database, the disks of the nodes, the messages
  published to NATS, the consumers subscribed, and the goroutines spawned, together with three
  oracles the environment decides: the clock, the random source and, for the n-th call that leaves
  the process (database, NATS, operating system), how it ends. A call is \<open>Done\<close>, or \<open>Lost\<close> (an error
  is returned and nothing happened) or \<open>Unacked\<close> (it took effect and an error is returned all the
  same). An effectful Go function is a function from the world to its result, an error or a value,
  and the world after it.
\<close>

section \<open>The world\<close>

datatype outcome = Done | Lost | Unacked

datatype body = BodyJson json | BodyRaw bytes

record bus_msg =
  bm_subject :: string
  bm_headers :: "(string \<times> string) list"
  bm_body :: body

text \<open>
  What runs beside the caller: the dispatch of an operation to a processor, which the file upload
  starts, the heartbeat loop, and a document handed to the search indexer.
\<close>

datatype task =
    TaskDispatch string string
  | TaskHeartbeat
  | TaskIndex operation operation_event

record world =
  clock :: "nat \<Rightarrow> int"
  ticks :: nat
  rnd :: "nat \<Rightarrow> nat \<Rightarrow> byte"
  draws :: nat
  outcome_of :: "nat \<Rightarrow> outcome"
  calls :: nat
  db :: db
  disk :: "string \<Rightarrow> string \<Rightarrow> bytes option"
  published :: "bus_msg list"
  subscribed :: "(string \<times> string) list"
  spawned :: "task list"

text \<open>A quiet world is one in which every external call succeeds.\<close>

definition quiet :: "world \<Rightarrow> bool" where
  "quiet w = (\<forall>n. outcome_of w n = Done)"

definition initial_world :: "(nat \<Rightarrow> int) \<Rightarrow> (nat \<Rightarrow> nat \<Rightarrow> byte) \<Rightarrow> (nat \<Rightarrow> outcome) \<Rightarrow> db \<Rightarrow> world" where
  "initial_world c r os d =
     \<lparr>clock = c, ticks = 0, rnd = r, draws = 0, outcome_of = os, calls = 0, db = d,
      disk = (\<lambda>_ _. None), published = [], subscribed = [], spawned = []\<rparr>"

type_synonym ('s, 'a) effect = "'s \<Rightarrow> (go_error + 'a) \<times> 's"

type_synonym 'a io = "(world, 'a) effect"

section \<open>Sequencing\<close>

definition ret :: "'a \<Rightarrow> ('s, 'a) effect" where
  "ret x w = (Inr x, w)"

definition fail :: "go_error \<Rightarrow> ('s, 'a) effect" where
  "fail e w = (Inl e, w)"

text \<open>\<open>x, err := m(); if err != nil { return err }\<close>, then the rest.\<close>

definition bindE :: "('s, 'a) effect \<Rightarrow> ('a \<Rightarrow> ('s, 'b) effect) \<Rightarrow> ('s, 'b) effect" where
  "bindE m f w = (case m w of (Inl e, w') \<Rightarrow> (Inl e, w') | (Inr x, w') \<Rightarrow> f x w')"

text \<open>\<open>x, err := m()\<close> with the error looked at by the rest. A panic is not an error value.\<close>

definition attempt :: "('s, 'a) effect \<Rightarrow> ('s, go_error + 'a) effect" where
  "attempt m w =
     (case m w of (Inl e, w') \<Rightarrow> if is_panic e then (Inl e, w') else (Inr (Inl e), w')
      | (Inr x, w') \<Rightarrow> (Inr (Inr x), w'))"

text \<open>\<open>_ = m()\<close>, or an error that is only logged.\<close>

definition ignore_err :: "('s, 'a) effect \<Rightarrow> ('s, unit) effect" where
  "ignore_err m = bindE (attempt m) (\<lambda>_. ret ())"

text \<open>\<open>fmt.Errorf("msg: %w", err)\<close> around the error of \<open>m\<close>.\<close>

definition wrap_err :: "string \<Rightarrow> ('s, 'a) effect \<Rightarrow> ('s, 'a) effect" where
  "wrap_err msg m w =
     (case m w of (Inl e, w') \<Rightarrow> (Inl (if is_panic e then e else ErrWrap msg e), w')
      | (Inr x, w') \<Rightarrow> (Inr x, w'))"

definition modify_world :: "(world \<Rightarrow> world) \<Rightarrow> unit io" where
  "modify_world f w = (Inr (), f w)"

definition get_world :: "world io" where
  "get_world w = (Inr w, w)"

section \<open>External calls\<close>

definition extern :: "string \<Rightarrow> 'a io \<Rightarrow> 'a io" where
  "extern what m w =
     (let w1 = w\<lparr>calls := Suc (calls w)\<rparr> in
      case outcome_of w (calls w) of
        Done \<Rightarrow> m w1
      | Lost \<Rightarrow> (Inl (ErrExternal what), w1)
      | Unacked \<Rightarrow> (Inl (ErrExternal what), snd (m w1)))"

text \<open>\<open>time.Now().UTC()\<close>, \<open>rand.Read\<close> of sixteen bytes, and the ids made from them.\<close>

definition time_now :: "int io" where
  "time_now w = (Inr (clock w (ticks w)), w\<lparr>ticks := Suc (ticks w)\<rparr>)"

definition random16 :: "bytes io" where
  "random16 w = (Inr (map (rnd w (draws w)) [0..<16]), w\<lparr>draws := Suc (draws w)\<rparr>)"

definition id_of :: "string \<Rightarrow> bytes \<Rightarrow> string" where
  "id_of prefix b = prefix @ ''-'' @ hex_encode b"

definition generate_id :: "string \<Rightarrow> string io" where
  "generate_id prefix = bindE random16 (\<lambda>b. ret (id_of prefix b))"

text \<open>A statement and a query on the database.\<close>

definition exec_db :: "string \<Rightarrow> 'a stmt \<Rightarrow> 'a io" where
  "exec_db what g =
     extern what (\<lambda>w. case g (db w) of Inl e \<Rightarrow> (Inl e, w) | Inr (x, d) \<Rightarrow> (Inr x, w\<lparr>db := d\<rparr>))"

definition query_db :: "string \<Rightarrow> (db \<Rightarrow> go_error + 'a) \<Rightarrow> 'a io" where
  "query_db what q = extern what (\<lambda>w. (q (db w), w))"

text \<open>Publishing to NATS, and the disk of a node.\<close>

definition publish :: "string \<Rightarrow> (string \<times> string) list \<Rightarrow> body \<Rightarrow> unit io" where
  "publish subj hs b =
     extern (''publish '' @ subj) (modify_world (\<lambda>w. w\<lparr>published := published w @
       [\<lparr>bm_subject = subj, bm_headers = hs, bm_body = b\<rparr>]\<rparr>))"

definition disk_write :: "string \<Rightarrow> string \<Rightarrow> bytes option \<Rightarrow> world \<Rightarrow> world" where
  "disk_write n p c w = w\<lparr>disk := (disk w)(n := (disk w n)(p := c))\<rparr>"

definition spawn :: "task \<Rightarrow> unit io" where
  "spawn t = modify_world (\<lambda>w. w\<lparr>spawned := spawned w @ [t]\<rparr>)"

section \<open>Unfolding an effect\<close>

named_theorems io_simps "how the combinators act on a world"

lemma ret_simp [io_simps]: "ret x w = (Inr x, w)" by (simp add: ret_def)
lemma fail_simp [io_simps]: "fail e w = (Inl e, w)" by (simp add: fail_def)
lemma modify_simp [io_simps]: "modify_world f w = (Inr (), f w)" by (simp add: modify_world_def)
lemma get_world_simp [io_simps]: "get_world w = (Inr w, w)" by (simp add: get_world_def)

lemma bindE_Inr [io_simps]: "m w = (Inr x, w') \<Longrightarrow> bindE m f w = f x w'"
  by (simp add: bindE_def)

lemma bindE_Inl [io_simps]: "m w = (Inl e, w') \<Longrightarrow> bindE m f w = (Inl e, w')"
  by (simp add: bindE_def)

lemma extern_quiet [io_simps]: "quiet w \<Longrightarrow> extern what m w = m (w\<lparr>calls := Suc (calls w)\<rparr>)"
  by (simp add: extern_def quiet_def Let_def)

lemma quiet_update [simp]:
  "quiet (w\<lparr>calls := n\<rparr>) = quiet w" "quiet (w\<lparr>ticks := n\<rparr>) = quiet w"
  "quiet (w\<lparr>draws := n\<rparr>) = quiet w" "quiet (w\<lparr>db := d\<rparr>) = quiet w"
  "quiet (w\<lparr>disk := f\<rparr>) = quiet w" "quiet (w\<lparr>published := p\<rparr>) = quiet w"
  "quiet (w\<lparr>subscribed := ss\<rparr>) = quiet w" "quiet (w\<lparr>spawned := s\<rparr>) = quiet w"
  by (simp_all add: quiet_def)

lemma exec_db_quiet [io_simps]:
  "quiet w \<Longrightarrow> exec_db what g w =
     (case g (db w) of Inl e \<Rightarrow> (Inl e, w\<lparr>calls := Suc (calls w)\<rparr>)
      | Inr (x, d) \<Rightarrow> (Inr x, w\<lparr>calls := Suc (calls w), db := d\<rparr>))"
  by (simp add: exec_db_def extern_quiet split: sum.split prod.split)

text \<open>A statement that returns a value has been executed; a query changes nothing.\<close>

lemma exec_db_Inr: "exec_db what g w = (Inr x, w') \<Longrightarrow> g (db w) = Inr (x, db w')"
  by (auto simp: exec_db_def extern_def Let_def split: outcome.splits sum.splits prod.splits)

lemma query_db_Inr: "query_db what q w = (Inr x, w') \<Longrightarrow> q (db w) = Inr x \<and> db w' = db w"
  by (auto simp: query_db_def extern_def Let_def split: outcome.splits)

lemma query_db_quiet [io_simps]:
  "quiet w \<Longrightarrow> query_db what q w = (q (db w), w\<lparr>calls := Suc (calls w)\<rparr>)"
  by (simp add: query_db_def extern_quiet)

lemma time_now_simp [io_simps]:
  "time_now w = (Inr (clock w (ticks w)), w\<lparr>ticks := Suc (ticks w)\<rparr>)"
  by (simp add: time_now_def)

lemma generate_id_simp [io_simps]:
  "generate_id p w =
     (Inr (id_of p (map (rnd w (draws w)) [0..<16])), w\<lparr>draws := Suc (draws w)\<rparr>)"
  by (simp add: generate_id_def bindE_def random16_def ret_def)

lemma publish_quiet [io_simps]:
  "quiet w \<Longrightarrow> publish subj hs b w =
     (Inr (), w\<lparr>calls := Suc (calls w), published := published w @
       [\<lparr>bm_subject = subj, bm_headers = hs, bm_body = b\<rparr>]\<rparr>)"
  by (simp add: publish_def extern_quiet modify_simp)

lemma spawn_simp [io_simps]: "spawn t w = (Inr (), w\<lparr>spawned := spawned w @ [t]\<rparr>)"
  by (simp add: spawn_def modify_simp)

lemma attempt_Inr [io_simps]: "m w = (Inr x, w') \<Longrightarrow> attempt m w = (Inr (Inr x), w')"
  by (simp add: attempt_def)

lemma attempt_Inl [io_simps]:
  "m w = (Inl e, w') \<Longrightarrow> attempt m w = (if is_panic e then (Inl e, w') else (Inr (Inl e), w'))"
  by (simp add: attempt_def)

lemma ignore_err_Inr [io_simps]: "m w = (Inr x, w') \<Longrightarrow> ignore_err m w = (Inr (), w')"
  by (simp add: ignore_err_def bindE_def attempt_def ret_def)

lemma ignore_err_Inl [io_simps]:
  "m w = (Inl e, w') \<Longrightarrow> \<not> is_panic e \<Longrightarrow> ignore_err m w = (Inr (), w')"
  by (simp add: ignore_err_def bindE_def attempt_def ret_def)

lemma wrap_err_Inr [io_simps]: "m w = (Inr x, w') \<Longrightarrow> wrap_err msg m w = (Inr x, w')"
  by (simp add: wrap_err_def)

lemma wrap_err_Inl [io_simps]:
  "m w = (Inl e, w') \<Longrightarrow> wrap_err msg m w = (Inl (if is_panic e then e else ErrWrap msg e), w')"
  by (simp add: wrap_err_def)

lemma bindE_assoc: "bindE (bindE m f) g = bindE m (\<lambda>x. bindE (f x) g)"
  by (rule ext) (auto simp: bindE_def split: prod.splits sum.splits)

lemma length_id_of [simp]: "length (id_of p b) = length p + 1 + 2 * length b"
  by (simp add: id_of_def)

lemma id_of_inj: "id_of p a = id_of p b \<Longrightarrow> a = b"
  by (simp add: id_of_def hex_encode_inj)

section \<open>Guarantees\<close>

text \<open>
  \<open>keeps R m\<close>: whatever the oracles answer and however \<open>m\<close> ends, the world before and the world after
  are related by \<open>R\<close>. The locale asks that \<open>R\<close> is a preorder that looks at the database only; its
  facts take a guarantee from the statements through every combinator, so that a handler keeps what
  its statements keep.
\<close>

definition keeps :: "(db \<Rightarrow> db \<Rightarrow> bool) \<Rightarrow> 'a io \<Rightarrow> bool" where
  "keeps R m = (\<forall>w. R (db w) (db (snd (m w))))"

definition stmt_keeps :: "(db \<Rightarrow> db \<Rightarrow> bool) \<Rightarrow> 'a stmt \<Rightarrow> bool" where
  "stmt_keeps R g = (\<forall>d x d'. g d = Inr (x, d') \<longrightarrow> R d d')"

locale db_guarantee =
  fixes R :: "db \<Rightarrow> db \<Rightarrow> bool"
  assumes R_refl: "R d d"
    and R_trans: "R d1 d2 \<Longrightarrow> R d2 d3 \<Longrightarrow> R d1 d3"
begin

lemma keeps_ret: "keeps R (ret x)"
  by (simp add: keeps_def ret_def R_refl)

lemma keeps_fail: "keeps R (fail e)"
  by (simp add: keeps_def fail_def R_refl)

lemma keeps_bindE:
  assumes "keeps R m" and "\<And>x. keeps R (f x)"
  shows "keeps R (bindE m f)"
  unfolding keeps_def
proof
  fix w
  obtain r w' where m: "m w = (r, w')" by fastforce
  then have step: "R (db w) (db w')" using assms(1) by (metis keeps_def snd_conv)
  show "R (db w) (db (snd (bindE m f w)))"
  proof (cases r)
    case (Inl e)
    then show ?thesis using m step by (simp add: bindE_def)
  next
    case (Inr x)
    then have "R (db w') (db (snd (f x w')))" using assms(2) by (simp add: keeps_def)
    with step have "R (db w) (db (snd (f x w')))" by (rule R_trans)
    then show ?thesis using Inr m by (simp add: bindE_def)
  qed
qed

lemma keeps_attempt: "keeps R m \<Longrightarrow> keeps R (attempt m)"
  by (auto simp: keeps_def attempt_def split: prod.split sum.split) (metis snd_conv)+

lemma keeps_ignore_err: "keeps R m \<Longrightarrow> keeps R (ignore_err m)"
  by (simp add: ignore_err_def keeps_bindE keeps_attempt keeps_ret)

lemma keeps_wrap_err: "keeps R m \<Longrightarrow> keeps R (wrap_err msg m)"
  by (auto simp: keeps_def wrap_err_def split: prod.split sum.split) (metis snd_conv)+

lemma keeps_extern: "keeps R m \<Longrightarrow> keeps R (extern what m)"
proof (unfold keeps_def, rule allI)
  fix w :: world
  let ?w = "w\<lparr>calls := Suc (calls w)\<rparr>"
  assume "\<forall>w. R (db w) (db (snd (m w)))"
  then have "R (db ?w) (db (snd (m ?w)))" by (rule spec)
  then show "R (db w) (db (snd (extern what m w)))"
    by (simp add: extern_def Let_def R_refl split: outcome.split)
qed

lemma keeps_modify: "(\<And>w. db (f w) = db w) \<Longrightarrow> keeps R (modify_world f)"
  by (simp add: keeps_def modify_world_def R_refl)

lemma keeps_get_world: "keeps R get_world"
  by (simp add: keeps_def get_world_def R_refl)

lemma keeps_time_now: "keeps R time_now"
  by (simp add: keeps_def time_now_def R_refl)

lemma keeps_generate_id: "keeps R (generate_id p)"
  by (simp add: keeps_def generate_id_simp R_refl)

lemma keeps_exec_db: "stmt_keeps R g \<Longrightarrow> keeps R (exec_db what g)"
  unfolding exec_db_def
  by (rule keeps_extern) (auto simp: keeps_def stmt_keeps_def R_refl split: sum.split prod.split)

lemma keeps_query_db: "keeps R (query_db what q)"
  unfolding query_db_def by (rule keeps_extern) (simp add: keeps_def R_refl)

lemma keeps_publish: "keeps R (publish subj hs b)"
  unfolding publish_def by (intro keeps_extern keeps_modify) simp

lemma keeps_spawn: "keeps R (spawn t)"
  unfolding spawn_def by (rule keeps_modify) simp

lemma keeps_if: "(b \<Longrightarrow> keeps R m) \<Longrightarrow> (\<not> b \<Longrightarrow> keeps R n) \<Longrightarrow> keeps R (if b then m else n)"
  by simp

lemma keeps_option:
  "keeps R m \<Longrightarrow> (\<And>x. keeps R (f x)) \<Longrightarrow> keeps R (case v of None \<Rightarrow> m | Some x \<Rightarrow> f x)"
  by (cases v) simp_all

lemma keeps_sum:
  "(\<And>e. keeps R (f e)) \<Longrightarrow> (\<And>x. keeps R (g x)) \<Longrightarrow>
     keeps R (case v of Inl e \<Rightarrow> f e | Inr x \<Rightarrow> g x)"
  by (cases v) simp_all

lemma keeps_prod: "(\<And>x y. keeps R (f x y)) \<Longrightarrow> keeps R (case p of (x, y) \<Rightarrow> f x y)"
  by (cases p) simp

lemma keeps_let: "(\<And>x. x = v \<Longrightarrow> keeps R (f x)) \<Longrightarrow> keeps R (let x = v in f x)"
  by simp

lemmas keeps_intros =
  keeps_ret keeps_fail keeps_bindE keeps_attempt keeps_ignore_err keeps_wrap_err keeps_time_now
  keeps_generate_id keeps_query_db keeps_publish keeps_spawn keeps_if keeps_option keeps_sum
  keeps_prod keeps_let keeps_get_world

text \<open>The first effect may keep the relation at one world only.\<close>

lemma keeps_bindE_at:
  assumes "R (db w) (db (snd (m w)))" and "\<And>x. keeps R (f x)"
  shows "R (db w) (db (snd (bindE m f w)))"
proof -
  obtain r w' where m: "m w = (r, w')" by fastforce
  have "R (db w') (db (snd (f x w')))" for x using assms(2) by (simp add: keeps_def)
  then show ?thesis using assms(1) m R_trans by (cases r) (auto simp: bindE_def)
qed

lemma keepsD: "keeps R m \<Longrightarrow> R (db w) (db (snd (m w)))"
  by (simp add: keeps_def)

end


text \<open>
  The same for a relation on worlds, which may look at the disks, the messages or the oracles. A
  guarantee on the database is one of them.
\<close>

definition maintains :: "(world \<Rightarrow> world \<Rightarrow> bool) \<Rightarrow> 'a io \<Rightarrow> bool" where
  "maintains R m = (\<forall>w. R w (snd (m w)))"

locale world_guarantee =
  fixes R :: "world \<Rightarrow> world \<Rightarrow> bool"
  assumes refl: "R w w"
    and trans: "R w1 w2 \<Longrightarrow> R w2 w3 \<Longrightarrow> R w1 w3"
    and steps: "R w (w\<lparr>calls := n\<rparr>)" "R w (w\<lparr>ticks := n\<rparr>)" "R w (w\<lparr>draws := n\<rparr>)"
begin

lemma m_ret: "maintains R (ret x)"
  by (simp add: maintains_def ret_def refl)

lemma m_fail: "maintains R (fail e)"
  by (simp add: maintains_def fail_def refl)

lemma m_bindE:
  assumes "maintains R m" and "\<And>x. maintains R (f x)"
  shows "maintains R (bindE m f)"
  unfolding maintains_def
proof
  fix w
  obtain r w' where m: "m w = (r, w')" by fastforce
  then have step: "R w w'" using assms(1) by (metis maintains_def snd_conv)
  show "R w (snd (bindE m f w))"
  proof (cases r)
    case (Inl e)
    then show ?thesis using m step by (simp add: bindE_def)
  next
    case (Inr x)
    then have "R w' (snd (f x w'))" using assms(2) by (simp add: maintains_def)
    with step show ?thesis using Inr m trans by (auto simp: bindE_def)
  qed
qed

lemma m_attempt: "maintains R m \<Longrightarrow> maintains R (attempt m)"
  by (auto simp: maintains_def attempt_def split: prod.split sum.split) (metis snd_conv)+

lemma m_ignore_err: "maintains R m \<Longrightarrow> maintains R (ignore_err m)"
  by (simp add: ignore_err_def m_bindE m_attempt m_ret)

lemma m_wrap_err: "maintains R m \<Longrightarrow> maintains R (wrap_err msg m)"
  by (auto simp: maintains_def wrap_err_def split: prod.split sum.split) (metis snd_conv)+

lemma m_extern:
  assumes "maintains R m"
  shows "maintains R (extern what m)"
  unfolding maintains_def
proof
  fix w :: world
  let ?w = "w\<lparr>calls := Suc (calls w)\<rparr>"
  have "R ?w (snd (m ?w))" using assms unfolding maintains_def by (rule spec)
  then have "R w (snd (m ?w))" by (rule trans [OF steps(1)])
  then show "R w (snd (extern what m w))"
    by (simp add: extern_def Let_def steps(1) split: outcome.split)
qed

lemma m_time_now: "maintains R time_now"
  by (simp add: maintains_def time_now_def steps)

lemma m_generate_id: "maintains R (generate_id p)"
  by (simp add: maintains_def generate_id_simp steps)

lemma m_modify: "(\<And>w. R w (f w)) \<Longrightarrow> maintains R (modify_world f)"
  by (simp add: maintains_def modify_world_def)

lemma m_query_db: "maintains R (query_db what q)"
  unfolding query_db_def by (rule m_extern) (simp add: maintains_def refl)

lemma m_exec_db:
  assumes "\<And>w x d'. g (db w) = Inr (x, d') \<Longrightarrow> R w (w\<lparr>db := d'\<rparr>)"
  shows "maintains R (exec_db what g)"
  unfolding exec_db_def
  by (rule m_extern) (auto simp: maintains_def refl split: sum.split prod.split intro: assms)

lemma m_publish:
  "(\<And>w. R w (w\<lparr>published := published w @
     [\<lparr>bm_subject = subj, bm_headers = hs, bm_body = b\<rparr>]\<rparr>)) \<Longrightarrow> maintains R (publish subj hs b)"
  unfolding publish_def by (intro m_extern m_modify)

lemma m_if: "(b \<Longrightarrow> maintains R m) \<Longrightarrow> (\<not> b \<Longrightarrow> maintains R n) \<Longrightarrow> maintains R (if b then m else n)"
  by simp

lemma m_option:
  "maintains R m \<Longrightarrow> (\<And>x. maintains R (f x)) \<Longrightarrow>
     maintains R (case v of None \<Rightarrow> m | Some x \<Rightarrow> f x)"
  by (cases v) simp_all

lemma m_sum:
  "(\<And>e. maintains R (f e)) \<Longrightarrow> (\<And>x. maintains R (g x)) \<Longrightarrow>
     maintains R (case v of Inl e \<Rightarrow> f e | Inr x \<Rightarrow> g x)"
  by (cases v) simp_all

lemma m_prod: "(\<And>x y. maintains R (f x y)) \<Longrightarrow> maintains R (case p of (x, y) \<Rightarrow> f x y)"
  by (cases p) simp

lemma m_let: "(\<And>x. x = v \<Longrightarrow> maintains R (f x)) \<Longrightarrow> maintains R (let x = v in f x)"
  by simp

lemmas m_intros =
  m_ret m_fail m_bindE m_attempt m_ignore_err m_wrap_err m_extern m_time_now m_generate_id
  m_query_db m_if m_option m_sum m_prod m_let

lemma maintainsD: "maintains R m \<Longrightarrow> m w = (r, w') \<Longrightarrow> R w w'"
  by (metis maintains_def snd_conv)

end

text \<open>An invariant is the guarantee that it is not lost.\<close>

definition inv_rel :: "(db \<Rightarrow> bool) \<Rightarrow> db \<Rightarrow> db \<Rightarrow> bool" where
  "inv_rel I d d' = (I d \<longrightarrow> I d')"

interpretation invs: db_guarantee "inv_rel I"
  by unfold_locales (simp_all add: inv_rel_def)

sublocale db_guarantee \<subseteq> on_db: world_guarantee "\<lambda>w w'. R (db w) (db w')"
  by unfold_locales (auto intro: R_refl R_trans)

lemma keeps_maintains: "keeps R m = maintains (\<lambda>w w'. R (db w) (db w')) m"
  by (simp add: keeps_def maintains_def)

text \<open>The two frames used: a database statement touches neither the disks nor the oracle.\<close>

definition same_disk :: "world \<Rightarrow> world \<Rightarrow> bool" where
  "same_disk w w' = (disk w' = disk w \<and> outcome_of w' = outcome_of w)"

interpretation frame: world_guarantee same_disk
  by unfold_locales (simp_all add: same_disk_def)

lemma same_disk_quiet: "same_disk w w' \<Longrightarrow> quiet w' = quiet w"
  by (simp add: same_disk_def quiet_def)

lemma frame_exec_db: "maintains same_disk (exec_db what g)"
  by (rule frame.m_exec_db) (simp add: same_disk_def)

lemma frame_publish: "maintains same_disk (publish subj hs b)"
  by (rule frame.m_publish) (simp add: same_disk_def)

text \<open>Everything published satisfies a predicate.\<close>

definition publishes :: "(bus_msg \<Rightarrow> bool) \<Rightarrow> world \<Rightarrow> world \<Rightarrow> bool" where
  "publishes P w w' = (\<exists>ms. published w' = published w @ ms \<and> list_all P ms)"

interpretation says: world_guarantee "publishes P"
proof
  show "publishes P w1 w2 \<Longrightarrow> publishes P w2 w3 \<Longrightarrow> publishes P w1 w3" for w1 w2 w3
    unfolding publishes_def by (metis append.assoc list_all_append)
qed (simp_all add: publishes_def)

lemma says_exec_db: "maintains (publishes P) (exec_db what g)"
  by (rule says.m_exec_db) (simp add: publishes_def)

lemma says_publish:
  "P \<lparr>bm_subject = subj, bm_headers = hs, bm_body = b\<rparr> \<Longrightarrow> maintains (publishes P) (publish subj hs b)"
  by (rule says.m_publish) (simp add: publishes_def)


text \<open>
  \<open>calm m\<close>: no run of \<open>m\<close> panics. An ignored error of a calm effect leaves only its world behind.
\<close>

definition calm :: "'a io \<Rightarrow> bool" where
  "calm m = (\<forall>w e. fst (m w) = Inl e \<longrightarrow> \<not> is_panic e)"

lemma calm_ret: "calm (ret x)"
  by (simp add: calm_def ret_def)

lemma calm_modify: "calm (modify_world f)"
  by (simp add: calm_def modify_world_def)

lemma calm_extern: "calm m \<Longrightarrow> calm (extern what m)"
  by (auto simp: calm_def extern_def Let_def split: outcome.splits)

lemma calm_exec_db: "(\<And>d e. g d = Inl e \<Longrightarrow> \<not> is_panic e) \<Longrightarrow> calm (exec_db what g)"
  unfolding exec_db_def
  by (rule calm_extern) (auto simp: calm_def split: sum.splits prod.splits)

lemma calm_publish: "calm (publish subj hs b)"
  unfolding publish_def by (intro calm_extern calm_modify)

lemma calm_wrap: "calm m \<Longrightarrow> calm (wrap_err msg m)"
  unfolding calm_def wrap_err_def by (auto split: prod.splits sum.splits) (metis fst_conv)+

lemma ignore_err_calm: "calm m \<Longrightarrow> ignore_err m w = (Inr (), snd (m w))"
  unfolding calm_def ignore_err_def bindE_def attempt_def ret_def
  by (auto split: prod.splits sum.splits) (metis fst_conv)

lemma attempt_calm: "calm m \<Longrightarrow> attempt m w = (Inr (fst (m w)), snd (m w))"
  unfolding calm_def attempt_def by (auto split: prod.splits sum.splits) (metis fst_conv)


lemma calm_fail: "\<not> is_panic e \<Longrightarrow> calm (fail e)"
  by (simp add: calm_def fail_def)

lemma calm_bindE: "calm m \<Longrightarrow> (\<And>x. calm (f x)) \<Longrightarrow> calm (bindE m f)"
  unfolding calm_def bindE_def by (auto split: prod.splits sum.splits) (metis fst_conv)

lemma calm_attempt: "calm m \<Longrightarrow> calm (attempt m)"
  unfolding calm_def attempt_def by (auto split: prod.splits sum.splits) (metis fst_conv)

lemma calm_ignore_err: "calm m \<Longrightarrow> calm (ignore_err m)"
  by (simp add: ignore_err_def calm_bindE calm_attempt calm_ret)

lemma calm_time_now: "calm time_now"
  by (simp add: calm_def time_now_def)

lemma calm_generate_id: "calm (generate_id p)"
  by (simp add: calm_def generate_id_simp)

lemma calm_query_db: "(\<And>d e. q d = Inl e \<Longrightarrow> \<not> is_panic e) \<Longrightarrow> calm (query_db what q)"
  unfolding query_db_def by (rule calm_extern) (auto simp: calm_def)

lemma calm_if: "(b \<Longrightarrow> calm m) \<Longrightarrow> (\<not> b \<Longrightarrow> calm n) \<Longrightarrow> calm (if b then m else n)"
  by simp

lemma calm_option:
  "calm m \<Longrightarrow> (\<And>x. calm (f x)) \<Longrightarrow> calm (case v of None \<Rightarrow> m | Some x \<Rightarrow> f x)"
  by (cases v) simp_all

lemma calm_let: "(\<And>x. x = v \<Longrightarrow> calm (f x)) \<Longrightarrow> calm (let x = v in f x)"
  by simp

lemmas calm_intros =
  calm_ret calm_bindE calm_attempt calm_ignore_err calm_wrap calm_time_now calm_generate_id
  calm_if calm_option calm_let calm_extern calm_publish

text \<open>A sequence that ends in a value has gone through each of its parts.\<close>

lemma bindE_InrD:
  "bindE m f w = (Inr y, w') \<Longrightarrow> \<exists>x w1. m w = (Inr x, w1) \<and> f x w1 = (Inr y, w')"
  by (auto simp: bindE_def split: prod.splits sum.splits)

lemma wrap_err_InrD: "wrap_err msg m w = (Inr y, w') \<Longrightarrow> m w = (Inr y, w')"
  by (auto simp: wrap_err_def split: prod.splits sum.splits)


lemma bindE_InrE:
  assumes "bindE m f w = (Inr y, w')"
  obtains x w1 where "m w = (Inr x, w1)" "f x w1 = (Inr y, w')"
  using bindE_InrD [OF assms] by blast

lemma wrap_err_InrE:
  assumes "wrap_err msg m w = (Inr y, w')"
  obtains "m w = (Inr y, w')"
  using wrap_err_InrD [OF assms] by blast

lemma time_now_db: "time_now w = (Inr t, w') \<Longrightarrow> db w' = db w"
  by (auto simp: time_now_def)

lemma extern_InrE:
  assumes "extern what m w = (Inr y, w')"
  obtains "m (w\<lparr>calls := Suc (calls w)\<rparr>) = (Inr y, w')"
  using assms by (auto simp: extern_def Let_def split: outcome.splits)

text \<open>A run that evaluates to a value, as the witnesses of the properties use it.\<close>

lemma runs_to_value: "\<not> isl (fst p) \<Longrightarrow> \<exists>x w'. p = (Inr x, w')"
  by (cases p; cases "fst p") auto

lemma runs_to_error: "isl (fst p) \<Longrightarrow> \<exists>e w'. p = (Inl e, w')"
  by (cases p; cases "fst p") auto

lemma bindE_time_now: "bindE time_now f w = f (clock w (ticks w)) (w\<lparr>ticks := Suc (ticks w)\<rparr>)"
  by (simp add: bindE_Inr [OF time_now_simp])

text \<open>Nothing is published and nothing is started.\<close>

definition same_bus :: "world \<Rightarrow> world \<Rightarrow> bool" where
  "same_bus w w' = (published w' = published w \<and> spawned w' = spawned w)"

interpretation silent: world_guarantee same_bus
  by unfold_locales (simp_all add: same_bus_def)

lemma silent_exec_db: "maintains same_bus (exec_db what g)"
  by (rule silent.m_exec_db) (simp add: same_bus_def)

end
