(* ===== verification/Operation_Repo.thy ===== *)
theory Operation_Repo
  imports World
begin

text \<open>
  \<open>OperationRepository\<close> of \<open>mariadb/repositories/operation_repository.go\<close> and the row decoding
  \<open>rowToOperation\<close> of \<open>mariadb.go\<close>: insert, read, the optimistic update whose \<open>WHERE\<close> clause compares
  the version, the compare-and-swap \<open>Transition\<close>, and the filtered, ordered and limited list.
\<close>

section \<open>Rows and structs\<close>

definition row_to_operation :: "op_row \<Rightarrow> operation" where
  "row_to_operation r =
     \<lparr>op_id = r_id r, op_status = r_status r, op_stage = r_stage r, op_processor = r_processor r,
      op_retry_count = r_retry_count r, op_max_attempts = r_max_attempts r,
      op_client_reference = r_client_reference r, op_created_at = r_created_at r,
      op_updated_at = r_updated_at r, op_deadline = r_deadline r,
      op_input_file =
        (if r_input_file_size r \<noteq> None \<or> r_input_file_sha256 r \<noteq> None then
           Some \<lparr>if_size_bytes = (case r_input_file_size r of None \<Rightarrow> 0 | Some n \<Rightarrow> n),
                 if_sha256 = string_of_null (r_input_file_sha256 r),
                 if_file_name = string_of_null (r_input_file_name r)\<rparr>
         else None),
      op_current_job_id = r_current_job_id r, op_current_attempt_id = r_current_attempt_id r,
      op_current_transfer_id = r_current_transfer_id r,
      op_cancel_requested_at = r_cancel_requested_at r,
      op_error = cols_to_error (r_err r), op_version = r_version r\<rparr>"

text \<open>The columns that \<open>Create\<close> fills; the rest stay NULL.\<close>

definition op_create_row :: "operation \<Rightarrow> op_row" where
  "op_create_row op =
     \<lparr>r_id = op_id op, r_status = op_status op, r_stage = op_stage op,
      r_processor = op_processor op, r_retry_count = op_retry_count op,
      r_max_attempts = op_max_attempts op, r_client_reference = op_client_reference op,
      r_created_at = datetime6 (op_created_at op), r_updated_at = datetime6 (op_updated_at op),
      r_deadline = map_option datetime6 (op_deadline op),
      r_input_file_size =
        (case op_input_file op of None \<Rightarrow> None
         | Some f \<Rightarrow> if if_size_bytes f > 0 then Some (if_size_bytes f) else None),
      r_input_file_sha256 =
        (case op_input_file op of None \<Rightarrow> None | Some f \<Rightarrow> null_string (if_sha256 f)),
      r_input_file_name =
        (case op_input_file op of None \<Rightarrow> None | Some f \<Rightarrow> null_string (if_file_name f)),
      r_current_job_id = op_current_job_id op, r_current_attempt_id = op_current_attempt_id op,
      r_current_transfer_id = op_current_transfer_id op, r_cancel_requested_at = None,
      r_err = no_err_cols, r_version = op_version op\<rparr>"

text \<open>The columns that \<open>Update\<close> sets.\<close>

definition op_update_row :: "operation \<Rightarrow> op_row \<Rightarrow> op_row" where
  "op_update_row op r = r\<lparr>
     r_status := op_status op, r_stage := op_stage op, r_processor := op_processor op,
     r_retry_count := op_retry_count op, r_updated_at := datetime6 (op_updated_at op),
     r_current_job_id := op_current_job_id op, r_current_attempt_id := op_current_attempt_id op,
     r_current_transfer_id := op_current_transfer_id op,
     r_cancel_requested_at := map_option datetime6 (op_cancel_requested_at op),
     r_err := error_to_cols (op_error op),
     r_input_file_size := map_option if_size_bytes (op_input_file op),
     r_input_file_sha256 :=
       (case op_input_file op of None \<Rightarrow> None | Some f \<Rightarrow> null_string (if_sha256 f)),
     r_input_file_name :=
       (case op_input_file op of None \<Rightarrow> None | Some f \<Rightarrow> null_string (if_file_name f)),
     r_version := op_version op\<rparr>"

text \<open>What the column types of the table \<open>operations\<close> accept.\<close>

definition op_row_fits :: "op_row \<Rightarrow> bool" where
  "op_row_fits r =
     (varchar 64 (r_id r) \<and> varchar 32 (op_status_string (r_status r)) \<and>
      varchar 32 (op_stage_string (r_stage r)) \<and> varchar 128 (r_processor r) \<and>
      sql_int (r_retry_count r) \<and> sql_int (r_max_attempts r) \<and>
      varchar 256 (r_client_reference r) \<and> sql_null sql_bigint (r_input_file_size r) \<and>
      varchar_opt 64 (r_input_file_sha256 r) \<and>
      varchar_opt 256 (r_input_file_name r) \<and> varchar_opt 64 (r_current_job_id r) \<and>
      varchar_opt 64 (r_current_attempt_id r) \<and> varchar_opt 64 (r_current_transfer_id r) \<and>
      err_cols_fit (r_err r) \<and> sql_int (r_version r))"

section \<open>Create and GetByID\<close>

definition op_lookup :: "string \<Rightarrow> op_row list \<Rightarrow> op_row option" where
  "op_lookup k t = sql_first (\<lambda>r. r_id r = k) t"

interpretation op_table: keyed_table r_id op_lookup "sql_insert r_id"
  by unfold_locales (simp_all add: op_lookup_def)

definition op_insert :: "operation \<Rightarrow> unit stmt" where
  "op_insert op d =
     (if \<not> op_row_fits (op_create_row op) then Inl (ErrSQL ''data too long'')
      else case sql_insert r_id (op_create_row op) (t_operations d) of
        Inl e \<Rightarrow> Inl e
      | Inr t \<Rightarrow> Inr ((), d\<lparr>t_operations := t\<rparr>))"

definition op_create :: "operation \<Rightarrow> unit io" where
  "op_create op = exec_db ''insert operations'' (op_insert op)"

text \<open>The operation with an id as the database has it; \<open>GetByID\<close> returns nil when there is none.\<close>

definition db_operation :: "string \<Rightarrow> db \<Rightarrow> operation option" where
  "db_operation i d = map_option row_to_operation (op_lookup i (t_operations d))"

definition op_get_by_id :: "string \<Rightarrow> operation option io" where
  "op_get_by_id i = query_db ''select operations'' (\<lambda>d. Inr (db_operation i d))"

text \<open>
  \<open>GetByIdempotencyKey\<close> joins on a column \<open>key\<close> of \<open>idempotency_keys\<close> and follows the id in the
  stored response. The first argument is the list of columns the table has.
\<close>

definition op_get_by_idempotency_key :: "string list \<Rightarrow> string \<Rightarrow> operation option io" where
  "op_get_by_idempotency_key cols k =
     query_db ''select operations join idempotency_keys'' (\<lambda>d.
       if \<not> columns_known cols [''key'', ''response''] then Inl (ErrSQL ''unknown column'')
       else Inr (case sql_first (\<lambda>i. i_key i = k) (t_idempotency d) of
           None \<Rightarrow> None
         | Some i \<Rightarrow>
             (case i_response i of
                JObj m \<Rightarrow> (case map_of m ''operation_id'' of
                    Some (JStr oid) \<Rightarrow> db_operation oid d
                  | _ \<Rightarrow> None)
              | _ \<Rightarrow> None)))"

section \<open>Update\<close>

text \<open>
  The statement updates the row whose version is the struct's version less one, to the struct's
  version: callers increment before they call. No row matching is not an error.
\<close>

definition op_update_where :: "operation \<Rightarrow> op_row \<Rightarrow> bool" where
  "op_update_where op r = (r_id r = op_id op \<and> r_version r = op_version op - 1)"

definition op_update_stmt :: "operation \<Rightarrow> unit stmt" where
  "op_update_stmt op d =
     (if \<forall>r\<in>set (t_operations d). op_update_where op r \<longrightarrow> op_row_fits (op_update_row op r)
      then Inr ((), d\<lparr>t_operations :=
        sql_update (op_update_where op) (op_update_row op) (t_operations d)\<rparr>)
      else Inl (ErrSQL ''data too long''))"

definition op_update :: "operation \<Rightarrow> unit io" where
  "op_update op = exec_db ''update operations'' (op_update_stmt op)"

section \<open>Transition\<close>

fun stage_for_status :: "op_status \<Rightarrow> op_stage" where
  "stage_for_status StatusCreated = StageWaitingForUpload"
| "stage_for_status StatusQueued = StageQueued"
| "stage_for_status StatusDispatched = StageWaitingForAck"
| "stage_for_status StatusTransferring = StageTransferring"
| "stage_for_status StatusTransferred = StageVerifying"
| "stage_for_status StatusProcessing = StageProcessing"
| "stage_for_status StatusCompleted = StageCompleted"
| "stage_for_status StatusFailed = StageFailed"
| "stage_for_status StatusTimeout = StageTimeout"
| "stage_for_status StatusCancelled = StageCancelled"
| "stage_for_status (StatusOther s) = StageWaitingForUpload"

definition op_transition_where :: "string \<Rightarrow> op_status \<Rightarrow> int \<Rightarrow> op_row \<Rightarrow> bool" where
  "op_transition_where i from_st v r =
     (r_id r = i \<and> op_status_string (r_status r) = op_status_string from_st \<and> r_version r = v)"

definition op_transition_row :: "op_status \<Rightarrow> int \<Rightarrow> op_row \<Rightarrow> op_row" where
  "op_transition_row to_st now r = r\<lparr>
     r_status := to_st, r_stage := stage_for_status to_st, r_updated_at := datetime6 now,
     r_version := r_version r + 1\<rparr>"

definition op_transition_stmt ::
  "string \<Rightarrow> op_status \<Rightarrow> op_status \<Rightarrow> int \<Rightarrow> int \<Rightarrow> operation option stmt" where
  "op_transition_stmt i from_st to_st v now d =
     (let p = op_transition_where i from_st v; f = op_transition_row to_st now;
          d' = d\<lparr>t_operations := sql_update p f (t_operations d)\<rparr>
      in if \<exists>r\<in>set (t_operations d). p r \<and> \<not> op_row_fits (f r) then Inl (ErrSQL ''data too long'')
         else if sql_changed p f (t_operations d) = 0 then Inl ErrPortsOperationNotFound
         else Inr (db_operation i d', d'))"

definition op_transition ::
  "string \<Rightarrow> op_status \<Rightarrow> op_status \<Rightarrow> int \<Rightarrow> operation option io" where
  "op_transition i from_st to_st v =
     bindE time_now (\<lambda>now.
       exec_db ''transition operations'' (op_transition_stmt i from_st to_st v now))"

section \<open>List\<close>

record op_filter =
  fl_status :: "op_status option"
  fl_processor :: "string option"
  fl_cursor :: "string option"
  fl_limit :: int

definition op_filter_matches :: "op_filter \<Rightarrow> op_row \<Rightarrow> bool" where
  "op_filter_matches fl r =
     ((case fl_status fl of None \<Rightarrow> True
       | Some s \<Rightarrow> op_status_string (r_status r) = op_status_string s) \<and>
      (case fl_processor fl of None \<Rightarrow> True | Some p \<Rightarrow> r_processor r = p) \<and>
      (case fl_cursor fl of None \<Rightarrow> True | Some c \<Rightarrow> c < r_id r))"

definition op_list_rows :: "op_filter \<Rightarrow> op_row list \<Rightarrow> op_row list" where
  "op_list_rows fl t =
     sql_limit (if fl_limit fl \<le> 0 then 50 else fl_limit fl)
       (sql_order_by r_id (filter (op_filter_matches fl) t))"

definition op_list :: "op_filter \<Rightarrow> operation list io" where
  "op_list fl =
     query_db ''select operations'' (\<lambda>d. Inr (map row_to_operation (op_list_rows fl (t_operations d))))"

section \<open>Facts\<close>

lemma op_update_row_simps [simp]:
  "r_id (op_update_row op r) = r_id r"
  "r_version (op_update_row op r) = op_version op"
  "r_max_attempts (op_update_row op r) = r_max_attempts r"
  "r_created_at (op_update_row op r) = r_created_at r"
  "r_status (op_update_row op r) = op_status op"
  "r_stage (op_update_row op r) = op_stage op"
  "r_retry_count (op_update_row op r) = op_retry_count op"
  "r_client_reference (op_update_row op r) = r_client_reference r"
  "r_deadline (op_update_row op r) = r_deadline r"
  by (simp_all add: op_update_row_def)

lemma op_transition_row_simps [simp]:
  "r_id (op_transition_row to_st now r) = r_id r"
  "r_status (op_transition_row to_st now r) = to_st"
  "r_stage (op_transition_row to_st now r) = stage_for_status to_st"
  "r_version (op_transition_row to_st now r) = r_version r + 1"
  by (simp_all add: op_transition_row_def)

lemma row_to_operation_simps [simp]:
  "op_id (row_to_operation r) = r_id r" "op_status (row_to_operation r) = r_status r"
  "op_stage (row_to_operation r) = r_stage r"
  "op_retry_count (row_to_operation r) = r_retry_count r"
  "op_max_attempts (row_to_operation r) = r_max_attempts r"
  "op_version (row_to_operation r) = r_version r"
  "op_processor (row_to_operation r) = r_processor r"
  by (simp_all add: row_to_operation_def)

lemma op_lookup_Some: "op_lookup k t = Some r \<Longrightarrow> r \<in> set t \<and> r_id r = k"
  by (auto simp: op_lookup_def dest: sql_first_Some)

lemma db_operation_Some:
  "db_operation i d = Some op \<Longrightarrow>
     \<exists>r. op_lookup i (t_operations d) = Some r \<and> op = row_to_operation r \<and> r_id r = i"
  by (auto simp: db_operation_def dest: op_lookup_Some)

text \<open>The stored form of an operation: what a write followed by a read makes of its fields.\<close>

definition stored_error :: "error_info option \<Rightarrow> error_info option" where
  "stored_error e =
     (case e of None \<Rightarrow> None
      | Some x \<Rightarrow> if err_code x = [] \<and> err_message x = [] then None
          else Some (x\<lparr>err_details := map_option json_map_any (err_details x)\<rparr>))"

lemma op_insert_Inr:
  "op_insert op d = Inr (x, d') \<Longrightarrow>
     \<exists>t. sql_insert r_id (op_create_row op) (t_operations d) = Inr t \<and> d' = d\<lparr>t_operations := t\<rparr>"
  by (auto simp: op_insert_def split: if_splits sum.splits)

lemma op_update_Inr:
  "op_update_stmt op d = Inr (x, d') \<Longrightarrow>
     d' = d\<lparr>t_operations := sql_update (op_update_where op) (op_update_row op) (t_operations d)\<rparr>"
  by (auto simp: op_update_stmt_def split: if_splits)

lemma op_update_lookup:
  assumes "op_update_stmt op d = Inr ((), d')"
  shows "op_lookup k (t_operations d') =
     map_option (\<lambda>r. if op_update_where op r then op_update_row op r else r)
       (op_lookup k (t_operations d))"
  using assms op_table.get_after_update [of "op_update_row op"]
  by (auto simp: op_update_stmt_def split: if_splits)

lemma op_update_stmt_no_match:
  "(\<And>r. r \<in> set (t_operations d) \<Longrightarrow> \<not> op_update_where op r) \<Longrightarrow>
     op_update_stmt op d = Inr ((), d)"
  by (simp add: op_update_stmt_def sql_update_cong_set)

text \<open>
  How the table of operations evolves, whatever the program does: no row disappears or moves, the
  columns no statement sets keep their values, and a row that changes gets a higher version.
\<close>

definition row_evolves :: "op_row \<Rightarrow> op_row \<Rightarrow> bool" where
  "row_evolves r r' =
     (r_id r' = r_id r \<and> r_max_attempts r' = r_max_attempts r \<and>
      r_created_at r' = r_created_at r \<and> r_client_reference r' = r_client_reference r \<and>
      r_deadline r' = r_deadline r \<and> (r' = r \<or> r_version r < r_version r'))"

definition ops_evolve :: "db \<Rightarrow> db \<Rightarrow> bool" where
  "ops_evolve d d' =
     (length (t_operations d) \<le> length (t_operations d') \<and>
      (\<forall>i<length (t_operations d). row_evolves (t_operations d ! i) (t_operations d' ! i)))"

lemma row_evolves_trans: "row_evolves a b \<Longrightarrow> row_evolves b c \<Longrightarrow> row_evolves a c"
  by (auto simp: row_evolves_def)

interpretation evolve: db_guarantee ops_evolve
proof
  show "ops_evolve d d" for d by (simp add: ops_evolve_def row_evolves_def)
next
  fix d1 d2 d3
  assume "ops_evolve d1 d2" "ops_evolve d2 d3"
  then show "ops_evolve d1 d3"
    unfolding ops_evolve_def by (meson le_trans order_less_le_trans row_evolves_trans)
qed

lemma sql_update_evolves:
  assumes "\<And>r. r \<in> set (t_operations d) \<Longrightarrow> p r \<Longrightarrow> row_evolves r (f r)"
  shows "ops_evolve d (d\<lparr>t_operations := sql_update p f (t_operations d)\<rparr>)"
  using assms by (auto simp: ops_evolve_def sql_update_def row_evolves_def)

lemma op_insert_evolves: "stmt_keeps ops_evolve (op_insert op)"
  by (auto simp: stmt_keeps_def op_insert_def ops_evolve_def sql_insert_def nth_append row_evolves_def
      split: if_splits sum.splits)

lemma op_update_evolves: "stmt_keeps ops_evolve (op_update_stmt op)"
  unfolding stmt_keeps_def op_update_stmt_def
  by (auto intro!: sql_update_evolves simp: op_update_where_def row_evolves_def split: if_splits)

lemma op_transition_evolves: "stmt_keeps ops_evolve (op_transition_stmt i from_st to_st v now)"
  unfolding stmt_keeps_def op_transition_stmt_def Let_def
  by (auto intro!: sql_update_evolves simp: op_transition_row_def row_evolves_def split: if_splits)

text \<open>A statement that leaves the table of operations alone.\<close>

lemma untouched_evolves:
  "(\<And>d x d'. g d = Inr (x, d') \<Longrightarrow> t_operations d' = t_operations d) \<Longrightarrow> stmt_keeps ops_evolve g"
  by (auto simp: stmt_keeps_def ops_evolve_def row_evolves_def)

lemmas op_repo_defs = op_create_def op_get_by_id_def op_update_def op_transition_def op_list_def

lemma op_repo_evolves:
  "keeps ops_evolve (op_create op)" "keeps ops_evolve (op_get_by_id i)"
  "keeps ops_evolve (op_update op)" "keeps ops_evolve (op_transition i a b v)"
  "keeps ops_evolve (op_list fl)"
  unfolding op_repo_defs
  by (intro evolve.keeps_intros evolve.keeps_exec_db op_insert_evolves op_update_evolves
      op_transition_evolves)+

text \<open>Ids stay distinct.\<close>

definition op_ids_distinct :: "db \<Rightarrow> bool" where
  "op_ids_distinct d = keys_distinct r_id (t_operations d)"

lemma op_insert_ids_distinct:
  "op_insert op d = Inr (x, d') \<Longrightarrow> op_ids_distinct d \<Longrightarrow> op_ids_distinct d'"
  by (auto simp: op_insert_def op_ids_distinct_def dest: op_table.put_distinct
      split: if_splits sum.splits)

lemma op_update_ids_distinct:
  "op_update_stmt op d = Inr (x, d') \<Longrightarrow> op_ids_distinct d \<Longrightarrow> op_ids_distinct d'"
  by (auto simp: op_update_stmt_def op_ids_distinct_def intro!: op_table.update_distinct
      split: if_splits)

lemma op_lookup_unique:
  "op_ids_distinct d \<Longrightarrow> r \<in> set (t_operations d) \<Longrightarrow> op_lookup (r_id r) (t_operations d) = Some r"
  by (simp add: op_table.get_Some_iff op_ids_distinct_def)

end
