(* ===== verification/Job_Repos.thy ===== *)
theory Job_Repos
  imports Operation_Repo
begin

text \<open>
  The repositories of jobs, attempts, transfers and chunks (\<open>job_repository.go\<close>,
  \<open>attempt_repository.go\<close>, \<open>transfer_repository.go\<close>, \<open>chunk_repository.go\<close>, \<open>rowToJob\<close> of
  \<open>mariadb.go\<close>). The updates here compare the struct's own version and store the next one, unlike
  the update of operations; no row matching is not an error here either.
\<close>

section \<open>Jobs\<close>

fun job_status_string :: "job_status \<Rightarrow> string" where
  "job_status_string JobStatusCreated = ''CREATED''"
| "job_status_string JobStatusAssigned = ''ASSIGNED''"
| "job_status_string JobStatusDispatched = ''DISPATCHED''"
| "job_status_string JobStatusAcknowledged = ''ACKNOWLEDGED''"
| "job_status_string JobStatusExecuting = ''EXECUTING''"
| "job_status_string JobStatusSucceeded = ''SUCCEEDED''"
| "job_status_string JobStatusFailed = ''FAILED''"
| "job_status_string JobStatusTimeout = ''TIMEOUT''"
| "job_status_string JobStatusCancelled = ''CANCELLED''"

text \<open>\<open>Create\<close> fills eight columns; the time columns and the error columns stay NULL.\<close>

definition job_create_row :: "job \<Rightarrow> job_row" where
  "job_create_row j =
     \<lparr>job_id = job_id j, job_operation_id = job_operation_id j,
      job_worker_node_id = job_worker_node_id j, job_status = job_status j,
      job_processor = job_processor j, job_requirements = job_requirements j,
      job_assigned_at = datetime6 (job_assigned_at j), job_dispatched_at = None,
      job_acknowledged_at = None, job_completed_at = None, job_error = None,
      job_version = job_version j, jr_err = no_err_cols\<rparr>"

definition row_to_job :: "job_row \<Rightarrow> job" where
  "row_to_job r =
     \<lparr>job_id = job_id r, job_operation_id = job_operation_id r,
      job_worker_node_id = job_worker_node_id r, job_status = job_status r,
      job_processor = job_processor r,
      job_requirements = map_option json_map_any (job_requirements r),
      job_assigned_at = job_assigned_at r, job_dispatched_at = job_dispatched_at r,
      job_acknowledged_at = job_acknowledged_at r, job_completed_at = job_completed_at r,
      job_error = cols_to_error (jr_err r), job_version = job_version r\<rparr>"

definition job_row_fits :: "job_row \<Rightarrow> bool" where
  "job_row_fits r =
     (varchar 64 (job_id r) \<and> varchar 64 (job_operation_id r) \<and> varchar 128 (job_worker_node_id r) \<and>
      varchar 32 (job_status_string (job_status r)) \<and> varchar 128 (job_processor r) \<and>
      err_cols_fit (jr_err r) \<and> sql_int (job_version r))"

definition job_lookup :: "string \<Rightarrow> job_row list \<Rightarrow> job_row option" where
  "job_lookup k t = sql_first (\<lambda>r. job_id r = k) t"

interpretation job_table: keyed_table job_id job_lookup "sql_insert job_id"
  by unfold_locales (simp_all add: job_lookup_def)

definition job_insert :: "job \<Rightarrow> unit stmt" where
  "job_insert j d =
     (if \<not> job_row_fits (job_create_row j) then Inl (ErrSQL ''data too long'')
      else case sql_insert job_id (job_create_row j) (t_jobs d) of
        Inl e \<Rightarrow> Inl e
      | Inr t \<Rightarrow> Inr ((), d\<lparr>t_jobs := t\<rparr>))"

definition job_create :: "job \<Rightarrow> unit io" where
  "job_create j = exec_db ''insert jobs'' (job_insert j)"

definition job_get_by_id :: "string \<Rightarrow> job io" where
  "job_get_by_id i =
     query_db ''select jobs'' (\<lambda>d.
       case job_lookup i (t_jobs d) of
         None \<Rightarrow> Inl ErrPortsOperationNotFound
       | Some r \<Rightarrow> Inr (row_to_job r))"

text \<open>\<open>ORDER BY assigned_at DESC LIMIT 1\<close>.\<close>

definition job_get_by_operation_id :: "string \<Rightarrow> job option io" where
  "job_get_by_operation_id oid =
     query_db ''select jobs'' (\<lambda>d.
       Inr (case sql_limit 1 (sql_order_by (\<lambda>r. - job_assigned_at r)
               (filter (\<lambda>r. job_operation_id r = oid) (t_jobs d))) of
         [] \<Rightarrow> None
       | r # _ \<Rightarrow> Some (row_to_job r)))"

definition job_update_row :: "job \<Rightarrow> job_row \<Rightarrow> job_row" where
  "job_update_row j r = r\<lparr>
     job_status := job_status j, job_worker_node_id := job_worker_node_id j,
     job_processor := job_processor j, job_requirements := job_requirements j,
     job_dispatched_at := map_option datetime6 (job_dispatched_at j),
     job_acknowledged_at := map_option datetime6 (job_acknowledged_at j),
     job_completed_at := map_option datetime6 (job_completed_at j),
     jr_err := error_to_cols (job_error j), job_version := job_version j + 1\<rparr>"

definition job_update_stmt :: "job \<Rightarrow> unit stmt" where
  "job_update_stmt j d =
     (let p = (\<lambda>r. job_id r = job_id j \<and> job_version r = job_version j) in
      if \<forall>r\<in>set (t_jobs d). p r \<longrightarrow> job_row_fits (job_update_row j r)
      then Inr ((), d\<lparr>t_jobs := sql_update p (job_update_row j) (t_jobs d)\<rparr>)
      else Inl (ErrSQL ''data too long''))"

definition job_update :: "job \<Rightarrow> unit io" where
  "job_update j = exec_db ''update jobs'' (job_update_stmt j)"

definition job_list_pending :: "int \<Rightarrow> job list io" where
  "job_list_pending limit =
     query_db ''select jobs'' (\<lambda>d.
       Inr (map row_to_job (sql_limit limit (sql_order_by job_assigned_at
         (filter (\<lambda>r. job_status r = JobStatusCreated \<or> job_status r = JobStatusAssigned)
           (t_jobs d))))))"

section \<open>Attempts\<close>

fun attempt_status_string :: "attempt_status \<Rightarrow> string" where
  "attempt_status_string AttemptStatusPending = ''PENDING''"
| "attempt_status_string AttemptStatusCommandSent = ''COMMAND_SENT''"
| "attempt_status_string AttemptStatusAcknowledged = ''ACKNOWLEDGED''"
| "attempt_status_string AttemptStatusTransferring = ''TRANSFERRING''"
| "attempt_status_string AttemptStatusTransferred = ''TRANSFERRED''"
| "attempt_status_string AttemptStatusProcessing = ''PROCESSING''"
| "attempt_status_string AttemptStatusSucceeded = ''SUCCEEDED''"
| "attempt_status_string AttemptStatusFailed = ''FAILED''"
| "attempt_status_string AttemptStatusTimeout = ''TIMEOUT''"
| "attempt_status_string AttemptStatusCancelled = ''CANCELLED''"

definition attempt_create_row :: "job_attempt \<Rightarrow> attempt_row" where
  "attempt_create_row a =
     \<lparr>att_id = att_id a, att_job_id = att_job_id a, att_operation_id = att_operation_id a,
      att_node_id = att_node_id a, att_attempt_number = att_attempt_number a,
      att_status = att_status a, att_command_id = att_command_id a,
      att_claim_token = att_claim_token a, att_lease_until = datetime6 (att_lease_until a),
      att_processing_id = att_processing_id a, att_error = None,
      att_started_at = map_option datetime6 (att_started_at a),
      att_completed_at = map_option datetime6 (att_completed_at a),
      att_version = att_version a, ar_err = error_to_cols (att_error a)\<rparr>"

definition row_to_attempt :: "attempt_row \<Rightarrow> job_attempt" where
  "row_to_attempt r = (job_attempt.truncate r)\<lparr>att_error := cols_to_error (ar_err r)\<rparr>"

definition attempt_row_fits :: "attempt_row \<Rightarrow> bool" where
  "attempt_row_fits r =
     (varchar 64 (att_id r) \<and> varchar 64 (att_job_id r) \<and> varchar 64 (att_operation_id r) \<and>
      varchar 128 (att_node_id r) \<and> sql_int (att_attempt_number r) \<and>
      varchar 32 (attempt_status_string (att_status r)) \<and>
      varchar 128 (att_command_id r) \<and> varchar 128 (att_claim_token r) \<and>
      varchar_opt 128 (att_processing_id r) \<and> err_cols_fit (ar_err r) \<and> sql_int (att_version r))"

text \<open>The command id has a unique index beside the primary key.\<close>

definition attempt_insert :: "job_attempt \<Rightarrow> unit stmt" where
  "attempt_insert a d =
     (if \<not> attempt_row_fits (attempt_create_row a) then Inl (ErrSQL ''data too long'')
      else if \<exists>x\<in>set (t_attempts d). att_command_id x = att_command_id a
      then Inl (ErrSQL ''duplicate entry'')
      else case sql_insert att_id (attempt_create_row a) (t_attempts d) of
        Inl e \<Rightarrow> Inl e
      | Inr t \<Rightarrow> Inr ((), d\<lparr>t_attempts := t\<rparr>))"

definition attempt_create :: "job_attempt \<Rightarrow> unit io" where
  "attempt_create a = exec_db ''insert job_attempts'' (attempt_insert a)"

definition attempt_get_by_id :: "string \<Rightarrow> job_attempt io" where
  "attempt_get_by_id i =
     query_db ''select job_attempts'' (\<lambda>d.
       case sql_first (\<lambda>r. att_id r = i) (t_attempts d) of
         None \<Rightarrow> Inl ErrPortsOperationNotFound
       | Some r \<Rightarrow> Inr (row_to_attempt r))"

definition attempt_get_active_by_job_id :: "string \<Rightarrow> job_attempt option io" where
  "attempt_get_active_by_job_id j =
     query_db ''select job_attempts'' (\<lambda>d.
       Inr (case sql_limit 1 (sql_order_by (\<lambda>r. - att_attempt_number r)
               (filter (\<lambda>r. att_job_id r = j \<and> att_status r \<notin>
                  {AttemptStatusSucceeded, AttemptStatusFailed, AttemptStatusCancelled})
                 (t_attempts d))) of
         [] \<Rightarrow> None
       | r # _ \<Rightarrow> Some (row_to_attempt r)))"

definition attempt_update_row :: "job_attempt \<Rightarrow> attempt_row \<Rightarrow> attempt_row" where
  "attempt_update_row a r = r\<lparr>
     att_status := att_status a, att_processing_id := att_processing_id a,
     ar_err := error_to_cols (att_error a),
     att_started_at := map_option datetime6 (att_started_at a),
     att_completed_at := map_option datetime6 (att_completed_at a),
     att_version := att_version a + 1\<rparr>"

definition attempt_update_stmt :: "job_attempt \<Rightarrow> unit stmt" where
  "attempt_update_stmt a d =
     (let p = (\<lambda>r. att_id r = att_id a \<and> att_version r = att_version a) in
      if \<forall>r\<in>set (t_attempts d). p r \<longrightarrow> attempt_row_fits (attempt_update_row a r)
      then Inr ((), d\<lparr>t_attempts := sql_update p (attempt_update_row a) (t_attempts d)\<rparr>)
      else Inl (ErrSQL ''data too long''))"

definition attempt_update :: "job_attempt \<Rightarrow> unit io" where
  "attempt_update a = exec_db ''update job_attempts'' (attempt_update_stmt a)"

section \<open>Transfers\<close>

fun transfer_status_string :: "transfer_status \<Rightarrow> string" where
  "transfer_status_string TransferStatusCreated = ''CREATED''"
| "transfer_status_string TransferStatusAccepted = ''ACCEPTED''"
| "transfer_status_string TransferStatusTransferring = ''TRANSFERRING''"
| "transfer_status_string TransferStatusVerifying = ''VERIFYING''"
| "transfer_status_string TransferStatusCompleted = ''COMPLETED''"
| "transfer_status_string TransferStatusFailed = ''FAILED''"
| "transfer_status_string TransferStatusTimeout = ''TIMEOUT''"
| "transfer_status_string TransferStatusCancelled = ''CANCELLED''"

definition transfer_create_row :: "file_transfer \<Rightarrow> transfer_row" where
  "transfer_create_row t =
     \<lparr>tr_id = tr_id t, tr_attempt_id = tr_attempt_id t, tr_operation_id = tr_operation_id t,
      tr_file_id = tr_file_id t, tr_source_node_id = tr_source_node_id t,
      tr_destination_node_id = tr_destination_node_id t,
      tr_file_size_bytes = tr_file_size_bytes t, tr_chunk_size_bytes = tr_chunk_size_bytes t,
      tr_total_chunks = tr_total_chunks t, tr_file_checksum = tr_file_checksum t,
      tr_checksum_algorithm = tr_checksum_algorithm t, tr_status = tr_status t,
      tr_staging_path = tr_staging_path t,
      tr_staging_reservation_id = tr_staging_reservation_id t,
      tr_deadline_at = datetime6 (tr_deadline_at t), tr_accepted_at = None,
      tr_completed_at = None, tr_received_chunks = tr_received_chunks t, tr_error = None,
      tr_version = tr_version t, xr_err = no_err_cols\<rparr>"

definition row_to_transfer :: "transfer_row \<Rightarrow> file_transfer" where
  "row_to_transfer r = (file_transfer.truncate r)\<lparr>tr_error := cols_to_error (xr_err r)\<rparr>"

definition transfer_row_fits :: "transfer_row \<Rightarrow> bool" where
  "transfer_row_fits r =
     (varchar 64 (tr_id r) \<and> varchar 64 (tr_attempt_id r) \<and> varchar 64 (tr_operation_id r) \<and>
      varchar 64 (tr_file_id r) \<and> varchar 128 (tr_source_node_id r) \<and>
      varchar 128 (tr_destination_node_id r) \<and> sql_bigint (tr_file_size_bytes r) \<and>
      sql_bigint (tr_chunk_size_bytes r) \<and> sql_int (tr_total_chunks r) \<and>
      varchar 32 (transfer_status_string (tr_status r)) \<and>
      varchar 64 (tr_file_checksum r) \<and> varchar 32 (tr_checksum_algorithm r) \<and>
      varchar 512 (tr_staging_path r) \<and> varchar_opt 128 (tr_staging_reservation_id r) \<and>
      sql_int (tr_received_chunks r) \<and> err_cols_fit (xr_err r) \<and> sql_int (tr_version r))"

definition transfer_lookup :: "string \<Rightarrow> transfer_row list \<Rightarrow> transfer_row option" where
  "transfer_lookup k t = sql_first (\<lambda>r. tr_id r = k) t"

interpretation transfer_table: keyed_table tr_id transfer_lookup "sql_insert tr_id"
  by unfold_locales (simp_all add: transfer_lookup_def)

definition transfer_insert :: "file_transfer \<Rightarrow> unit stmt" where
  "transfer_insert x d =
     (if \<not> transfer_row_fits (transfer_create_row x) then Inl (ErrSQL ''data too long'')
      else case sql_insert tr_id (transfer_create_row x) (t_transfers d) of
        Inl e \<Rightarrow> Inl e
      | Inr t \<Rightarrow> Inr ((), d\<lparr>t_transfers := t\<rparr>))"

definition transfer_create :: "file_transfer \<Rightarrow> unit io" where
  "transfer_create x = exec_db ''insert file_transfers'' (transfer_insert x)"

definition transfer_get_by_id :: "string \<Rightarrow> file_transfer io" where
  "transfer_get_by_id i =
     query_db ''select file_transfers'' (\<lambda>d.
       case transfer_lookup i (t_transfers d) of
         None \<Rightarrow> Inl ErrPortsOperationNotFound
       | Some r \<Rightarrow> Inr (row_to_transfer r))"

definition transfer_get_by_attempt_id :: "string \<Rightarrow> file_transfer option io" where
  "transfer_get_by_attempt_id a =
     query_db ''select file_transfers'' (\<lambda>d.
       Inr (map_option row_to_transfer (sql_first (\<lambda>r. tr_attempt_id r = a) (t_transfers d))))"

definition transfer_update_row :: "file_transfer \<Rightarrow> transfer_row \<Rightarrow> transfer_row" where
  "transfer_update_row x r = r\<lparr>
     tr_status := tr_status x, tr_accepted_at := map_option datetime6 (tr_accepted_at x),
     tr_completed_at := map_option datetime6 (tr_completed_at x),
     tr_received_chunks := tr_received_chunks x, xr_err := error_to_cols (tr_error x),
     tr_version := tr_version x + 1\<rparr>"

definition transfer_update_where :: "file_transfer \<Rightarrow> transfer_row \<Rightarrow> bool" where
  "transfer_update_where x r = (tr_id r = tr_id x \<and> tr_version r = tr_version x)"

definition transfer_update_stmt :: "file_transfer \<Rightarrow> unit stmt" where
  "transfer_update_stmt x d =
     (if \<forall>r\<in>set (t_transfers d).
          transfer_update_where x r \<longrightarrow> transfer_row_fits (transfer_update_row x r)
      then Inr ((), d\<lparr>t_transfers :=
        sql_update (transfer_update_where x) (transfer_update_row x) (t_transfers d)\<rparr>)
      else Inl (ErrSQL ''data too long''))"

definition transfer_update :: "file_transfer \<Rightarrow> unit io" where
  "transfer_update x = exec_db ''update file_transfers'' (transfer_update_stmt x)"

section \<open>Chunks\<close>

definition chunk_row :: "file_chunk \<Rightarrow> file_chunk" where
  "chunk_row c = c\<lparr>ck_received_at := map_option datetime6 (ck_received_at c),
                   ck_acknowledged_at := map_option datetime6 (ck_acknowledged_at c)\<rparr>"

definition chunk_row_fits :: "file_chunk \<Rightarrow> bool" where
  "chunk_row_fits c =
     (varchar 192 (ck_id c) \<and> varchar 64 (ck_transfer_id c) \<and> sql_int (ck_chunk_index c) \<and>
      sql_bigint (ck_chunk_offset c) \<and> sql_bigint (ck_chunk_size c) \<and>
      varchar 64 (ck_checksum c) \<and> varchar 32 (ck_publish_state c) \<and> varchar 32 (ck_ack_state c) \<and>
      sql_int (ck_version c))"

text \<open>
  A row is a duplicate when it has the same id or the same transfer and index, which is a unique
  index too; the first duplicate is then updated. The update counts the version up; that the count
  reaches the bound of the column, after 2^31 deliveries of one chunk, is left out.
\<close>

definition chunk_duplicate :: "file_chunk \<Rightarrow> file_chunk \<Rightarrow> bool" where
  "chunk_duplicate c r =
     (ck_id r = ck_id c \<or>
      ck_transfer_id r = ck_transfer_id c \<and> ck_chunk_index r = ck_chunk_index c)"

definition chunk_overwrite :: "file_chunk \<Rightarrow> file_chunk \<Rightarrow> file_chunk" where
  "chunk_overwrite c r = r\<lparr>
     ck_chunk_size := ck_chunk_size c, ck_checksum := ck_checksum c,
     ck_publish_state := ck_publish_state c, ck_ack_state := ck_ack_state c,
     ck_acknowledged_at := ck_acknowledged_at c, ck_version := ck_version r + 1\<rparr>"

fun update_first :: "('r \<Rightarrow> bool) \<Rightarrow> ('r \<Rightarrow> 'r) \<Rightarrow> 'r list \<Rightarrow> 'r list" where
  "update_first p f [] = []"
| "update_first p f (r # rs) = (if p r then f r # rs else r # update_first p f rs)"

definition chunk_upsert_stmt :: "file_chunk \<Rightarrow> unit stmt" where
  "chunk_upsert_stmt c d =
     (let r = chunk_row c in
      if \<not> chunk_row_fits r then Inl (ErrSQL ''data too long'')
      else if \<exists>x\<in>set (t_chunks d). chunk_duplicate r x
      then Inr ((), d\<lparr>t_chunks := update_first (chunk_duplicate r) (chunk_overwrite r) (t_chunks d)\<rparr>)
      else Inr ((), d\<lparr>t_chunks := t_chunks d @ [r]\<rparr>))"

definition chunk_upsert :: "file_chunk \<Rightarrow> unit io" where
  "chunk_upsert c = exec_db ''upsert file_chunks'' (chunk_upsert_stmt c)"

definition chunk_get_by_transfer_id :: "string \<Rightarrow> file_chunk list io" where
  "chunk_get_by_transfer_id i =
     query_db ''select file_chunks'' (\<lambda>d.
       Inr (sql_order_by ck_chunk_index (filter (\<lambda>c. ck_transfer_id c = i) (t_chunks d))))"

definition chunk_count_received :: "string \<Rightarrow> int io" where
  "chunk_count_received i =
     query_db ''count file_chunks'' (\<lambda>d.
       Inr (int (length (filter (\<lambda>c. ck_transfer_id c = i \<and> ck_ack_state c = ''received'')
         (t_chunks d)))))"

section \<open>Facts\<close>

lemma status_columns_fit [simp]:
  "varchar 32 (job_status_string s)" "varchar 32 (attempt_status_string a)"
  "varchar 32 (transfer_status_string t)"
proof -
  show "varchar 32 (job_status_string s)" by (cases s) (simp_all add: varchar_short)
  show "varchar 32 (attempt_status_string a)" by (cases a) (simp_all add: varchar_short)
  show "varchar 32 (transfer_status_string t)" by (cases t) (simp_all add: varchar_short)
qed

lemma job_repo_evolves:
  "stmt_keeps ops_evolve (job_insert j)" "stmt_keeps ops_evolve (job_update_stmt j)"
  "stmt_keeps ops_evolve (attempt_insert a)" "stmt_keeps ops_evolve (attempt_update_stmt a)"
  "stmt_keeps ops_evolve (transfer_insert x)" "stmt_keeps ops_evolve (transfer_update_stmt x)"
  "stmt_keeps ops_evolve (chunk_upsert_stmt c)"
  by (rule untouched_evolves;
      auto simp: job_insert_def job_update_stmt_def attempt_insert_def attempt_update_stmt_def
        transfer_insert_def transfer_update_stmt_def chunk_upsert_stmt_def Let_def
        split: if_splits sum.splits)+

lemma row_to_transfer_simps [simp]:
  "tr_id (row_to_transfer r) = tr_id r" "tr_version (row_to_transfer r) = tr_version r"
  "tr_status (row_to_transfer r) = tr_status r"
  "tr_operation_id (row_to_transfer r) = tr_operation_id r"
  "tr_destination_node_id (row_to_transfer r) = tr_destination_node_id r"
  "tr_error (row_to_transfer r) = cols_to_error (xr_err r)"
  by (simp_all add: row_to_transfer_def file_transfer.defs)

end
