(* ===== verification/Node_Repo.thy ===== *)
theory Node_Repo
  imports Operation_Repo
begin

text \<open>
  The repositories of nodes and heartbeats (\<open>node_repository.go\<close>, \<open>heartbeat_repository.go\<close>) and the
  scheduler (\<open>application/scheduling/scheduler.go\<close>).
\<close>

section \<open>Nodes\<close>

fun node_status_string :: "node_status \<Rightarrow> string" where
  "node_status_string NodeStatusStarting = ''STARTING''"
| "node_status_string NodeStatusHealthy = ''HEALTHY''"
| "node_status_string NodeStatusDegraded = ''DEGRADED''"
| "node_status_string NodeStatusUnhealthy = ''UNHEALTHY''"
| "node_status_string NodeStatusDraining = ''DRAINING''"
| "node_status_string NodeStatusOffline = ''OFFLINE''"

definition node_fits :: "node \<Rightarrow> bool" where
  "node_fits n =
     (varchar 64 (nd_id n) \<and> varchar 64 (nd_incarnation_id n) \<and>
      varchar 32 (node_status_string (nd_status n)) \<and> sql_unsigned (nd_heartbeat_sequence n) \<and>
      sql_unsigned (nd_active_job_count n) \<and> sql_unsigned (nd_active_transfer_count n) \<and>
      sql_null sql_unsigned (nd_max_concurrent_jobs n) \<and>
      sql_null sql_unsigned (nd_disk_free_bytes n) \<and> sql_null sql_unsigned (nd_disk_total_bytes n))"

definition node_row :: "node \<Rightarrow> node" where
  "node_row n = n\<lparr>
     nd_incarnation_started_at := datetime6 (nd_incarnation_started_at n),
     nd_last_heartbeat_at := map_option datetime6 (nd_last_heartbeat_at n),
     nd_heartbeat_deadline_at := map_option datetime6 (nd_heartbeat_deadline_at n),
     nd_shutdown_deadline_at := map_option datetime6 (nd_shutdown_deadline_at n),
     nd_registered_at := datetime6 (nd_registered_at n),
     nd_updated_at := datetime6 (nd_updated_at n)\<rparr>"

definition row_to_node :: "node \<Rightarrow> node" where
  "row_to_node n = n\<lparr>
     nd_cpu_sample := map_option json_map_any (nd_cpu_sample n),
     nd_memory_sample := map_option json_map_any (nd_memory_sample n),
     nd_self_checks := map_option json_map_any (nd_self_checks n)\<rparr>"

definition node_lookup :: "string \<Rightarrow> node list \<Rightarrow> node option" where
  "node_lookup k t = sql_first (\<lambda>n. nd_id n = k) t"

interpretation node_table: keyed_table nd_id node_lookup "sql_insert nd_id"
  by unfold_locales (simp_all add: node_lookup_def)

text \<open>On a duplicate key every column but \<open>registered_at\<close> is overwritten.\<close>

definition node_upsert_stmt :: "node \<Rightarrow> unit stmt" where
  "node_upsert_stmt n d =
     (if \<not> node_fits n then Inl (ErrSQL ''data too long'')
      else Inr ((), d\<lparr>t_nodes := sql_upsert nd_id (node_row n)
        (\<lambda>x. (node_row n)\<lparr>nd_registered_at := nd_registered_at x\<rparr>) (t_nodes d)\<rparr>))"

definition node_upsert :: "node \<Rightarrow> unit io" where
  "node_upsert n = exec_db ''upsert nodes'' (node_upsert_stmt n)"

definition node_get_by_id :: "string \<Rightarrow> node option io" where
  "node_get_by_id i =
     query_db ''select nodes'' (\<lambda>d. Inr (map_option row_to_node (node_lookup i (t_nodes d))))"

definition node_set_stmt :: "string \<Rightarrow> (node \<Rightarrow> node) \<Rightarrow> unit stmt" where
  "node_set_stmt i f d =
     (if \<exists>n\<in>set (t_nodes d). nd_id n = i \<and> \<not> node_fits (f n) then Inl (ErrSQL ''out of range'')
      else Inr ((), d\<lparr>t_nodes := sql_update (\<lambda>n. nd_id n = i) f (t_nodes d)\<rparr>))"

definition node_update_status :: "string \<Rightarrow> node_status \<Rightarrow> unit io" where
  "node_update_status i st =
     bindE time_now (\<lambda>now. exec_db ''update nodes'' (node_set_stmt i (\<lambda>n. n\<lparr>
       nd_status := st, nd_updated_at := datetime6 now\<rparr>)))"

definition node_update_heartbeat :: "string \<Rightarrow> int \<Rightarrow> int \<Rightarrow> unit io" where
  "node_update_heartbeat i sq deadline_at =
     bindE time_now (\<lambda>now1. bindE time_now (\<lambda>now2.
       exec_db ''update nodes'' (node_set_stmt i (\<lambda>n. n\<lparr>
         nd_heartbeat_sequence := sq, nd_last_heartbeat_at := Some (datetime6 now1),
         nd_heartbeat_deadline_at := Some (datetime6 deadline_at),
         nd_updated_at := datetime6 now2\<rparr>))))"

text \<open>\<open>WHERE status IN ('HEALTHY', 'DEGRADED') ORDER BY updated_at ASC\<close>.\<close>

definition healthy_nodes :: "node list \<Rightarrow> node list" where
  "healthy_nodes t =
     sql_order_by nd_updated_at
       (filter (\<lambda>n. nd_status n = NodeStatusHealthy \<or> nd_status n = NodeStatusDegraded) t)"

definition node_list_healthy :: "node list io" where
  "node_list_healthy =
     query_db ''select nodes'' (\<lambda>d. Inr (map row_to_node (healthy_nodes (t_nodes d))))"

section \<open>Heartbeats\<close>

definition heartbeat_key :: "heartbeat \<Rightarrow> string \<times> string \<times> int" where
  "heartbeat_key h = (hb_node_id h, hb_incarnation_id h, hb_sequence h)"

definition heartbeat_row :: "heartbeat \<Rightarrow> heartbeat" where
  "heartbeat_row h = h\<lparr>
     hb_shutdown_deadline_at := map_option datetime6 (hb_shutdown_deadline_at h),
     hb_observed_at := datetime6 (hb_observed_at h),
     hb_heartbeat_deadline_at := datetime6 (hb_heartbeat_deadline_at h)\<rparr>"

definition heartbeat_fits :: "heartbeat \<Rightarrow> bool" where
  "heartbeat_fits h =
     (varchar 64 (hb_node_id h) \<and> varchar 64 (hb_incarnation_id h) \<and> sql_unsigned (hb_sequence h) \<and>
      varchar 32 (node_status_string (hb_status h)) \<and> sql_unsigned (hb_active_jobs h) \<and>
      sql_unsigned (hb_active_transfers h))"

definition heartbeat_insert_stmt :: "heartbeat \<Rightarrow> unit stmt" where
  "heartbeat_insert_stmt h d =
     (if \<not> heartbeat_fits h then Inl (ErrSQL ''data too long'')
      else case sql_insert heartbeat_key (heartbeat_row h) (t_heartbeats d) of
        Inl e \<Rightarrow> Inl e
      | Inr t \<Rightarrow> Inr ((), d\<lparr>t_heartbeats := t\<rparr>))"

definition heartbeat_insert :: "heartbeat \<Rightarrow> unit io" where
  "heartbeat_insert h = exec_db ''insert node_heartbeats'' (heartbeat_insert_stmt h)"

definition heartbeat_get_latest :: "string \<Rightarrow> heartbeat option io" where
  "heartbeat_get_latest i =
     query_db ''select node_heartbeats'' (\<lambda>d.
       Inr (case sql_limit 1 (sql_order_by (\<lambda>h. - hb_sequence h)
               (filter (\<lambda>h. hb_node_id h = i) (t_heartbeats d))) of
         [] \<Rightarrow> None
       | h # _ \<Rightarrow> Some (h\<lparr>hb_resources := map_option json_map_any (hb_resources h),
                       hb_self_checks := map_option json_map_any (hb_self_checks h)\<rparr>)))"

section \<open>Scheduler\<close>

record schedule_result =
  sr_node_id :: string
  sr_reason :: string

text \<open>
  \<open>SelectWorker\<close> scans the candidates, and the roles of each, for the first role \<open>worker\<close> or
  \<open>hybrid\<close>.
\<close>

fun first_worker :: "node list \<Rightarrow> schedule_result option" where
  "first_worker [] = None"
| "first_worker (n # ns) =
     (if list_ex (\<lambda>r. r = ''worker'' \<or> r = ''hybrid'') (nd_roles n)
      then Some \<lparr>sr_node_id = nd_id n, sr_reason = ''first_healthy_worker''\<rparr>
      else first_worker ns)"

definition select_worker :: "schedule_result io" where
  "select_worker =
     bindE node_list_healthy (\<lambda>candidates.
       case first_worker candidates of
         None \<Rightarrow> fail ErrNoHealthyWorker
       | Some s \<Rightarrow> ret s)"

section \<open>Facts\<close>

lemma node_repo_evolves:
  "stmt_keeps ops_evolve (node_upsert_stmt n)" "stmt_keeps ops_evolve (node_set_stmt i f)"
  "stmt_keeps ops_evolve (heartbeat_insert_stmt h)"
  by (rule untouched_evolves;
      auto simp: node_upsert_stmt_def node_set_stmt_def heartbeat_insert_stmt_def
        split: if_splits sum.splits)+

text \<open>What makes a node eligible for work.\<close>

definition eligible :: "node \<Rightarrow> bool" where
  "eligible n =
     ((nd_status n = NodeStatusHealthy \<or> nd_status n = NodeStatusDegraded) \<and>
      (''worker'' \<in> set (nd_roles n) \<or> ''hybrid'' \<in> set (nd_roles n)))"

lemma first_worker_None:
  "first_worker ns = None \<longleftrightarrow>
     (\<forall>n\<in>set ns. ''worker'' \<notin> set (nd_roles n) \<and> ''hybrid'' \<notin> set (nd_roles n))"
  by (induction ns) (auto simp: list_ex_iff)

lemma first_worker_Some:
  "first_worker ns = Some s \<Longrightarrow>
     \<exists>pre n post. ns = pre @ n # post \<and> sr_node_id s = nd_id n \<and>
       (''worker'' \<in> set (nd_roles n) \<or> ''hybrid'' \<in> set (nd_roles n)) \<and>
       (\<forall>m\<in>set pre. ''worker'' \<notin> set (nd_roles m) \<and> ''hybrid'' \<notin> set (nd_roles m))"
proof (induction ns)
  case Nil
  then show ?case by simp
next
  case (Cons a ns)
  show ?case
  proof (cases "list_ex (\<lambda>r. r = ''worker'' \<or> r = ''hybrid'') (nd_roles a)")
    case True
    with Cons.prems have "sr_node_id s = nd_id a" by auto
    moreover have "''worker'' \<in> set (nd_roles a) \<or> ''hybrid'' \<in> set (nd_roles a)"
      using True by (auto simp: list_ex_iff)
    ultimately show ?thesis by (intro exI [of _ "[]"] exI [of _ a] exI [of _ ns]) simp
  next
    case False
    with Cons.prems have "first_worker ns = Some s" by simp
    then obtain pre n post where
      "ns = pre @ n # post" "sr_node_id s = nd_id n"
      "''worker'' \<in> set (nd_roles n) \<or> ''hybrid'' \<in> set (nd_roles n)"
      "\<forall>m\<in>set pre. ''worker'' \<notin> set (nd_roles m) \<and> ''hybrid'' \<notin> set (nd_roles m)"
      using Cons.IH by blast
    moreover have "''worker'' \<notin> set (nd_roles a) \<and> ''hybrid'' \<notin> set (nd_roles a)"
      using False by (auto simp: list_ex_iff)
    ultimately show ?thesis
      by (intro exI [of _ "a # pre"] exI [of _ n] exI [of _ post]) simp
  qed
qed

end
