(* ===== verification/Nats_Client.thy ===== *)
theory Nats_Client
  imports Operation_Repo
begin

text \<open>
  The NATS client (\<open>infrastructure/nats/client.go\<close>, \<open>subjects.go\<close>): subjects, publishing and
  subscribing. Connecting and draining, and the fields extracted for log lines, are not modelled. A
  message body carries a JSON document or the raw bytes of a chunk.
\<close>

definition node_command_subject :: "string \<Rightarrow> string" where
  "node_command_subject n = ''control.node.'' @ n @ ''.commands''"

definition subject_coordinator_events :: string where
  "subject_coordinator_events = ''control.events''"

definition node_events_subject :: "string \<Rightarrow> string" where
  "node_events_subject n = ''control.nodes.'' @ n @ ''.events''"

definition transfer_chunks_subject :: "string \<Rightarrow> string" where
  "transfer_chunks_subject t = ''data.transfer.'' @ t @ ''.chunks''"

definition nats_publish :: "string \<Rightarrow> body \<Rightarrow> unit io" where
  "nats_publish subj b = wrap_err (''publish '' @ subj) (publish subj [] b)"

definition publish_with_headers :: "string \<Rightarrow> bytes \<Rightarrow> (string \<times> string) list \<Rightarrow> unit io" where
  "publish_with_headers subj data hs =
     wrap_err (''publish with headers '' @ subj) (publish subj hs (BodyRaw data))"

definition publish_command :: "string \<Rightarrow> string \<Rightarrow> json \<Rightarrow> unit io" where
  "publish_command node_id command_type payload =
     (let subj = node_command_subject node_id in
      wrap_err (''publish command '' @ command_type @ '' to '' @ subj)
        (publish subj [] (BodyJson payload)))"

definition publish_event :: "string \<Rightarrow> json \<Rightarrow> unit io" where
  "publish_event event_type payload =
     wrap_err (''publish event '' @ event_type @ '' to '' @ subject_coordinator_events)
       (publish subject_coordinator_events [] (BodyJson payload))"

text \<open>
  \<open>Subscribe\<close>: create or update the durable consumer, then consume it. The world records the pair.
\<close>

definition nats_subscribe :: "string \<Rightarrow> string \<Rightarrow> unit io" where
  "nats_subscribe subj consumer =
     bindE (wrap_err (''create consumer '' @ consumer @ '' for '' @ subj)
       (extern ''create consumer'' (ret ()))) (\<lambda>_.
     wrap_err (''consume '' @ subj) (extern ''consume''
       (modify_world (\<lambda>w. w\<lparr>subscribed := subscribed w @ [(consumer, subj)]\<rparr>))))"

text \<open>Distinct transfers have distinct chunk subjects.\<close>

lemma transfer_chunks_subject_inj:
  "transfer_chunks_subject a = transfer_chunks_subject b \<Longrightarrow> a = b"
  by (simp add: transfer_chunks_subject_def)

lemma node_command_subject_inj: "node_command_subject a = node_command_subject b \<Longrightarrow> a = b"
  by (simp add: node_command_subject_def)

context db_guarantee
begin

lemma keeps_nats:
  "keeps R (nats_publish subj b)" "keeps R (publish_with_headers subj data hs)"
  "keeps R (publish_command n c j)" "keeps R (publish_event t j)"
  "keeps R (nats_subscribe subj consumer)"
  unfolding nats_publish_def publish_with_headers_def publish_command_def publish_event_def
    nats_subscribe_def Let_def
  by (intro keeps_intros keeps_extern keeps_modify; simp)+

end

end
