(* ===== verification/Log_Repos.thy ===== *)
theory Log_Repos
  imports Operation_Repo
begin

text \<open>
  The repositories of events, results and idempotency keys (\<open>event_repository.go\<close>,
  \<open>result_repository.go\<close>, \<open>idempotency_repository.go\<close>).
\<close>

section \<open>Events\<close>

definition event_row :: "operation_event \<Rightarrow> operation_event" where
  "event_row e = e\<lparr>ev_issued_at := datetime6 (ev_issued_at e)\<rparr>"

definition event_fits :: "operation_event \<Rightarrow> bool" where
  "event_fits e =
     (varchar 64 (ev_id e) \<and> varchar 64 (ev_operation_id e) \<and>
      varchar 64 (event_type_string (ev_type e)) \<and> varchar_opt 64 (ev_job_id e) \<and>
      varchar_opt 64 (ev_attempt_id e) \<and> varchar_opt 64 (ev_transfer_id e) \<and>
      varchar 64 (ev_correlation_id e) \<and> varchar 128 (ev_actor_node_id e) \<and>
      sql_int (ev_version e))"

definition event_append_stmt :: "operation_event \<Rightarrow> unit stmt" where
  "event_append_stmt e d =
     (if \<not> event_fits e then Inl (ErrSQL ''data too long'')
      else case sql_insert ev_id (event_row e) (t_events d) of
        Inl err \<Rightarrow> Inl err
      | Inr t \<Rightarrow> Inr ((), d\<lparr>t_events := t\<rparr>))"

definition event_append :: "operation_event \<Rightarrow> unit io" where
  "event_append e = exec_db ''insert operation_events'' (event_append_stmt e)"

definition event_get_by_operation_id :: "string \<Rightarrow> int \<Rightarrow> operation_event list io" where
  "event_get_by_operation_id oid limit =
     query_db ''select operation_events'' (\<lambda>d.
       Inr (map (\<lambda>e. e\<lparr>ev_payload := json_map_any (ev_payload e)\<rparr>)
         (sql_limit (if limit \<le> 0 then 100 else limit)
           (sql_order_by ev_issued_at (filter (\<lambda>e. ev_operation_id e = oid) (t_events d))))))"

section \<open>Results\<close>

definition result_row :: "op_result \<Rightarrow> op_result" where
  "result_row r = r\<lparr>rs_produced_at := datetime6 (rs_produced_at r),
                    rs_expires_at := map_option datetime6 (rs_expires_at r)\<rparr>"

definition result_fits :: "op_result \<Rightarrow> bool" where
  "result_fits r =
     (varchar 64 (rs_id r) \<and> varchar 64 (rs_operation_id r) \<and> varchar 128 (rs_processor r) \<and>
      sql_int (rs_schema_version r) \<and> sql_bigint (rs_size_bytes r) \<and> varchar 64 (rs_checksum r))"

text \<open>One result per operation: \<open>operation_id\<close> is unique.\<close>

definition result_insert :: "op_result \<Rightarrow> unit stmt" where
  "result_insert r d =
     (if \<not> result_fits r then Inl (ErrSQL ''data too long'')
      else if \<exists>x\<in>set (t_results d). rs_operation_id x = rs_operation_id r
      then Inl (ErrSQL ''duplicate entry'')
      else case sql_insert rs_id (result_row r) (t_results d) of
        Inl e \<Rightarrow> Inl e
      | Inr t \<Rightarrow> Inr ((), d\<lparr>t_results := t\<rparr>))"

definition result_create :: "op_result \<Rightarrow> unit io" where
  "result_create r = exec_db ''insert operation_results'' (result_insert r)"

definition result_get_by_operation_id :: "string \<Rightarrow> op_result option io" where
  "result_get_by_operation_id oid =
     query_db ''select operation_results'' (\<lambda>d.
       Inr (map_option (\<lambda>r. r\<lparr>rs_value := map_option json_map_any (rs_value r)\<rparr>)
         (sql_first (\<lambda>r. rs_operation_id r = oid) (t_results d))))"

section \<open>Idempotency keys\<close>

text \<open>
  The three statements name the key column \<open>key\<close>. They take the columns the table has as their first
  argument: with the columns of the migration they are rejected, and what they would do on a table
  that has the column is here too. The primary key is the key column alone, so a row stored for
  another method or path with the same key is overwritten and keeps its own method and path.
\<close>

definition idempotency_statement_columns :: "string list" where
  "idempotency_statement_columns =
     [''key'', ''method'', ''path'', ''fingerprint'', ''response'', ''expires_at'']"

definition idempotency_fits :: "idempotency_row \<Rightarrow> bool" where
  "idempotency_fits r =
     (varchar 128 (i_key r) \<and> varchar 16 (i_method r) \<and> varchar 256 (i_path r) \<and>
      varchar 256 (i_fingerprint r))"

definition idempotency_store_stmt :: "string list \<Rightarrow> idempotency_row \<Rightarrow> unit stmt" where
  "idempotency_store_stmt cols r d =
     (if \<not> columns_known cols idempotency_statement_columns then Inl (ErrSQL ''unknown column'')
      else if \<not> idempotency_fits r then Inl (ErrSQL ''data too long'')
      else Inr ((), d\<lparr>t_idempotency := sql_upsert i_key r
        (\<lambda>x. x\<lparr>i_fingerprint := i_fingerprint r, i_response := i_response r,
             i_expires_at := i_expires_at r\<rparr>) (t_idempotency d)\<rparr>))"

definition idempotency_store ::
  "string list \<Rightarrow> string \<Rightarrow> string \<Rightarrow> string \<Rightarrow> string \<Rightarrow> json \<Rightarrow> int \<Rightarrow> unit io" where
  "idempotency_store cols k m p fp response expires_at =
     exec_db ''upsert idempotency_keys'' (idempotency_store_stmt cols
       \<lparr>i_key = k, i_method = m, i_path = p, i_fingerprint = fp, i_response = response,
        i_expires_at = datetime6 expires_at\<rparr>)"

definition idempotency_get ::
  "string list \<Rightarrow> string \<Rightarrow> string \<Rightarrow> string \<Rightarrow> (string \<times> json \<times> int) io" where
  "idempotency_get cols k m p =
     bindE time_now (\<lambda>now. query_db ''select idempotency_keys'' (\<lambda>d.
       if \<not> columns_known cols idempotency_statement_columns then Inl (ErrSQL ''unknown column'')
       else case sql_first (\<lambda>r. i_key r = k \<and> i_method r = m \<and> i_path r = p \<and>
               i_expires_at r > datetime6 now) (t_idempotency d) of
         None \<Rightarrow> Inl ErrPortsOperationNotFound
       | Some r \<Rightarrow> Inr (i_fingerprint r, i_response r, i_expires_at r)))"

definition idempotency_delete :: "string list \<Rightarrow> string \<Rightarrow> string \<Rightarrow> string \<Rightarrow> unit io" where
  "idempotency_delete cols k m p =
     exec_db ''delete idempotency_keys'' (\<lambda>d.
       if \<not> columns_known cols [''key'', ''method'', ''path''] then Inl (ErrSQL ''unknown column'')
       else Inr ((), d\<lparr>t_idempotency := filter (\<lambda>r. \<not> (i_key r = k \<and> i_method r = m \<and> i_path r = p))
         (t_idempotency d)\<rparr>))"

section \<open>Facts\<close>

lemma log_repo_evolves:
  "stmt_keeps ops_evolve (event_append_stmt e)" "stmt_keeps ops_evolve (result_insert r)"
  "stmt_keeps ops_evolve (idempotency_store_stmt cols i)"
  by (rule untouched_evolves;
      auto simp: event_append_stmt_def result_insert_def idempotency_store_stmt_def
        split: if_splits sum.splits)+

text \<open>The event log only grows.\<close>

definition events_grow :: "db \<Rightarrow> db \<Rightarrow> bool" where
  "events_grow d d' = (\<exists>es. t_events d' = t_events d @ es)"

interpretation event_log: db_guarantee events_grow
proof
  show "events_grow d d" for d by (simp add: events_grow_def)
  show "events_grow d1 d2 \<Longrightarrow> events_grow d2 d3 \<Longrightarrow> events_grow d1 d3" for d1 d2 d3
    by (auto simp: events_grow_def)
qed

lemma untouched_events_grow:
  "(\<And>d x d'. g d = Inr (x, d') \<Longrightarrow> t_events d' = t_events d) \<Longrightarrow> stmt_keeps events_grow g"
  by (auto simp: stmt_keeps_def events_grow_def)

lemma event_append_grows: "stmt_keeps events_grow (event_append_stmt e)"
  by (auto simp: stmt_keeps_def events_grow_def event_append_stmt_def sql_insert_def
      split: if_splits sum.splits)

lemma schema_lacks_key_column:
  "\<not> columns_known idempotency_keys_columns idempotency_statement_columns"
  by (simp add: columns_known_def idempotency_keys_columns_def idempotency_statement_columns_def)

end
