(* ===== verification/Create_Op.thy ===== *)
theory Create_Op
  imports Log_Repos
begin

text \<open>
  The use case behind \<open>POST /operations\<close> (\<open>application/operations/create.go\<close>): the idempotency lookup,
  the new operation row, the event, and the store of the response under the key.
\<close>

section \<open>Inputs and outputs\<close>

record create_input =
  ci_processor :: string
  ci_options :: json_map
  ci_metadata :: json_map
  ci_deadline :: "int option"
  ci_retry_policy :: "int option"
  ci_client_reference :: string

record create_output =
  co_operation_id :: string
  co_status :: op_status
  co_stage :: op_stage
  co_upload_target :: upload_target
  co_status_url :: string
  co_result_url :: string
  co_created_at :: int
  co_version :: int

text \<open>
  \<open>json.Marshal\<close> of the output: the struct has no tags, so the keys are its field names.
\<close>

definition marshal_upload_target :: "upload_target \<Rightarrow> json" where
  "marshal_upload_target u =
     JObj [(''Method'', JStr (ut_method u)), (''URL'', JStr (ut_url u)),
           (''Headers'', JObj (map (map_prod id JStr) (ut_headers u))),
           (''Expires'', JStr (rfc3339_nano (ut_expires u))), (''MaxBytes'', JInt (ut_max_bytes u))]"

definition marshal_create_output :: "create_output \<Rightarrow> json" where
  "marshal_create_output o' =
     JObj [(''OperationID'', JStr (co_operation_id o')),
           (''Status'', JStr (op_status_string (co_status o'))),
           (''Stage'', JStr (op_stage_string (co_stage o'))),
           (''UploadTarget'', marshal_upload_target (co_upload_target o')),
           (''StatusURL'', JStr (co_status_url o')), (''ResultURL'', JStr (co_result_url o')),
           (''CreatedAt'', JStr (rfc3339_nano (co_created_at o'))),
           (''Version'', JInt (co_version o'))]"

text \<open>
  \<open>json.Unmarshal\<close> into the output. A value that is no object is an error, but for null, which
  leaves the zero value. The zero time is the first instant of the year 1.
\<close>

definition zero_time :: int where "zero_time = -62135596800000000000"

definition struct_int :: "json_map \<Rightarrow> string \<Rightarrow> int option" where
  "struct_int m tag =
     foldl (\<lambda>acc v. case acc of None \<Rightarrow> None | Some s \<Rightarrow>
       (case v of JInt i \<Rightarrow> if min_int64 \<le> i \<and> i \<le> max_int64 then Some i else None
        | JNull \<Rightarrow> Some s | _ \<Rightarrow> None)) (Some 0) (struct_values m tag)"

text \<open>A field that is a struct: every object given for it is decoded into it, one after the other.\<close>

definition struct_object :: "json_map \<Rightarrow> string \<Rightarrow> json_map option" where
  "struct_object m tag =
     foldl (\<lambda>acc v. case acc of None \<Rightarrow> None | Some s \<Rightarrow>
       (case v of JObj kvs \<Rightarrow> Some (s @ kvs) | JNull \<Rightarrow> Some s | _ \<Rightarrow> None))
       (Some []) (struct_values m tag)"

definition struct_time :: "json_map \<Rightarrow> string \<Rightarrow> int option" where
  "struct_time m tag =
     foldl (\<lambda>acc v. case acc of None \<Rightarrow> None | Some s \<Rightarrow>
       (case v of JStr t \<Rightarrow> parse_rfc3339 t | JNull \<Rightarrow> Some s | _ \<Rightarrow> None))
       (Some zero_time) (struct_values m tag)"

definition zero_upload_target :: upload_target where
  "zero_upload_target =
     \<lparr>ut_method = [], ut_url = [], ut_headers = [], ut_expires = zero_time, ut_max_bytes = 0\<rparr>"

definition unmarshal_upload_target :: "json_map \<Rightarrow> upload_target option" where
  "unmarshal_upload_target m =
     (case (struct_string m ''Method'', struct_string m ''URL'', struct_map m ''Headers'',
            struct_time m ''Expires'', struct_int m ''MaxBytes'') of
        (Some me, Some u, Some h, Some e, Some b) \<Rightarrow>
          if list_all (\<lambda>(k, v). case v of JStr _ \<Rightarrow> True | _ \<Rightarrow> False) h then
            Some \<lparr>ut_method = me, ut_url = u,
                  ut_headers = map (\<lambda>(k, v). (k, case v of JStr s \<Rightarrow> s | _ \<Rightarrow> [])) h,
                  ut_expires = e, ut_max_bytes = b\<rparr>
          else None
      | _ \<Rightarrow> None)"

definition unmarshal_create_output :: "json \<Rightarrow> create_output option" where
  "unmarshal_create_output j =
     (case j of
        JObj m \<Rightarrow>
          (case (struct_string m ''OperationID'', struct_string m ''Status'',
                 struct_string m ''Stage'', struct_object m ''UploadTarget'') of
             (Some i, Some st, Some sg, Some ut) \<Rightarrow>
               (case (unmarshal_upload_target ut, struct_string m ''StatusURL'',
                      struct_string m ''ResultURL'', struct_time m ''CreatedAt'',
                      struct_int m ''Version'') of
                  (Some u, Some su, Some ru, Some c, Some v) \<Rightarrow>
                    Some \<lparr>co_operation_id = i, co_status = op_status_of_string st,
                          co_stage = op_stage_of_string sg, co_upload_target = u,
                          co_status_url = su, co_result_url = ru, co_created_at = c,
                          co_version = v\<rparr>
                | _ \<Rightarrow> None)
           | _ \<Rightarrow> None)
      | JNull \<Rightarrow>
          Some \<lparr>co_operation_id = [], co_status = StatusOther [], co_stage = StageOther [],
                co_upload_target = zero_upload_target, co_status_url = [], co_result_url = [],
                co_created_at = zero_time, co_version = 0\<rparr>
      | _ \<Rightarrow> None)"

section \<open>Execute\<close>

definition create_max_attempts :: "create_input \<Rightarrow> int" where
  "create_max_attempts inp =
     (case ci_retry_policy inp of Some n \<Rightarrow> if n > 0 then n else 3 | None \<Rightarrow> 3)"

definition new_operation :: "create_input \<Rightarrow> string \<Rightarrow> int \<Rightarrow> operation" where
  "new_operation inp i now =
     \<lparr>op_id = i, op_status = StatusCreated, op_stage = StageWaitingForUpload,
      op_processor = ci_processor inp, op_retry_count = 0,
      op_max_attempts = create_max_attempts inp,
      op_client_reference = ci_client_reference inp, op_created_at = now, op_updated_at = now,
      op_deadline = ci_deadline inp, op_input_file = None, op_current_job_id = None,
      op_current_attempt_id = None, op_current_transfer_id = None,
      op_cancel_requested_at = None, op_error = None, op_version = 1\<rparr>"

definition status_url :: "string \<Rightarrow> string \<Rightarrow> string" where
  "status_url base i = base @ ''/api/v1/operations/'' @ i"

definition create_result :: "string \<Rightarrow> string \<Rightarrow> int \<Rightarrow> create_output" where
  "create_result base i now =
     \<lparr>co_operation_id = i, co_status = StatusCreated, co_stage = StageWaitingForUpload,
      co_upload_target =
        \<lparr>ut_method = ''PUT'', ut_url = status_url base i @ ''/file'',
         ut_headers = [(''Content-Type'', ''application/octet-stream'')],
         ut_expires = now + hours 1, ut_max_bytes = 2 ^ 30\<rparr>,
      co_status_url = status_url base i, co_result_url = status_url base i @ ''/result'',
      co_created_at = now, co_version = 1\<rparr>"

text \<open>Everything after the idempotency lookup has found nothing to replay.\<close>

definition create_fresh ::
  "string list \<Rightarrow> string \<Rightarrow> create_input \<Rightarrow> string \<Rightarrow> string \<Rightarrow> string \<Rightarrow> int \<Rightarrow> create_output io" where
  "create_fresh cols base inp k m p now =
     bindE (generate_id ''op'') (\<lambda>i.
     bindE (op_create (new_operation inp i now)) (\<lambda>_.
     bindE (generate_id ''evt'') (\<lambda>eid.
     bindE (ignore_err (event_append
       \<lparr>ev_id = eid, ev_operation_id = i, ev_type = EventTypeOperationCreated,
        ev_job_id = None, ev_attempt_id = None, ev_transfer_id = None,
        ev_payload = [(''processor'', JStr (ci_processor inp)),
                      (''max_attempts'', JInt (create_max_attempts inp))],
        ev_correlation_id = i, ev_issued_at = now, ev_actor_node_id = ''self'',
        ev_version = 1\<rparr>)) (\<lambda>_.
     let out = create_result base i now in
     bindE (ignore_err (idempotency_store cols k m p (fmt_x_string i)
       (JStr (json_text (marshal_create_output out))) (now + hours 1))) (\<lambda>_.
     ret out)))))"

definition create_execute ::
  "string list \<Rightarrow> string \<Rightarrow> create_input \<Rightarrow> string \<Rightarrow> string \<Rightarrow> string \<Rightarrow> create_output io" where
  "create_execute cols base inp k m p =
     bindE time_now (\<lambda>now.
     bindE (attempt (idempotency_get cols k m p)) (\<lambda>cached.
       case cached of
         Inl e \<Rightarrow> create_fresh cols base inp k m p now
       | Inr (fp, data, expires) \<Rightarrow>
           (if fp \<noteq> [] then
              (case unmarshal_create_output data of
                 Some out \<Rightarrow> ret out
               | None \<Rightarrow> create_fresh cols base inp k m p now)
            else create_fresh cols base inp k m p now)))"

section \<open>Facts\<close>

text \<open>A stored response is a JSON string, which does not decode into the output struct.\<close>

lemma stored_response_undecodable: "unmarshal_create_output (JStr s) = None"
  by (simp add: unmarshal_create_output_def)

end
