(* ===== verification/File_Op.thy ===== *)
theory File_Op
  imports Create_Op
begin

text \<open>
  The file upload (\<open>application/operations/file.go\<close>): the body is streamed to a temporary file of the
  staging directory under the size limit and hashed, checked against the digest header, renamed to
  \<open>input\<close>, recorded in the operation row, and the dispatch is started in the background.
\<close>

record file_config =
  fc_node :: string
  fc_staging_dir :: string
  fc_max_file_size :: int
  fc_base_url :: string
  fc_has_dispatch :: bool

record file_input =
  fi_operation_id :: string
  fi_body :: bytes
  fi_headers :: "string \<Rightarrow> string"

record file_output =
  fo_operation_id :: string
  fo_status :: op_status
  fo_stage :: op_stage
  fo_input_file :: input_file
  fo_status_url :: string
  fo_result_url :: string
  fo_updated_at :: int
  fo_version :: int

text \<open>A deferred call runs however the body ends, and its result is dropped.\<close>

definition with_defer :: "unit io \<Rightarrow> 'a io \<Rightarrow> 'a io" where
  "with_defer cleanup m w = (case m w of (r, w') \<Rightarrow> (r, snd (cleanup w')))"

text \<open>\<open>os.CreateTemp(dir, "ingress-*.tmp")\<close>: the star becomes a random decimal number.\<close>

definition temp_name :: "bytes \<Rightarrow> string" where
  "temp_name b = ''ingress-'' @ fmt_d (foldl (\<lambda>v x. 256 * v + uint x) 0 (take 4 b)) @ ''.tmp''"

definition staging_path :: "file_config \<Rightarrow> string \<Rightarrow> string" where
  "staging_path cfg i = filepath_join [fc_staging_dir cfg, i]"

definition input_path :: "file_config \<Rightarrow> string \<Rightarrow> string" where
  "input_path cfg i = filepath_join [staging_path cfg i, ''input'']"

definition file_digest_header :: "bytes \<Rightarrow> string" where
  "file_digest_header b = ''SHA-256='' @ sha256_hex b"

definition uploaded_struct :: "bytes \<Rightarrow> string \<Rightarrow> int \<Rightarrow> operation \<Rightarrow> operation" where
  "uploaded_struct content name now op = op\<lparr>
     op_input_file := Some \<lparr>if_size_bytes = int (length content), if_sha256 = sha256_hex content,
                           if_file_name = name\<rparr>,
     op_status := StatusQueued, op_stage := StageQueued, op_updated_at := now,
     op_version := op_version op + 1\<rparr>"

text \<open>After the rename: the row, the event, the background dispatch, the response.\<close>

definition file_commit :: "file_config \<Rightarrow> file_input \<Rightarrow> bytes \<Rightarrow> operation \<Rightarrow> file_output io" where
  "file_commit cfg inp content op =
     bindE time_now (\<lambda>now.
     let op1 = uploaded_struct content (fi_headers inp ''X-File-Name'') now op;
         f = \<lparr>if_size_bytes = int (length content), if_sha256 = sha256_hex content,
              if_file_name = fi_headers inp ''X-File-Name''\<rparr> in
     bindE (op_update op1) (\<lambda>_.
     bindE time_now (\<lambda>t.
     bindE (ignore_err (event_append
       \<lparr>ev_id = ''evt-'' @ fmt_x t, ev_operation_id = op_id op1,
        ev_type = EventTypeOperationQueued, ev_job_id = None, ev_attempt_id = None,
        ev_transfer_id = None,
        ev_payload = [(''file_size'', JInt (int (length content))),
                      (''sha256'', JStr (sha256_hex content))],
        ev_correlation_id = op_id op1, ev_issued_at = now, ev_actor_node_id = ''self'',
        ev_version = op_version op1\<rparr>)) (\<lambda>_.
     bindE (if fc_has_dispatch cfg then spawn (TaskDispatch (op_id op1) (op_processor op1))
            else ret ()) (\<lambda>_.
     ret \<lparr>fo_operation_id = op_id op1, fo_status = op_status op1, fo_stage = op_stage op1,
          fo_input_file = f, fo_status_url = status_url (fc_base_url cfg) (op_id op1),
          fo_result_url = status_url (fc_base_url cfg) (op_id op1) @ ''/result'',
          fo_updated_at = op_updated_at op1, fo_version = op_version op1\<rparr>)))))"

text \<open>
  With the temporary file created: \<open>io.LimitReader\<close> lets at most one byte more than the limit
  through, so a longer body is noticed without being read to its end. The limit is an \<open>int64\<close>: one more than
  the largest is negative, and a reader with a negative limit is at its end at once.
\<close>

definition file_receive :: "file_config \<Rightarrow> file_input \<Rightarrow> string \<Rightarrow> operation \<Rightarrow> file_output io" where
  "file_receive cfg inp tmp op =
     (let content = take (nat (int64_add (fc_max_file_size cfg) 1)) (fi_body inp);
          final = input_path cfg (fi_operation_id inp) in
      bindE (wrap_err ''write ingress file'' (extern ''copy body''
        (modify_world (disk_write (fc_node cfg) tmp (Some content))))) (\<lambda>_.
      if int (length content) > fc_max_file_size cfg then
        fail (ErrMsg (''file size exceeds limit: '' @ fmt_d (int (length content)) @ '' > '' @
          fmt_d (fc_max_file_size cfg)))
      else if fi_headers inp ''Digest'' \<noteq> [] \<and>
              fi_headers inp ''Digest'' \<noteq> file_digest_header content then
        fail (ErrMsg (''digest mismatch: expected '' @ file_digest_header content @ '', got '' @
          fi_headers inp ''Digest''))
      else
        bindE (wrap_err ''move ingress file'' (extern ''rename''
          (modify_world (\<lambda>w. disk_write (fc_node cfg) final (disk w (fc_node cfg) tmp)
            (disk_write (fc_node cfg) tmp None w))))) (\<lambda>_.
        file_commit cfg inp content op)))"

definition file_stage :: "file_config \<Rightarrow> file_input \<Rightarrow> operation \<Rightarrow> file_output io" where
  "file_stage cfg inp op =
     bindE (wrap_err ''create staging dir'' (extern ''mkdir'' (ret ()))) (\<lambda>_.
     bindE random16 (\<lambda>b.
     let tmp = filepath_join [staging_path cfg (fi_operation_id inp), temp_name b] in
     bindE (wrap_err ''create temp file'' (extern ''create temp''
       (modify_world (disk_write (fc_node cfg) tmp (Some []))))) (\<lambda>_.
     with_defer (extern ''remove temp'' (modify_world (disk_write (fc_node cfg) tmp None)))
       (file_receive cfg inp tmp op))))"

definition file_execute :: "file_config \<Rightarrow> file_input \<Rightarrow> file_output io" where
  "file_execute cfg inp =
     bindE (op_get_by_id (fi_operation_id inp)) (\<lambda>m.
       case m of
         None \<Rightarrow> fail ErrOperationNotFound
       | Some op \<Rightarrow>
           (if op_status op \<noteq> StatusCreated then fail ErrInvalidState
            else file_stage cfg inp op))"

section \<open>Facts\<close>

lemma with_defer_simp [io_simps]: "m w = (r, w') \<Longrightarrow> with_defer cleanup m w = (r, snd (cleanup w'))"
  by (simp add: with_defer_def)

lemma disk_write_simps [simp]:
  "db (disk_write n p c w) = db w" "clock (disk_write n p c w) = clock w"
  "ticks (disk_write n p c w) = ticks w" "calls (disk_write n p c w) = calls w"
  "draws (disk_write n p c w) = draws w" "rnd (disk_write n p c w) = rnd w"
  "published (disk_write n p c w) = published w" "spawned (disk_write n p c w) = spawned w"
  "outcome_of (disk_write n p c w) = outcome_of w"
  "subscribed (disk_write n p c w) = subscribed w"
  by (simp_all add: disk_write_def)

lemma quiet_disk_write [simp]: "quiet (disk_write n p c w) = quiet w"
  by (simp add: disk_write_def)

context db_guarantee
begin

lemma keeps_with_defer: "keeps R m \<Longrightarrow> keeps R c \<Longrightarrow> keeps R (with_defer c m)"
  unfolding keeps_def with_defer_def
proof
  fix w :: world
  assume m: "\<forall>w. R (db w) (db (snd (m w)))" and c: "\<forall>w. R (db w) (db (snd (c w)))"
  obtain r w' where "m w = (r, w')" by fastforce
  then show "R (db w) (db (snd (case m w of (r, w') \<Rightarrow> (r, snd (c w')))))"
    using R_trans [of "db w" "db w'" "db (snd (c w'))"] spec [OF m, of w] spec [OF c, of w']
    by simp
qed

lemma keeps_random16: "keeps R random16"
  by (simp add: keeps_def random16_def R_refl)

lemma keeps_disk: "keeps R (modify_world (disk_write n p c))"
  by (rule keeps_modify) simp

end

end
