(* ===== verification/Dispatch_Op.thy ===== *)
theory Dispatch_Op
  imports Job_Repos Node_Repo Nats_Client File_Op
begin

text \<open>
  Dispatch of an operation to a worker (\<open>application/operations/dispatch.go\<close>): select a worker, record
  the transfer, send the \<open>START_TRANSFER\<close> command, publish the chunks of the uploaded file, send
  \<open>PROCESS_UPDATE\<close>, and record the job, the attempt and the new status. The ingress file is read as it
  is when it is opened; a read of a regular file fills the buffer unless the file ends first.
\<close>

record dispatch_config =
  dc_node :: string
  dc_staging_dir :: string
  dc_base_url :: string

record dispatch_output =
  do_operation_id :: string
  do_status :: op_status
  do_job_id :: string
  do_attempt_id :: string
  do_worker_node_id :: string
  do_status_url :: string
  do_updated_at :: int
  do_version :: int

section \<open>The transfer\<close>

definition dispatch_chunk_size :: int where
  "dispatch_chunk_size = 64 * 1024"

definition dispatch_total_chunks :: "int \<Rightarrow> int" where
  "dispatch_total_chunks sz = go_div (sz + dispatch_chunk_size - 1) dispatch_chunk_size"

definition transfer_id_of :: "string \<Rightarrow> int \<Rightarrow> string" where
  "transfer_id_of oid now = ''transfer-'' @ oid @ ''-'' @ fmt_d now"

definition dispatch_transfer ::
  "dispatch_config \<Rightarrow> operation \<Rightarrow> input_file \<Rightarrow> string \<Rightarrow> string \<Rightarrow> int \<Rightarrow> file_transfer" where
  "dispatch_transfer cfg op f worker aid now =
     \<lparr>tr_id = transfer_id_of (op_id op) now, tr_attempt_id = aid, tr_operation_id = op_id op,
      tr_file_id = ''file-'' @ op_id op, tr_source_node_id = ''self'',
      tr_destination_node_id = worker, tr_file_size_bytes = if_size_bytes f,
      tr_chunk_size_bytes = dispatch_chunk_size,
      tr_total_chunks = dispatch_total_chunks (if_size_bytes f), tr_file_checksum = if_sha256 f,
      tr_checksum_algorithm = ''sha256'', tr_status = TransferStatusCreated,
      tr_staging_path = filepath_join [dc_staging_dir cfg, op_id op],
      tr_staging_reservation_id = None, tr_deadline_at = now + minutes 30,
      tr_accepted_at = None, tr_completed_at = None, tr_received_chunks = 0, tr_error = None,
      tr_version = 1\<rparr>"

text \<open>
  The two commands. The members are in the order \<open>json.Marshal\<close> gives the keys of a map. The payload
  of \<open>START_TRANSFER\<close> names the transfer and not the operation, which is a member of the command.
\<close>

definition start_transfer_payload :: "file_transfer \<Rightarrow> json_map" where
  "start_transfer_payload x =
     [(''attempt_id'', JStr (tr_attempt_id x)),
      (''checksum_algorithm'', JStr ''sha256''),
      (''chunk_size_bytes'', JInt (tr_chunk_size_bytes x)),
      (''destination_node_id'', JStr (tr_destination_node_id x)),
      (''file_id'', JStr (tr_file_id x)),
      (''file_sha256'', JStr (tr_file_checksum x)),
      (''file_size_bytes'', JInt (tr_file_size_bytes x)),
      (''source_node_id'', JStr ''self''),
      (''total_chunks'', JInt (tr_total_chunks x)),
      (''transfer_deadline_at'', JStr (rfc3339 (tr_deadline_at x))),
      (''transfer_id'', JStr (tr_id x))]"

definition start_transfer_command :: "string \<Rightarrow> string \<Rightarrow> file_transfer \<Rightarrow> json" where
  "start_transfer_command cid jid x =
     JObj [(''command_id'', JStr cid), (''job_id'', JStr jid),
           (''operation_id'', JStr (tr_operation_id x)),
           (''payload'', JObj (start_transfer_payload x)), (''type'', JStr ''START_TRANSFER'')]"

definition process_update_command :: "string \<Rightarrow> string \<Rightarrow> string \<Rightarrow> string \<Rightarrow> string \<Rightarrow> json" where
  "process_update_command cid jid oid aid processor =
     JObj [(''command_id'', JStr cid), (''job_id'', JStr jid), (''operation_id'', JStr oid),
           (''payload'', JObj [(''attempt_id'', JStr aid), (''processor'', JStr processor)]),
           (''type'', JStr ''PROCESS_UPDATE'')]"

section \<open>Chunks\<close>

definition chunk_id_of :: "string \<Rightarrow> int \<Rightarrow> string" where
  "chunk_id_of tid idx = tid @ '':'' @ fmt_d idx"

definition sender_chunk :: "file_transfer \<Rightarrow> int \<Rightarrow> bytes \<Rightarrow> file_chunk" where
  "sender_chunk x idx payload =
     \<lparr>ck_id = chunk_id_of (tr_id x) idx, ck_transfer_id = tr_id x, ck_chunk_index = idx,
      ck_chunk_offset = idx * tr_chunk_size_bytes x, ck_chunk_size = int (length payload),
      ck_checksum = sha256_hex payload, ck_publish_state = ''published'',
      ck_ack_state = ''pending'', ck_received_at = None, ck_acknowledged_at = None,
      ck_version = 1\<rparr>"

definition chunk_headers :: "file_transfer \<Rightarrow> int \<Rightarrow> bytes \<Rightarrow> (string \<times> string) list" where
  "chunk_headers x idx payload =
     [(''Nats-Msg-Id'', chunk_id_of (tr_id x) idx),
      (''X-Chunk-Index'', fmt_d idx),
      (''X-Offset'', fmt_d (idx * tr_chunk_size_bytes x)),
      (''X-Payload-Length'', fmt_d (int (length payload))),
      (''X-Chunk-SHA256'', sha256_hex payload),
      (''X-Transfer-Id'', tr_id x)]"

text \<open>
  The loop of \<open>publishFileChunks\<close>: \<open>n\<close> chunks are left, \<open>idx\<close> is the next index and \<open>rest\<close> is what the
  file holds from the read position on. An empty read ends it.
\<close>

fun publish_chunks :: "file_transfer \<Rightarrow> nat \<Rightarrow> int \<Rightarrow> bytes \<Rightarrow> unit io" where
  "publish_chunks x 0 idx rest = ret ()"
| "publish_chunks x (Suc n) idx rest =
     (let sz = nat (tr_chunk_size_bytes x) in
      bindE (wrap_err (''read chunk '' @ fmt_d idx) (extern ''read'' (ret (take sz rest))))
        (\<lambda>payload.
      if payload = [] then ret ()
      else
        bindE (wrap_err (''upsert chunk '' @ fmt_d idx) (chunk_upsert (sender_chunk x idx payload)))
          (\<lambda>_.
        bindE (ignore_err (publish_with_headers (transfer_chunks_subject (tr_id x)) payload
          (chunk_headers x idx payload))) (\<lambda>_.
        publish_chunks x n (idx + 1) (drop sz rest)))))"

definition publish_file_chunks :: "dispatch_config \<Rightarrow> file_transfer \<Rightarrow> unit io" where
  "publish_file_chunks cfg x =
     bindE (wrap_err ''open ingress file'' (extern ''open'' (\<lambda>w.
       case disk w (dc_node cfg) (filepath_join [tr_staging_path x, ''input'']) of
         None \<Rightarrow> (Inl (ErrExternal ''no such file''), w)
       | Some content \<Rightarrow> (Inr content, w)))) (\<lambda>content.
     bindE (wrap_err ''stat ingress file'' (extern ''stat'' (ret ()))) (\<lambda>_.
     publish_chunks x (nat (tr_total_chunks x)) 0 content))"

section \<open>Execute\<close>

definition dispatched_struct :: "string \<Rightarrow> string \<Rightarrow> int \<Rightarrow> operation \<Rightarrow> operation" where
  "dispatched_struct jid aid now op = op\<lparr>
     op_status := StatusDispatched, op_stage := StageWaitingForAck, op_updated_at := now,
     op_current_job_id := Some jid, op_current_attempt_id := Some aid,
     op_version := op_version op + 1\<rparr>"

text \<open>The rows that record the dispatch, once both commands are out.\<close>

definition dispatch_record ::
  "dispatch_config \<Rightarrow> string \<Rightarrow> operation \<Rightarrow> string \<Rightarrow> string \<Rightarrow> string \<Rightarrow> string \<Rightarrow> string \<Rightarrow> string \<Rightarrow>
   int \<Rightarrow> dispatch_output io" where
  "dispatch_record cfg processor op worker jid aid cid tok tid assigned =
     bindE time_now (\<lambda>now.
     bindE (wrap_err ''create job'' (job_create
       \<lparr>job_id = jid, job_operation_id = op_id op, job_worker_node_id = worker,
        job_status = JobStatusDispatched, job_processor = processor, job_requirements = None,
        job_assigned_at = assigned, job_dispatched_at = Some now, job_acknowledged_at = None,
        job_completed_at = None, job_error = None, job_version = 1\<rparr>)) (\<lambda>_.
     bindE (wrap_err ''create attempt'' (attempt_create
       \<lparr>att_id = aid, att_job_id = jid, att_operation_id = op_id op, att_node_id = worker,
        att_attempt_number = op_retry_count op + 1, att_status = AttemptStatusCommandSent,
        att_command_id = cid, att_claim_token = tok, att_lease_until = assigned + minutes 5,
        att_processing_id = None, att_error = None, att_started_at = None,
        att_completed_at = None, att_version = 1\<rparr>)) (\<lambda>_.
     let op1 = dispatched_struct jid aid now op in
     bindE (wrap_err ''update operation'' (op_update op1)) (\<lambda>_.
     bindE (generate_id ''evt'') (\<lambda>eid.
     bindE (ignore_err (event_append
       \<lparr>ev_id = eid, ev_operation_id = op_id op1, ev_type = EventTypeOperationDispatched,
        ev_job_id = None, ev_attempt_id = None, ev_transfer_id = None,
        ev_payload = [(''job_id'', JStr jid), (''attempt_id'', JStr aid),
                      (''worker_node_id'', JStr worker), (''transfer_id'', JStr tid)],
        ev_correlation_id = op_id op1, ev_issued_at = now, ev_actor_node_id = ''self'',
        ev_version = 1\<rparr>)) (\<lambda>_.
     ret \<lparr>do_operation_id = op_id op1, do_status = op_status op1, do_job_id = jid,
          do_attempt_id = aid, do_worker_node_id = worker,
          do_status_url = status_url (dc_base_url cfg) (op_id op1), do_updated_at = now,
          do_version = op_version op1\<rparr>))))))"

text \<open>
  With the operation loaded. The log line that follows the load reads \<open>op.InputFile.SizeBytes\<close> also
  when \<open>op.InputFile\<close> is nil.
\<close>

definition dispatch_loaded :: "dispatch_config \<Rightarrow> string \<Rightarrow> operation \<Rightarrow> dispatch_output io" where
  "dispatch_loaded cfg processor op =
     (case op_input_file op of
        None \<Rightarrow> fail (Panic ''nil pointer dereference'')
      | Some f \<Rightarrow>
          bindE select_worker (\<lambda>s.
          let worker = sr_node_id s in
          bindE time_now (\<lambda>now.
          bindE (generate_id ''job'') (\<lambda>jid.
          bindE (generate_id ''attempt'') (\<lambda>aid.
          bindE (generate_id []) (\<lambda>c.
          bindE (generate_id []) (\<lambda>k.
          let cid = ''cmd-'' @ drop 4 c; tok = ''claim-'' @ drop 4 k;
              x = dispatch_transfer cfg op f worker aid now in
          bindE (wrap_err ''create transfer'' (transfer_create x)) (\<lambda>_.
          bindE (wrap_err ''publish start transfer''
            (publish_command worker ''START_TRANSFER'' (start_transfer_command cid jid x))) (\<lambda>_.
          bindE (ignore_err (publish_file_chunks cfg x)) (\<lambda>_.
          bindE (wrap_err ''publish command''
            (publish_command worker ''PROCESS_UPDATE''
              (process_update_command cid jid (op_id op) aid processor))) (\<lambda>_.
          dispatch_record cfg processor op worker jid aid cid tok (tr_id x) now)))))))))))"

definition dispatch_execute ::
  "dispatch_config \<Rightarrow> string \<Rightarrow> string \<Rightarrow> dispatch_output io" where
  "dispatch_execute cfg i processor =
     bindE (op_get_by_id i) (\<lambda>m.
       case m of
         None \<Rightarrow> fail ErrOperationNotFound
       | Some op \<Rightarrow> dispatch_loaded cfg processor op)"

section \<open>Facts\<close>

text \<open>The chunks of a file: what the loop reads, in the order it reads it.\<close>

fun chunk_plan :: "nat \<Rightarrow> nat \<Rightarrow> bytes \<Rightarrow> bytes list" where
  "chunk_plan sz 0 rest = []"
| "chunk_plan sz (Suc n) rest =
     (if take sz rest = [] then [] else take sz rest # chunk_plan sz n (drop sz rest))"

lemma chunk_plan_concat: "concat (chunk_plan sz n rest) = take (sz * n) rest"
  by (induction n arbitrary: rest) (auto simp: take_add)

lemma chunk_plan_nth:
  "i < length (chunk_plan sz n rest) \<Longrightarrow>
     chunk_plan sz n rest ! i = take sz (drop (i * sz) rest)"
proof (induction n arbitrary: rest i)
  case 0
  then show ?case by simp
next
  case (Suc n)
  show ?case
  proof (cases i)
    case 0
    with Suc.prems show ?thesis by (simp split: if_splits)
  next
    case (Suc j)
    with Suc.prems have "j < length (chunk_plan sz n (drop sz rest))" by (simp split: if_splits)
    then show ?thesis using Suc Suc.IH Suc.prems by (simp add: add.commute split: if_splits)
  qed
qed

lemma ceil_div_step:
  assumes "0 < sz" and "0 < (n :: nat)"
  shows "(n + sz - 1) div sz = Suc ((n - sz + sz - 1) div sz)"
proof (cases "sz \<le> n")
  case True
  then have "n + sz - 1 = (n - sz + sz - 1) + sz" using assms by simp
  then show ?thesis using assms by (metis Suc_eq_plus1 div_add_self2 less_numeral_extra(3))
next
  case False
  have "n + sz - 1 = (n - 1) + sz" using assms by simp
  then have "(n + sz - 1) div sz = (n - 1) div sz + 1" using assms by (simp only: div_add_self2)
  moreover have "(n - sz + sz - 1) div sz = 0" "(n - 1) div sz = 0" using False assms by simp_all
  ultimately show ?thesis by simp
qed

lemma length_chunk_plan:
  assumes "0 < sz"
  shows "length (chunk_plan sz n rest) = min n ((length rest + sz - 1) div sz)"
proof (induction n arbitrary: rest)
  case 0
  then show ?case by simp
next
  case (Suc n)
  show ?case
  proof (cases "rest = []")
    case True
    then show ?thesis using assms by simp
  next
    case False
    then have "(length rest + sz - 1) div sz = Suc ((length rest - sz + sz - 1) div sz)"
      using assms by (intro ceil_div_step) simp_all
    moreover have "take sz rest \<noteq> []" using False assms by simp
    ultimately show ?thesis using Suc [of "drop sz rest"] by (simp only: chunk_plan.simps if_False list.size length_drop) simp
  qed
qed

end
