(* ===== verification/Samples.thy ===== *)
theory Samples
  imports Dispatch_Op
begin

text \<open>
  Concrete values for the witnesses: an operation in each of a few states, and worlds in which every
  call succeeds, the clock shows its reading's number in milliseconds and the random bytes are zero.
\<close>

definition sample_world :: "db \<Rightarrow> world" where
  "sample_world d = initial_world (\<lambda>n. int n * 1000000) (\<lambda>_ _. 0) (\<lambda>_. Done) d"

text \<open>The same world with every external call failing.\<close>

definition broken_world :: "db \<Rightarrow> world" where
  "broken_world d = initial_world (\<lambda>n. int n * 1000000) (\<lambda>_ _. 0) (\<lambda>_. Lost) d"

text \<open>A world whose clock counts single nanoseconds, for runs that are evaluated.\<close>

definition tick_world :: "db \<Rightarrow> world" where
  "tick_world d = initial_world int (\<lambda>_ _. 0) (\<lambda>_. Done) d"

definition sample_operation :: "op_status \<Rightarrow> operation" where
  "sample_operation st =
     \<lparr>op_id = ''op-1'', op_status = st, op_stage = StageQueued, op_processor = ''demo'',
      op_retry_count = 0, op_max_attempts = 3, op_client_reference = ''ref'', op_created_at = 1500,
      op_updated_at = 2500, op_deadline = None,
      op_input_file = Some \<lparr>if_size_bytes = 3, if_sha256 = ''aa'', if_file_name = ''f''\<rparr>,
      op_current_job_id = None, op_current_attempt_id = None, op_current_transfer_id = None,
      op_cancel_requested_at = None, op_error = None, op_version = 1\<rparr>"

definition sample_row :: "op_status \<Rightarrow> op_row" where
  "sample_row st = op_create_row (sample_operation st)"

definition sample_db :: "op_status \<Rightarrow> db" where
  "sample_db st = empty_db\<lparr>t_operations := [sample_row st]\<rparr>"

lemma quiet_sample [simp]: "quiet (sample_world d)"
  by (simp add: quiet_def sample_world_def initial_world_def)

lemma quiet_tick [simp]: "quiet (tick_world d)"
  by (simp add: quiet_def tick_world_def initial_world_def)

lemma db_sample [simp]: "db (sample_world d) = d" "db (broken_world d) = d" "db (tick_world d) = d"
  by (simp_all add: sample_world_def broken_world_def tick_world_def initial_world_def)

lemma clock_sample [simp]:
  "clock (sample_world d) n = int n * 1000000" "ticks (sample_world d) = 0"
  by (simp_all add: sample_world_def initial_world_def)

lemmas sample_defs = sample_db_def sample_row_def sample_operation_def

lemma sample_ids_distinct [simp]: "op_ids_distinct (sample_db st)"
  by (simp add: sample_db_def op_ids_distinct_def keys_distinct_def)

lemma sample_lookup [simp]:
  "op_lookup ''op-1'' (t_operations (sample_db st)) = Some (sample_row st)"
  by (simp add: sample_defs op_lookup_def sql_first_def op_create_row_def)

end
