(* ===== verification/Versioned.thy ===== *)
theory Versioned
  imports Job_Repos
begin

text \<open>
  Optimistic writes. A versioned table updates the row of a key when the version it has is the one the
  writer's struct was based on, and moves it to the next version; otherwise nothing happens, and no
  error is returned. The updates of operations and of transfers are such tables: they differ in which
  version of the struct they compare.
\<close>

locale versioned_table =
  fixes get :: "string \<Rightarrow> db \<Rightarrow> 'r option"
    and ver :: "'r \<Rightarrow> int"
    and put :: "'s \<Rightarrow> unit stmt"
    and key_of :: "'s \<Rightarrow> string"
    and base :: "'s \<Rightarrow> int"
    and stored :: "'s \<Rightarrow> 'r \<Rightarrow> 'r"
  assumes get_after_put: "put s d = Inr ((), d') \<Longrightarrow>
      get k d' = map_option (\<lambda>r. if k = key_of s \<and> ver r = base s then stored s r else r) (get k d)"
    and ver_stored: "ver (stored s r) = base s + 1"
begin

lemma put_hit:
  assumes "put s d = Inr ((), d')" and "get (key_of s) d = Some r" and "ver r = base s"
  shows "get (key_of s) d' = Some (stored s r)"
  using assms by (simp add: get_after_put)

lemma put_stale:
  assumes "put s d = Inr ((), d')" and "get (key_of s) d = Some r" and "ver r \<noteq> base s"
  shows "get k d' = get k d"
  using assms by (cases "get k d") (auto simp: get_after_put)

lemma put_frame: "put s d = Inr ((), d') \<Longrightarrow> k \<noteq> key_of s \<Longrightarrow> get k d' = get k d"
  by (cases "get k d") (simp_all add: get_after_put)

text \<open>Of two writers that start from one version, the second leaves no trace.\<close>

lemma second_writer_lost:
  assumes "put s d = Inr ((), d1)" and "put s' d1 = Inr ((), d2)"
    and "key_of s' = key_of s" and "base s' = base s"
    and "get (key_of s) d = Some r" and "ver r = base s"
  shows "get (key_of s) d1 = Some (stored s r)" and "get k d2 = get k d1"
proof -
  show *: "get (key_of s) d1 = Some (stored s r)" by (rule put_hit [OF assms(1,5,6)])
  show "get k d2 = get k d1"
    by (rule put_stale [OF assms(2), where r = "stored s r"]) (simp_all add: * assms(3,4) ver_stored)
qed

lemma ver_mono:
  assumes "put s d = Inr ((), d')" and "get k d = Some r" and "get k d' = Some r'"
  shows "ver r \<le> ver r'"
  using get_after_put [OF assms(1), of k] assms(2,3) by (auto simp: ver_stored split: if_splits)

end

interpretation op_versions: versioned_table
  "\<lambda>k d. op_lookup k (t_operations d)" r_version op_update_stmt op_id "\<lambda>op. op_version op - 1"
  op_update_row
proof
  fix op d d' k
  assume put: "op_update_stmt op d = Inr ((), d')"
  have "op_lookup k (t_operations d) = Some r \<Longrightarrow> r_id r = k" for r
    by (auto dest: op_lookup_Some)
  then show "op_lookup k (t_operations d') =
    map_option (\<lambda>r. if k = op_id op \<and> r_version r = op_version op - 1 then op_update_row op r else r)
      (op_lookup k (t_operations d))"
    by (cases "op_lookup k (t_operations d)")
      (auto simp: op_update_lookup [OF put] op_update_where_def)
qed simp

lemma transfer_update_row_simps [simp]:
  "tr_id (transfer_update_row x r) = tr_id r"
  "tr_version (transfer_update_row x r) = tr_version x + 1"
  "tr_status (transfer_update_row x r) = tr_status x"
  by (simp_all add: transfer_update_row_def)

interpretation transfer_versions: versioned_table
  "\<lambda>k d. transfer_lookup k (t_transfers d)" tr_version transfer_update_stmt tr_id tr_version
  transfer_update_row
proof
  fix x d d' k
  assume put: "transfer_update_stmt x d = Inr ((), d')"
  then have "t_transfers d' = sql_update (transfer_update_where x) (transfer_update_row x) (t_transfers d)"
    by (auto simp: transfer_update_stmt_def split: if_splits)
  then show "transfer_lookup k (t_transfers d') =
    map_option (\<lambda>r. if k = tr_id x \<and> tr_version r = tr_version x then transfer_update_row x r else r)
      (transfer_lookup k (t_transfers d))"
    using transfer_table.get_after_update [of "transfer_update_row x"]
    by (cases "transfer_lookup k (t_transfers d)")
      (auto simp: transfer_update_where_def dest: transfer_table.get_key)
qed simp


text \<open>The update of operations as an update of the operations read: what it does to the one it hits.\<close>

definition op_overwrite :: "operation \<Rightarrow> operation \<Rightarrow> operation" where
  "op_overwrite s o' = o'\<lparr>
     op_status := op_status s, op_stage := op_stage s, op_processor := op_processor s,
     op_retry_count := op_retry_count s, op_updated_at := datetime6 (op_updated_at s),
     op_input_file := op_input_file s, op_current_job_id := op_current_job_id s,
     op_current_attempt_id := op_current_attempt_id s,
     op_current_transfer_id := op_current_transfer_id s,
     op_cancel_requested_at := map_option datetime6 (op_cancel_requested_at s),
     op_error := stored_error (op_error s), op_version := op_version s\<rparr>"

lemma row_to_operation_update:
  "row_to_operation (op_update_row s r) = op_overwrite s (row_to_operation r)"
  by (cases "op_input_file s")
    (simp_all add: row_to_operation_def op_update_row_def op_overwrite_def cols_to_error_to_cols
      stored_error_def)

lemma op_update_reads:
  assumes "op_update s w = (Inr (), w')"
  shows "db_operation k (db w') =
    map_option (\<lambda>o'. if k = op_id s \<and> op_version o' = op_version s - 1 then op_overwrite s o' else o')
      (db_operation k (db w))"
proof -
  have put: "op_update_stmt s (db w) = Inr ((), db w')"
    by (rule exec_db_Inr [OF assms [unfolded op_update_def]])
  then show ?thesis
    by (cases "op_lookup k (t_operations (db w))")
      (simp_all add: db_operation_def op_versions.get_after_put [OF put] row_to_operation_update)
qed

lemma op_overwrite_simps [simp]:
  "op_id (op_overwrite s o') = op_id o'" "op_version (op_overwrite s o') = op_version s"
  "op_status (op_overwrite s o') = op_status s" "op_stage (op_overwrite s o') = op_stage s"
  "op_max_attempts (op_overwrite s o') = op_max_attempts o'"
  "op_retry_count (op_overwrite s o') = op_retry_count s"
  "op_input_file (op_overwrite s o') = op_input_file s"
  "op_processor (op_overwrite s o') = op_processor s"
  "op_current_job_id (op_overwrite s o') = op_current_job_id s"
  "op_current_attempt_id (op_overwrite s o') = op_current_attempt_id s"
  "op_current_transfer_id (op_overwrite s o') = op_current_transfer_id s"
  "op_error (op_overwrite s o') = stored_error (op_error s)"
  "op_cancel_requested_at (op_overwrite s o') = map_option datetime6 (op_cancel_requested_at s)"
  by (simp_all add: op_overwrite_def)

lemma stored_error_None [simp]: "stored_error None = None"
  by (simp add: stored_error_def)

text \<open>A struct loaded from a world and moved on by one version hits its row in that world.\<close>

lemma op_update_own:
  assumes "op_update s w = (Inr (), w')" and "db_operation i (db w) = Some op"
    and "op_id s = op_id op" and "op_version s = op_version op + 1"
  shows "db_operation i (db w') = Some (op_overwrite s op)"
proof -
  have "op_id op = i" using db_operation_Some [OF assms(2)] by auto
  then show ?thesis using op_update_reads [OF assms(1), of i] assms by simp
qed

end
