(* ===== verification/Transition_Guard.thy ===== *)
theory Transition_Guard
  imports Domain
begin

text \<open>
  The transition guard of \<open>src/internal/domain/operation/transition.go\<close>: which status of an
  operation may follow which, the two terminal statuses and the version check. The locale
  \<open>status_graph\<close> states what a status graph with terminal statuses promises its clients; it is
  interpreted on the guard.
\<close>

section \<open>The guard\<close>

text \<open>The table \<open>valid\<close> of \<open>canTransition\<close>; \<open>None\<close> when the status is no key of it.\<close>

fun valid_next :: "op_status \<Rightarrow> op_status list option" where
  "valid_next StatusCreated = Some [StatusQueued, StatusCancelled]"
| "valid_next StatusQueued = Some [StatusDispatched, StatusCancelled]"
| "valid_next StatusDispatched =
     Some [StatusTransferring, StatusTimeout, StatusFailed, StatusCancelled]"
| "valid_next StatusTransferring =
     Some [StatusTransferred, StatusTimeout, StatusFailed, StatusCancelled]"
| "valid_next StatusTransferred = Some [StatusProcessing, StatusTimeout, StatusCancelled]"
| "valid_next StatusProcessing =
     Some [StatusCompleted, StatusFailed, StatusTimeout, StatusCancelled]"
| "valid_next StatusFailed = Some [StatusQueued, StatusFailed, StatusTimeout, StatusCancelled]"
| "valid_next StatusTimeout = Some [StatusQueued, StatusFailed, StatusTimeout, StatusCancelled]"
| "valid_next _ = None"

definition can_transition_table :: "op_status \<Rightarrow> op_status \<Rightarrow> go_error option" where
  "can_transition_table from_st to_st =
     (case valid_next from_st of
        None \<Rightarrow> Some (ErrWrap (''unknown status '' @ op_status_string from_st) ErrInvalidTransition)
      | Some allowed \<Rightarrow>
          if to_st \<in> set allowed then None
          else Some (ErrWrap (op_status_string from_st @ '' -> '' @ op_status_string to_st @
            '' not allowed'') ErrInvalidTransition))"

text \<open>\<open>CanTransition\<close>: \<open>None\<close> is the nil error.\<close>

definition can_transition :: "op_status \<Rightarrow> op_status \<Rightarrow> bool \<Rightarrow> go_error option" where
  "can_transition from_st to_st is_retry =
     (if from_st = to_st then None
      else if from_st = StatusCompleted \<or> from_st = StatusCancelled then
        Some (ErrWrap (op_status_string from_st @ '' is terminal'') ErrInvalidTransition)
      else if is_retry then
        (if from_st \<noteq> StatusFailed \<and> from_st \<noteq> StatusTimeout then
           Some (ErrWrap (''retry only allowed from FAILED or TIMEOUT, not '' @
             op_status_string from_st) ErrInvalidStateForOp)
         else can_transition_table from_st to_st)
      else can_transition_table from_st to_st)"

definition validate_version :: "int \<Rightarrow> int \<Rightarrow> go_error option" where
  "validate_version current expected = (if current \<noteq> expected then Some ErrVersionMismatch else None)"

abbreviation permitted :: "op_status \<Rightarrow> op_status \<Rightarrow> bool" where
  "permitted a b \<equiv> can_transition a b False = None"

section \<open>Status graphs\<close>

text \<open>
  A status graph: a reflexive relation of permitted changes and a set of final statuses that no
  change leaves. A history is a list of statuses each permitted after the one before it. A gate of
  a status is a status that every history into it from a given start must pass.
\<close>

locale status_graph =
  fixes step :: "'s \<Rightarrow> 's \<Rightarrow> bool"
    and final :: "'s \<Rightarrow> bool"
  assumes step_refl: "step s s"
    and final_stays: "final s \<Longrightarrow> step s t \<Longrightarrow> t = s"
begin

inductive history :: "'s \<Rightarrow> 's list \<Rightarrow> 's \<Rightarrow> bool" where
  history_start: "history s [s] s"
| history_step: "history s hs t \<Longrightarrow> step t u \<Longrightarrow> history s (hs @ [u]) u"

lemma history_from_final: "history s hs t \<Longrightarrow> final s \<Longrightarrow> t = s"
  by (induction rule: history.induct) (auto dest: final_stays)

lemma history_last: "history s hs t \<Longrightarrow> t \<in> set hs"
  by (induction rule: history.induct) auto

text \<open>
  If every change that enters the region \<open>R\<close> from outside goes through the gate \<open>g\<close>, a history that
  starts outside \<open>R\<close> and ends inside it has passed \<open>g\<close>.
\<close>

lemma history_gate:
  assumes "history s hs t" and "s \<notin> R" and "t \<in> R"
    and enter: "\<And>a b. step a b \<Longrightarrow> a \<notin> R \<Longrightarrow> b \<in> R \<Longrightarrow> a = g"
  shows "g \<in> set hs"
  using assms(1-3)
proof (induction rule: history.induct)
  case (history_start s)
  then show ?case by simp
next
  case (history_step s hs t u)
  show ?case
  proof (cases "t \<in> R")
    case True
    then show ?thesis using history_step by simp
  next
    case False
    then have "t = g" using enter history_step by blast
    then show ?thesis using history_last history_step by force
  qed
qed

end

definition terminal_status :: "op_status \<Rightarrow> bool" where
  "terminal_status s = (s = StatusCompleted \<or> s = StatusCancelled)"

lemma permitted_cases:
  "permitted a b \<longleftrightarrow> a = b \<or> (case valid_next a of None \<Rightarrow> False | Some l \<Rightarrow> b \<in> set l)"
  by (cases a) (auto simp: can_transition_def can_transition_table_def)

interpretation guard: status_graph permitted terminal_status
  by unfold_locales (auto simp: can_transition_def terminal_status_def split: if_splits)

text \<open>The guard with the retry flag set accepts no change that the plain guard refuses.\<close>

lemma retry_permitted:
  "can_transition a b True = None \<longleftrightarrow>
     a = b \<or> (a = StatusFailed \<or> a = StatusTimeout) \<and> permitted a b"
  by (auto simp: can_transition_def can_transition_table_def)

section \<open>Regions\<close>

text \<open>
  Each status on the way to \<open>COMPLETED\<close> has one status before it from which the region beyond is
  entered.
\<close>

lemma completed_region:
  "permitted a b \<Longrightarrow> a \<notin> {StatusCompleted} \<Longrightarrow> b \<in> {StatusCompleted} \<Longrightarrow> a = StatusProcessing"
  by (cases a) (auto simp: permitted_cases)

lemma processing_region:
  "permitted a b \<Longrightarrow> a \<notin> {StatusProcessing, StatusCompleted} \<Longrightarrow>
     b \<in> {StatusProcessing, StatusCompleted} \<Longrightarrow> a = StatusTransferred"
  by (cases a) (auto simp: permitted_cases)

lemma transferred_region:
  "permitted a b \<Longrightarrow> a \<notin> {StatusTransferred, StatusProcessing, StatusCompleted} \<Longrightarrow>
     b \<in> {StatusTransferred, StatusProcessing, StatusCompleted} \<Longrightarrow> a = StatusTransferring"
  by (cases a) (auto simp: permitted_cases)

lemma transferring_region:
  "permitted a b \<Longrightarrow>
     a \<notin> {StatusTransferring, StatusTransferred, StatusProcessing, StatusCompleted} \<Longrightarrow>
     b \<in> {StatusTransferring, StatusTransferred, StatusProcessing, StatusCompleted} \<Longrightarrow>
     a = StatusDispatched"
  by (cases a) (auto simp: permitted_cases)

lemma queued_region:
  "permitted a b \<Longrightarrow> a \<notin> - {StatusCreated, StatusQueued, StatusCancelled} \<Longrightarrow>
     b \<in> - {StatusCreated, StatusQueued, StatusCancelled} \<Longrightarrow> a = StatusQueued"
  by (cases a) (auto simp: permitted_cases)

end
