(* ===== verification/Query_Ops.thy ===== *)
theory Query_Ops
  imports Log_Repos
begin

text \<open>
  The read-only use cases (\<open>application/operations/get.go\<close>, \<open>list.go\<close>, \<open>result.go\<close>).
\<close>

definition get_execute :: "string \<Rightarrow> operation option io" where
  "get_execute i = op_get_by_id i"

record list_output =
  lo_operations :: "operation list"
  lo_next_cursor :: "string option"

definition list_execute :: "op_filter \<Rightarrow> list_output io" where
  "list_execute inp =
     (let fl = (if fl_limit inp \<le> 0 then inp\<lparr>fl_limit := 50\<rparr> else inp) in
      bindE (op_list fl) (\<lambda>ops. ret \<lparr>lo_operations = ops, lo_next_cursor = None\<rparr>))"

definition result_execute :: "string \<Rightarrow> op_result io" where
  "result_execute i =
     bindE (op_get_by_id i) (\<lambda>m.
       case m of
         None \<Rightarrow> fail ErrOperationNotFound
       | Some op \<Rightarrow>
           (if op_status op \<noteq> StatusCompleted then fail ErrResultNotReady
            else bindE (result_get_by_operation_id (op_id op)) (\<lambda>res.
              case res of
                None \<Rightarrow> fail ErrResultNotReady
              | Some r \<Rightarrow> ret r)))"

end
