(* ===== verification/Storage_Properties.thy ===== *)
theory Storage_Properties
  imports Samples Versioned Transition_Guard Query_Ops
begin

text \<open>
  Properties of the storage: what a write of an operation followed by a read returns, concurrent
  writers, the compare-and-swap transition, the list, nodes, chunks and heartbeats.
\<close>

section \<open>Writes and reads\<close>

text \<open>
  C15: an operation stored by \<open>Create\<close> is read back with its times cut to microseconds; the columns for
  the error and the cancel request are not filled. Every other operation reads as before. An input
  file, which no caller passes, has to have a positive size.
\<close>

theorem create_then_read:
  assumes "op_create op w = (Inr (), w')"
    and "\<forall>f. op_input_file op = Some f \<longrightarrow> 0 < if_size_bytes f"
  shows "db_operation k (db w') =
    (if k = op_id op then Some (op\<lparr>
       op_created_at := datetime6 (op_created_at op), op_updated_at := datetime6 (op_updated_at op),
       op_deadline := map_option datetime6 (op_deadline op), op_cancel_requested_at := None,
       op_error := None\<rparr>)
     else db_operation k (db w))"
proof -
  obtain t where put: "sql_insert r_id (op_create_row op) (t_operations (db w)) = Inr t"
    and t: "t_operations (db w') = t"
    using op_insert_Inr [OF exec_db_Inr [OF assms(1) [unfolded op_create_def]]] by auto
  have "row_to_operation (op_create_row op) = op\<lparr>
       op_created_at := datetime6 (op_created_at op), op_updated_at := datetime6 (op_updated_at op),
       op_deadline := map_option datetime6 (op_deadline op), op_cancel_requested_at := None,
       op_error := None\<rparr>"
    using assms(2) by (cases "op_input_file op")
      (simp_all add: row_to_operation_def op_create_row_def cols_to_error_def no_err_cols_def)
  moreover have "r_id (op_create_row op) = op_id op" by (simp add: op_create_row_def)
  ultimately show ?thesis using op_table.get_after_put [OF put] t by (simp add: db_operation_def)
qed


theorem create_then_read_witness:
  "db_operation ''op-1'' (db (snd (op_create (sample_operation StatusCreated) (sample_world empty_db)))) =
     Some ((sample_operation StatusCreated)\<lparr>op_created_at := 1000, op_updated_at := 2000\<rparr>)"
proof -
  have "op_create (sample_operation StatusCreated) (sample_world empty_db) =
    (Inr (), snd (op_create (sample_operation StatusCreated) (sample_world empty_db)))"
    by (simp add: op_create_def exec_db_quiet op_insert_def op_row_fits_def op_create_row_def
        sample_operation_def empty_db_def sql_insert_def varchar_short sql_ranges err_cols_fit_def
        no_err_cols_def null_string_def)
  from create_then_read [OF this, of "''op-1''"] show ?thesis
    by (simp add: sample_operation_def datetime6_def)
qed

text \<open>
  A successful \<open>Update\<close> replaces the operation with the struct's id exactly when the version stored
  is the struct's less one. The columns that the statement does not set keep what they had, an error
  without code and message is stored as none, and in every other case nothing changes.
\<close>

lemma update_then_read:
  assumes "op_update s w = (Inr (), w')"
  shows "db_operation k (db w') =
    (case db_operation k (db w) of
       None \<Rightarrow> None
     | Some o' \<Rightarrow> Some
         (if k = op_id s \<and> op_version o' = op_version s - 1 then o'\<lparr>
            op_status := op_status s, op_stage := op_stage s, op_processor := op_processor s,
            op_retry_count := op_retry_count s, op_updated_at := datetime6 (op_updated_at s),
            op_input_file := op_input_file s, op_current_job_id := op_current_job_id s,
            op_current_attempt_id := op_current_attempt_id s,
            op_current_transfer_id := op_current_transfer_id s,
            op_cancel_requested_at := map_option datetime6 (op_cancel_requested_at s),
            op_error := stored_error (op_error s), op_version := op_version s\<rparr>
          else o'))"
  using op_update_reads [OF assms, of k]
  by (cases "db_operation k (db w)") (simp_all add: op_overwrite_def)

text \<open>
  Of two writers whose structs were loaded at the same version, the second one's \<open>Update\<close> returns
  nil too, but every operation reads as the first one left it.
\<close>

lemma second_update_is_lost:
  assumes "op_update s1 w = (Inr (), w1)" and "op_update s2 w1 = (Inr (), w2)"
    and "op_id s2 = op_id s1" and "op_version s2 = op_version s1"
    and "map_option op_version (db_operation (op_id s1) (db w)) = Some (op_version s1 - 1)"
  shows "db_operation k (db w2) = db_operation k (db w1)"
proof -
  have put: "op_update_stmt s1 (db w) = Inr ((), db w1)" "op_update_stmt s2 (db w1) = Inr ((), db w2)"
    using assms(1,2) unfolding op_update_def by (auto dest: exec_db_Inr)
  obtain r where "op_lookup (op_id s1) (t_operations (db w)) = Some r" "r_version r = op_version s1 - 1"
    using assms(5) by (auto simp: db_operation_def)
  from op_versions.second_writer_lost(2) [OF put _ _ this] assms(3,4) show ?thesis
    by (simp add: db_operation_def)
qed

section \<open>Transition\<close>

lemma op_row_fits_transition:
  "op_row_fits r \<Longrightarrow> sql_int (r_version r + 1) \<Longrightarrow> \<forall>s. to_st \<noteq> StatusOther s \<Longrightarrow>
     op_row_fits (op_transition_row to_st now r)"
  by (cases to_st)
    (simp_all add: op_row_fits_def op_transition_row_def varchar_short)

lemma op_status_string_inj:
  "\<forall>s. a \<noteq> StatusOther s \<Longrightarrow> \<forall>s. b \<noteq> StatusOther s \<Longrightarrow>
     op_status_string a = op_status_string b \<Longrightarrow> a = b"
  by (cases a; cases b) simp_all

text \<open>
  \<open>Transition\<close> is a compare-and-swap: when the operation has the expected status and version it
  gets the new status, the stage that belongs to it and the next version, and is returned; otherwise
  the error is \<open>ErrOperationNotFound\<close> of the ports and the table is as before.
\<close>

lemma transition_is_compare_and_swap:
  assumes "quiet w" and "op_ids_distinct (db w)"
    and "op_lookup i (t_operations (db w)) = Some r" and "op_row_fits r"
    and "sql_int (r_version r + 1)" and "\<forall>s. to_st \<noteq> StatusOther s"
    and "op_transition i from_st to_st v w = (res, w')"
  shows "if op_status_string (r_status r) = op_status_string from_st \<and> r_version r = v
    then (\<exists>op. res = Inr (Some op) \<and> db_operation i (db w') = Some op \<and> op_status op = to_st \<and>
        op_stage op = stage_for_status to_st \<and> op_version op = v + 1)
    else res = Inl ErrPortsOperationNotFound \<and> t_operations (db w') = t_operations (db w)"
proof -
  let ?t = "t_operations (db w)" and ?p = "op_transition_where i from_st v"
  let ?f = "op_transition_row to_st (clock w (ticks w))"
  have r: "r \<in> set ?t" "r_id r = i" using op_lookup_Some [OF assms(3)] by simp_all
  have only: "q = r" if "q \<in> set ?t" "?p q" for q
    using op_lookup_unique [OF assms(2) that(1)] that(2) assms(3)
    by (simp add: op_transition_where_def)
  have fits: "\<not> (\<exists>q\<in>set ?t. ?p q \<and> \<not> op_row_fits (?f q))"
    using only op_row_fits_transition [OF assms(4-6)] by blast
  have moved: "?f r \<noteq> r"
  proof
    assume "?f r = r"
    then have "r_version (?f r) = r_version r" by simp
    then show False by simp
  qed
  have run: "op_transition i from_st to_st v w =
    exec_db ''transition operations'' (op_transition_stmt i from_st to_st v (clock w (ticks w)))
      (w\<lparr>ticks := Suc (ticks w)\<rparr>)"
    by (simp add: op_transition_def bindE_Inr [OF time_now_simp])
  show ?thesis
  proof (cases "op_status_string (r_status r) = op_status_string from_st \<and> r_version r = v")
    case True
    then have "?p r" using r by (simp add: op_transition_where_def)
    then have "sql_changed ?p ?f ?t \<noteq> 0"
      using r moved by (auto simp: sql_changed_def filter_empty_conv)
    moreover have "op_lookup i (sql_update ?p ?f ?t) = Some (?f r)"
      using op_table.get_after_update [of ?f] assms(3) \<open>?p r\<close> by simp
    ultimately show ?thesis
      using True assms(1,7) fits
      by (auto simp: run exec_db_quiet op_transition_stmt_def Let_def db_operation_def)
  next
    case False
    then have "\<not> ?p q" if "q \<in> set ?t" for q
      using only [OF that] by (auto simp: op_transition_where_def)
    then have "sql_changed ?p ?f ?t = 0" by (simp add: sql_changed_def filter_empty_conv)
    then show ?thesis
      using False assms(1,7) fits
      by (auto simp: run exec_db_quiet op_transition_stmt_def Let_def)
  qed
qed

section \<open>List\<close>



definition page_size :: "op_filter \<Rightarrow> nat" where
  "page_size fl = nat (if fl_limit fl \<le> 0 then 50 else fl_limit fl)"



lemma page_size_pos: "0 < page_size fl"
  by (simp add: page_size_def)









section \<open>The transition guard\<close>

text \<open>
  Under the transition guard every history of an operation from \<open>CREATED\<close> to \<open>COMPLETED\<close> passes
  \<open>QUEUED\<close>, \<open>DISPATCHED\<close>, \<open>TRANSFERRING\<close>, \<open>TRANSFERRED\<close> and \<open>PROCESSING\<close>, however often it fails,
  times out and is retried between.
\<close>

lemma completion_passes_every_stage:
  assumes "guard.history StatusCreated hs StatusCompleted"
  shows "{StatusQueued, StatusDispatched, StatusTransferring, StatusTransferred, StatusProcessing}
    \<subseteq> set hs"
proof -
  have "StatusProcessing \<in> set hs"
    by (rule guard.history_gate [OF assms, where R = "{StatusCompleted}"], simp, simp, rule completed_region)
  moreover
  have "StatusTransferred \<in> set hs"
    by (rule guard.history_gate [OF assms, where R = "{StatusProcessing, StatusCompleted}"], simp, simp, rule processing_region)
  moreover
  have "StatusTransferring \<in> set hs"
    by (rule guard.history_gate [OF assms, where R = "{StatusTransferred, StatusProcessing, StatusCompleted}"], simp, simp, rule transferred_region)
  moreover
  have "StatusDispatched \<in> set hs"
    by (rule guard.history_gate [OF assms, where R = "{StatusTransferring, StatusTransferred, StatusProcessing, StatusCompleted}"], simp, simp, rule transferring_region)
  moreover
  have "StatusQueued \<in> set hs"
    by (rule guard.history_gate [OF assms, where R = "- {StatusCreated, StatusQueued, StatusCancelled}"], simp, simp, rule queued_region)
  ultimately show ?thesis by simp
qed

text \<open>
  The guard's answers. A change to the same status is always allowed; \<open>COMPLETED\<close> and \<open>CANCELLED\<close>
  are final; a retry is allowed from \<open>FAILED\<close> and \<open>TIMEOUT\<close> alone, to what the table has for them; a
  refusal is \<open>ErrInvalidStateForOp\<close> for a retry from another status that is not final and
  \<open>ErrInvalidTransition\<close> in every other case.
\<close>

lemma guard_decisions:
  "(can_transition a b retry = None \<longleftrightarrow>
      a = b \<or> (a \<noteq> StatusCompleted \<and> a \<noteq> StatusCancelled \<and>
        (retry \<longrightarrow> a = StatusFailed \<or> a = StatusTimeout) \<and>
        (\<exists>l. valid_next a = Some l \<and> b \<in> set l))) \<and>
   (\<forall>e. can_transition a b retry = Some e \<longrightarrow>
      errors_is e (if retry \<and> a \<notin> {StatusCompleted, StatusCancelled, StatusFailed, StatusTimeout}
                   then ErrInvalidStateForOp else ErrInvalidTransition))"
  by (auto simp: can_transition_def can_transition_table_def split: option.splits)

section \<open>Nodes and chunks\<close>

text \<open>
  Registering a node again replaces what is stored for it, except the time it was first
  registered; other nodes keep what they have.
\<close>

lemma reregistration_keeps_first_time:
  assumes "node_upsert n w = (Inr (), w')"
  shows "node_lookup k (t_nodes (db w')) =
    (if k = nd_id n then Some (case node_lookup k (t_nodes (db w)) of
         None \<Rightarrow> node_row n
       | Some x \<Rightarrow> (node_row n)\<lparr>nd_registered_at := nd_registered_at x\<rparr>)
     else node_lookup k (t_nodes (db w)))"
proof -
  have t: "t_nodes (db w') = sql_upsert nd_id (node_row n)
    (\<lambda>x. (node_row n)\<lparr>nd_registered_at := nd_registered_at x\<rparr>) (t_nodes (db w))"
    using exec_db_Inr [OF assms [unfolded node_upsert_def]]
    by (auto simp: node_upsert_stmt_def split: if_splits dest: sym)
  have "nd_id (node_row n) = nd_id n" by (simp add: node_row_def)
  then show ?thesis unfolding t by (subst node_table.get_after_upsert) simp_all
qed

definition healthy_node :: "string \<Rightarrow> int \<Rightarrow> node" where
  "healthy_node i t =
     \<lparr>nd_id = i, nd_incarnation_id = ''inc'', nd_incarnation_started_at = t,
      nd_status = NodeStatusHealthy, nd_roles = [''worker''], nd_heartbeat_sequence = 0,
      nd_last_heartbeat_at = None, nd_heartbeat_deadline_at = None, nd_active_job_count = 0,
      nd_active_transfer_count = 0, nd_max_concurrent_jobs = None, nd_disk_free_bytes = None,
      nd_disk_total_bytes = None, nd_cpu_sample = None, nd_memory_sample = None,
      nd_self_checks = None, nd_draining = False, nd_shutdown_deadline_at = None,
      nd_registered_at = t, nd_updated_at = t\<rparr>"

text \<open>The first eligible node of a list in the order of the query is the least recently updated one.\<close>

lemma first_worker_least:
  assumes "first_worker ns = Some s" and "sorted (map nd_updated_at ns)"
  obtains n where "n \<in> set ns" and "sr_node_id s = nd_id n"
    and "''worker'' \<in> set (nd_roles n) \<or> ''hybrid'' \<in> set (nd_roles n)"
    and "\<forall>m\<in>set ns. ''worker'' \<in> set (nd_roles m) \<or> ''hybrid'' \<in> set (nd_roles m) \<longrightarrow>
      nd_updated_at n \<le> nd_updated_at m"
proof -
  obtain pre n post where *: "ns = pre @ n # post" "sr_node_id s = nd_id n"
    "''worker'' \<in> set (nd_roles n) \<or> ''hybrid'' \<in> set (nd_roles n)"
    "\<forall>m\<in>set pre. ''worker'' \<notin> set (nd_roles m) \<and> ''hybrid'' \<notin> set (nd_roles m)"
    using first_worker_Some assms(1) by blast
  have "\<forall>m\<in>set post. nd_updated_at n \<le> nd_updated_at m"
    using assms(2) unfolding *(1) by (simp add: sorted_append)
  then show ?thesis using that [of n] * by auto
qed

text \<open>
  C36: the scheduler picks a node that is healthy or degraded and has the role worker or hybrid, and
  of those one whose row was updated least recently; it reports that there is none exactly when there
  is none. The heartbeat deadline and the draining flag of a node play no part.
\<close>

theorem scheduler_picks_least_recent:
  assumes "quiet w"
  shows "case fst (select_worker w) of
      Inl e \<Rightarrow> e = ErrNoHealthyWorker \<and> (\<forall>n\<in>set (t_nodes (db w)). \<not> eligible n)
    | Inr s \<Rightarrow> \<exists>n\<in>set (t_nodes (db w)). eligible n \<and> nd_id n = sr_node_id s \<and>
        (\<forall>m\<in>set (t_nodes (db w)). eligible m \<longrightarrow> nd_updated_at n \<le> nd_updated_at m)"
proof -
  let ?H = "healthy_nodes (t_nodes (db w))"
  have roles: "nd_roles (row_to_node n) = nd_roles n" "nd_id (row_to_node n) = nd_id n" for n
    by (simp_all add: row_to_node_def)
  have same: "first_worker (map row_to_node ns) = first_worker ns" for ns
    by (induction ns) (simp_all add: roles)
  have run: "fst (select_worker w) = (case first_worker ?H of None \<Rightarrow> Inl ErrNoHealthyWorker
    | Some s \<Rightarrow> Inr s)"
    using assms by (simp add: select_worker_def node_list_healthy_def query_db_quiet bindE_def same
        fail_def ret_def split: option.split)
  have H: "n \<in> set ?H \<longleftrightarrow> n \<in> set (t_nodes (db w)) \<and>
      (nd_status n = NodeStatusHealthy \<or> nd_status n = NodeStatusDegraded)" for n
    by (auto simp: healthy_nodes_def)
  show ?thesis
  proof (cases "first_worker ?H")
    case None
    then have "\<not> eligible n" if "n \<in> set (t_nodes (db w))" for n
      using H [of n] that by (auto simp: first_worker_None eligible_def)
    then show ?thesis using run None by simp
  next
    case (Some s)
    have "sorted (map nd_updated_at ?H)" by (simp add: healthy_nodes_def sql_order_by_def)
    then obtain n where *: "n \<in> set ?H" "sr_node_id s = nd_id n"
      "''worker'' \<in> set (nd_roles n) \<or> ''hybrid'' \<in> set (nd_roles n)"
      "\<forall>m\<in>set ?H. ''worker'' \<in> set (nd_roles m) \<or> ''hybrid'' \<in> set (nd_roles m) \<longrightarrow>
        nd_updated_at n \<le> nd_updated_at m"
      using Some by (elim first_worker_least [rotated])
    have "nd_updated_at n \<le> nd_updated_at m" if "m \<in> set (t_nodes (db w))" "eligible m" for m
      using *(4) H [of m] that unfolding eligible_def by blast
    moreover have "n \<in> set (t_nodes (db w))" "eligible n"
      using H [of n] *(1,3) by (auto simp: eligible_def)
    ultimately show ?thesis using run Some *(2) by auto
  qed
qed

theorem scheduler_picks_least_recent_witness:
  "fst (select_worker (sample_world (empty_db\<lparr>t_nodes := [healthy_node ''b'' 2000, healthy_node ''a'' 1000]\<rparr>)))
     = Inr \<lparr>sr_node_id = ''a'', sr_reason = ''first_healthy_worker''\<rparr>"
proof -
  let ?w = "sample_world (empty_db\<lparr>t_nodes := [healthy_node ''b'' 2000, healthy_node ''a'' 1000]\<rparr>)"
  have "fst (select_worker ?w) = Inr \<lparr>sr_node_id = ''a'', sr_reason = ''first_healthy_worker''\<rparr>"
    by (simp add: select_worker_def node_list_healthy_def query_db_quiet bindE_def ret_def
        healthy_nodes_def sql_order_by_def healthy_node_def row_to_node_def)
  then show ?thesis using scheduler_picks_least_recent [OF quiet_sample, of "db ?w"] by simp
qed

text \<open>
  A transfer has at most one chunk row per index, however often its chunks are stored, and a
  repeated store keeps the offset the chunk was first stored with.
\<close>

lemma chunk_rows_stay_unique:
  assumes "chunk_upsert c w = (Inr (), w')"
    and "distinct (map (\<lambda>x. (ck_transfer_id x, ck_chunk_index x)) (t_chunks (db w)))"
  shows "distinct (map (\<lambda>x. (ck_transfer_id x, ck_chunk_index x)) (t_chunks (db w'))) \<and>
    (\<forall>x\<in>set (t_chunks (db w)). \<exists>y\<in>set (t_chunks (db w')). ck_id y = ck_id x \<and>
       ck_transfer_id y = ck_transfer_id x \<and> ck_chunk_index y = ck_chunk_index x \<and>
       ck_chunk_offset y = ck_chunk_offset x)"
proof -
  let ?k = "\<lambda>x. (ck_transfer_id x, ck_chunk_index x)"
  let ?r = "chunk_row c"
  have up: "map ?k (update_first p (chunk_overwrite r) t) = map ?k t" for p r t
    by (induction t) (simp_all add: chunk_overwrite_def)
  have kept: "\<forall>x\<in>set t. \<exists>y\<in>set (update_first p (chunk_overwrite r) t). ck_id y = ck_id x \<and>
    ck_transfer_id y = ck_transfer_id x \<and> ck_chunk_index y = ck_chunk_index x \<and>
    ck_chunk_offset y = ck_chunk_offset x" for p r t
    by (induction t) (auto simp: chunk_overwrite_def)
  have st: "chunk_upsert_stmt c (db w) = Inr ((), db w')"
    by (rule exec_db_Inr [OF assms(1) [unfolded chunk_upsert_def]])
  show ?thesis
  proof (cases "\<exists>x\<in>set (t_chunks (db w)). chunk_duplicate ?r x")
    case True
    then have "t_chunks (db w') =
      update_first (chunk_duplicate ?r) (chunk_overwrite ?r) (t_chunks (db w))"
      using st by (auto simp: chunk_upsert_stmt_def Let_def split: if_splits dest: sym)
    then show ?thesis using assms(2) kept by (simp add: up)
  next
    case False
    then have "t_chunks (db w') = t_chunks (db w) @ [?r]"
      using st by (auto simp: chunk_upsert_stmt_def Let_def split: if_splits dest: sym)
    then show ?thesis using assms(2) False by (auto simp: chunk_duplicate_def)
  qed
qed

end
