(* ===== verification/Event_Codec.thy ===== *)
theory Event_Codec
  imports Operation_Repo Nats_Client
begin

text \<open>
  How an event travels: \<open>json.Marshal\<close> of \<open>OperationEvent\<close> (\<open>domain/event/event.go\<close>), whose struct has
  no tags, so that the keys are the Go field names, and the struct with snake-case tags that the
  event consumer of \<open>app/role.go\<close> decodes a message into.
\<close>

definition opt_str :: "string option \<Rightarrow> json" where
  "opt_str s = (case s of None \<Rightarrow> JNull | Some x \<Rightarrow> JStr x)"

definition marshal_event :: "operation_event \<Rightarrow> json" where
  "marshal_event e =
     JObj [(''ID'', JStr (ev_id e)), (''OperationID'', JStr (ev_operation_id e)),
           (''EventType'', JStr (event_type_string (ev_type e))), (''JobID'', opt_str (ev_job_id e)),
           (''AttemptID'', opt_str (ev_attempt_id e)), (''TransferID'', opt_str (ev_transfer_id e)),
           (''Payload'', JObj (ev_payload e)), (''CorrelationID'', JStr (ev_correlation_id e)),
           (''IssuedAt'', JStr (rfc3339_nano (ev_issued_at e))),
           (''ActorNodeID'', JStr (ev_actor_node_id e)), (''Version'', JInt (ev_version e))]"

text \<open>The anonymous struct of \<open>startEventConsumer\<close>.\<close>

record event_message =
  em_id :: string
  em_event_type :: string
  em_operation_id :: string
  em_job_id :: string
  em_attempt_id :: string
  em_transfer_id :: string
  em_correlation_id :: string
  em_payload :: json_map

definition zero_event_message :: event_message where
  "zero_event_message =
     \<lparr>em_id = [], em_event_type = [], em_operation_id = [], em_job_id = [], em_attempt_id = [],
      em_transfer_id = [], em_correlation_id = [], em_payload = []\<rparr>"

definition unmarshal_event_message :: "json \<Rightarrow> event_message option" where
  "unmarshal_event_message j =
     (case j of
        JObj m \<Rightarrow>
          (case (struct_string m ''id'', struct_string m ''event_type'',
                 struct_string m ''operation_id'', struct_string m ''job_id'') of
             (Some i, Some t, Some oid, Some jid) \<Rightarrow>
               (case (struct_string m ''attempt_id'', struct_string m ''transfer_id'',
                      struct_string m ''correlation_id'', struct_map m ''payload'') of
                  (Some a, Some x, Some c, Some p) \<Rightarrow>
                    Some \<lparr>em_id = i, em_event_type = t, em_operation_id = oid, em_job_id = jid,
                          em_attempt_id = a, em_transfer_id = x, em_correlation_id = c,
                          em_payload = p\<rparr>
                | _ \<Rightarrow> None)
           | _ \<Rightarrow> None)
      | JNull \<Rightarrow> Some zero_event_message
      | _ \<Rightarrow> None)"

text \<open>The command struct with its tags, as \<open>startCommandConsumer\<close> decodes it.\<close>

record process_command =
  pc_command_id :: string
  pc_operation_id :: string
  pc_job_id :: string
  pc_type :: string
  pc_payload :: json_map

definition unmarshal_command :: "json \<Rightarrow> process_command option" where
  "unmarshal_command j =
     (case j of
        JObj m \<Rightarrow>
          (case (struct_string m ''command_id'', struct_string m ''operation_id'',
                 struct_string m ''job_id'', struct_string m ''type'', struct_map m ''payload'') of
             (Some c, Some oid, Some jid, Some t, Some p) \<Rightarrow>
               Some \<lparr>pc_command_id = c, pc_operation_id = oid, pc_job_id = jid, pc_type = t,
                     pc_payload = p\<rparr>
           | _ \<Rightarrow> None)
      | JNull \<Rightarrow> Some \<lparr>pc_command_id = [], pc_operation_id = [], pc_job_id = [], pc_type = [],
                       pc_payload = []\<rparr>
      | _ \<Rightarrow> None)"

section \<open>Facts\<close>

text \<open>Only \<open>id\<close> and \<open>payload\<close> meet a key of the encoding up to letter case.\<close>

lemma fold_case_simps [simp]:
  "fold_case [] = []" "fold_case (c # s) = lower_char c # fold_case s"
  by (simp_all add: fold_case_def)

lemma lower_char_upper [simp]:
  "lower_char (CHR ''I'') = CHR ''i''"
  "lower_char (CHR ''D'') = CHR ''d''"
  "lower_char (CHR ''O'') = CHR ''o''"
  "lower_char (CHR ''E'') = CHR ''e''"
  "lower_char (CHR ''T'') = CHR ''t''"
  "lower_char (CHR ''J'') = CHR ''j''"
  "lower_char (CHR ''A'') = CHR ''a''"
  "lower_char (CHR ''P'') = CHR ''p''"
  "lower_char (CHR ''C'') = CHR ''c''"
  "lower_char (CHR ''N'') = CHR ''n''"
  "lower_char (CHR ''V'') = CHR ''v''"
  by code_simp+

lemma lower_char_same [simp]:
  "(of_char c :: nat) < 65 \<or> 90 < (of_char c :: nat) \<Longrightarrow> lower_char c = c"
  by (auto simp: lower_char_def Let_def)

lemma decoded_event:
  "unmarshal_event_message (marshal_event e) =
     Some (zero_event_message\<lparr>em_id := ev_id e, em_payload := json_map_any (ev_payload e)\<rparr>)"
  by (simp add: unmarshal_event_message_def marshal_event_def struct_string_def struct_map_def
      struct_values_def zero_event_message_def)

lemma decoded_command:
  "unmarshal_command (JObj [(''command_id'', JStr c), (''job_id'', JStr j), (''operation_id'', JStr i),
     (''payload'', JObj p), (''type'', JStr t)]) =
     Some \<lparr>pc_command_id = c, pc_operation_id = i, pc_job_id = j, pc_type = t,
           pc_payload = json_map_any p\<rparr>"
  by (simp add: unmarshal_command_def struct_string_def struct_map_def struct_values_def)

end
