(* ===== verification/Transfer_Receiver.thy ===== *)
theory Transfer_Receiver
  imports Dispatch_Op Event_Codec
begin

text \<open>
  The receiving side of a transfer (\<open>infrastructure/transfer/receiver.go\<close>): accepting a
  \<open>START_TRANSFER\<close> command, one delivery of a chunk, and the finalization. An \<open>ActiveTransfer\<close> is passed
  along and returned updated; its mutex is held over each of its reads and writes and JetStream calls
  the handler of one consumer sequentially, so a delivery is one step. An open file is the path it
  was opened at. A failing write leaves the file as it was or wrote all of the chunk.
\<close>

record receiver_config =
  rc_node_id :: string
  rc_staging_dir :: string

record active_transfer =
  ac_transfer :: file_transfer
  ac_total_chunks :: int
  ac_total_bytes :: int
  ac_file_sha256 :: string
  ac_received :: "(int \<times> file_chunk) list"
  ac_received_size :: int
  ac_file :: "string option"
  ac_manifest_path :: string

section \<open>Files\<close>

text \<open>\<open>File.Truncate\<close> and \<open>File.WriteAt\<close> at an offset that is not negative.\<close>

definition truncate_file :: "nat \<Rightarrow> bytes \<Rightarrow> bytes" where
  "truncate_file n c = take n c @ replicate (n - length c) 0"

definition write_at :: "bytes \<Rightarrow> nat \<Rightarrow> bytes \<Rightarrow> bytes" where
  "write_at c off p =
     (if p = [] then c
      else take off c @ replicate (off - length c) 0 @ p @ drop (off + length p) c)"

definition file_content :: "world \<Rightarrow> string \<Rightarrow> string \<Rightarrow> bytes" where
  "file_content w n p = (case disk w n p of None \<Rightarrow> [] | Some c \<Rightarrow> c)"

definition change_file :: "string \<Rightarrow> string \<Rightarrow> (bytes \<Rightarrow> bytes) \<Rightarrow> unit io" where
  "change_file n p f = modify_world (\<lambda>w. disk_write n p (Some (f (file_content w n p))) w)"

text \<open>A call made with a context that is already cancelled returns its error and does nothing.\<close>

definition with_ctx :: "bool \<Rightarrow> 'a io \<Rightarrow> 'a io" where
  "with_ctx cancelled m = (if cancelled then fail (ErrExternal ''context canceled'') else m)"

section \<open>FinalizeTransfer\<close>

text \<open>Up to the comparison of the checksums and the close of the file.\<close>

definition finalize_verify :: "receiver_config \<Rightarrow> active_transfer \<Rightarrow> string io" where
  "finalize_verify cfg a =
     (case ac_file a of
        None \<Rightarrow> fail (ErrWrap ''sync staging file'' (ErrMsg ''invalid argument''))
      | Some path \<Rightarrow>
          bindE (wrap_err ''sync staging file'' (extern ''fsync'' (ret ()))) (\<lambda>_.
          bindE (wrap_err ''stat staging file'' (extern ''stat''
            (\<lambda>w. (Inr (int (length (file_content w (rc_node_id cfg) path))), w)))) (\<lambda>sz.
          if sz \<noteq> ac_total_bytes a then
            fail (ErrMsg (''final file size mismatch: got '' @ fmt_d sz @ '' want '' @
              fmt_d (ac_total_bytes a)))
          else
            bindE (wrap_err ''seek to start'' (extern ''seek'' (ret ()))) (\<lambda>_.
            bindE (wrap_err ''compute file checksum'' (extern ''read''
              (\<lambda>w. (Inr (sha256_hex (file_content w (rc_node_id cfg) path)), w)))) (\<lambda>digest.
            if digest \<noteq> ac_file_sha256 a then
              fail (ErrMsg (''file checksum mismatch: got '' @ digest @ '' want '' @ ac_file_sha256 a))
            else
              bindE (wrap_err ''close staging file'' (extern ''close'' (ret ()))) (\<lambda>_.
              ret digest))))))"

definition completed_transfer :: "int \<Rightarrow> active_transfer \<Rightarrow> file_transfer" where
  "completed_transfer now a = (ac_transfer a)\<lparr>
     tr_status := TransferStatusCompleted, tr_completed_at := Some now,
     tr_received_chunks := ac_total_chunks a\<rparr>"

definition verified_event ::
  "receiver_config \<Rightarrow> string \<Rightarrow> string \<Rightarrow> file_transfer \<Rightarrow> int \<Rightarrow> int \<Rightarrow> operation_event" where
  "verified_event cfg tid digest x stamp now =
     \<lparr>ev_id = ''evt-'' @ tr_id x @ ''-'' @ fmt_d stamp, ev_operation_id = tr_operation_id x,
      ev_type = EventTypeTransferVerified, ev_job_id = None, ev_attempt_id = None,
      ev_transfer_id = None,
      ev_payload = [(''transfer_id'', JStr tid), (''file_sha256'', JStr digest)],
      ev_correlation_id = tr_operation_id x, ev_issued_at = now,
      ev_actor_node_id = rc_node_id cfg, ev_version = 1\<rparr>"

text \<open>
  With the file closed: \<open>active.cancel()\<close> cancels the child context. When the finalization was called
  with that context (\<open>own_ctx\<close>), the calls that follow are made with a cancelled one.
\<close>

definition finalize_record ::
  "receiver_config \<Rightarrow> bool \<Rightarrow> string \<Rightarrow> string \<Rightarrow> active_transfer \<Rightarrow>
   (active_transfer \<times> go_error option) io" where
  "finalize_record cfg own_ctx tid digest a =
     bindE time_now (\<lambda>now.
     let x = completed_transfer now a; a1 = a\<lparr>ac_file := None, ac_transfer := x\<rparr> in
     bindE (attempt (wrap_err ''update transfer completed'' (with_ctx own_ctx (transfer_update x))))
       (\<lambda>r. case r of
         Inl e \<Rightarrow> ret (a1, Some e)
       | Inr _ \<Rightarrow>
           bindE (ignore_err (extern ''write manifest'' (change_file (rc_node_id cfg)
             (ac_manifest_path a) (\<lambda>_. bytes_of_string (json_text (JObj
               [(''file_sha256'', JStr digest), (''finalized_at'', JStr (rfc3339 now)),
                (''operation_id'', JStr (tr_operation_id x)),
                (''total_bytes'', JInt (ac_total_bytes a)),
                (''total_chunks'', JInt (ac_total_chunks a)),
                (''transfer_id'', JStr (tr_id x))])))))) (\<lambda>_.
           bindE time_now (\<lambda>stamp.
           let evt = verified_event cfg tid digest x stamp now in
           bindE (ignore_err (with_ctx own_ctx (event_append evt))) (\<lambda>_.
           bindE (ignore_err (with_ctx own_ctx (publish_event
             (event_type_string (ev_type evt)) (marshal_event evt)))) (\<lambda>_.
           ret (a1, None)))))))"

definition finalize_transfer ::
  "receiver_config \<Rightarrow> bool \<Rightarrow> string \<Rightarrow> active_transfer \<Rightarrow>
   (active_transfer \<times> go_error option) io" where
  "finalize_transfer cfg own_ctx tid a =
     bindE (attempt (finalize_verify cfg a)) (\<lambda>r.
       case r of
         Inl e \<Rightarrow> ret (a, Some e)
       | Inr digest \<Rightarrow> finalize_record cfg own_ctx tid digest a)"

section \<open>AcceptTransfer\<close>

text \<open>
  The parsed deadline of the command is not used for anything. The transfer has no chunks when the
  command says so: then it is finalized at once, with the context of the command consumer.
\<close>

definition accepted_transfer :: "int \<Rightarrow> file_transfer \<Rightarrow> file_transfer" where
  "accepted_transfer now x = x\<lparr>tr_status := TransferStatusAccepted, tr_accepted_at := Some now\<rparr>"

definition final_path :: "receiver_config \<Rightarrow> json_map \<Rightarrow> string" where
  "final_path cfg cmd =
     filepath_join [filepath_join [rc_staging_dir cfg, field_string cmd ''operation_id'',
       field_string cmd ''transfer_id''], ''final'']"

definition new_active :: "receiver_config \<Rightarrow> json_map \<Rightarrow> file_transfer \<Rightarrow> active_transfer" where
  "new_active cfg cmd x =
     \<lparr>ac_transfer = x, ac_total_chunks = field_float cmd ''total_chunks'',
      ac_total_bytes = field_float cmd ''file_size_bytes'',
      ac_file_sha256 = field_string cmd ''file_sha256'', ac_received = [], ac_received_size = 0,
      ac_file = Some (final_path cfg cmd),
      ac_manifest_path = filepath_join [filepath_join [rc_staging_dir cfg,
        field_string cmd ''operation_id'', field_string cmd ''transfer_id''], ''manifest.json'']\<rparr>"

definition accept_transfer :: "receiver_config \<Rightarrow> json_map \<Rightarrow> active_transfer io" where
  "accept_transfer cfg cmd =
     (let tid = field_string cmd ''transfer_id''; fsize = field_float cmd ''file_size_bytes'' in
      bindE (wrap_err ''get transfer'' (transfer_get_by_id tid)) (\<lambda>x.
      if tr_destination_node_id x \<noteq> rc_node_id cfg then
        fail (ErrMsg (''transfer destination mismatch: got '' @ tr_destination_node_id x @
          '' want '' @ rc_node_id cfg))
      else
        bindE (wrap_err ''create staging dir'' (extern ''mkdir'' (ret ()))) (\<lambda>_.
        bindE (wrap_err ''create staging file'' (extern ''open''
          (change_file (rc_node_id cfg) (final_path cfg cmd) id))) (\<lambda>_.
        bindE (if fsize > 0 then wrap_err ''preallocate staging file'' (extern ''truncate''
            (change_file (rc_node_id cfg) (final_path cfg cmd) (truncate_file (nat fsize))))
          else ret ()) (\<lambda>_.
        bindE time_now (\<lambda>now.
        let x1 = accepted_transfer now x; a = new_active cfg cmd x1 in
        bindE (wrap_err ''update transfer accepted'' (transfer_update x1)) (\<lambda>_.
        bindE (wrap_err ''subscribe chunks''
          (nats_subscribe (transfer_chunks_subject tid) (''chunks-'' @ tr_id x1))) (\<lambda>_.
        if ac_total_chunks a = 0 then
          bindE (finalize_transfer cfg False tid a) (\<lambda>(a1, e). ret a1)
        else ret a))))))))"

section \<open>handleChunk\<close>

definition header_get :: "(string \<times> string) list \<Rightarrow> string \<Rightarrow> string" where
  "header_get hs k = (case map_of hs k of None \<Rightarrow> [] | Some v \<Rightarrow> v)"

text \<open>A number read by \<open>Sscanf\<close> with its error ignored; the variable was 0.\<close>

definition scan_or_zero :: "string \<Rightarrow> int" where
  "scan_or_zero s = (case sscanf_d s of None \<Rightarrow> 0 | Some v \<Rightarrow> v)"

definition received_chunk :: "string \<Rightarrow> int \<Rightarrow> int \<Rightarrow> string \<Rightarrow> bytes \<Rightarrow> file_chunk" where
  "received_chunk tid idx off digest payload =
     \<lparr>ck_id = chunk_id_of tid idx, ck_transfer_id = tid, ck_chunk_index = idx,
      ck_chunk_offset = off, ck_chunk_size = int (length payload), ck_checksum = digest,
      ck_publish_state = ''received'', ck_ack_state = ''acknowledged'', ck_received_at = None,
      ck_acknowledged_at = None, ck_version = 1\<rparr>"

definition add_chunk :: "file_chunk \<Rightarrow> active_transfer \<Rightarrow> active_transfer" where
  "add_chunk c a = a\<lparr>ac_received := (ck_chunk_index c, c) # ac_received a,
                    ac_received_size := ac_received_size a + ck_chunk_size c\<rparr>"

definition chunk_event ::
  "receiver_config \<Rightarrow> file_transfer \<Rightarrow> file_chunk \<Rightarrow> int \<Rightarrow> int \<Rightarrow> operation_event" where
  "chunk_event cfg x c stamp now =
     \<lparr>ev_id = ''evt-chunk-'' @ ck_transfer_id c @ ''-'' @ fmt_d (ck_chunk_index c) @ ''-'' @
        fmt_d stamp,
      ev_operation_id = tr_operation_id x, ev_type = EventTypeChunkAccepted,
      ev_job_id = Some (tr_id x), ev_attempt_id = Some (tr_id x), ev_transfer_id = Some (tr_id x),
      ev_payload = [(''chunk_index'', JInt (ck_chunk_index c)),
                    (''offset'', JInt (ck_chunk_offset c)), (''bytes'', JInt (ck_chunk_size c))],
      ev_correlation_id = tr_operation_id x, ev_issued_at = now,
      ev_actor_node_id = rc_node_id cfg, ev_version = 1\<rparr>"

text \<open>After the chunk is written: the row, the event, and the finalization after the last one.\<close>

definition store_chunk ::
  "receiver_config \<Rightarrow> active_transfer \<Rightarrow> file_chunk \<Rightarrow> active_transfer io" where
  "store_chunk cfg a c =
     (let a1 = add_chunk c a in
      bindE (ignore_err (chunk_upsert c)) (\<lambda>_.
      bindE time_now (\<lambda>stamp.
      bindE time_now (\<lambda>now.
      let evt = chunk_event cfg (ac_transfer a) c stamp now in
      bindE (ignore_err (event_append evt)) (\<lambda>_.
      bindE (ignore_err (publish_event (event_type_string (ev_type evt)) (marshal_event evt))) (\<lambda>_.
      if int (length (ac_received a1)) = ac_total_chunks a1 then
        bindE (finalize_transfer cfg True (ck_transfer_id c) a1) (\<lambda>(a2, e). ret a2)
      else ret a1))))))"

definition write_chunk :: "receiver_config \<Rightarrow> string \<Rightarrow> int \<Rightarrow> bytes \<Rightarrow> unit io" where
  "write_chunk cfg path off payload =
     (if off < 0 then fail (ErrMsg ''negative offset'')
      else extern ''write'' (change_file (rc_node_id cfg) path (\<lambda>c. write_at c (nat off) payload)))"

definition handle_chunk ::
  "receiver_config \<Rightarrow> active_transfer \<Rightarrow> (string \<times> string) list \<Rightarrow> bytes \<Rightarrow> active_transfer io" where
  "handle_chunk cfg a hs payload =
     (if header_get hs ''X-Chunk-Index'' = [] then ret a
      else case sscanf_d (header_get hs ''X-Chunk-Index'') of
        None \<Rightarrow> ret a
      | Some idx \<Rightarrow>
          (let digest = header_get hs ''X-Chunk-SHA256'';
               off = scan_or_zero (header_get hs ''X-Offset'') in
           if int (length payload) \<noteq> scan_or_zero (header_get hs ''X-Payload-Length'') then ret a
           else if sha256_hex payload \<noteq> digest then ret a
           else case ac_file a of
             None \<Rightarrow> ret a
           | Some path \<Rightarrow>
               (case map_of (ac_received a) idx of
                  Some existing \<Rightarrow> ret a
                | None \<Rightarrow>
                    bindE (attempt (write_chunk cfg path off payload)) (\<lambda>r.
                      case r of
                        Inl e \<Rightarrow> ret a
                      | Inr _ \<Rightarrow> store_chunk cfg a
                          (received_chunk (header_get hs ''X-Transfer-Id'') idx off digest payload)))))"

text \<open>A sequence of deliveries to the consumer of the transfer.\<close>

fun receive_all ::
  "receiver_config \<Rightarrow> active_transfer \<Rightarrow> ((string \<times> string) list \<times> bytes) list \<Rightarrow>
   active_transfer io" where
  "receive_all cfg a [] = ret a"
| "receive_all cfg a ((hs, payload) # ms) =
     bindE (handle_chunk cfg a hs payload) (\<lambda>a1. receive_all cfg a1 ms)"

end
