(* ===== verification/Transfer_Facts.thy ===== *)
theory Transfer_Facts
  imports Transfer_Receiver
begin

text \<open>
  What the receiver does with the messages the dispatch publishes: chunks in any order and with
  duplicates put the file together; what the finalization leaves behind in the database and on the
  bus.
\<close>

section \<open>Writing a file in blocks\<close>

text \<open>
  The interface of a file to the reassembly: a write inside the file changes the bytes of its block and
  no others. Blocks of one content that are written in any order agree with it wherever they reach.
\<close>

locale block_store =
  fixes len :: "'s \<Rightarrow> nat"
    and byte_at :: "'s \<Rightarrow> nat \<Rightarrow> byte"
    and put_block :: "'s \<Rightarrow> nat \<Rightarrow> bytes \<Rightarrow> 's"
  assumes len_put: "off + length p \<le> len s \<Longrightarrow> len (put_block s off p) = len s"
    and byte_put: "off + length p \<le> len s \<Longrightarrow> i < len s \<Longrightarrow>
      byte_at (put_block s off p) i =
        (if off \<le> i \<and> i < off + length p then p ! (i - off) else byte_at s i)"
begin

lemma put_agrees:
  assumes "len s = length content" and "off + n \<le> length content"
    and "\<forall>i\<in>I. i < length content \<and> byte_at s i = content ! i"
  shows "\<forall>i\<in>I \<union> {off..<off + n}. i < length content \<and>
    byte_at (put_block s off (take n (drop off content))) i = content ! i"
proof
  fix i
  assume i: "i \<in> I \<union> {off..<off + n}"
  have l: "length (take n (drop off content)) = n" using assms(2) by simp
  have "i < length content" using i assms(2,3) by auto
  moreover have "byte_at (put_block s off (take n (drop off content))) i = content ! i"
    using i assms l byte_put [of off "take n (drop off content)" s i] \<open>i < length content\<close>
    by (auto simp: nth_append)
  ultimately show "i < length content \<and>
    byte_at (put_block s off (take n (drop off content))) i = content ! i" by simp
qed

lemma put_len:
  assumes "len s = length content" and "off + n \<le> length content"
  shows "len (put_block s off (take n (drop off content))) = length content"
  using assms len_put [of off "take n (drop off content)" s] by simp

end

lemma length_write_at: "off + length p \<le> length c \<Longrightarrow> length (write_at c off p) = length c"
  by (auto simp: write_at_def)

lemma nth_write_at:
  assumes "off + length p \<le> length c" and "i < length c"
  shows "write_at c off p ! i =
    (if off \<le> i \<and> i < off + length p then p ! (i - off) else c ! i)"
  using assms by (auto simp: write_at_def nth_append min_def)

interpretation file_blocks: block_store length "(!)" write_at
  by unfold_locales (simp_all add: length_write_at nth_write_at)

section \<open>Finalization\<close>

lemma fmt_d_not_Nil [simp]: "fmt_d i \<noteq> []"
  by (simp add: fmt_d_def)

lemma finalize_verify_ok:
  assumes "quiet w" and "ac_file a = Some path"
    and "file_content w (rc_node_id cfg) path = c"
    and "int (length c) = ac_total_bytes a" and "sha256_hex c = ac_file_sha256 a"
  shows "\<exists>w'. finalize_verify cfg a w = (Inr (sha256_hex c), w') \<and> same_disk w w' \<and>
    db w' = db w \<and> published w' = published w"
  using assms
  by (simp add: finalize_verify_def io_simps file_content_def same_disk_def)

lemma finalize_verify_Inr:
  assumes "finalize_verify cfg a w = (Inr digest, w')"
  shows "\<exists>path. ac_file a = Some path \<and>
    int (length (file_content w (rc_node_id cfg) path)) = ac_total_bytes a \<and>
    digest = ac_file_sha256 a \<and>
    sha256_hex (file_content w (rc_node_id cfg) path) = ac_file_sha256 a"
  using assms
  by (auto simp: finalize_verify_def bindE_def wrap_err_def extern_def ret_def fail_def Let_def
      file_content_def split: option.splits prod.splits sum.splits outcome.splits if_splits)

lemma finalize_own_ctx:
  "finalize_transfer cfg True tid a w =
     (case attempt (finalize_verify cfg a) w of
        (Inl e, w') \<Rightarrow> (Inl e, w')
      | (Inr (Inl e), w') \<Rightarrow> (Inr (a, Some e), w')
      | (Inr (Inr digest), w') \<Rightarrow>
          (Inr (a\<lparr>ac_file := None, ac_transfer := completed_transfer (clock w' (ticks w')) a\<rparr>,
             Some (ErrWrap ''update transfer completed'' (ErrExternal ''context canceled''))),
           w'\<lparr>ticks := Suc (ticks w')\<rparr>))"
  by (auto simp: finalize_transfer_def finalize_record_def with_ctx_def bindE_def time_now_def
      attempt_def wrap_err_def fail_def ret_def Let_def split: prod.split sum.split)


section \<open>Statements of the receiver\<close>

lemma calm_statements:
  "calm (chunk_upsert c)" "calm (event_append e)" "calm (publish_event t j)"
  "calm (transfer_update x)"
  unfolding chunk_upsert_def event_append_def publish_event_def transfer_update_def
  by (intro calm_exec_db calm_wrap calm_publish;
      auto simp: chunk_upsert_stmt_def event_append_stmt_def transfer_update_stmt_def
        sql_insert_def Let_def split: if_splits sum.splits)+

lemma frame_statements:
  "maintains same_disk (chunk_upsert c)" "maintains same_disk (event_append e)"
  "maintains same_disk (publish_event t j)" "maintains same_disk (transfer_update x)"
  unfolding chunk_upsert_def event_append_def publish_event_def transfer_update_def
  by (intro frame_exec_db frame.m_wrap_err frame_publish)+

text \<open>The transfer row is out of reach of a delivery: nothing in it but a cancelled update.\<close>

definition same_transfers :: "db \<Rightarrow> db \<Rightarrow> bool" where
  "same_transfers d d' = (t_transfers d' = t_transfers d \<and> t_operations d' = t_operations d)"

interpretation transfers: db_guarantee same_transfers
  by unfold_locales (simp_all add: same_transfers_def)

lemma finalize_verify_keeps: "keeps same_transfers (finalize_verify cfg a)"
  unfolding finalize_verify_def
  by (intro transfers.keeps_intros transfers.keeps_extern)
    (simp_all add: keeps_def same_transfers_def)

lemma finalize_own_ctx_keeps: "keeps same_transfers (finalize_transfer cfg True tid a)"
  unfolding finalize_transfer_def finalize_record_def with_ctx_def if_True Let_def change_file_def
  by (intro transfers.keeps_intros transfers.keeps_extern finalize_verify_keeps
      transfers.keeps_modify) simp

lemma store_chunk_keeps: "keeps same_transfers (store_chunk cfg a c)"
  unfolding store_chunk_def Let_def chunk_upsert_def event_append_def
  by (intro transfers.keeps_intros transfers.keeps_extern transfers.keeps_exec_db
      transfers.keeps_nats finalize_own_ctx_keeps)
    (auto simp: stmt_keeps_def same_transfers_def chunk_upsert_stmt_def event_append_stmt_def Let_def
      split: if_splits sum.splits)

lemma handle_chunk_keeps: "keeps same_transfers (handle_chunk cfg a hs payload)"
  unfolding handle_chunk_def write_chunk_def Let_def change_file_def
  by (intro transfers.keeps_intros transfers.keeps_extern store_chunk_keeps transfers.keeps_modify)
    simp

lemma receive_all_keeps: "keeps same_transfers (receive_all cfg a ms)"
proof (induction ms arbitrary: a)
  case Nil
  then show ?case by (simp add: transfers.keeps_ret)
next
  case (Cons m ms)
  then show ?case
    by (cases m) (simp add: transfers.keeps_bindE handle_chunk_keeps)
qed

text \<open>What a delivery publishes is the acceptance of the chunk.\<close>

definition chunk_accepted_msg :: "bus_msg \<Rightarrow> bool" where
  "chunk_accepted_msg m =
     (\<exists>e. ev_type e = EventTypeChunkAccepted \<and> bm_subject m = subject_coordinator_events \<and>
       bm_body m = BodyJson (marshal_event e))"

lemma says_publish_event:
  "ev_type e = EventTypeChunkAccepted \<Longrightarrow>
     maintains (publishes chunk_accepted_msg) (publish_event t (marshal_event e))"
  unfolding publish_event_def
  by (intro says.m_wrap_err says_publish) (auto simp: chunk_accepted_msg_def)

lemma publishes_nothing: "publishes P w (w\<lparr>disk := d\<rparr>)" "publishes P w (disk_write n p c w)"
  by (simp_all add: publishes_def disk_write_def)

lemma finalize_own_ctx_says: "maintains (publishes P) (finalize_transfer cfg True tid a)"
  unfolding finalize_transfer_def finalize_record_def finalize_verify_def with_ctx_def if_True
    Let_def change_file_def
  by (intro says.m_intros says.m_modify publishes_nothing)
    (simp_all add: maintains_def publishes_def)

lemma store_chunk_says: "maintains (publishes chunk_accepted_msg) (store_chunk cfg a c)"
  unfolding store_chunk_def Let_def chunk_upsert_def event_append_def
  by (intro says.m_intros says_exec_db says_publish_event finalize_own_ctx_says)
    (simp add: chunk_event_def)

lemma handle_chunk_says: "maintains (publishes chunk_accepted_msg) (handle_chunk cfg a hs payload)"
  unfolding handle_chunk_def write_chunk_def Let_def change_file_def
  by (intro says.m_intros says.m_modify store_chunk_says publishes_nothing)

lemma receive_all_says: "maintains (publishes chunk_accepted_msg) (receive_all cfg a ms)"
proof (induction ms arbitrary: a)
  case Nil
  then show ?case by (simp add: says.m_ret)
next
  case (Cons m ms)
  then show ?case
    by (cases m) (simp add: says.m_bindE handle_chunk_says)
qed


section \<open>Reassembly\<close>

text \<open>The \<open>i\<close>-th chunk of a file, the message it travels in, and the bytes it fills.\<close>

definition chunk_bytes :: "nat \<Rightarrow> bytes \<Rightarrow> nat \<Rightarrow> bytes" where
  "chunk_bytes cs content i = take cs (drop (i * cs) content)"

definition chunk_message ::
  "file_transfer \<Rightarrow> bytes \<Rightarrow> nat \<Rightarrow> (string \<times> string) list \<times> bytes" where
  "chunk_message x content i =
     (let p = chunk_bytes (nat (tr_chunk_size_bytes x)) content i
      in (chunk_headers x (int i) p, p))"

definition chunk_region :: "nat \<Rightarrow> nat \<Rightarrow> nat \<Rightarrow> nat set" where
  "chunk_region cs tot i = {i * cs..<min ((i + 1) * cs) tot}"

definition chunk_count :: "nat \<Rightarrow> nat \<Rightarrow> nat" where
  "chunk_count cs tot = (tot + cs - 1) div cs"

lemma chunk_count_iff:
  assumes "0 < cs"
  shows "i < chunk_count cs tot \<longleftrightarrow> i * cs < tot"
proof -
  have "i < chunk_count cs tot \<longleftrightarrow> Suc i * cs \<le> tot + cs - 1"
    using assms by (simp add: chunk_count_def less_eq_div_iff_mult_less_eq Suc_le_eq [symmetric])
  also have "\<dots> \<longleftrightarrow> i * cs < tot" using assms by auto
  finally show ?thesis .
qed

lemma regions_cover:
  assumes "0 < cs"
  shows "(\<Union>i<chunk_count cs tot. chunk_region cs tot i) = {..<tot}"
proof
  show "{..<tot} \<subseteq> (\<Union>i<chunk_count cs tot. chunk_region cs tot i)"
  proof
    fix k assume "k \<in> {..<tot}"
    then have k: "k < tot" by simp
    have "k div cs * cs \<le> k" by (metis div_times_less_eq_dividend)
    moreover have "k < (k div cs + 1) * cs"
      using assms by (metis Suc_eq_plus1 dividend_less_div_times mult_Suc)
    moreover have "k div cs * cs < tot" using k \<open>k div cs * cs \<le> k\<close> by linarith
    ultimately have "k \<in> chunk_region cs tot (k div cs)" "k div cs < chunk_count cs tot"
      using k assms by (simp_all add: chunk_region_def chunk_count_iff)
    then show "k \<in> (\<Union>i<chunk_count cs tot. chunk_region cs tot i)" by blast
  qed
qed (auto simp: chunk_region_def)

lemma length_chunk_bytes: "length (chunk_bytes cs content i) = min cs (length content - i * cs)"
  by (simp add: chunk_bytes_def)

lemma chunk_region_span:
  "i * cs \<le> length content \<Longrightarrow>
     chunk_region cs (length content) i = {i * cs..<i * cs + length (chunk_bytes cs content i)}"
  by (auto simp: chunk_region_def length_chunk_bytes)

lemma message_headers:
  assumes "chunk_message x content i = (hs, p)"
  shows "p = chunk_bytes (nat (tr_chunk_size_bytes x)) content i"
    and "header_get hs ''X-Chunk-Index'' = fmt_d (int i)"
    and "header_get hs ''X-Offset'' = fmt_d (int i * tr_chunk_size_bytes x)"
    and "header_get hs ''X-Payload-Length'' = fmt_d (int (length p))"
    and "header_get hs ''X-Chunk-SHA256'' = sha256_hex p"
    and "header_get hs ''X-Transfer-Id'' = tr_id x"
  using assms by (auto simp: chunk_message_def Let_def header_get_def chunk_headers_def)

text \<open>How a delivery of a well-formed message runs: a repeated index is dropped, a new one is stored.\<close>

lemma deliver_closed:
  "ac_file a = None \<Longrightarrow> handle_chunk cfg a hs p w = (Inr a, w)"
  by (simp add: handle_chunk_def ret_simp Let_def split: option.split)

lemma deliver_seen:
  assumes "chunk_message x content i = (hs, p)" and "int i \<le> max_int64"
    and "int i \<in> fst ` set (ac_received a)"
  shows "handle_chunk cfg a hs p w = (Inr a, w)"
proof -
  obtain c where "map_of (ac_received a) (int i) = Some c"
    using assms(3) by (metis map_of_eq_None_iff not_None_eq)
  then show ?thesis
    using assms(2) by (simp add: handle_chunk_def message_headers [OF assms(1)] sscanf_d_fmt_d
        ret_simp Let_def split: option.split)
qed

lemma deliver_new:
  assumes "chunk_message x content i = (hs, p)" and "quiet w" and "ac_file a = Some path"
    and "int i \<notin> fst ` set (ac_received a)" and "0 < tr_chunk_size_bytes x"
    and "int i * tr_chunk_size_bytes x \<le> max_int64" and "int (length content) \<le> max_int64"
    and "i * nat (tr_chunk_size_bytes x) < length content"
  shows "handle_chunk cfg a hs p w =
    store_chunk cfg a (received_chunk (tr_id x) (int i) (int i * tr_chunk_size_bytes x)
        (sha256_hex p) p)
      (disk_write (rc_node_id cfg) path
        (Some (write_at (file_content w (rc_node_id cfg) path) (i * nat (tr_chunk_size_bytes x)) p))
        (w\<lparr>calls := Suc (calls w)\<rparr>))"
proof -
  have idx: "int i \<le> max_int64"
    using assms(5,6) mult_left_mono [of 1 "tr_chunk_size_bytes x" "int i"] by simp
  have len: "int (length p) \<le> max_int64"
    using assms(7) message_headers(1) [OF assms(1)] by (simp add: length_chunk_bytes)
  have new: "map_of (ac_received a) (int i) = None"
    using assms(4) by (simp add: map_of_eq_None_iff)
  have off: "nat (int i * tr_chunk_size_bytes x) = i * nat (tr_chunk_size_bytes x)"
    by (simp add: nat_mult_distrib)
  have nonneg: "0 \<le> int i * tr_chunk_size_bytes x" using assms(5) by simp
  have scan: "sscanf_d (fmt_d (int i)) = Some (int i)"
    "scan_or_zero (fmt_d (int (length p))) = int (length p)"
    "scan_or_zero (fmt_d (int i * tr_chunk_size_bytes x)) = int i * tr_chunk_size_bytes x"
    using idx len assms(6) nonneg by (simp_all add: scan_or_zero_def sscanf_d_fmt_d)
  have "write_chunk cfg path (int i * tr_chunk_size_bytes x) p w =
    (Inr (), disk_write (rc_node_id cfg) path
        (Some (write_at (file_content w (rc_node_id cfg) path) (i * nat (tr_chunk_size_bytes x)) p))
        (w\<lparr>calls := Suc (calls w)\<rparr>))"
    using assms(2) nonneg
    by (simp add: write_chunk_def extern_quiet change_file_def modify_simp file_content_def off)
  then show ?thesis
    using assms(3) new
    by (simp add: handle_chunk_def message_headers(2-) [OF assms(1)] scan bindE_def attempt_def
        Let_def)
qed


text \<open>
  While the transfer is open, the indices received are those of \<open>S\<close> and the file agrees with the
  content on their regions. Once it is done the file is the content and is closed.
\<close>

definition receiving ::
  "receiver_config \<Rightarrow> string \<Rightarrow> nat \<Rightarrow> bytes \<Rightarrow> nat set \<Rightarrow> active_transfer \<Rightarrow> world \<Rightarrow> bool" where
  "receiving cfg path cs content S a w =
     (quiet w \<and> ac_file a = Some path \<and>
      ac_total_chunks a = int (chunk_count cs (length content)) \<and>
      ac_total_bytes a = int (length content) \<and> ac_file_sha256 a = sha256_hex content \<and>
      distinct (map fst (ac_received a)) \<and> fst ` set (ac_received a) = int ` S \<and>
      S \<subset> {..<chunk_count cs (length content)} \<and>
      length (file_content w (rc_node_id cfg) path) = length content \<and>
      (\<forall>k\<in>(\<Union>i\<in>S. chunk_region cs (length content) i).
         k < length content \<and> file_content w (rc_node_id cfg) path ! k = content ! k))"

definition assembled ::
  "receiver_config \<Rightarrow> string \<Rightarrow> bytes \<Rightarrow> active_transfer \<Rightarrow> world \<Rightarrow> bool" where
  "assembled cfg path content a w =
     (ac_file a = None \<and> tr_status (ac_transfer a) = TransferStatusCompleted \<and>
      disk w (rc_node_id cfg) path = Some content)"

lemma store_chunk_run:
  "\<exists>w'. same_disk w w' \<and> store_chunk cfg a c w =
     (if int (length (ac_received (add_chunk c a))) = ac_total_chunks a
      then bindE (finalize_transfer cfg True (ck_transfer_id c) (add_chunk c a))
        (\<lambda>(a2, e). ret a2) w'
      else (Inr (add_chunk c a), w'))"
proof -
  define w1 where "w1 = snd (chunk_upsert c w)"
  define evt where "evt = chunk_event cfg (ac_transfer a) c (clock w1 (ticks w1))
    (clock w1 (Suc (ticks w1)))"
  define w2 where "w2 = snd (event_append evt (w1\<lparr>ticks := Suc (Suc (ticks w1))\<rparr>))"
  define w3 where "w3 = snd (publish_event (event_type_string (ev_type evt)) (marshal_event evt) w2)"
  have "same_disk w w1" using frame_statements(1) unfolding w1_def maintains_def by blast
  moreover have "same_disk w1 w2"
    using frame_statements(2) frame.trans [OF frame.steps(2)] unfolding w2_def maintains_def by blast
  moreover have "same_disk w2 w3" using frame_statements(3) unfolding w3_def maintains_def by blast
  ultimately have "same_disk w w3" by (meson frame.trans)
  moreover have "store_chunk cfg a c w =
     (if int (length (ac_received (add_chunk c a))) = ac_total_chunks a
      then bindE (finalize_transfer cfg True (ck_transfer_id c) (add_chunk c a))
        (\<lambda>(a2, e). ret a2) w3
      else (Inr (add_chunk c a), w3))"
    by (simp add: store_chunk_def bindE_def ignore_err_calm calm_statements time_now_simp ret_simp
        Let_def w3_def w2_def evt_def w1_def add_chunk_def)
  ultimately show ?thesis by blast
qed

lemma file_content_disk_write [simp]:
  "file_content (disk_write n p (Some c) w) n p = c"
  by (simp add: file_content_def disk_write_def)

lemma same_disk_content: "same_disk w w' \<Longrightarrow> file_content w' n p = file_content w n p"
  by (simp add: same_disk_def file_content_def)

lemma finalize_complete:
  assumes "quiet w" and "ac_file a = Some path"
    and "file_content w (rc_node_id cfg) path = content" and "content \<noteq> []"
    and "ac_total_bytes a = int (length content)" and "ac_file_sha256 a = sha256_hex content"
  shows "\<exists>a' w'. bindE (finalize_transfer cfg True tid a) (\<lambda>(a2, e). ret a2) w = (Inr a', w') \<and>
    assembled cfg path content a' w'"
proof -
  obtain w' where w': "finalize_verify cfg a w = (Inr (sha256_hex content), w')" "same_disk w w'"
    using finalize_verify_ok [OF assms(1-3)] assms(5,6) by auto
  have "disk w' (rc_node_id cfg) path = Some content"
    using w'(2) assms(3,4) by (auto simp: same_disk_def file_content_def split: option.splits)
  then show ?thesis
    by (simp add: bindE_def finalize_own_ctx attempt_def w'(1) ret_simp assembled_def
        completed_transfer_def)
qed


lemma receiving_after_write:
  assumes "receiving cfg path cs content S a w" and "i < chunk_count cs (length content)"
    and "0 < cs"
  shows "let c = write_at (file_content w (rc_node_id cfg) path) (i * cs) (chunk_bytes cs content i)
    in length c = length content \<and>
      (\<forall>k\<in>(\<Union>j\<in>insert i S. chunk_region cs (length content) j).
        k < length content \<and> c ! k = content ! k)"
proof -
  have i: "i * cs < length content" using assms(2,3) by (simp add: chunk_count_iff)
  then have span: "i * cs + length (chunk_bytes cs content i) \<le> length content"
    by (simp add: length_chunk_bytes)
  have p: "chunk_bytes cs content i =
    take (length (chunk_bytes cs content i)) (drop (i * cs) content)"
    by (simp add: chunk_bytes_def min_def)
  have len: "length (file_content w (rc_node_id cfg) path) = length content"
    using assms(1) by (simp add: receiving_def)
  have region: "chunk_region cs (length content) i =
    {i * cs..<i * cs + length (chunk_bytes cs content i)}"
    using i by (simp add: chunk_region_span)
  have "\<forall>k\<in>(\<Union>j\<in>S. chunk_region cs (length content) j).
    k < length content \<and> file_content w (rc_node_id cfg) path ! k = content ! k"
    using assms(1) unfolding receiving_def by blast
  note agree = file_blocks.put_agrees [OF len span this, folded p]
  show ?thesis
    unfolding Let_def UN_insert region Un_commute [of "{i * cs..<_}"]
    by (intro conjI agree file_blocks.put_len [OF len span, folded p])
qed

lemma add_chunk_simps [simp]:
  "ac_received (add_chunk c a) = (ck_chunk_index c, c) # ac_received a"
  "ac_file (add_chunk c a) = ac_file a" "ac_total_chunks (add_chunk c a) = ac_total_chunks a"
  "ac_total_bytes (add_chunk c a) = ac_total_bytes a"
  "ac_file_sha256 (add_chunk c a) = ac_file_sha256 a"
  "ac_transfer (add_chunk c a) = ac_transfer a"
  by (simp_all add: add_chunk_def)

lemma receiving_count:
  assumes "receiving cfg path cs content S a w"
  shows "length (ac_received a) = card S" and "finite S"
proof -
  have "length (ac_received a) = card (fst ` set (ac_received a))"
    using assms distinct_card [of "map fst (ac_received a)"] by (simp add: receiving_def)
  also have "\<dots> = card S" using assms by (simp add: receiving_def card_image)
  finally show "length (ac_received a) = card S" .
  show "finite S" using assms finite_subset by (fastforce simp: receiving_def)
qed

lemma agrees_everywhere:
  assumes "length c = length content" and "0 < cs"
    and "\<forall>k\<in>(\<Union>i<chunk_count cs (length content). chunk_region cs (length content) i).
      k < length content \<and> c ! k = content ! k"
  shows "c = content"
  using assms by (simp add: regions_cover nth_equalityI)

lemma receiving_step:
  assumes inv: "receiving cfg path (nat (tr_chunk_size_bytes x)) content S a w"
    and i: "i < chunk_count (nat (tr_chunk_size_bytes x)) (length content)"
    and cs: "0 < tr_chunk_size_bytes x" and len: "int (length content) \<le> max_int64"
    and msg: "chunk_message x content i = (hs, p)"
  shows "\<exists>a' w'. handle_chunk cfg a hs p w = (Inr a', w') \<and>
    (if insert i S = {..<chunk_count (nat (tr_chunk_size_bytes x)) (length content)}
     then assembled cfg path content a' w'
     else receiving cfg path (nat (tr_chunk_size_bytes x)) content (insert i S) a' w')"
proof (cases "i \<in> S")
  case True
  let ?cs = "nat (tr_chunk_size_bytes x)"
  have "i * ?cs < length content" using i cs by (simp add: chunk_count_iff)
  moreover have "i * 1 \<le> i * ?cs" using cs by (intro mult_left_mono) simp_all
  ultimately have "int i \<le> max_int64" using len by linarith
  moreover have "int i \<in> fst ` set (ac_received a)" using True inv by (auto simp: receiving_def)
  ultimately have "handle_chunk cfg a hs p w = (Inr a, w)" using deliver_seen [OF msg] by blast
  then show ?thesis using True inv by (auto simp: receiving_def insert_absorb)
next
  case new: False
  let ?cs = "nat (tr_chunk_size_bytes x)" and ?n = "chunk_count (nat (tr_chunk_size_bytes x)) (length content)"
  let ?f = "file_content w (rc_node_id cfg) path"
  define c where "c = received_chunk (tr_id x) (int i) (int i * tr_chunk_size_bytes x)
    (sha256_hex p) p"
  define w1 where "w1 = disk_write (rc_node_id cfg) path (Some (write_at ?f (i * ?cs) p))
    (w\<lparr>calls := Suc (calls w)\<rparr>)"
  have off: "i * ?cs < length content" using i cs by (simp add: chunk_count_iff)
  then have "int (i * ?cs) \<le> max_int64" using len by linarith
  then have "int i * tr_chunk_size_bytes x \<le> max_int64" using cs by simp
  moreover have "int i \<notin> fst ` set (ac_received a)" using new inv by (auto simp: receiving_def)
  ultimately have run: "handle_chunk cfg a hs p w = store_chunk cfg a c w1"
    using deliver_new [OF msg, of w a path cfg] inv cs len off
    by (simp add: receiving_def c_def w1_def)
  obtain w2 where w2: "same_disk w1 w2" and st: "store_chunk cfg a c w1 =
     (if int (length (ac_received (add_chunk c a))) = ac_total_chunks a
      then bindE (finalize_transfer cfg True (ck_transfer_id c) (add_chunk c a))
        (\<lambda>(a2, e). ret a2) w2
      else (Inr (add_chunk c a), w2))"
    using store_chunk_run by blast
  have p: "p = chunk_bytes ?cs content i" by (rule message_headers(1) [OF msg])
  have f2: "file_content w2 (rc_node_id cfg) path = write_at ?f (i * ?cs) p"
    using same_disk_content [OF w2] by (simp add: w1_def)
  have pos: "0 < ?cs" using cs by simp
  note after = receiving_after_write [OF inv i pos, unfolded Let_def, folded p, folded f2]
  have q: "quiet w2" using w2 inv by (simp add: same_disk_quiet w1_def receiving_def)
  have subset: "insert i S \<subseteq> {..<?n}" using inv i by (auto simp: receiving_def)
  have count: "length (ac_received (add_chunk c a)) = card (insert i S)"
    using receiving_count [OF inv] new by simp
  have full: "int (length (ac_received (add_chunk c a))) = ac_total_chunks a \<longleftrightarrow>
    insert i S = {..<?n}"
  proof -
    have "ac_total_chunks a = int ?n" using inv by (simp add: receiving_def)
    moreover have "card (insert i S) = ?n \<longleftrightarrow> insert i S = {..<?n}"
    proof
      show "insert i S = {..<?n}" if "card (insert i S) = ?n"
        by (rule card_subset_eq [OF finite_lessThan subset]) (simp only: that card_lessThan)
      show "card (insert i S) = ?n" if "insert i S = {..<?n}"
        by (simp only: that card_lessThan)
    qed
    ultimately show ?thesis by (simp only: count of_nat_eq_iff)
  qed
  show ?thesis
  proof (cases "insert i S = {..<?n}")
    case True
    have "file_content w2 (rc_node_id cfg) path = content"
      using after [unfolded True] pos by (intro agrees_everywhere [of _ content ?cs]) simp_all
    moreover have "content \<noteq> []" using off by auto
    ultimately show ?thesis
      using finalize_complete [OF q, of "add_chunk c a" path cfg content "ck_transfer_id c"] inv
        full True run st by (simp add: receiving_def)
  next
    case False
    have "receiving cfg path ?cs content (insert i S) (add_chunk c a) w2"
      using inv after cs new subset False q
      by (auto simp: receiving_def c_def received_chunk_def)
    then show ?thesis using full False run st by simp
  qed
qed

lemma receive_all_assembled:
  assumes "assembled cfg path content a w"
  shows "receive_all cfg a ms w = (Inr a, w)"
  using assms by (induction ms) (auto simp: ret_simp bindE_def deliver_closed assembled_def)

lemma receive_all_run:
  assumes "receiving cfg path (nat (tr_chunk_size_bytes x)) content S a w"
    and "set is \<subseteq> {..<chunk_count (nat (tr_chunk_size_bytes x)) (length content)}"
    and "0 < tr_chunk_size_bytes x" and "int (length content) \<le> max_int64"
  shows "\<exists>a' w'. receive_all cfg a (map (chunk_message x content) is) w = (Inr a', w') \<and>
    (if S \<union> set is = {..<chunk_count (nat (tr_chunk_size_bytes x)) (length content)}
     then assembled cfg path content a' w'
     else receiving cfg path (nat (tr_chunk_size_bytes x)) content (S \<union> set is) a' w')"
  using assms(1,2)
proof (induction "is" arbitrary: S a w)
  case Nil
  then show ?case by (auto simp: ret_simp receiving_def)
next
  case (Cons i js)
  let ?n = "chunk_count (nat (tr_chunk_size_bytes x)) (length content)"
  obtain hs p where msg: "chunk_message x content i = (hs, p)" by fastforce
  obtain a1 w1 where step: "handle_chunk cfg a hs p w = (Inr a1, w1)"
    "if insert i S = {..<?n} then assembled cfg path content a1 w1
     else receiving cfg path (nat (tr_chunk_size_bytes x)) content (insert i S) a1 w1"
    using receiving_step [OF Cons.prems(1) _ assms(3,4) msg] Cons.prems(2) by auto
  have sub: "set js \<subseteq> {..<?n}" using Cons.prems(2) by simp
  have eq: "S \<union> set (i # js) = insert i S \<union> set js" by simp
  show ?case
  proof (cases "insert i S = {..<?n}")
    case True
    then have "insert i S \<union> set js = {..<?n}" using sub by auto
    moreover have fin: "assembled cfg path content a1 w1" using step(2) True by simp
    ultimately show ?thesis
      by (simp only: bindE_def msg receive_all.simps list.map if_True prod.case sum.case step(1)
          eq receive_all_assembled [OF fin]) simp
  next
    case False
    then have "receiving cfg path (nat (tr_chunk_size_bytes x)) content (insert i S) a1 w1"
      using step(2) by simp
    from Cons.IH [OF this sub] show ?thesis
      by (simp only: bindE_def msg receive_all.simps list.map step(1) prod.case sum.case eq)
  qed
qed


section \<open>From the command to the first delivery\<close>

lemma length_truncate_file [simp]: "length (truncate_file n c) = n"
  by (simp add: truncate_file_def min_def)

lemma payload_fields:
  "field_string (json_map_any (start_transfer_payload x)) ''transfer_id'' = tr_id x"
  "field_string (json_map_any (start_transfer_payload x)) ''file_sha256'' = tr_file_checksum x"
  "field_string (json_map_any (start_transfer_payload x)) ''operation_id'' = []"
  "field_float (json_map_any (start_transfer_payload x)) ''file_size_bytes'' =
     f64_of_int (tr_file_size_bytes x)"
  "field_float (json_map_any (start_transfer_payload x)) ''total_chunks'' =
     f64_of_int (tr_total_chunks x)"
  by (simp_all add: start_transfer_payload_def field_string_def field_float_def)

text \<open>The update of an accepted or completed transfer is not rejected.\<close>

lemma transfer_update_fits:
  assumes "transfer_row_fits r" and "sql_int (tr_received_chunks x)"
    and "tr_error x = cols_to_error (xr_err r)" and "sql_int (tr_version x + 1)"
  shows "transfer_row_fits (transfer_update_row x r)"
  using assms by (simp add: transfer_row_fits_def transfer_update_row_def err_cols_fit_stored)

lemma accepted_update_ok:
  assumes "keys_distinct tr_id (t_transfers d)"
    and "transfer_lookup (tr_id r) (t_transfers d) = Some r" and "transfer_row_fits r"
    and "sql_int (tr_version r + 1)"
  shows "\<exists>d'. transfer_update_stmt (accepted_transfer now (row_to_transfer r)) d = Inr ((), d')"
proof -
  have "\<forall>q\<in>set (t_transfers d). transfer_update_where (accepted_transfer now (row_to_transfer r)) q \<longrightarrow>
    transfer_row_fits (transfer_update_row (accepted_transfer now (row_to_transfer r)) q)"
  proof (intro ballI impI)
    fix q
    assume "q \<in> set (t_transfers d)"
      and "transfer_update_where (accepted_transfer now (row_to_transfer r)) q"
    then have "transfer_lookup (tr_id r) (t_transfers d) = Some q"
      using assms(1) by (simp add: transfer_table.get_Some_iff transfer_update_where_def
          accepted_transfer_def)
    then have "q = r" using assms(2) by simp
    then show "transfer_row_fits (transfer_update_row (accepted_transfer now (row_to_transfer r)) q)"
      using assms(3,4)
      by (intro transfer_update_fits)
        (simp_all add: accepted_transfer_def transfer_row_fits_def row_to_transfer_def
          file_transfer.defs)
  qed
  then show ?thesis by (simp add: transfer_update_stmt_def)
qed

lemma transfer_update_run:
  "quiet w \<Longrightarrow> transfer_update_stmt x (db w) = Inr ((), d') \<Longrightarrow>
     transfer_update x w = (Inr (), w\<lparr>calls := Suc (calls w), db := d'\<rparr>)"
  by (simp add: transfer_update_def exec_db_quiet)

lemma nats_subscribe_run:
  "quiet w \<Longrightarrow> nats_subscribe subj consumer w =
     (Inr (), w\<lparr>calls := Suc (Suc (calls w)), subscribed := subscribed w @ [(consumer, subj)]\<rparr>)"
  by (simp add: nats_subscribe_def io_simps)

lemma accept_receiving:
  assumes "quiet w" and "keys_distinct tr_id (t_transfers (db w))"
    and "transfer_lookup (tr_id x) (t_transfers (db w)) = Some r"
    and "transfer_row_fits r \<and> sql_int (tr_version r + 1)"
    and "tr_destination_node_id r = rc_node_id cfg"
    and "content \<noteq> []" and "int (length content) \<le> 2 ^ 53"
    and "tr_file_size_bytes x = int (length content)" and "tr_file_checksum x = sha256_hex content"
    and "0 < tr_chunk_size_bytes x"
    and "tr_total_chunks x = int (chunk_count (nat (tr_chunk_size_bytes x)) (length content))"
  shows "\<exists>a w'. accept_transfer cfg (json_map_any (start_transfer_payload x)) w = (Inr a, w') \<and>
    receiving cfg (final_path cfg (json_map_any (start_transfer_payload x)))
      (nat (tr_chunk_size_bytes x)) content {} a w' \<and> tr_status (ac_transfer a) = TransferStatusAccepted"
proof -
  let ?cs = "nat (tr_chunk_size_bytes x)" and ?n = "length content"
  let ?cmd = "json_map_any (start_transfer_payload x)"
  have key: "tr_id r = tr_id x" using assms(3) by (rule transfer_table.get_key)
  have pos: "0 < ?cs" "0 < ?n" using assms(6,10) by simp_all
  have "0 < chunk_count ?cs ?n" using pos by (simp add: chunk_count_iff)
  moreover have "chunk_count ?cs ?n \<le> ?n"
  proof (rule ccontr)
    assume "\<not> chunk_count ?cs ?n \<le> ?n"
    then have "?n * ?cs < ?n" using pos by (simp add: chunk_count_iff [symmetric])
    then show False using pos by simp
  qed
  ultimately have chunks: "0 < tr_total_chunks x" "\<bar>tr_total_chunks x\<bar> \<le> 2 ^ 53"
    using assms(7,11) by linarith+
  have fields: "field_float ?cmd ''file_size_bytes'' = int ?n"
    "field_float ?cmd ''total_chunks'' = tr_total_chunks x"
    using assms(7,8) chunks by (simp_all add: payload_fields f64_of_int_exact)
  obtain d' where d': "transfer_update_stmt (accepted_transfer (clock w (ticks w)) (row_to_transfer r)) (db w) =
    Inr ((), d')"
    using accepted_update_ok [OF assms(2), of r] assms(3,4) key by auto
  obtain a w' where run: "accept_transfer cfg ?cmd w = (Inr a, w')" "quiet w'"
    "a = new_active cfg ?cmd (accepted_transfer (clock w (ticks w)) (row_to_transfer r))"
    "length (file_content w' (rc_node_id cfg) (final_path cfg ?cmd)) = ?n"
    using assms(1,3,5) chunks pos d'
    by (simp add: accept_transfer_def io_simps payload_fields(1) fields transfer_get_by_id_def
        change_file_def transfer_update_run nats_subscribe_run new_active_def Let_def
        del: filepath_join.simps)
      (simp add: file_content_def disk_write_def)
  then have "receiving cfg (final_path cfg ?cmd) ?cs content {} a w'"
    using fields assms(9,11) \<open>0 < chunk_count ?cs ?n\<close>
    by (auto simp: receiving_def new_active_def payload_fields)
  then show ?thesis using run by (auto simp: new_active_def accepted_transfer_def)
qed

end
