(* ===== verification/Role_Manager.thy ===== *)
theory Role_Manager
  imports Transfer_Receiver
begin

text \<open>
  The role manager (\<open>app/role.go\<close>): registration and heartbeats of the node, the consumer of the
  commands sent to it, the wait for open transfers, and the consumer of the coordinator events with
  its handlers. The part of a handler after the load is a definition of its own. A nil payload and an
  empty one are not told apart.
\<close>

record node_config =
  nc_id :: string
  nc_role :: string
  nc_incarnation_id :: string
  nc_heartbeat_timeout :: int
  nc_staging_dir :: string
  nc_has_nats :: bool
  nc_has_receiver :: bool
  nc_has_indexer :: bool

section \<open>Registration and heartbeats\<close>

definition node_roles :: "role \<Rightarrow> string list" where
  "node_roles r =
     [role_string r] @ (if is_entry r then [''entry''] else []) @
     (if is_worker r then [''worker''] else [])"

definition register_node :: "node_config \<Rightarrow> unit io" where
  "register_node cfg =
     bindE time_now (\<lambda>now. node_upsert
       \<lparr>nd_id = nc_id cfg, nd_incarnation_id = nc_incarnation_id cfg,
        nd_incarnation_started_at = now, nd_status = NodeStatusStarting,
        nd_roles = node_roles (parse_role (nc_role cfg)), nd_heartbeat_sequence = 0,
        nd_last_heartbeat_at = None, nd_heartbeat_deadline_at = None, nd_active_job_count = 0,
        nd_active_transfer_count = 0, nd_max_concurrent_jobs = None, nd_disk_free_bytes = None,
        nd_disk_total_bytes = None, nd_cpu_sample = None, nd_memory_sample = None,
        nd_self_checks = None, nd_draining = False, nd_shutdown_deadline_at = None,
        nd_registered_at = now, nd_updated_at = now\<rparr>)"

text \<open>One tick of the loop, with the sequence number after its increment.\<close>

definition heartbeat_tick :: "node_config \<Rightarrow> int \<Rightarrow> unit io" where
  "heartbeat_tick cfg sq =
     bindE time_now (\<lambda>now.
     let deadline_at = now + nc_heartbeat_timeout cfg in
     bindE (attempt (heartbeat_insert
       \<lparr>hb_node_id = nc_id cfg, hb_incarnation_id = nc_incarnation_id cfg, hb_sequence = sq,
        hb_status = NodeStatusHealthy,
        hb_capabilities = [role_string (parse_role (nc_role cfg))], hb_active_jobs = 0,
        hb_active_transfers = 0, hb_resources = None, hb_self_checks = None, hb_draining = False,
        hb_shutdown_deadline_at = None, hb_observed_at = now,
        hb_heartbeat_deadline_at = deadline_at\<rparr>)) (\<lambda>r.
       case r of
         Inl e \<Rightarrow> ret ()
       | Inr _ \<Rightarrow>
           bindE (ignore_err (node_update_heartbeat (nc_id cfg) sq deadline_at)) (\<lambda>_.
           ignore_err (node_update_status (nc_id cfg) NodeStatusHealthy))))"

text \<open>The first \<open>n\<close> ticks of a loop that has sent \<open>sq\<close> heartbeats.\<close>

fun heartbeat_loop :: "node_config \<Rightarrow> int \<Rightarrow> nat \<Rightarrow> unit io" where
  "heartbeat_loop cfg sq 0 = ret ()"
| "heartbeat_loop cfg sq (Suc n) =
     bindE (heartbeat_tick cfg (sq + 1)) (\<lambda>_. heartbeat_loop cfg (sq + 1) n)"

section \<open>Start\<close>

definition start_event_consumer :: "node_config \<Rightarrow> unit io" where
  "start_event_consumer cfg =
     nats_subscribe subject_coordinator_events (''coordinator-events-'' @ nc_id cfg)"

definition start_command_consumer :: "node_config \<Rightarrow> unit io" where
  "start_command_consumer cfg =
     nats_subscribe (node_command_subject (nc_id cfg)) (''cmd-processor-'' @ nc_id cfg)"

definition start_worker_tasks :: "node_config \<Rightarrow> unit io" where
  "start_worker_tasks cfg =
     (if \<not> nc_has_nats cfg then ret ()
      else bindE (start_command_consumer cfg) (\<lambda>_. start_event_consumer cfg))"

definition start_coordinator_tasks :: "node_config \<Rightarrow> unit io" where
  "start_coordinator_tasks cfg =
     (if \<not> nc_has_nats cfg then ret () else start_event_consumer cfg)"

definition role_start :: "node_config \<Rightarrow> unit io" where
  "role_start cfg =
     (let r = parse_role (nc_role cfg) in
      bindE (register_node cfg) (\<lambda>_.
      bindE (spawn TaskHeartbeat) (\<lambda>_.
      bindE (if is_worker r then start_worker_tasks cfg else ret ()) (\<lambda>_.
      if is_entry r then start_coordinator_tasks cfg else ret ()))))"

section \<open>Waiting for transfers\<close>

text \<open>
  \<open>checkTransferAndProceed\<close> looks at the set of active transfers, and sleeps and calls itself while one
  of them contains the operation's id. The set is changed by other goroutines: \<open>obs k\<close> is what the
  \<open>k\<close>-th look sees. The result is the look that ended the wait; \<open>None\<close> is a wait without end.
\<close>

definition has_active_transfer :: "string set \<Rightarrow> string \<Rightarrow> bool" where
  "has_active_transfer active oid = (\<exists>t\<in>active. contains_sub t oid)"

partial_function (option) check_transfer ::
  "(nat \<Rightarrow> string set) \<Rightarrow> string \<Rightarrow> nat \<Rightarrow> nat option" where
  "check_transfer obs oid k =
     (if has_active_transfer (obs k) oid then check_transfer obs oid (Suc k) else Some k)"

declare check_transfer.simps [code]

section \<open>Commands\<close>

definition processed_event :: "node_config \<Rightarrow> process_command \<Rightarrow> string \<Rightarrow> int \<Rightarrow> operation_event" where
  "processed_event cfg cmd eid now =
     \<lparr>ev_id = eid, ev_operation_id = pc_operation_id cmd, ev_type = EventTypeProcessingSucceeded,
      ev_job_id = None, ev_attempt_id = None, ev_transfer_id = None,
      ev_payload = [(''command_id'', JStr (pc_command_id cmd)), (''job_id'', JStr (pc_job_id cmd)),
                    (''result'', JObj [(''status'', JStr ''ok'')])],
      ev_correlation_id = pc_operation_id cmd, ev_issued_at = now, ev_actor_node_id = nc_id cfg,
      ev_version = 1\<rparr>"

text \<open>After the wait; \<open>cancelled\<close> says that the context ends before the two seconds are over.\<close>

definition process_job_after_wait :: "node_config \<Rightarrow> bool \<Rightarrow> process_command \<Rightarrow> unit io" where
  "process_job_after_wait cfg cancelled cmd =
     (if cancelled then ret ()
      else
        bindE time_now (\<lambda>now.
        bindE (generate_id ''evt'') (\<lambda>eid.
        let evt = processed_event cfg cmd eid now in
        bindE (attempt (event_append evt)) (\<lambda>r.
          case r of
            Inl e \<Rightarrow> ret ()
          | Inr _ \<Rightarrow>
              ignore_err (publish_event (event_type_string (ev_type evt)) (marshal_event evt))))))"

definition handle_process_job ::
  "node_config \<Rightarrow> (nat \<Rightarrow> string set) \<Rightarrow> bool \<Rightarrow> process_command \<Rightarrow> world \<Rightarrow>
   ((go_error + unit) \<times> world) option" where
  "handle_process_job cfg obs cancelled cmd w =
     (case check_transfer obs (pc_operation_id cmd) 0 of
        None \<Rightarrow> None
      | Some k \<Rightarrow> Some (process_job_after_wait cfg cancelled cmd w))"

definition handle_cancel_job :: "node_config \<Rightarrow> process_command \<Rightarrow> unit io" where
  "handle_cancel_job cfg cmd =
     bindE time_now (\<lambda>now.
     bindE (generate_id ''evt'') (\<lambda>eid.
     let evt = \<lparr>ev_id = eid, ev_operation_id = pc_operation_id cmd, ev_type = EventTypeCancelled,
                ev_job_id = None, ev_attempt_id = None, ev_transfer_id = None,
                ev_payload = [(''command_id'', JStr (pc_command_id cmd)),
                              (''job_id'', JStr (pc_job_id cmd))],
                ev_correlation_id = pc_operation_id cmd, ev_issued_at = now,
                ev_actor_node_id = nc_id cfg, ev_version = 1\<rparr> in
     bindE (ignore_err (event_append evt)) (\<lambda>_.
     ignore_err (publish_event (event_type_string (ev_type evt)) (marshal_event evt)))))"

text \<open>
  The state of a worker: the ids in \<open>activeTransfers\<close> and the open transfers of its receiver. The
  handler answers the message with an ack or a nak.
\<close>

record worker =
  wk_active :: "string set"
  wk_open :: "(string \<times> active_transfer) list"

datatype reply = Ack | Nak

definition receiver_of :: "node_config \<Rightarrow> receiver_config" where
  "receiver_of cfg = \<lparr>rc_node_id = nc_id cfg, rc_staging_dir = nc_staging_dir cfg\<rparr>"

definition start_transfer :: "node_config \<Rightarrow> worker \<Rightarrow> process_command \<Rightarrow> (worker \<times> reply) io" where
  "start_transfer cfg st cmd =
     (if \<not> nc_has_receiver cfg then ret (st, Nak)
      else
        bindE (attempt (accept_transfer (receiver_of cfg) (pc_payload cmd))) (\<lambda>r.
          case r of
            Inl e \<Rightarrow> ret (st, Nak)
          | Inr a \<Rightarrow>
              (let tid = field_string (pc_payload cmd) ''transfer_id'';
                   st1 = st\<lparr>wk_active := insert tid (wk_active st), wk_open := (tid, a) # wk_open st\<rparr>
               in case map_of (pc_payload cmd) ''attempt_id'' of
                    Some (JStr _) \<Rightarrow> ret (st1, Ack)
                  | _ \<Rightarrow> fail (Panic ''interface conversion''))))"

definition handle_command ::
  "node_config \<Rightarrow> (nat \<Rightarrow> string set) \<Rightarrow> bool \<Rightarrow> worker \<Rightarrow> body \<Rightarrow> world \<Rightarrow>
   ((go_error + (worker \<times> reply)) \<times> world) option" where
  "handle_command cfg obs cancelled st b w =
     (case (case b of BodyJson j \<Rightarrow> unmarshal_command j | BodyRaw _ \<Rightarrow> None) of
        None \<Rightarrow> Some (Inr (st, Ack), w)
      | Some cmd \<Rightarrow>
          (if pc_type cmd = ''PROCESS_UPDATE'' then
             map_option (map_prod (map_sum id (\<lambda>_. (st, Ack))) id)
               (handle_process_job cfg obs cancelled cmd w)
           else if pc_type cmd = ''CANCEL_UPDATE'' then
             Some (bindE (handle_cancel_job cfg cmd) (\<lambda>_. ret (st, Ack)) w)
           else if pc_type cmd = ''START_TRANSFER'' then Some (start_transfer cfg st cmd w)
           else Some (Inr (st, Ack), w)))"

section \<open>Events\<close>

text \<open>
  The coordinator's handlers load the operation, write a status and a stage into the struct, store it
  and append an event; the version of the struct stays as it was loaded.
\<close>

definition settled ::
  "op_status \<Rightarrow> op_stage \<Rightarrow> error_info option \<Rightarrow> int \<Rightarrow> operation \<Rightarrow> operation" where
  "settled st sg err now op = op\<lparr>op_status := st, op_stage := sg, op_updated_at := now,
     op_error := (case err of None \<Rightarrow> op_error op | Some e \<Rightarrow> Some e)\<rparr>"

definition settle_loaded ::
  "node_config \<Rightarrow> (int \<Rightarrow> operation \<Rightarrow> operation) \<Rightarrow> event_type \<Rightarrow> bool \<Rightarrow> string \<Rightarrow> json_map \<Rightarrow>
   operation \<Rightarrow> unit io" where
  "settle_loaded cfg f et indexed oid payload op =
     bindE time_now (\<lambda>now.
     let op1 = f now op in
     bindE (attempt (op_update op1)) (\<lambda>r.
       case r of
         Inl e \<Rightarrow> ret ()
       | Inr _ \<Rightarrow>
           bindE (generate_id ''evt'') (\<lambda>eid.
           let evt = \<lparr>ev_id = eid, ev_operation_id = oid, ev_type = et, ev_job_id = None,
                      ev_attempt_id = None, ev_transfer_id = None,
                      ev_payload = [(''payload'', JObj payload)], ev_correlation_id = oid,
                      ev_issued_at = now, ev_actor_node_id = nc_id cfg, ev_version = 1\<rparr> in
           bindE (ignore_err (event_append evt)) (\<lambda>_.
           if indexed \<and> nc_has_indexer cfg then spawn (TaskIndex op1 evt) else ret ()))))"

definition settle ::
  "node_config \<Rightarrow> (int \<Rightarrow> operation \<Rightarrow> operation) \<Rightarrow> event_type \<Rightarrow> bool \<Rightarrow> string \<Rightarrow> json_map \<Rightarrow>
   unit io" where
  "settle cfg f et indexed oid payload =
     bindE (attempt (op_get_by_id oid)) (\<lambda>r.
       case r of
         Inr (Some op) \<Rightarrow> settle_loaded cfg f et indexed oid payload op
       | _ \<Rightarrow> ret ())"

definition handle_processing_succeeded :: "node_config \<Rightarrow> string \<Rightarrow> json_map \<Rightarrow> unit io" where
  "handle_processing_succeeded cfg =
     settle cfg (settled StatusCompleted StageCompleted None) EventTypeOperationCompleted True"

definition processing_failure :: "json_map \<Rightarrow> error_info" where
  "processing_failure payload =
     \<lparr>err_code = ''PROCESSING_FAILED'', err_message = ''Worker reported processing failure'',
      err_details = Some payload\<rparr>"

definition handle_processing_failed :: "node_config \<Rightarrow> string \<Rightarrow> json_map \<Rightarrow> unit io" where
  "handle_processing_failed cfg oid payload =
     settle cfg (settled StatusFailed StageFailed (Some (processing_failure payload)))
       EventTypeOperationFailed True oid payload"

definition handle_cancelled :: "node_config \<Rightarrow> string \<Rightarrow> json_map \<Rightarrow> unit io" where
  "handle_cancelled cfg =
     settle cfg (settled StatusCancelled StageCancelled None) EventTypeOperationCancelled True"

definition handle_transfer_verified :: "node_config \<Rightarrow> string \<Rightarrow> json_map \<Rightarrow> unit io" where
  "handle_transfer_verified cfg =
     settle cfg (settled StatusTransferred StageVerifying None) EventTypeOperationTransferred False"

definition handle_worker_transfer_verified ::
  "node_config \<Rightarrow> string \<Rightarrow> json_map \<Rightarrow> worker \<Rightarrow> worker io" where
  "handle_worker_transfer_verified cfg oid payload st =
     (let st1 = st\<lparr>wk_active := {t \<in> wk_active st. \<not> contains_sub t oid}\<rparr> in
      bindE (settle cfg (settled StatusTransferred StageVerifying None)
        EventTypeOperationTransferred False oid payload) (\<lambda>_. ret st1))"

text \<open>The consumer: the type decides the handler, and the message is acknowledged in every case.\<close>

definition handle_decoded :: "node_config \<Rightarrow> worker \<Rightarrow> event_message \<Rightarrow> worker io" where
  "handle_decoded cfg st m =
     (let t = em_event_type m; oid = em_operation_id m; p = em_payload m in
      if t = event_type_string EventTypeProcessingSucceeded then
        bindE (handle_processing_succeeded cfg oid p) (\<lambda>_. ret st)
      else if t = event_type_string EventTypeProcessingFailed then
        bindE (handle_processing_failed cfg oid p) (\<lambda>_. ret st)
      else if t = event_type_string EventTypeCancelled then
        bindE (handle_cancelled cfg oid p) (\<lambda>_. ret st)
      else if t = event_type_string EventTypeTransferVerified then
        (if nc_role cfg = ''worker'' then handle_worker_transfer_verified cfg oid p st
         else bindE (handle_transfer_verified cfg oid p) (\<lambda>_. ret st))
      else ret st)"

definition handle_event :: "node_config \<Rightarrow> worker \<Rightarrow> body \<Rightarrow> worker io" where
  "handle_event cfg st b =
     (case (case b of BodyJson j \<Rightarrow> unmarshal_event_message j | BodyRaw _ \<Rightarrow> None) of
        None \<Rightarrow> ret st
      | Some m \<Rightarrow> handle_decoded cfg st m)"

end
