(* ===== verification/Role_Facts.thy ===== *)
theory Role_Facts
  imports Role_Manager Versioned
begin

text \<open>
  Facts on the role manager: when the wait for transfers ends, and that a handler which stores the
  struct with the version it loaded leaves the table of operations as it was.
\<close>

section \<open>The wait\<close>

lemma check_transfer_first:
  assumes "\<not> has_active_transfer (obs (k + n)) oid"
    and "\<And>j. j < n \<Longrightarrow> has_active_transfer (obs (k + j)) oid"
  shows "check_transfer obs oid k = Some (k + n)"
  using assms
proof (induction n arbitrary: k)
  case 0
  then show ?case by (simp add: check_transfer.simps)
next
  case (Suc n)
  have "check_transfer obs oid (Suc k) = Some (Suc k + n)"
    using Suc.prems(1) Suc.prems(2) [of "Suc _"] by (intro Suc.IH) simp_all
  then show ?case using Suc.prems(2) [of 0] by (simp add: check_transfer.simps [of obs oid k])
qed

lemma check_transfer_raw:
  assumes "check_transfer obs oid k = Some n"
  shows "\<not> has_active_transfer (obs n) oid \<and> k \<le> n \<and>
     (\<forall>j. k \<le> j \<longrightarrow> j < n \<longrightarrow> has_active_transfer (obs j) oid)"
proof (rule check_transfer.raw_induct [OF _ assms])
  fix check :: "(nat \<Rightarrow> string set) \<Rightarrow> string \<Rightarrow> nat \<Rightarrow> nat option" and obs oid k n
  assume IH: "\<And>obs oid k n. check obs oid k = Some n \<Longrightarrow>
      \<not> has_active_transfer (obs n) oid \<and> k \<le> n \<and>
      (\<forall>j. k \<le> j \<longrightarrow> j < n \<longrightarrow> has_active_transfer (obs j) oid)"
    and eq: "(if has_active_transfer (obs k) oid then check obs oid (Suc k) else Some k) = Some n"
  show "\<not> has_active_transfer (obs n) oid \<and> k \<le> n \<and>
      (\<forall>j. k \<le> j \<longrightarrow> j < n \<longrightarrow> has_active_transfer (obs j) oid)"
  proof (cases "has_active_transfer (obs k) oid")
    case True
    then have *: "\<not> has_active_transfer (obs n) oid \<and> Suc k \<le> n \<and>
      (\<forall>j. Suc k \<le> j \<longrightarrow> j < n \<longrightarrow> has_active_transfer (obs j) oid)" using eq by (intro IH) simp
    have "has_active_transfer (obs j) oid" if "k \<le> j" "j < n" for j
      using * True that by (cases "j = k") simp_all
    then show ?thesis using * by simp
  next
    case False
    then show ?thesis using eq by simp
  qed
qed

lemma check_transfer_Some_iff:
  "check_transfer obs oid 0 = Some n \<longleftrightarrow>
     \<not> has_active_transfer (obs n) oid \<and> (\<forall>j<n. has_active_transfer (obs j) oid)"
proof
  show "check_transfer obs oid 0 = Some n \<Longrightarrow>
    \<not> has_active_transfer (obs n) oid \<and> (\<forall>j<n. has_active_transfer (obs j) oid)"
    using check_transfer_raw [of obs oid 0 n] by simp
  assume *: "\<not> has_active_transfer (obs n) oid \<and> (\<forall>j<n. has_active_transfer (obs j) oid)"
  show "check_transfer obs oid 0 = Some n"
    by (rule check_transfer_first [of obs 0 n oid, simplified]) (simp_all add: *)
qed

lemma check_transfer_None_iff:
  "check_transfer obs oid 0 = None \<longleftrightarrow> (\<forall>k. has_active_transfer (obs k) oid)"
proof
  assume none: "check_transfer obs oid 0 = None"
  show "\<forall>k. has_active_transfer (obs k) oid"
  proof (rule ccontr)
    assume "\<not> (\<forall>k. has_active_transfer (obs k) oid)"
    then have ex: "\<exists>k. \<not> has_active_transfer (obs k) oid" by simp
    define n where "n = (LEAST k. \<not> has_active_transfer (obs k) oid)"
    have "\<not> has_active_transfer (obs n) oid" unfolding n_def using ex by (rule LeastI_ex)
    moreover have "\<forall>j<n. has_active_transfer (obs j) oid" unfolding n_def using not_less_Least by blast
    ultimately have "check_transfer obs oid 0 = Some n" by (simp add: check_transfer_Some_iff)
    then show False using none by simp
  qed
next
  assume "\<forall>k. has_active_transfer (obs k) oid"
  then show "check_transfer obs oid 0 = None"
    by (cases "check_transfer obs oid 0") (auto simp: check_transfer_Some_iff)
qed

section \<open>The handlers\<close>

definition same_ops :: "db \<Rightarrow> db \<Rightarrow> bool" where
  "same_ops d d' = (t_operations d' = t_operations d)"

interpretation ops: db_guarantee same_ops
  by unfold_locales (simp_all add: same_ops_def)

lemma untouched_same_ops:
  "(\<And>d x d'. g d = Inr (x, d') \<Longrightarrow> t_operations d' = t_operations d) \<Longrightarrow> stmt_keeps same_ops g"
  by (auto simp: stmt_keeps_def same_ops_def)

lemma other_tables_same_ops:
  "stmt_keeps same_ops (event_append_stmt e)" "stmt_keeps same_ops (job_insert j)"
  "stmt_keeps same_ops (attempt_insert a)" "stmt_keeps same_ops (transfer_insert x)"
  "stmt_keeps same_ops (transfer_update_stmt x)" "stmt_keeps same_ops (chunk_upsert_stmt c)"
  "stmt_keeps same_ops (idempotency_store_stmt cols i)" "stmt_keeps same_ops (node_upsert_stmt n)"
  "stmt_keeps same_ops (node_set_stmt k f)" "stmt_keeps same_ops (heartbeat_insert_stmt h)"
  by (rule untouched_same_ops;
      auto simp: event_append_stmt_def job_insert_def attempt_insert_def transfer_insert_def
        transfer_update_stmt_def chunk_upsert_stmt_def idempotency_store_stmt_def
        node_upsert_stmt_def node_set_stmt_def heartbeat_insert_stmt_def Let_def
        split: if_splits sum.splits)+

lemma exec_db_unchanged:
  "g (db w) = Inr (x, db w) \<Longrightarrow> db (snd (exec_db what g w)) = db w"
  by (simp add: exec_db_def extern_def Let_def split: outcome.split)

text \<open>No row has the version before the struct's: the update finds nothing to do.\<close>

definition based_on_nothing :: "operation \<Rightarrow> db \<Rightarrow> bool" where
  "based_on_nothing op d = (\<forall>r\<in>set (t_operations d). \<not> op_update_where op r)"

lemma op_update_nothing:
  "based_on_nothing op (db w) \<Longrightarrow> db (snd (op_update op w)) = db w"
  unfolding op_update_def based_on_nothing_def
  by (rule exec_db_unchanged [where x = "()"], rule op_update_stmt_no_match) blast

lemma settled_simps [simp]:
  "op_id (settled st sg err now op) = op_id op"
  "op_version (settled st sg err now op) = op_version op"
  "op_status (settled st sg err now op) = st"
  by (simp_all add: settled_def)

lemma db_attempt [simp]: "db (snd (attempt m w)) = db (snd (m w))"
  by (auto simp: attempt_def split: prod.split sum.split)

lemma settle_loaded_same_ops:
  assumes "based_on_nothing op (db w)"
  shows "same_ops (db w) (db (snd (settle_loaded cfg (settled st sg err) et b oid payload op w)))"
proof -
  let ?w = "w\<lparr>ticks := Suc (ticks w)\<rparr>" and ?op = "settled st sg err (clock w (ticks w)) op"
  have "based_on_nothing ?op (db ?w)"
    using assms by (simp add: based_on_nothing_def op_update_where_def)
  then have "same_ops (db ?w) (db (snd (attempt (op_update ?op) ?w)))"
    by (simp add: op_update_nothing same_ops_def)
  then show ?thesis
    unfolding settle_loaded_def Let_def
    by (subst bindE_Inr [OF time_now_simp])
      (intro ops.keeps_bindE_at [where w = ?w, simplified] ops.keeps_intros ops.keeps_exec_db
        other_tables_same_ops; simp add: event_append_def; intro ops.keeps_exec_db other_tables_same_ops)
qed

lemma loaded_based_on_nothing:
  assumes "op_ids_distinct d" and "db_operation i d = Some op"
  shows "based_on_nothing op d"
proof -
  obtain r where r: "op_lookup i (t_operations d) = Some r" "op = row_to_operation r" "r_id r = i"
    using db_operation_Some [OF assms(2)] by blast
  have "q = r" if "q \<in> set (t_operations d)" "r_id q = i" for q
    using op_lookup_unique [OF assms(1) that(1)] that(2) r(1) by simp
  then show ?thesis using r(2,3) by (auto simp: based_on_nothing_def op_update_where_def)
qed

lemma query_db_db [simp]: "db (snd (query_db what q w)) = db w"
  by (simp add: query_db_def extern_def Let_def split: outcome.split)

lemma op_get_Inr:
  "op_get_by_id i w = (Inr (Some op), w') \<Longrightarrow> db_operation i (db w) = Some op \<and> db w' = db w"
  by (auto simp: op_get_by_id_def query_db_def extern_def Let_def split: outcome.splits)

lemma settle_same_ops:
  assumes "op_ids_distinct (db w)"
  shows "same_ops (db w) (db (snd (settle cfg (settled st sg err) et b oid payload w)))"
proof -
  obtain r w1 where g: "op_get_by_id oid w = (r, w1)" by fastforce
  have d: "db w1 = db w" using g by (metis op_get_by_id_def query_db_db snd_conv)
  show ?thesis
  proof (cases "\<exists>op. r = Inr (Some op)")
    case True
    then obtain op where r: "r = Inr (Some op)" by blast
    then have "based_on_nothing op (db w1)"
      using op_get_Inr [of oid w op w1] g d loaded_based_on_nothing [OF assms, of oid op] by simp
    from settle_loaded_same_ops [OF this] show ?thesis
      using g r d by (simp add: settle_def bindE_def attempt_def)
  next
    case False
    then show ?thesis using g d
      by (auto simp: settle_def bindE_def attempt_def ret_def same_ops_def
          split: sum.split option.split)
  qed
qed

lemma handle_event_same_ops:
  assumes "op_ids_distinct (db w)"
  shows "same_ops (db w) (db (snd (handle_event cfg st b w)))"
proof -
  have bind: "same_ops (db w) (db (snd (bindE m (\<lambda>_. ret x) w)))"
    if "same_ops (db w) (db (snd (m w)))" for m :: "unit io" and x :: worker
    using that by (intro ops.keeps_bindE_at ops.keeps_ret)
  note s = settle_same_ops [OF assms]
  show ?thesis
    unfolding handle_event_def handle_decoded_def Let_def handle_worker_transfer_verified_def
      handle_processing_succeeded_def handle_processing_failed_def handle_cancelled_def
      handle_transfer_verified_def
    by (auto simp: ret_simp same_ops_def [of "db w" "db w"] intro!: bind s split: option.split)
qed

end
