(* ===== verification/Cancel_Retry.thy ===== *)
theory Cancel_Retry
  imports Job_Repos Create_Op
begin

text \<open>
  Cancel and retry (\<open>application/operations/cancel.go\<close>, \<open>retry.go\<close>). Each use case loads the operation
  and then works on the struct it loaded; the part after the load is a definition of its own, so that
  what happens when another writer comes between can be stated.
\<close>

section \<open>Cancel\<close>

record cancel_output =
  cn_operation_id :: string
  cn_status :: op_status
  cn_cancel_requested_at :: "int option"
  cn_status_url :: string
  cn_version :: int

definition cancelled_struct :: "int \<Rightarrow> operation \<Rightarrow> operation" where
  "cancelled_struct now op = op\<lparr>op_cancel_requested_at := Some now, op_updated_at := now,
     op_version := op_version op + 1\<rparr>"

text \<open>The result is the output together with the error value returned beside it.\<close>

definition cancel_loaded ::
  "string \<Rightarrow> string \<Rightarrow> operation \<Rightarrow> (cancel_output \<times> go_error option) io" where
  "cancel_loaded base reason op =
     (if op_status op = StatusCompleted \<or> op_status op = StatusCancelled then
        ret (\<lparr>cn_operation_id = op_id op, cn_status = op_status op,
              cn_cancel_requested_at = None, cn_status_url = status_url base (op_id op),
              cn_version = op_version op\<rparr>, Some ErrAlreadyTerminal)
      else
        bindE time_now (\<lambda>now.
        let op1 = cancelled_struct now op in
        bindE (op_update op1) (\<lambda>_.
        bindE time_now (\<lambda>t.
        bindE (ignore_err (event_append
          \<lparr>ev_id = ''evt-'' @ fmt_x t, ev_operation_id = op_id op1,
           ev_type = EventTypeOperationCancelled, ev_job_id = None, ev_attempt_id = None,
           ev_transfer_id = None, ev_payload = [(''reason'', JStr reason)],
           ev_correlation_id = op_id op1, ev_issued_at = now, ev_actor_node_id = ''self'',
           ev_version = op_version op1\<rparr>)) (\<lambda>_.
        ret (\<lparr>cn_operation_id = op_id op1, cn_status = op_status op1,
              cn_cancel_requested_at = Some now, cn_status_url = status_url base (op_id op1),
              cn_version = op_version op1\<rparr>, None))))))"

definition cancel_execute ::
  "string \<Rightarrow> string \<Rightarrow> string \<Rightarrow> (cancel_output \<times> go_error option) io" where
  "cancel_execute base i reason =
     bindE (op_get_by_id i) (\<lambda>m.
       case m of
         None \<Rightarrow> fail ErrOperationNotFound
       | Some op \<Rightarrow> cancel_loaded base reason op)"

section \<open>Retry\<close>

record retry_output =
  ry_operation_id :: string
  ry_status :: op_status
  ry_retry_count :: int
  ry_max_attempts :: int
  ry_current_job_id :: string
  ry_current_attempt_id :: string
  ry_status_url :: string
  ry_updated_at :: int
  ry_version :: int

definition retried_struct :: "int \<Rightarrow> operation \<Rightarrow> operation" where
  "retried_struct now op = op\<lparr>
     op_retry_count := op_retry_count op + 1, op_status := StatusQueued, op_stage := StageQueued,
     op_updated_at := now, op_version := op_version op + 1, op_current_job_id := None,
     op_current_attempt_id := None, op_current_transfer_id := None,
     op_cancel_requested_at := None, op_error := None\<rparr>"

definition retry_job :: "string \<Rightarrow> int \<Rightarrow> operation \<Rightarrow> job" where
  "retry_job jid now op =
     \<lparr>job_id = jid, job_operation_id = op_id op, job_worker_node_id = [],
      job_status = JobStatusCreated, job_processor = op_processor op, job_requirements = None,
      job_assigned_at = now, job_dispatched_at = None, job_acknowledged_at = None,
      job_completed_at = None, job_error = None, job_version = 1\<rparr>"

definition retry_attempt ::
  "string \<Rightarrow> string \<Rightarrow> string \<Rightarrow> string \<Rightarrow> int \<Rightarrow> operation \<Rightarrow> job_attempt" where
  "retry_attempt aid jid cid tok now op =
     \<lparr>att_id = aid, att_job_id = jid, att_operation_id = op_id op, att_node_id = [],
      att_attempt_number = op_retry_count op, att_status = AttemptStatusPending,
      att_command_id = cid, att_claim_token = tok, att_lease_until = now + minutes 5,
      att_processing_id = None, att_error = None, att_started_at = None,
      att_completed_at = None, att_version = 1\<rparr>"

definition retry_loaded :: "string \<Rightarrow> string \<Rightarrow> operation \<Rightarrow> retry_output io" where
  "retry_loaded base reason op =
     (if op_status op \<noteq> StatusFailed \<and> op_status op \<noteq> StatusTimeout then
        fail ErrInvalidStateForRetry
      else if op_retry_count op \<ge> op_max_attempts op then fail ErrInvalidStateForRetry
      else
        bindE time_now (\<lambda>now.
        let op1 = retried_struct now op in
        bindE (op_update op1) (\<lambda>_.
        bindE time_now (\<lambda>tj.
        bindE time_now (\<lambda>ta.
        bindE time_now (\<lambda>tc.
        bindE time_now (\<lambda>tk.
        let jid = ''job-'' @ fmt_x tj; aid = ''attempt-'' @ fmt_x ta in
        bindE (wrap_err ''create job'' (job_create (retry_job jid now op1))) (\<lambda>_.
        bindE (wrap_err ''create attempt'' (attempt_create
          (retry_attempt aid jid (''cmd-'' @ fmt_x tc) (''claim-'' @ fmt_x tk) now op1))) (\<lambda>_.
        let op2 = op1\<lparr>op_current_job_id := Some jid, op_current_attempt_id := Some aid,
                       op_version := op_version op1 + 1\<rparr> in
        bindE (op_update op2) (\<lambda>_.
        bindE time_now (\<lambda>te.
        bindE (ignore_err (event_append
          \<lparr>ev_id = ''evt-'' @ fmt_x te, ev_operation_id = op_id op2,
           ev_type = EventTypeOperationRetryScheduled, ev_job_id = None, ev_attempt_id = None,
           ev_transfer_id = None,
           ev_payload = [(''retry_count'', JInt (op_retry_count op2)), (''new_job_id'', JStr jid),
                         (''new_attempt_id'', JStr aid), (''reason'', JStr reason)],
           ev_correlation_id = op_id op2, ev_issued_at = now, ev_actor_node_id = ''self'',
           ev_version = op_version op2\<rparr>)) (\<lambda>_.
        ret \<lparr>ry_operation_id = op_id op2, ry_status = op_status op2,
             ry_retry_count = op_retry_count op2, ry_max_attempts = op_max_attempts op2,
             ry_current_job_id = jid, ry_current_attempt_id = aid,
             ry_status_url = status_url base (op_id op2), ry_updated_at = op_updated_at op2,
             ry_version = op_version op2\<rparr>))))))))))))"

definition retry_execute :: "string \<Rightarrow> string \<Rightarrow> string \<Rightarrow> retry_output io" where
  "retry_execute base i reason =
     bindE (op_get_by_id i) (\<lambda>m.
       case m of
         None \<Rightarrow> fail ErrOperationNotFound
       | Some op \<Rightarrow> retry_loaded base reason op)"

end
