(* ===== verification/Handlers.thy ===== *)
theory Handlers
  imports Transfer_Facts Role_Facts Cancel_Retry Query_Ops
begin

text \<open>
  From the statements to the handlers. A relation on databases that every statement of the program
  keeps is kept by every handler, whatever fails on the way: the statements are the interface, and
  each guarantee of the program is an interpretation that looks at the statements alone. Which structs
  a handler inserts or updates is left to a predicate for each, so that a guarantee may depend on them.
\<close>

locale handler_guarantee = db_guarantee R for R +
  fixes insertable updatable :: "operation \<Rightarrow> bool"
  assumes keeps_insert: "insertable op \<Longrightarrow> stmt_keeps R (op_insert op)"
    and keeps_update: "updatable op \<Longrightarrow> stmt_keeps R (op_update_stmt op)"
    and keeps_others: "stmt_keeps R (event_append_stmt e)" "stmt_keeps R (job_insert j)"
      "stmt_keeps R (attempt_insert a)" "stmt_keeps R (transfer_insert x)"
      "stmt_keeps R (transfer_update_stmt x)" "stmt_keeps R (chunk_upsert_stmt c)"
      "stmt_keeps R (idempotency_store_stmt cols i)" "stmt_keeps R (node_upsert_stmt n)"
      "stmt_keeps R (heartbeat_insert_stmt h)"
    and keeps_node_set: "(\<And>n. nd_id (f n) = nd_id n) \<Longrightarrow> stmt_keeps R (node_set_stmt k f)"
begin

lemma h_writes:
  "insertable op \<Longrightarrow> keeps R (op_create op)" "updatable op \<Longrightarrow> keeps R (op_update op)"
  unfolding op_create_def op_update_def
  by (intro keeps_exec_db keeps_insert keeps_update; assumption)+

lemma h_others:
  "keeps R (event_append e)" "keeps R (job_create j)" "keeps R (attempt_create a)"
  "keeps R (transfer_create x)" "keeps R (transfer_update x)" "keeps R (chunk_upsert c)"
  "keeps R (idempotency_store cols k m p fp resp t)" "keeps R (node_upsert n)"
  "keeps R (heartbeat_insert h)"
  unfolding event_append_def job_create_def attempt_create_def transfer_create_def
    transfer_update_def chunk_upsert_def idempotency_store_def node_upsert_def heartbeat_insert_def
  by (intro keeps_intros keeps_exec_db keeps_others)+

lemma h_node_updates:
  "keeps R (node_update_status i st)" "keeps R (node_update_heartbeat i sq t)"
  unfolding node_update_status_def node_update_heartbeat_def
  by (intro keeps_intros keeps_exec_db keeps_node_set; simp)+

lemma h_reads:
  "keeps R (op_get_by_id i)" "keeps R (idempotency_get cols k m p)" "keeps R select_worker"
  "keeps R (transfer_get_by_id i)"
  unfolding op_get_by_id_def idempotency_get_def select_worker_def node_list_healthy_def
    transfer_get_by_id_def
  by (intro keeps_intros)+

lemmas h_intros =
  keeps_intros keeps_extern keeps_nats keeps_with_defer keeps_random16 h_writes h_others h_node_updates h_reads

section \<open>The use cases\<close>

lemma h_create:
  "(\<And>i now. insertable (new_operation inp i now)) \<Longrightarrow> keeps R (create_execute cols base inp k m p)"
  unfolding create_execute_def create_fresh_def Let_def by (intro h_intros)

lemma h_cancel:
  "(\<And>now. updatable (cancelled_struct now op)) \<Longrightarrow> keeps R (cancel_loaded base reason op)"
  unfolding cancel_loaded_def Let_def by (intro h_intros)

lemma h_retry:
  assumes "\<And>now. updatable (retried_struct now op)"
    and "\<And>now j a. updatable ((retried_struct now op)\<lparr>op_current_job_id := Some j,
      op_current_attempt_id := Some a, op_version := op_version (retried_struct now op) + 1\<rparr>)"
  shows "keeps R (retry_loaded base reason op)"
  unfolding retry_loaded_def Let_def by (intro h_intros assms)

lemma h_upload:
  "(\<And>c n now. updatable (uploaded_struct c n now op)) \<Longrightarrow> keeps R (file_stage cfg fi op)"
  unfolding file_stage_def file_receive_def file_commit_def Let_def
  by (intro h_intros keeps_modify; simp)

lemma h_publish_chunks: "keeps R (publish_chunks x n idx rest)"
proof (induction n arbitrary: idx rest)
  case 0
  then show ?case by (simp add: keeps_ret)
next
  case (Suc n)
  show ?case
    unfolding publish_chunks.simps Let_def by (intro h_intros Suc)
qed

lemma h_publish_file_chunks: "keeps R (publish_file_chunks cfg x)"
  unfolding publish_file_chunks_def
  by (intro h_intros h_publish_chunks) (simp add: keeps_def R_refl split: option.split)

lemma h_dispatch:
  "(\<And>j a now. updatable (dispatched_struct j a now op)) \<Longrightarrow> keeps R (dispatch_loaded cfg proc op)"
  unfolding dispatch_loaded_def dispatch_record_def Let_def
  by (intro h_intros h_publish_file_chunks)

section \<open>The receiver and the role manager\<close>

lemma h_finalize: "keeps R (finalize_transfer cfg own tid a)"
  unfolding finalize_transfer_def finalize_verify_def finalize_record_def with_ctx_def Let_def
    change_file_def
  by (intro h_intros keeps_modify) (simp_all add: keeps_def R_refl)

lemma h_accept: "keeps R (accept_transfer cfg cmd)"
  unfolding accept_transfer_def Let_def change_file_def
  by (intro h_intros keeps_modify h_finalize; simp)

lemma h_chunk: "keeps R (handle_chunk cfg a hs payload)"
  unfolding handle_chunk_def write_chunk_def store_chunk_def Let_def change_file_def
  by (intro h_intros keeps_modify h_finalize; simp)

lemma h_node: "keeps R (register_node cfg)" "keeps R (heartbeat_tick cfg sq)"
  unfolding register_node_def heartbeat_tick_def Let_def by (intro h_intros)+

lemma h_process: "keeps R (process_job_after_wait cfg cancelled cmd)"
  unfolding process_job_after_wait_def Let_def by (intro h_intros)

lemma h_cancel_job: "keeps R (handle_cancel_job cfg cmd)"
  unfolding handle_cancel_job_def Let_def by (intro h_intros)

lemma h_start_transfer: "keeps R (start_transfer cfg wk cmd)"
  unfolding start_transfer_def Let_def
  by (intro h_intros h_accept)
    (auto simp: keeps_def ret_def fail_def R_refl split: option.split json.split)

lemma h_command:
  assumes "handle_command cfg obs cancelled wk msg w = Some (r, w')"
  shows "R (db w) (db w')"
proof -
  have "keeps R (bindE (handle_cancel_job cfg cmd) (\<lambda>_. ret (wk, Ack)))" for cmd
    by (intro keeps_bindE h_cancel_job keeps_ret)
  then have "R (db w) (db (snd (process_job_after_wait cfg cancelled cmd w)))"
    "R (db w) (db (snd (bindE (handle_cancel_job cfg cmd) (\<lambda>_. ret (wk, Ack)) w)))"
    "R (db w) (db (snd (start_transfer cfg wk cmd w)))" for cmd
    using h_process [of cfg cancelled] h_start_transfer [of cfg wk] by (simp_all add: keeps_def)
  then show ?thesis
    using assms R_refl
    by (auto simp: handle_command_def handle_process_job_def split: option.splits if_splits)
      (metis snd_conv)+
qed

lemma h_settle_loaded:
  "(\<And>now. updatable (f now op)) \<Longrightarrow> keeps R (settle_loaded cfg f et b oid payload op)"
  unfolding settle_loaded_def Let_def by (intro h_intros)

lemma h_event:
  assumes "\<And>st sg err now op. updatable (settled st sg err now op)"
  shows "keeps R (handle_event cfg wk msg)"
  unfolding handle_event_def handle_decoded_def Let_def handle_worker_transfer_verified_def
    handle_processing_succeeded_def handle_processing_failed_def handle_cancelled_def
    handle_transfer_verified_def settle_def
  by (intro h_intros h_settle_loaded assms)

end

section \<open>Guarantees of every handler\<close>

interpretation evolution: handler_guarantee ops_evolve "\<lambda>_. True" "\<lambda>_. True"
  by unfold_locales
    (intro op_insert_evolves op_update_evolves log_repo_evolves job_repo_evolves
      node_repo_evolves)+

text \<open>A handler that writes no operation leaves their table alone.\<close>

interpretation no_ops: handler_guarantee same_ops "\<lambda>_. False" "\<lambda>_. False"
  by unfold_locales (simp_all add: other_tables_same_ops)

text \<open>The log of events is append-only.\<close>

interpretation appends: handler_guarantee events_grow "\<lambda>_. True" "\<lambda>_. True"
  by unfold_locales
    (intro event_append_grows untouched_events_grow;
     auto simp: op_insert_def op_update_stmt_def job_insert_def attempt_insert_def
       transfer_insert_def transfer_update_stmt_def chunk_upsert_stmt_def
       idempotency_store_stmt_def node_upsert_stmt_def node_set_stmt_def heartbeat_insert_stmt_def
       Let_def split: if_splits sum.splits)+

end
