(* ===== verification/Statements.thy ===== *)
theory Statements
  imports Handlers
begin

text \<open>
  The system at the grain of the database: any number of handlers, on any node, send their statements
  one by one, in any order. A state is the database and the operations that some handler has loaded and
  may still work with. Which statements there are follows from the handlers; the structs that they write
  over a loaded operation are listed here.
\<close>

section \<open>Statements\<close>

inductive writes :: "operation \<Rightarrow> operation \<Rightarrow> bool" for op where
  upload: "op_status op = StatusCreated \<Longrightarrow> writes op (uploaded_struct c n now op)"
| dispatch: "op_input_file op \<noteq> None \<Longrightarrow> writes op (dispatched_struct jid aid now op)"
| cancel: "op_status op \<noteq> StatusCompleted \<Longrightarrow> op_status op \<noteq> StatusCancelled \<Longrightarrow>
    writes op (cancelled_struct now op)"
| retry: "op_status op = StatusFailed \<or> op_status op = StatusTimeout \<Longrightarrow>
    op_retry_count op < op_max_attempts op \<Longrightarrow> writes op (retried_struct now op)"
| retry_job: "op_status op = StatusFailed \<or> op_status op = StatusTimeout \<Longrightarrow>
    op_retry_count op < op_max_attempts op \<Longrightarrow>
    writes op ((retried_struct now op)\<lparr>op_current_job_id := Some jid, op_current_attempt_id := Some aid,
      op_version := op_version (retried_struct now op) + 1\<rparr>)"
| settle: "writes op (settled st sg err now op)"

inductive statement :: "operation set \<Rightarrow> db \<Rightarrow> db \<Rightarrow> bool" for L where
  insert: "op_insert (new_operation inp i now) d = Inr (u, d') \<Longrightarrow> statement L d d'"
| update: "op \<in> L \<Longrightarrow> writes op s \<Longrightarrow> op_update_stmt s d = Inr (u, d') \<Longrightarrow> statement L d d'"
| event: "event_append_stmt e d = Inr (u, d') \<Longrightarrow> statement L d d'"
| job: "job_insert j d = Inr (u, d') \<Longrightarrow> statement L d d'"
| attempt: "attempt_insert a d = Inr (u, d') \<Longrightarrow> statement L d d'"
| transfer: "transfer_insert x d = Inr (u, d') \<Longrightarrow> statement L d d'"
| transfer_update: "transfer_update_stmt x d = Inr (u, d') \<Longrightarrow> statement L d d'"
| chunk: "chunk_upsert_stmt c d = Inr (u, d') \<Longrightarrow> statement L d d'"
| key: "idempotency_store_stmt cols ir d = Inr (u, d') \<Longrightarrow> statement L d d'"
| node: "node_upsert_stmt n d = Inr (u, d') \<Longrightarrow> statement L d d'"
| node_set: "\<forall>n. nd_id (f n) = nd_id n \<Longrightarrow> node_set_stmt k f d = Inr (u, d') \<Longrightarrow> statement L d d'"
| heartbeat: "heartbeat_insert_stmt h d = Inr (u, d') \<Longrightarrow> statement L d d'"

type_synonym sql_state = "db \<times> operation set"

inductive sql_step :: "sql_state \<Rightarrow> sql_state \<Rightarrow> bool" where
  load: "db_operation i d = Some op \<Longrightarrow> sql_step (d, L) (d, insert op L)"
| run: "statement L d d' \<Longrightarrow> sql_step (d, L) (d', L)"

abbreviation sql_steps :: "sql_state \<Rightarrow> sql_state \<Rightarrow> bool" where
  "sql_steps \<equiv> sql_step\<^sup>*\<^sup>*"

inductive_cases writesE: "writes op s"

lemma statement_mono: "statement L d d' \<Longrightarrow> L \<subseteq> K \<Longrightarrow> statement K d d'"
  by (induction rule: statement.induct) (auto intro: statement.intros)

lemma statements_run: "(statement L)\<^sup>*\<^sup>* d d' \<Longrightarrow> sql_steps (d, L) (d', L)"
  by (induction rule: rtranclp_induct) (auto intro: rtranclp.rtrancl_into_rtrancl sql_step.run)

text \<open>More loaded operations allow more.\<close>

lemma sql_steps_mono:
  assumes "sql_steps s s'" and "snd s \<subseteq> K"
  obtains K' where "sql_steps (fst s, K) (fst s', K')" and "snd s' \<union> K \<subseteq> K'"
proof -
  have "\<exists>K'. sql_steps (fst s, K) (fst s', K') \<and> snd s' \<union> K \<subseteq> K'"
    using assms
  proof (induction rule: rtranclp_induct)
    case base
    then show ?case by auto
  next
    case (step y z)
    then obtain K' where K: "sql_steps (fst s, K) (fst y, K')" "snd y \<union> K \<subseteq> K'" by blast
    from step(2) have "\<exists>K''. sql_step (fst y, K') (fst z, K'') \<and> snd z \<union> K' \<subseteq> K''"
    proof cases
      case (load i d op L)
      then show ?thesis using K(2) by (intro exI [of _ "insert op K'"]) (auto intro: sql_step.load)
    next
      case (run L d d')
      then show ?thesis using K(2)
        by (intro exI [of _ K']) (auto intro: sql_step.run statement_mono)
    qed
    then show ?case using K by (meson le_sup_iff order.trans rtranclp.rtrancl_into_rtrancl)
  qed
  then show thesis using that by blast
qed

section \<open>What every statement keeps\<close>

text \<open>
  A relation that every statement keeps, whatever struct it writes, holds between the databases at the
  two ends of every run.
\<close>

lemma stmt_keepsD: "stmt_keeps R g \<Longrightarrow> g d = Inr (x, d') \<Longrightarrow> R d d'"
  unfolding stmt_keeps_def by blast

locale statement_guarantee = handler_guarantee R "\<lambda>_. True" "\<lambda>_. True" for R
begin

lemmas kept = keeps_insert [OF TrueI, THEN stmt_keepsD] keeps_update [OF TrueI, THEN stmt_keepsD]
  keeps_others [THEN stmt_keepsD]

lemma along_statement: "statement L d d' \<Longrightarrow> R d d'"
proof (induction rule: statement.induct)
  case (node_set f k d u d')
  show ?case by (rule keeps_node_set [THEN stmt_keepsD, OF _ node_set(2)]) (simp add: node_set(1))
qed (erule kept)+

lemma along_sql_step: "sql_step s s' \<Longrightarrow> R (fst s) (fst s')"
  by (erule sql_step.cases) (simp_all add: R_refl along_statement)

lemma along_sql_steps: "sql_steps s s' \<Longrightarrow> R (fst s) (fst s')"
  by (induction rule: rtranclp_induct) (rule R_refl, erule R_trans, rule along_sql_step)

end

text \<open>That the rows evolve, and that the log grows, asks nothing of the state.\<close>

interpretation rows_evolving: statement_guarantee ops_evolve
  by unfold_locales

interpretation log_growing: statement_guarantee events_grow
  by unfold_locales

text \<open>What a statement does to the operations.\<close>

lemma statement_cases:
  assumes "statement L d d'"
  obtains (insert) inp i now u where "op_insert (new_operation inp i now) d = Inr (u, d')"
    | (update) op s u where "op \<in> L" "writes op s" "op_update_stmt s d = Inr (u, d')"
    | (other) "same_ops d d'"
  using assms
  by cases (use other_tables_same_ops in \<open>(auto simp: stmt_keeps_def)\<close>)

section \<open>The early statuses\<close>

definition early :: "op_status \<Rightarrow> bool" where
  "early s = (s = StatusCreated \<or> s = StatusQueued \<or> s = StatusDispatched)"

definition early_ops :: "db \<Rightarrow> bool" where
  "early_ops d = (op_ids_distinct d \<and> (\<forall>r\<in>set (t_operations d). early (r_status r)))"

lemma early_simps [simp]: "early StatusCreated" "early StatusQueued" "early StatusDispatched"
  by (simp_all add: early_def)

text \<open>A loaded operation is early, and its row is there and is at least as new.\<close>

definition backed :: "operation \<Rightarrow> db \<Rightarrow> bool" where
  "backed op d =
     (early (op_status op) \<and>
      (\<exists>r\<in>set (t_operations d). r_id r = op_id op \<and> op_version op \<le> r_version r))"

lemma backed_evolves: "backed op d \<Longrightarrow> ops_evolve d d' \<Longrightarrow> backed op d'"
proof -
  assume b: "backed op d" and e: "ops_evolve d d'"
  obtain i where i: "i < length (t_operations d)" "r_id (t_operations d ! i) = op_id op"
    "op_version op \<le> r_version (t_operations d ! i)"
    using b by (auto simp: backed_def in_set_conv_nth)
  then have "row_evolves (t_operations d ! i) (t_operations d' ! i)" "i < length (t_operations d')"
    using e by (auto simp: ops_evolve_def)
  then have "r_id (t_operations d' ! i) = op_id op"
    "op_version op \<le> r_version (t_operations d' ! i)" "t_operations d' ! i \<in> set (t_operations d')"
    using i by (auto simp: row_evolves_def)
  then show ?thesis using b unfolding backed_def by blast
qed

lemma backed_based_on_nothing:
  assumes "backed op d" and "op_ids_distinct d"
  shows "based_on_nothing op d"
proof -
  obtain r where r: "r \<in> set (t_operations d)" "r_id r = op_id op" "op_version op \<le> r_version r"
    using assms(1) by (auto simp: backed_def)
  have "q = r" if "q \<in> set (t_operations d)" "r_id q = op_id op" for q
    using op_lookup_unique [OF assms(2) that(1)] op_lookup_unique [OF assms(2) r(1)] that(2) r(2)
    by simp
  then show ?thesis using r(3) by (fastforce simp: based_on_nothing_def op_update_where_def)
qed

lemma load_backed: "early_ops d \<Longrightarrow> db_operation i d = Some op \<Longrightarrow> backed op d"
  using db_operation_Some [of i d op]
  by (auto simp: backed_def early_ops_def dest!: op_lookup_Some)


text \<open>
  A statement keeps the early statuses when the loaded operations are backed. The struct of a settled
  operation has the version that was loaded, for which there is no row to update.
\<close>

lemma statement_early:
  assumes "statement L d d'" and "early_ops d" and "\<And>op. op \<in> L \<Longrightarrow> backed op d"
  shows "early_ops d'"
  using assms(1)
proof (cases rule: statement_cases)
  case (insert inp i now u)
  then show ?thesis
    using assms(2) op_insert_ids_distinct [OF insert]
    by (auto simp: early_ops_def op_insert_def sql_insert_def op_create_row_def new_operation_def
        split: if_splits)
next
  case (update op s u)
  have b: "backed op d" by (rule assms(3) [OF update(1)])
  then have keep: "early_ops d'" if "early (op_status s)"
    using that assms(2) update(3) op_update_ids_distinct [OF update(3)]
    by (auto simp: early_ops_def op_update_stmt_def sql_update_def split: if_splits)
  from update(2) show ?thesis
  proof cases
    case (settle st sg err now)
    then have "based_on_nothing s d"
      using backed_based_on_nothing [OF b] assms(2) by (simp add: early_ops_def based_on_nothing_def op_update_where_def)
    then have "op_update_stmt s d = Inr ((), d)"
      by (intro op_update_stmt_no_match) (auto simp: based_on_nothing_def)
    then show ?thesis using update(3) assms(2) by simp
  qed (use b in \<open>auto intro!: keep simp: uploaded_struct_def dispatched_struct_def cancelled_struct_def
      retried_struct_def backed_def\<close>)
next
  case other
  then show ?thesis using assms(2) by (simp add: same_ops_def early_ops_def op_ids_distinct_def)
qed

definition sql_inv :: "sql_state \<Rightarrow> bool" where
  "sql_inv s = (early_ops (fst s) \<and> (\<forall>op\<in>snd s. backed op (fst s)))"

lemma sql_inv_step: "sql_step s s' \<Longrightarrow> sql_inv s \<Longrightarrow> sql_inv s'"
proof (induction rule: sql_step.induct)
  case (load i d op L)
  then show ?case by (auto simp: sql_inv_def load_backed)
next
  case (run L d d')
  then show ?case
    using backed_evolves [OF _ rows_evolving.along_statement [OF run(1)]] statement_early [OF run(1)]
    by (simp add: sql_inv_def)
qed

lemma sql_inv_steps: "sql_steps s s' \<Longrightarrow> sql_inv s \<Longrightarrow> sql_inv s'"
  by (induction rule: rtranclp_induct) (auto intro: sql_inv_step)

lemma sql_inv_start: "t_operations d = [] \<Longrightarrow> sql_inv (d, {})"
  by (simp add: sql_inv_def early_ops_def op_ids_distinct_def keys_distinct_def)

section \<open>The retry budget\<close>

definition within_budget :: "db \<Rightarrow> bool" where
  "within_budget d =
     (op_ids_distinct d \<and> (\<forall>r\<in>set (t_operations d). r_retry_count r \<le> r_max_attempts r))"

text \<open>The row an operation was loaded from still has its maximum.\<close>

definition pinned :: "operation \<Rightarrow> db \<Rightarrow> bool" where
  "pinned op d = (\<exists>r\<in>set (t_operations d). r_id r = op_id op \<and> r_max_attempts r = op_max_attempts op)"

lemma within_budget_insert:
  "op_retry_count s \<le> op_max_attempts s \<Longrightarrow> op_insert s d = Inr (x, d') \<Longrightarrow> within_budget d \<Longrightarrow>
     within_budget d'"
  using op_insert_ids_distinct [of s d x d']
  by (auto simp: within_budget_def op_insert_def sql_insert_def op_create_row_def split: if_splits)

lemma within_budget_update:
  assumes "op_id s = op_id op" and "op_retry_count s \<le> op_max_attempts op"
    and "op_update_stmt s d = Inr (x, d')" and "within_budget d" and "pinned op d"
  shows "within_budget d'"
proof -
  have "r_max_attempts r = op_max_attempts op" if "r \<in> set (t_operations d)" "r_id r = op_id op" for r
    using assms(4,5) that op_lookup_unique [of d r] op_lookup_unique [of d]
    by (fastforce simp: within_budget_def pinned_def)
  then show ?thesis
    using assms op_update_ids_distinct [OF assms(3)]
    by (auto simp: within_budget_def op_update_stmt_def sql_update_def op_update_where_def
        split: if_splits)
qed

lemma pinned_evolves:
  assumes "pinned op d" and "ops_evolve d d'"
  shows "pinned op d'"
proof -
  obtain k where k: "k < length (t_operations d)" "r_id (t_operations d ! k) = op_id op"
    "r_max_attempts (t_operations d ! k) = op_max_attempts op"
    using assms(1) by (auto simp: pinned_def in_set_conv_nth)
  then have "row_evolves (t_operations d ! k) (t_operations d' ! k)" "k < length (t_operations d')"
    using assms(2) by (auto simp: ops_evolve_def)
  then show ?thesis using k unfolding pinned_def row_evolves_def by (metis nth_mem)
qed

lemma load_pinned:
  assumes "within_budget d" and "db_operation i d = Some op"
  shows "op_retry_count op \<le> op_max_attempts op \<and> pinned op d"
  using db_operation_Some [OF assms(2)] assms(1)
  by (auto simp: within_budget_def pinned_def dest!: op_lookup_Some)


text \<open>What a handler writes over an operation that it loaded stays within the budget of that operation.\<close>

lemma writes_within:
  "writes op s \<Longrightarrow> op_retry_count op \<le> op_max_attempts op \<Longrightarrow>
     op_id s = op_id op \<and> op_retry_count s \<le> op_max_attempts op"
  by (erule writesE)
    (auto simp: uploaded_struct_def dispatched_struct_def cancelled_struct_def retried_struct_def settled_def)

definition budget_inv :: "sql_state \<Rightarrow> bool" where
  "budget_inv s = (within_budget (fst s) \<and>
     (\<forall>op\<in>snd s. op_retry_count op \<le> op_max_attempts op \<and> pinned op (fst s)))"

lemma statement_within_budget:
  assumes "statement L d d'" and "budget_inv (d, L)"
  shows "within_budget d'"
  using assms(1)
proof (cases rule: statement_cases)
  case (insert inp i now u)
  then show ?thesis
    using assms(2)
    by (intro within_budget_insert [OF _ insert])
      (auto simp: budget_inv_def new_operation_def create_max_attempts_def split: option.split)
next
  case (update op s u)
  then show ?thesis
    using assms(2) writes_within [OF update(2)]
    by (intro within_budget_update [OF _ _ update(3)]) (auto simp: budget_inv_def)
next
  case other
  then show ?thesis using assms(2) by (simp add: same_ops_def budget_inv_def within_budget_def op_ids_distinct_def)
qed

lemma budget_inv_step: "sql_step s s' \<Longrightarrow> budget_inv s \<Longrightarrow> budget_inv s'"
proof (induction rule: sql_step.induct)
  case (load i d op L)
  then show ?case by (auto simp: budget_inv_def dest: load_pinned)
next
  case (run L d d')
  then show ?case
    using pinned_evolves [OF _ rows_evolving.along_statement [OF run(1)]] statement_within_budget [OF run]
    by (simp add: budget_inv_def)
qed

lemma budget_inv_steps: "sql_steps s s' \<Longrightarrow> budget_inv s \<Longrightarrow> budget_inv s'"
  by (induction rule: rtranclp_induct) (auto intro: budget_inv_step)

end
