(* ===== verification/System.thy ===== *)
theory System
  imports Statements
begin

text \<open>
  The system at the grain of the handlers: a step runs the rest of one of them. A state is the world and the
  operations that some handler has loaded and may still work with: each handler is cut after its load,
  so that any number of handlers, on any node, may interleave between a load and the writes that follow
  it. The oracles of the world (clock, random source, faults, disks, messages) the environment may change at
  any time. \<open>TransferSender\<close> and \<open>Transition\<close>, which nothing in the application calls, take no step. What the
  steps do to the database, statements do one by one, so that an invariant of the statements holds here.
\<close>

section \<open>Steps\<close>

type_synonym sys = "world \<times> operation set"

inductive step :: "sys \<Rightarrow> sys \<Rightarrow> bool" where
  environment: "db w' = db w \<Longrightarrow> step (w, L) (w', L)"
| load: "db_operation i (db w) = Some op \<Longrightarrow> step (w, L) (w, insert op L)"
| create: "step (w, L) (snd (create_execute cols base inp k m p w), L)"
| upload: "op \<in> L \<Longrightarrow> op_status op = StatusCreated \<Longrightarrow> step (w, L) (snd (file_stage fcfg fi op w), L)"
| dispatch: "op \<in> L \<Longrightarrow> step (w, L) (snd (dispatch_loaded dcfg proc op w), L)"
| cancel: "op \<in> L \<Longrightarrow> step (w, L) (snd (cancel_loaded base reason op w), L)"
| retry: "op \<in> L \<Longrightarrow> step (w, L) (snd (retry_loaded base reason op w), L)"
| settle: "op \<in> L \<Longrightarrow>
    step (w, L) (snd (settle_loaded cfg (settled st sg err) et b oid payload op w), L)"
| event: "step (w, L) (snd (handle_event cfg wk msg w), L)"
| command: "handle_command cfg obs cancelled wk msg w = Some (r, w') \<Longrightarrow> step (w, L) (w', L)"
| chunk: "step (w, L) (snd (handle_chunk rcfg a hs payload w), L)"
| register: "step (w, L) (snd (register_node cfg w), L)"
| heartbeat: "step (w, L) (snd (heartbeat_tick cfg sq w), L)"

abbreviation steps :: "sys \<Rightarrow> sys \<Rightarrow> bool" where
  "steps \<equiv> step\<^sup>*\<^sup>*"

definition reachable :: "sys \<Rightarrow> bool" where
  "reachable s = (\<exists>w0. t_operations (db w0) = [] \<and> steps (w0, {}) s)"

section \<open>Handlers send statements\<close>

interpretation issued: handler_guarantee "(statement L)\<^sup>*\<^sup>*" "\<lambda>s. \<exists>inp i now. s = new_operation inp i now"
  "\<lambda>s. \<exists>op\<in>L. writes op s" for L :: "operation set"
proof unfold_locales
  show "(statement L)\<^sup>*\<^sup>* d1 d3" if "(statement L)\<^sup>*\<^sup>* d1 d2" "(statement L)\<^sup>*\<^sup>* d2 d3" for d1 d2 d3
    using that by simp
qed (auto simp: stmt_keeps_def intro!: r_into_rtranclp intro: statement.intros)

text \<open>The guards of a handler are those of its writes: without a write it leaves the database alone.\<close>

lemma handler_statements:
  fixes L :: "operation set"
  shows "(statement L)\<^sup>*\<^sup>* (db w) (db (snd (create_execute cols base inp k m p w)))"
    and "op \<in> L \<Longrightarrow> op_status op = StatusCreated \<Longrightarrow>
      (statement L)\<^sup>*\<^sup>* (db w) (db (snd (file_stage fcfg fi op w)))"
    and "op \<in> L \<Longrightarrow> (statement L)\<^sup>*\<^sup>* (db w) (db (snd (dispatch_loaded dcfg proc op w)))"
    and "op \<in> L \<Longrightarrow> (statement L)\<^sup>*\<^sup>* (db w) (db (snd (cancel_loaded base reason op w)))"
    and "op \<in> L \<Longrightarrow> (statement L)\<^sup>*\<^sup>* (db w) (db (snd (retry_loaded base reason op w)))"
    and "op \<in> L \<Longrightarrow>
      (statement L)\<^sup>*\<^sup>* (db w) (db (snd (settle_loaded cfg (settled st sg err) et b oid payload op w)))"
proof -
  show "(statement L)\<^sup>*\<^sup>* (db w) (db (snd (create_execute cols base inp k m p w)))"
    by (rule issued.keepsD [OF issued.h_create]) blast
next
  assume "op \<in> L" and "op_status op = StatusCreated"
  then show "(statement L)\<^sup>*\<^sup>* (db w) (db (snd (file_stage fcfg fi op w)))"
    by (intro issued.keepsD issued.h_upload) (blast intro: writes.upload)
next
  assume "op \<in> L"
  then show "(statement L)\<^sup>*\<^sup>* (db w) (db (snd (dispatch_loaded dcfg proc op w)))"
    by (cases "op_input_file op = None")
      (simp add: dispatch_loaded_def fail_def, intro issued.keepsD issued.h_dispatch, blast intro: writes.dispatch)
next
  assume "op \<in> L"
  then show "(statement L)\<^sup>*\<^sup>* (db w) (db (snd (cancel_loaded base reason op w)))"
    by (cases "op_status op = StatusCompleted \<or> op_status op = StatusCancelled")
      (simp add: cancel_loaded_def ret_def, intro issued.keepsD issued.h_cancel, blast intro: writes.cancel)
next
  assume L: "op \<in> L"
  show "(statement L)\<^sup>*\<^sup>* (db w) (db (snd (retry_loaded base reason op w)))"
  proof (cases "(op_status op = StatusFailed \<or> op_status op = StatusTimeout) \<and> op_retry_count op < op_max_attempts op")
    case True
    then show ?thesis
      using L by (intro issued.keepsD issued.h_retry) (blast intro: writes.retry writes.retry_job)+
  next
    case False
    then show ?thesis by (auto simp: retry_loaded_def fail_def)
  qed
next
  assume "op \<in> L"
  then show "(statement L)\<^sup>*\<^sup>* (db w) (db (snd (settle_loaded cfg (settled st sg err) et b oid payload op w)))"
    by (intro issued.keepsD issued.h_settle_loaded) (blast intro: writes.settle)
qed

text \<open>An event loads the operation itself.\<close>

definition sent :: "operation set \<Rightarrow> db \<Rightarrow> db \<Rightarrow> bool" where
  "sent L d d' = (\<exists>K. L \<subseteq> K \<and> sql_steps (d, L) (d', K))"

lemma sent_refl: "sent L d d"
  unfolding sent_def by blast

lemma sent_run: "(statement L)\<^sup>*\<^sup>* d d' \<Longrightarrow> sent L d d'"
  unfolding sent_def using statements_run by blast

lemma settle_sent: "sent L (db w) (db (snd (settle cfg (settled st sg err) et b oid payload w)))"
proof -
  obtain r w1 where g: "op_get_by_id oid w = (r, w1)" by fastforce
  have d: "db w1 = db w" using g by (metis op_get_by_id_def query_db_db snd_conv)
  show ?thesis
  proof (cases "\<exists>op. r = Inr (Some op)")
    case True
    then obtain op where r: "r = Inr (Some op)" by blast
    then have "sql_step (db w, L) (db w, insert op L)"
      using op_get_Inr [of oid w op w1] g by (auto intro: sql_step.load)
    moreover have "sql_steps (db w, insert op L)
      (db (snd (settle_loaded cfg (settled st sg err) et b oid payload op w1)), insert op L)"
      using statements_run [OF handler_statements(6) [of op "insert op L" w1]] d by simp
    ultimately have "sql_steps (db w, L)
      (db (snd (settle_loaded cfg (settled st sg err) et b oid payload op w1)), insert op L)"
      by (rule converse_rtranclp_into_rtranclp)
    then show ?thesis using g r unfolding sent_def
      by (intro exI [of _ "insert op L"]) (auto simp: settle_def bindE_def attempt_def)
  next
    case False
    then show ?thesis using g d
      by (auto simp: settle_def bindE_def attempt_def ret_def sent_refl split: sum.split option.split)
  qed
qed

lemma event_sent: "sent L (db w) (db (snd (handle_event cfg st b w)))"
proof -
  have bind: "sent L (db w) (db (snd (bindE m (\<lambda>_. ret x) w)))"
    if "sent L (db w) (db (snd (m w)))" for m :: "unit io" and x :: worker
    using that by (auto simp: bindE_def ret_def split: prod.splits sum.splits)
  show ?thesis
    unfolding handle_event_def handle_decoded_def Let_def handle_worker_transfer_verified_def
      handle_processing_succeeded_def handle_processing_failed_def handle_cancelled_def
      handle_transfer_verified_def
    by (auto simp: ret_simp sent_refl intro!: bind settle_sent split: option.split)
qed

lemma step_sent:
  assumes "step s s'"
  shows "\<exists>K. snd s' \<subseteq> K \<and> sql_steps (db (fst s), snd s) (db (fst s'), K)"
  using assms
proof (induction rule: step.induct)
  case (load i w op L)
  then show ?case by (auto intro: sql_step.load)
next
  case (command cfg obs cancelled wk msg w r w' L)
  then show ?case using statements_run [OF issued.h_command, of cfg obs cancelled wk msg w r w' L] by auto
qed (auto intro: statements_run handler_statements issued.keepsD issued.h_chunk issued.h_node
    event_sent [unfolded sent_def])

lemma steps_sent:
  assumes "steps s s'"
  shows "\<exists>K. snd s' \<subseteq> K \<and> sql_steps (db (fst s), snd s) (db (fst s'), K)"
  using assms
proof (induction rule: rtranclp_induct)
  case base
  then show ?case by auto
next
  case (step y z)
  then obtain K where K: "snd y \<subseteq> K" "sql_steps (db (fst s), snd s) (db (fst y), K)" by blast
  obtain M where M: "snd z \<subseteq> M" "sql_steps (db (fst y), snd y) (db (fst z), M)"
    using step_sent [OF step(2)] by blast
  obtain N where "sql_steps (db (fst y), K) (db (fst z), N)" "M \<union> K \<subseteq> N"
    using sql_steps_mono [OF M(2), of K] K(1) by auto
  then show ?case using K(2) M(1) by (meson le_sup_iff order.trans rtranclp_trans)
qed

section \<open>Invariants\<close>

definition sys_inv :: "sys \<Rightarrow> bool" where
  "sys_inv s = (early_ops (db (fst s)) \<and> (\<forall>op\<in>snd s. backed op (db (fst s))))"

lemma reachable_inv:
  assumes "reachable s"
  shows "sys_inv s"
proof -
  obtain w0 where w0: "t_operations (db w0) = []" "steps (w0, {}) s" using assms by (auto simp: reachable_def)
  obtain K where K: "snd s \<subseteq> K" "sql_steps (db w0, {}) (db (fst s), K)" using steps_sent [OF w0(2)] by auto
  from sql_inv_steps [OF K(2) sql_inv_start [OF w0(1)]] K(1) show ?thesis by (auto simp: sql_inv_def sys_inv_def)
qed

lemma steps_within_budget:
  assumes "within_budget (db w0)" and "steps (w0, {}) s"
  shows "within_budget (db (fst s))"
proof -
  obtain K where "sql_steps (db w0, {}) (db (fst s), K)" using steps_sent [OF assms(2)] by auto
  from budget_inv_steps [OF this] assms(1) show ?thesis by (simp add: budget_inv_def)
qed

context statement_guarantee
begin

lemma along_steps:
  assumes "steps s s'"
  shows "R (db (fst s)) (db (fst s'))"
proof -
  obtain K where "sql_steps (db (fst s), snd s) (db (fst s'), K)" using steps_sent [OF assms] by blast
  from along_sql_steps [OF this] show ?thesis by simp
qed

end

lemmas steps_evolve = rows_evolving.along_steps
lemmas steps_events_grow = log_growing.along_steps

lemma same_ops_inv:
  "stmt_keeps same_ops g \<Longrightarrow> (\<And>d d'. same_ops d d' \<Longrightarrow> I d' = I d) \<Longrightarrow> stmt_keeps (inv_rel I) g"
  unfolding stmt_keeps_def inv_rel_def by blast

end
