(* ===== verification/Usecase_Properties.thy ===== *)
theory Usecase_Properties
  imports Samples System
begin

text \<open>
  Properties of the use cases behind the HTTP interface: create, cancel, retry, file upload, dispatch
  and result.
\<close>

section \<open>Create\<close>

lemma create_statements_same_ops:
  "keeps same_ops (ignore_err (event_append e))"
  "keeps same_ops (ignore_err (idempotency_store cols k m p fp resp t))"
  unfolding event_append_def idempotency_store_def
  by (intro ops.keeps_intros ops.keeps_exec_db other_tables_same_ops)+

lemma create_fresh_run:
  assumes "create_fresh cols base inp k m p now w = (Inr out, w')"
  shows "\<exists>i. i \<noteq> [] \<and> out = create_result base i now \<and> op_lookup i (t_operations (db w)) = None \<and>
    t_operations (db w') = t_operations (db w) @ [op_create_row (new_operation inp i now)]"
proof -
  obtain i w1 where g: "generate_id ''op'' w = (Inr i, w1)" and
    r1: "bindE (op_create (new_operation inp i now)) (\<lambda>_.
     bindE (generate_id ''evt'') (\<lambda>eid.
     bindE (ignore_err (event_append
       \<lparr>ev_id = eid, ev_operation_id = i, ev_type = EventTypeOperationCreated,
        ev_job_id = None, ev_attempt_id = None, ev_transfer_id = None,
        ev_payload = [(''processor'', JStr (ci_processor inp)),
                      (''max_attempts'', JInt (create_max_attempts inp))],
        ev_correlation_id = i, ev_issued_at = now, ev_actor_node_id = ''self'',
        ev_version = 1\<rparr>)) (\<lambda>_.
     let out = create_result base i now in
     bindE (ignore_err (idempotency_store cols k m p (fmt_x_string i)
       (JStr (json_text (marshal_create_output out))) (now + hours 1))) (\<lambda>_.
     ret out)))) w1 = (Inr out, w')"
    using bindE_InrD [OF assms [unfolded create_fresh_def]] by blast
  obtain w2 where c: "op_create (new_operation inp i now) w1 = (Inr (), w2)" and
    r2: "bindE (generate_id ''evt'') (\<lambda>eid.
     bindE (ignore_err (event_append
       \<lparr>ev_id = eid, ev_operation_id = i, ev_type = EventTypeOperationCreated,
        ev_job_id = None, ev_attempt_id = None, ev_transfer_id = None,
        ev_payload = [(''processor'', JStr (ci_processor inp)),
                      (''max_attempts'', JInt (create_max_attempts inp))],
        ev_correlation_id = i, ev_issued_at = now, ev_actor_node_id = ''self'',
        ev_version = 1\<rparr>)) (\<lambda>_.
     let out = create_result base i now in
     bindE (ignore_err (idempotency_store cols k m p (fmt_x_string i)
       (JStr (json_text (marshal_create_output out))) (now + hours 1))) (\<lambda>_.
     ret out))) w2 = (Inr out, w')" (is "?rest w2 = _")
    using bindE_InrD [OF r1] by auto
  have "keeps same_ops ?rest"
    unfolding Let_def by (intro ops.keeps_intros create_statements_same_ops)
  then have "t_operations (db w') = t_operations (db w2)"
    using ops.keepsD [of ?rest w2] r2 by (simp add: same_ops_def)
  moreover obtain t where "sql_insert r_id (op_create_row (new_operation inp i now))
      (t_operations (db w1)) = Inr t" "t_operations (db w2) = t"
    using op_insert_Inr [OF exec_db_Inr [OF c [unfolded op_create_def]]] by auto
  moreover have "db w1 = db w" "i \<noteq> []" using g by (auto simp: generate_id_simp id_of_def)
  moreover have "r_id (op_create_row (new_operation inp i now)) = i"
    by (simp add: op_create_row_def new_operation_def)
  moreover have "out = create_result base i now"
    using r2 by (auto simp: ret_def Let_def dest!: bindE_InrD)
  ultimately show ?thesis
    by (metis op_table.put_Inr_iff)
qed


definition responses_are_strings :: "db \<Rightarrow> bool" where
  "responses_are_strings d = (\<forall>x\<in>set (t_idempotency d). \<exists>s. i_response x = JStr s)"

lemma idempotency_get_replays_nothing:
  assumes "cols = idempotency_keys_columns \<or> responses_are_strings (db w)"
    and "idempotency_get cols k m p w = (Inr (fp, data, e), w')"
  shows "unmarshal_create_output data = None"
proof -
  obtain w1 where "query_db ''select idempotency_keys'' (\<lambda>d.
       if \<not> columns_known cols idempotency_statement_columns then Inl (ErrSQL ''unknown column'')
       else case sql_first (\<lambda>r. i_key r = k \<and> i_method r = m \<and> i_path r = p \<and>
               i_expires_at r > datetime6 (clock w (ticks w))) (t_idempotency d) of
         None \<Rightarrow> Inl ErrPortsOperationNotFound
       | Some r \<Rightarrow> Inr (i_fingerprint r, i_response r, i_expires_at r)) w1 = (Inr (fp, data, e), w')"
    "db w1 = db w"
    using assms(2) by (auto simp: idempotency_get_def time_now_def dest!: bindE_InrD)
  then have known: "columns_known cols idempotency_statement_columns"
    and "\<exists>r\<in>set (t_idempotency (db w)). data = i_response r"
    by (auto dest!: query_db_Inr sql_first_Some split: if_splits option.splits)
  moreover have "cols \<noteq> idempotency_keys_columns" using known schema_lacks_key_column by auto
  ultimately show ?thesis
    using assms(1) by (auto simp: responses_are_strings_def stored_response_undecodable)
qed

lemma calm_idempotency_get: "calm (idempotency_get cols k m p)"
  unfolding idempotency_get_def
  by (intro calm_intros calm_query_db) (auto split: if_splits option.splits)

lemma calm_idempotency_store: "calm (idempotency_store cols k m p fp resp t)"
  unfolding idempotency_store_def
  by (intro calm_exec_db) (auto simp: idempotency_store_stmt_def split: if_splits)

lemma idempotency_get_db [simp]: "db (snd (idempotency_get cols k m p w)) = db w"
  by (simp add: idempotency_get_def bindE_def time_now_def)

lemma create_execute_is_fresh:
  assumes "cols = idempotency_keys_columns \<or> responses_are_strings (db w)"
  shows "\<exists>now w1. db w1 = db w \<and>
    create_execute cols base inp k m p w = create_fresh cols base inp k m p now w1"
proof -
  let ?w = "w\<lparr>ticks := Suc (ticks w)\<rparr>"
  obtain r w1 where g: "idempotency_get cols k m p ?w = (r, w1)" by fastforce
  have d: "db w1 = db w" using idempotency_get_db [of cols k m p ?w] g by simp
  have "attempt (idempotency_get cols k m p) ?w = (Inr r, w1)"
    using attempt_calm [OF calm_idempotency_get] g by simp
  then have "create_execute cols base inp k m p w =
    create_fresh cols base inp k m p (clock w (ticks w)) w1"
    using idempotency_get_replays_nothing [of cols ?w k m p] assms g
    by (auto simp: create_execute_def bindE_def time_now_def split: sum.split)
  then show ?thesis using d by blast
qed

lemma create_stores_strings: "keeps (inv_rel responses_are_strings) (create_execute cols base inp k m p)"
  unfolding create_execute_def create_fresh_def Let_def op_create_def event_append_def
    idempotency_get_def idempotency_store_def
  by (intro invs.keeps_intros invs.keeps_exec_db)
    (auto simp: stmt_keeps_def inv_rel_def responses_are_strings_def op_insert_def
      event_append_stmt_def idempotency_store_stmt_def sql_upsert_def sql_update_def
      split: if_splits sum.splits)

text \<open>
  C16: no request is ever answered from a stored response. With the columns the migration creates, and
  also with a table that has the column \<open>key\<close> as long as it holds what this code stores, every
  successful create adds one operation under a new id: its row is appended, with status \<open>CREATED\<close>,
  version 1, no retries and a positive number of attempts, and the response names it.
\<close>

theorem create_never_replays:
  assumes "cols = idempotency_keys_columns \<or> responses_are_strings (db w)"
    and "create_execute cols base inp k m p w = (Inr out, w')"
  shows "\<exists>row. t_operations (db w') = t_operations (db w) @ [row] \<and>
    op_lookup (co_operation_id out) (t_operations (db w)) = None \<and> r_id row = co_operation_id out \<and>
    r_status row = StatusCreated \<and> r_stage row = StageWaitingForUpload \<and> r_version row = 1 \<and>
    r_retry_count row = 0 \<and> 0 < r_max_attempts row \<and> r_processor row = ci_processor inp \<and>
    co_status out = StatusCreated \<and> co_status_url out = status_url base (co_operation_id out) \<and>
    (responses_are_strings (db w) \<longrightarrow> responses_are_strings (db w'))"
proof -
  have keep: "responses_are_strings (db w) \<longrightarrow> responses_are_strings (db w')"
    using create_stores_strings [of cols base inp k m p] assms(2)
    unfolding keeps_def inv_rel_def by (metis snd_conv)
  obtain now w1 where "db w1 = db w" "create_fresh cols base inp k m p now w1 = (Inr out, w')"
    using create_execute_is_fresh [OF assms(1), of base inp k m p] assms(2) by metis
  from create_fresh_run [OF this(2)] this(1) obtain i where
    "out = create_result base i now" "op_lookup i (t_operations (db w)) = None"
    "t_operations (db w') = t_operations (db w) @ [op_create_row (new_operation inp i now)]" by auto
  moreover have "0 < create_max_attempts inp"
    by (simp add: create_max_attempts_def split: option.split)
  ultimately show ?thesis using keep
    by (simp add: create_result_def op_create_row_def new_operation_def)
qed

definition sample_input :: create_input where
  "sample_input = \<lparr>ci_processor = ''demo'', ci_options = [], ci_metadata = [], ci_deadline = None,
     ci_retry_policy = None, ci_client_reference = []\<rparr>"

definition sample_create :: "world \<Rightarrow> (go_error + create_output) \<times> world" where
  "sample_create = create_execute idempotency_keys_columns ''http://h'' sample_input ''k'' ''POST'' ''/o''"

text \<open>A create in an empty database in which no call fails, with any deadline.\<close>

lemma create_frame: "maintains same_disk (create_execute cols base inp k m p)"
  unfolding create_execute_def create_fresh_def Let_def op_create_def event_append_def
    idempotency_get_def idempotency_store_def
  by (intro frame.m_intros frame_exec_db)

lemma sample_input_deadline: "sample_input\<lparr>ci_deadline := None\<rparr> = sample_input"
  by (simp add: sample_input_def)

lemma create_runs:
  assumes "quiet w" and "db w = empty_db"
  shows "\<exists>out w'. create_execute idempotency_keys_columns base (sample_input\<lparr>ci_deadline := d\<rparr>) k m p w =
    (Inr out, w') \<and> quiet w'"
proof -
  let ?inp = "sample_input\<lparr>ci_deadline := d\<rparr>"
  let ?w1 = "w\<lparr>ticks := Suc (ticks w)\<rparr>"
  obtain r w2 where g: "idempotency_get idempotency_keys_columns k m p ?w1 = (r, w2)" by fastforce
  have w2: "r = Inl (ErrSQL ''unknown column'')" "db w2 = empty_db" "quiet w2"
    using g schema_lacks_key_column assms
    by (auto simp: idempotency_get_def bindE_def time_now_def query_db_quiet)
  then have "create_execute idempotency_keys_columns base ?inp k m p w =
      create_fresh idempotency_keys_columns base ?inp k m p (clock w (ticks w)) w2"
    using g by (simp add: create_execute_def bindE_def time_now_def attempt_def)
  moreover have "\<exists>out w'. create_fresh idempotency_keys_columns base ?inp k m p now w2 = (Inr out, w')" for now
    using w2
    by (simp add: create_fresh_def generate_id_simp op_create_def exec_db_quiet op_insert_def
        op_row_fits_def op_create_row_def new_operation_def sample_input_def empty_db_def
        sql_insert_def varchar_short sql_ranges err_cols_fit_def no_err_cols_def null_string_def
        create_max_attempts_def bindE_def ignore_err_calm calm_statements
        calm_idempotency_store Let_def ret_def)
  ultimately obtain out w' where run: "create_execute idempotency_keys_columns base ?inp k m p w = (Inr out, w')"
    by metis
  with same_disk_quiet [OF frame.maintainsD [OF create_frame run]] assms(1) show ?thesis by blast
qed

lemma sample_create_runs:
  "\<exists>out. sample_create (sample_world empty_db) = (Inr out, snd (sample_create (sample_world empty_db)))"
  using create_runs [of "sample_world empty_db" "''http://h''" None] unfolding sample_create_def
  by (metis db_sample(1) quiet_sample sample_input_deadline snd_conv)

theorem create_never_replays_witness:
  "\<exists>(out :: create_output) (row :: op_row). t_operations (db (snd (sample_create (sample_world empty_db)))) = [row] \<and>
     r_id row = co_operation_id out \<and> r_status row = StatusCreated"
proof -
  obtain out where run: "sample_create (sample_world empty_db) =
    (Inr out, snd (sample_create (sample_world empty_db)))" using sample_create_runs by blast
  obtain row where "t_operations (db (snd (sample_create (sample_world empty_db)))) = [row]"
    "r_id row = co_operation_id out" "r_status row = StatusCreated"
    using create_never_replays [OF disjI1 [OF refl] run [unfolded sample_create_def]]
    by (auto simp: empty_db_def sample_create_def)
  then show ?thesis by blast
qed


section \<open>Cancel\<close>

lemma same_ops_reads: "same_ops d d' \<Longrightarrow> db_operation k d' = db_operation k d"
  by (simp add: same_ops_def db_operation_def)

lemma event_append_same_ops: "keeps same_ops (ignore_err (event_append e))"
  unfolding event_append_def by (intro ops.keeps_intros ops.keeps_exec_db other_tables_same_ops)

text \<open>What a value returned by the load of an operation says.\<close>

lemma load_InrD:
  assumes "bindE (op_get_by_id i) (\<lambda>m. case m of None \<Rightarrow> fail e | Some op \<Rightarrow> f op) w = (Inr y, w')"
  shows "\<exists>op w1. db_operation i (db w) = Some op \<and> db w1 = db w \<and> f op w1 = (Inr y, w')"
proof -
  obtain m w1 where "op_get_by_id i w = (Inr m, w1)"
    "(case m of None \<Rightarrow> fail e | Some op \<Rightarrow> f op) w1 = (Inr y, w')"
    using bindE_InrD [OF assms] by blast
  then show ?thesis
    by (cases m) (auto simp: fail_def dest!: op_get_Inr)
qed

text \<open>A cancel of an operation that is not terminal writes the request into the row that was loaded.\<close>

lemma cancel_loaded_run:
  assumes run: "cancel_loaded base reason op w = (Inr (out, err), w')"
    and op: "db_operation i (db w) = Some op"
    and open_op: "\<not> (op_status op = StatusCompleted \<or> op_status op = StatusCancelled)"
  shows "err = None \<and> cn_status out = op_status op \<and> cn_version out = op_version op + 1 \<and>
    (\<exists>now. cn_cancel_requested_at out = Some now \<and>
      db_operation i (db w') = Some (op_overwrite (cancelled_struct now op) op))"
proof -
  let ?now = "clock w (ticks w)" and ?w2 = "w\<lparr>ticks := Suc (ticks w)\<rparr>"
  obtain w3 w4 e where up: "op_update (cancelled_struct ?now op) ?w2 = (Inr (), w3)"
    and ev: "ignore_err (event_append e) w4 = (Inr (), w')" "db w4 = db w3"
    and res: "err = None" "cn_status out = op_status op" "cn_version out = op_version op + 1"
      "cn_cancel_requested_at out = Some ?now"
    using run open_op
    by (auto simp: cancel_loaded_def Let_def bindE_time_now ret_def cancelled_struct_def
        elim!: bindE_InrE dest!: time_now_db)
  have "db_operation i (db w3) = Some (op_overwrite (cancelled_struct ?now op) op)"
    using op by (intro op_update_own [OF up]) (simp_all add: cancelled_struct_def)
  moreover have "db_operation i (db w') = db_operation i (db w3)"
    using ops.keepsD [OF event_append_same_ops [of e], of w4] ev by (simp add: same_ops_reads)
  ultimately show ?thesis using res by auto
qed

text \<open>
  C17: cancelling an operation that is \<open>COMPLETED\<close> or \<open>CANCELLED\<close> returns it with the error that it is
  terminal and changes nothing in the database. In every other status the operation read back has the
  time of the request as its cancel time, to the microsecond, and as the time of its update, and the next
  version; the status, the stage and every other field are as they were (an error as its columns hold
  it): no cancel moves an operation to \<open>CANCELLED\<close>.
\<close>

theorem cancel_only_records_request:
  assumes "cancel_execute base i reason w = (Inr (out, err), w')"
  shows "\<exists>op. db_operation i (db w) = Some op \<and> cn_status out = op_status op \<and>
    (if op_status op = StatusCompleted \<or> op_status op = StatusCancelled
     then err = Some ErrAlreadyTerminal \<and> db w' = db w \<and> cn_version out = op_version op
     else err = None \<and> cn_version out = op_version op + 1 \<and>
       (\<exists>now op'. cn_cancel_requested_at out = Some now \<and> db_operation i (db w') = Some op' \<and>
         op_cancel_requested_at op' = Some (datetime6 now) \<and> op_status op' = op_status op \<and>
         op_stage op' = op_stage op \<and> op_version op' = op_version op + 1 \<and>
         op' = op\<lparr>op_cancel_requested_at := Some (datetime6 now), op_updated_at := datetime6 now,
           op_error := stored_error (op_error op), op_version := op_version op + 1\<rparr>))"
proof -
  obtain op w1 where op: "db_operation i (db w) = Some op" "db w1 = db w"
    and run: "cancel_loaded base reason op w1 = (Inr (out, err), w')"
    using load_InrD [OF assms [unfolded cancel_execute_def]] by blast
  show ?thesis
  proof (cases "op_status op = StatusCompleted \<or> op_status op = StatusCancelled")
    case True
    then show ?thesis using op run by (auto simp: cancel_loaded_def ret_def)
  next
    case False
    have stored: "op_overwrite (cancelled_struct now op) op = op\<lparr>op_cancel_requested_at := Some (datetime6 now),
        op_updated_at := datetime6 now, op_error := stored_error (op_error op), op_version := op_version op + 1\<rparr>" for now
      by (simp add: op_overwrite_def cancelled_struct_def)
    show ?thesis using cancel_loaded_run [OF run _ False, of i] op False by (auto simp: stored)
  qed
qed

text \<open>Steps of a run in a world where no call fails.\<close>

lemma op_update_run:
  "quiet w \<Longrightarrow> op_update_stmt op (db w) = Inr ((), d') \<Longrightarrow>
     op_update op w = (Inr (), w\<lparr>calls := Suc (calls w), db := d'\<rparr>)"
  by (simp add: op_update_def exec_db_quiet)

lemma op_get_run:
  "quiet w \<Longrightarrow> op_get_by_id i w = (Inr (db_operation i (db w)), w\<lparr>calls := Suc (calls w)\<rparr>)"
  by (simp add: op_get_by_id_def query_db_quiet)

lemma loaded_update_fits:
  assumes "op_ids_distinct d" and "op_lookup i (t_operations d) = Some r"
    and "op_id s = i" and "op_row_fits (op_update_row s r)"
  shows "\<exists>d'. op_update_stmt s d = Inr ((), d')"
proof -
  have "q = r" if "q \<in> set (t_operations d)" "op_update_where s q" for q
    using op_lookup_unique [OF assms(1) that(1)] that(2) assms(2,3)
    by (simp add: op_update_where_def)
  then show ?thesis using assms(4) by (auto simp: op_update_stmt_def)
qed

lemmas fits_simps =
  op_row_fits_def op_update_row_def sample_defs op_create_row_def varchar_short sql_ranges
  err_cols_fit_def error_to_cols_def no_err_cols_def null_string_def

lemma sample_loaded:
  "db_operation ''op-1'' (sample_db st) =
     Some ((sample_operation st)\<lparr>op_created_at := 1000, op_updated_at := 2000\<rparr>)"
  by (simp add: db_operation_def sample_row_def sample_operation_def row_to_operation_def
      op_create_row_def datetime6_def null_string_def string_of_null_def cols_to_error_def
      no_err_cols_def)

theorem cancel_only_records_request_witness:
  "\<exists>op'. db_operation ''op-1'' (db (snd (cancel_execute ''b'' ''op-1'' ''why''
     (sample_world (sample_db StatusQueued))))) = Some op' \<and> op_status op' = StatusQueued \<and>
     op_version op' = 2"
proof -
  let ?w = "sample_world (sample_db StatusQueued)"
  let ?op = "(sample_operation StatusQueued)\<lparr>op_created_at := 1000, op_updated_at := 2000\<rparr>"
  have "\<exists>d'. op_update_stmt (cancelled_struct 0 ?op) (sample_db StatusQueued) = Inr ((), d')"
    by (intro loaded_update_fits [OF sample_ids_distinct sample_lookup])
      (simp_all add: cancelled_struct_def fits_simps)
  then obtain d' where d': "op_update_stmt (cancelled_struct 0 ?op) (sample_db StatusQueued) =
    Inr ((), d')" ..
  obtain out w' where run: "cancel_execute ''b'' ''op-1'' ''why'' ?w = (Inr (out, None), w')"
    using d'
    by (simp add: cancel_execute_def op_get_run bindE_def [of "op_get_by_id i" for i] sample_loaded
        cancel_loaded_def Let_def sample_operation_def
        ignore_err_calm calm_statements bindE_def ret_def time_now_def op_update_run)
  from cancel_only_records_request [OF run] show ?thesis
    using run by (auto simp: sample_loaded cancelled_struct_def sample_operation_def)
qed


section \<open>Retry\<close>

lemma create_rows_same_ops:
  "keeps same_ops (job_create j)" "keeps same_ops (attempt_create a)"
  unfolding job_create_def attempt_create_def
  by (intro ops.keeps_exec_db other_tables_same_ops)+

lemma retry_silent: "maintains same_bus (retry_loaded base reason op)"
  unfolding retry_loaded_def Let_def op_update_def job_create_def attempt_create_def event_append_def
  by (intro silent.m_intros silent_exec_db)

lemma retry_execute_silent: "maintains same_bus (retry_execute base i reason)"
  unfolding retry_execute_def op_get_by_id_def
  by (intro silent.m_intros silent_exec_db retry_silent)

text \<open>
  C14: a retry that succeeds found the operation \<open>FAILED\<close> or \<open>TIMEOUT\<close> with retries left. It puts the
  operation back to \<open>QUEUED\<close> with one retry more and no error, pointing at the new job and attempt, two
  versions on. It publishes no command and starts no dispatch.
\<close>

theorem retry_requeues:
  assumes "retry_execute base i reason w = (Inr out, w')"
  shows "\<exists>op op'. db_operation i (db w) = Some op \<and>
    (op_status op = StatusFailed \<or> op_status op = StatusTimeout) \<and>
    op_retry_count op < op_max_attempts op \<and>
    db_operation i (db w') = Some op' \<and> op_status op' = StatusQueued \<and> op_stage op' = StageQueued \<and>
    op_retry_count op' = op_retry_count op + 1 \<and> op_max_attempts op' = op_max_attempts op \<and>
    op_version op' = op_version op + 2 \<and> op_error op' = None \<and>
    op_current_job_id op' = Some (ry_current_job_id out) \<and>
    op_current_attempt_id op' = Some (ry_current_attempt_id out) \<and>
    ry_retry_count out = op_retry_count op' \<and> ry_version out = op_version op' \<and>
    published w' = published w \<and> spawned w' = spawned w"
proof -
  obtain op w1 where op: "db_operation i (db w) = Some op" "db w1 = db w"
    and run: "retry_loaded base reason op w1 = (Inr out, w')"
    using load_InrD [OF assms [unfolded retry_execute_def]] by blast
  have ok: "op_status op = StatusFailed \<or> op_status op = StatusTimeout"
    "op_retry_count op < op_max_attempts op"
    using run by (auto simp: retry_loaded_def fail_def split: if_splits)
  let ?now = "clock w1 (ticks w1)" and ?w2 = "w1\<lparr>ticks := Suc (ticks w1)\<rparr>"
  let ?op1 = "retried_struct ?now op"
  obtain w3 w4 w5 w6 w7 w8 jid aid cid tok e where
    up1: "op_update ?op1 ?w2 = (Inr (), w3)" and
    job: "job_create (retry_job jid ?now ?op1) w4 = (Inr (), w5)" and
    att: "attempt_create (retry_attempt aid jid cid tok ?now ?op1) w5 = (Inr (), w6)" and
    up2: "op_update (?op1\<lparr>op_current_job_id := Some jid, op_current_attempt_id := Some aid,
        op_version := op_version ?op1 + 1\<rparr>) w6 = (Inr (), w7)" and
    ev: "ignore_err (event_append e) w8 = (Inr (), w')" and
    dbs: "db w4 = db w3" "db w8 = db w7" and
    out: "ry_current_job_id out = jid" "ry_current_attempt_id out = aid"
      "ry_retry_count out = op_retry_count ?op1" "ry_version out = op_version ?op1 + 1"
    using run ok
    by (auto simp: retry_loaded_def bindE_time_now Let_def ret_def elim!: bindE_InrE wrap_err_InrE
        dest!: time_now_db)
  have same: "db_operation i (db w6) = db_operation i (db w4)" "db_operation i (db w') = db_operation i (db w8)"
    using ops.keepsD [OF create_rows_same_ops(1)] ops.keepsD [OF create_rows_same_ops(2)]
      ops.keepsD [OF event_append_same_ops] job att ev
    by (metis same_ops_reads snd_conv)+
  have o1: "db_operation i (db w3) = Some (op_overwrite ?op1 op)"
    using op by (intro op_update_own [OF up1]) (simp_all add: retried_struct_def)
  let ?op2 = "?op1\<lparr>op_current_job_id := Some jid, op_current_attempt_id := Some aid,
        op_version := op_version ?op1 + 1\<rparr>"
  have "db_operation i (db w7) = Some (op_overwrite ?op2 (op_overwrite ?op1 op))"
    using same(1) dbs(1) o1
    by (intro op_update_own [OF up2]) (simp_all add: retried_struct_def)
  then have "db_operation i (db w') = Some (op_overwrite ?op2 (op_overwrite ?op1 op))"
    using same(2) dbs(2) by simp
  moreover have "same_bus w w'" by (rule silent.maintainsD [OF retry_execute_silent assms])
  ultimately show ?thesis using op ok out
    by (auto simp: retried_struct_def same_bus_def)
qed


theorem retry_requeues_witness:
  "\<exists>out w' op'. retry_execute ''b'' ''op-1'' ''why'' (tick_world (sample_db StatusFailed)) = (Inr out, w') \<and>
     db_operation ''op-1'' (db w') = Some op' \<and> op_status op' = StatusQueued \<and>
     op_retry_count op' = 1 \<and> op_version op' = 3"
proof -
  let ?w = "tick_world (sample_db StatusFailed)"
  have "\<not> isl (fst (retry_execute ''b'' ''op-1'' ''why'' ?w))" by code_simp
  from runs_to_value [OF this] obtain out w' where
    run: "retry_execute ''b'' ''op-1'' ''why'' ?w = (Inr out, w')" by blast
  from retry_requeues [OF run] show ?thesis
    using run by (auto simp: sample_loaded sample_operation_def)
qed

end
