(* ===== verification/Upload_Properties.thy ===== *)
theory Upload_Properties
  imports Usecase_Properties Handlers
begin

text \<open>
  Properties of the file upload: which bodies it accepts, what it stores then, and that a refused body
  leaves nothing behind; and what becomes of an upload that loses a race.
\<close>

section \<open>Paths\<close>

lemma filepath_join_last_inj:
  "a \<noteq> [] \<Longrightarrow> b \<noteq> [] \<Longrightarrow> filepath_join [p, a] = filepath_join [p, b] \<Longrightarrow> a = b"
  by (auto simp: Let_def split: if_splits)

lemma temp_path_not_input:
  "filepath_join [staging_path cfg i, temp_name b] \<noteq> input_path cfg i"
proof
  assume "filepath_join [staging_path cfg i, temp_name b] = input_path cfg i"
  then have "temp_name b = ''input''"
    unfolding input_path_def by (rule filepath_join_last_inj [rotated 2]) (simp_all add: temp_name_def)
  then show False by (simp add: temp_name_def)
qed

section \<open>Acceptance\<close>

lemma with_defer_InrE:
  assumes "with_defer c m w = (Inr y, w')"
  obtains w1 where "m w = (Inr y, w1)" "w' = snd (c w1)"
  using assms by (auto simp: with_defer_def split: prod.splits)

lemma ignored_event_silent: "maintains same_bus (ignore_err (event_append e))"
  unfolding event_append_def by (intro silent.m_ignore_err silent_exec_db)

lemma ignored_event_run:
  assumes "ignore_err (event_append e) w = (Inr (), w')"
  shows "same_disk w w'" and "same_bus w w'" and "same_ops (db w) (db w')"
  using frame.maintainsD [OF frame.m_ignore_err [OF frame_statements(2)] assms]
    silent.maintainsD [OF ignored_event_silent assms]
    ops.keepsD [OF event_append_same_ops [of e], of w] assms
  by simp_all

lemma op_update_frame: "maintains same_disk (op_update op)" "maintains same_bus (op_update op)"
  unfolding op_update_def by (rule frame_exec_db silent_exec_db)+

lemma op_update_leaves:
  assumes "op_update op w = (r, w')"
  shows "disk w' = disk w \<and> published w' = published w \<and> spawned w' = spawned w"
  using frame.maintainsD [OF op_update_frame(1) assms] silent.maintainsD [OF op_update_frame(2) assms]
  by (simp add: same_disk_def same_bus_def)

definition uploaded_output :: "file_config \<Rightarrow> string \<Rightarrow> bytes \<Rightarrow> int \<Rightarrow> operation \<Rightarrow> file_output" where
  "uploaded_output cfg name content now op =
     \<lparr>fo_operation_id = op_id op, fo_status = StatusQueued, fo_stage = StageQueued,
      fo_input_file = \<lparr>if_size_bytes = int (length content), if_sha256 = sha256_hex content,
                       if_file_name = name\<rparr>,
      fo_status_url = status_url (fc_base_url cfg) (op_id op),
      fo_result_url = status_url (fc_base_url cfg) (op_id op) @ ''/result'',
      fo_updated_at = now, fo_version = op_version op + 1\<rparr>"

lemma file_commit_run:
  assumes "file_commit cfg inp content op w = (Inr out, w')" and "db_operation i (db w) = Some op"
  shows "\<exists>now. db_operation i (db w') =
      Some (op_overwrite (uploaded_struct content (fi_headers inp ''X-File-Name'') now op) op) \<and>
    disk w' = disk w \<and> published w' = published w \<and>
    spawned w' = spawned w @
      (if fc_has_dispatch cfg then [TaskDispatch (op_id op) (op_processor op)] else []) \<and>
    out = uploaded_output cfg (fi_headers inp ''X-File-Name'') content now op"
proof -
  let ?now = "clock w (ticks w)" and ?w1 = "w\<lparr>ticks := Suc (ticks w)\<rparr>"
  let ?op1 = "uploaded_struct content (fi_headers inp ''X-File-Name'') ?now op"
  obtain w2 w4 e where up: "op_update ?op1 ?w1 = (Inr (), w2)" and
    ev: "ignore_err (event_append e) (w2\<lparr>ticks := Suc (ticks w2)\<rparr>) = (Inr (), w4)" and
    sp: "db w' = db w4" "disk w' = disk w4" "published w' = published w4" "spawned w' = spawned w4 @
      (if fc_has_dispatch cfg then [TaskDispatch (op_id op) (op_processor op)] else [])" and
    out: "out = uploaded_output cfg (fi_headers inp ''X-File-Name'') content ?now op"
    using assms(1)
    by (fastforce simp: file_commit_def bindE_time_now time_now_simp Let_def ret_def spawn_simp
        uploaded_struct_def uploaded_output_def elim!: bindE_InrE split: if_splits)
  have "db_operation i (db w2) = Some (op_overwrite ?op1 op)"
    using assms(2) by (intro op_update_own [OF up]) (simp_all add: uploaded_struct_def)
  then have "db_operation i (db w4) = Some (op_overwrite ?op1 op)"
    using ignored_event_run(3) [OF ev] by (simp add: same_ops_reads)
  then show ?thesis
    using op_update_leaves [OF up] ignored_event_run(1,2) [OF ev] sp out
    by (auto simp: same_disk_def same_bus_def)
qed

text \<open>The temporary file is removed after the rename, which leaves the final file alone.\<close>

lemma remove_temp_leaves:
  assumes "w' = snd (extern what (modify_world (disk_write n tmp None)) w)" and "tmp \<noteq> p"
  shows "disk w' n p = disk w n p \<and> db w' = db w \<and> published w' = published w \<and>
    spawned w' = spawned w \<and> quiet w' = quiet w"
  using assms by (simp add: extern_def modify_simp Let_def disk_write_def split: outcome.split)

text \<open>
  What the limited reader lets through: the whole body when it is within a limit below the largest
  \<open>int64\<close>, and nothing when the limit is that.
\<close>

definition received :: "file_config \<Rightarrow> file_input \<Rightarrow> bytes" where
  "received cfg inp = take (nat (int64_add (fc_max_file_size cfg) 1)) (fi_body inp)"

lemma limit_plus_one: "0 \<le> m \<Longrightarrow> m < max_int64 \<Longrightarrow> int64_add m 1 = m + 1"
  by (rule int64_add_exact) (simp_all add: min_int64_def)

lemma received_fitting:
  assumes "int (length (fi_body inp)) \<le> fc_max_file_size cfg" and "fc_max_file_size cfg < max_int64"
  shows "received cfg inp = fi_body inp"
proof -
  have "0 \<le> fc_max_file_size cfg" using assms(1) by linarith
  then show ?thesis using assms by (simp add: received_def limit_plus_one)
qed

lemma received_whole:
  assumes "int (length (received cfg inp)) \<le> fc_max_file_size cfg" and "fc_max_file_size cfg < max_int64"
  shows "received cfg inp = fi_body inp"
proof -
  have nonneg: "0 \<le> fc_max_file_size cfg" using assms(1) by linarith
  show ?thesis
    using assms nonneg unfolding received_def limit_plus_one [OF nonneg assms(2)]
    by (cases "length (fi_body inp) \<le> nat (fc_max_file_size cfg + 1)") auto
qed

lemma received_largest: "fc_max_file_size cfg = max_int64 \<Longrightarrow> received cfg inp = []"
  by (simp add: received_def int64_add_wraps min_int64_def)

lemma file_receive_run:
  assumes "file_receive cfg inp tmp op w = (Inr out, w')"
    and "db_operation i (db w) = Some op" and "tmp \<noteq> input_path cfg (fi_operation_id inp)"
  shows "int (length (received cfg inp)) \<le> fc_max_file_size cfg \<and>
    (fi_headers inp ''Digest'' = [] \<or> fi_headers inp ''Digest'' = file_digest_header (received cfg inp)) \<and>
    (\<exists>now. db_operation i (db w') = Some (op_overwrite
        (uploaded_struct (received cfg inp) (fi_headers inp ''X-File-Name'') now op) op) \<and>
      out = uploaded_output cfg (fi_headers inp ''X-File-Name'') (received cfg inp) now op) \<and>
    disk w' (fc_node cfg) (input_path cfg (fi_operation_id inp)) = Some (received cfg inp) \<and>
    published w' = published w \<and>
    spawned w' = spawned w @
      (if fc_has_dispatch cfg then [TaskDispatch (op_id op) (op_processor op)] else [])"
proof -
  let ?c = "received cfg inp"
  let ?n = "fc_node cfg" and ?p = "input_path cfg (fi_operation_id inp)"
  let ?w1 = "disk_write ?n tmp (Some ?c) (w\<lparr>calls := Suc (calls w)\<rparr>)"
  let ?w2 = "?w1\<lparr>calls := Suc (calls ?w1)\<rparr>"
  have ok: "int (length ?c) \<le> fc_max_file_size cfg"
    "fi_headers inp ''Digest'' = [] \<or> fi_headers inp ''Digest'' = file_digest_header ?c"
    and run: "file_commit cfg inp ?c op
      (disk_write ?n ?p (disk ?w2 ?n tmp) (disk_write ?n tmp None ?w2)) = (Inr out, w')"
    using assms(1)
    by (auto simp: file_receive_def received_def [symmetric] Let_def modify_simp fail_def
        elim!: bindE_InrE wrap_err_InrE extern_InrE split: if_splits)
  show ?thesis
    using file_commit_run [OF run, of i] assms(2,3) ok
    by (auto simp: disk_write_def)
qed


lemma load_silent: "maintains same_bus (op_get_by_id i)" "maintains same_disk (op_get_by_id i)"
  unfolding op_get_by_id_def by (rule silent.m_query_db frame.m_query_db)+

lemma load_run:
  assumes "bindE (op_get_by_id i) (\<lambda>m. case m of None \<Rightarrow> fail e | Some op \<Rightarrow> f op) w = (Inr y, w')"
  obtains op w1 where "db_operation i (db w) = Some op" "db w1 = db w" "disk w1 = disk w"
    "same_bus w w1" "f op w1 = (Inr y, w')"
proof -
  obtain m w1 where g: "op_get_by_id i w = (Inr m, w1)" and
    f: "(case m of None \<Rightarrow> fail e | Some op \<Rightarrow> f op) w1 = (Inr y, w')"
    using assms by (rule bindE_InrE)
  obtain op where m: "m = Some op" using f by (cases m) (auto simp: fail_def)
  have "disk w1 = disk w" using frame.maintainsD [OF load_silent(2) g] by (simp add: same_disk_def)
  then show thesis
    using that op_get_Inr [OF g [unfolded m]] silent.maintainsD [OF load_silent(1) g] f
    by (auto simp: m)
qed

lemma file_stage_run:
  assumes "file_stage cfg inp op w = (Inr out, w')"
  obtains b w1 w2 where
    "file_receive cfg inp (filepath_join [staging_path cfg (fi_operation_id inp), temp_name b]) op w1 =
       (Inr out, w2)"
    "w' = snd (extern ''remove temp'' (modify_world (disk_write (fc_node cfg)
       (filepath_join [staging_path cfg (fi_operation_id inp), temp_name b]) None)) w2)"
    "db w1 = db w" "same_bus w w1"
  using assms that
  by (fastforce simp: file_stage_def random16_def Let_def ret_def modify_simp same_bus_def
      elim!: bindE_InrE wrap_err_InrE extern_InrE with_defer_InrE)

lemma file_execute_run:
  assumes "file_execute cfg inp w = (Inr out, w')"
  shows "\<exists>op now. db_operation (fi_operation_id inp) (db w) = Some op \<and> op_status op = StatusCreated \<and>
    int (length (received cfg inp)) \<le> fc_max_file_size cfg \<and>
    (fi_headers inp ''Digest'' = [] \<or> fi_headers inp ''Digest'' = file_digest_header (received cfg inp)) \<and>
    db_operation (fi_operation_id inp) (db w') = Some (op_overwrite
      (uploaded_struct (received cfg inp) (fi_headers inp ''X-File-Name'') now op) op) \<and>
    out = uploaded_output cfg (fi_headers inp ''X-File-Name'') (received cfg inp) now op \<and>
    disk w' (fc_node cfg) (input_path cfg (fi_operation_id inp)) = Some (received cfg inp) \<and>
    published w' = published w \<and>
    spawned w' = spawned w @
      (if fc_has_dispatch cfg then [TaskDispatch (op_id op) (op_processor op)] else [])"
proof -
  obtain op w1 where op: "db_operation (fi_operation_id inp) (db w) = Some op" and
    w1: "db w1 = db w" "same_bus w w1" and
    run: "(if op_status op \<noteq> StatusCreated then fail ErrInvalidState else file_stage cfg inp op) w1 =
      (Inr out, w')"
    using load_run [OF assms [unfolded file_execute_def]] by metis
  then have st: "op_status op = StatusCreated" and stage: "file_stage cfg inp op w1 = (Inr out, w')"
    by (auto simp: fail_def split: if_splits)
  from stage obtain b w2 w3 where
    rec: "file_receive cfg inp (filepath_join [staging_path cfg (fi_operation_id inp), temp_name b]) op w2 =
      (Inr out, w3)" and
    rm: "w' = snd (extern ''remove temp'' (modify_world (disk_write (fc_node cfg)
      (filepath_join [staging_path cfg (fi_operation_id inp), temp_name b]) None)) w3)" and
    w2: "db w2 = db w1" "same_bus w1 w2"
    by (rule file_stage_run)
  have "db_operation (fi_operation_id inp) (db w2) = Some op" using op w1 w2 by simp
  from file_receive_run [OF rec this temp_path_not_input] remove_temp_leaves [OF rm temp_path_not_input]
  show ?thesis using op st w1(2) w2(2) by (auto simp: same_bus_def)
qed

text \<open>What is stored of an accepted upload, field by field.\<close>

lemma uploaded_stored:
  "op_overwrite (uploaded_struct content name now op) op = op\<lparr>
     op_status := StatusQueued, op_stage := StageQueued, op_updated_at := datetime6 now,
     op_input_file := Some \<lparr>if_size_bytes = int (length content), if_sha256 = sha256_hex content,
                           if_file_name = name\<rparr>,
     op_cancel_requested_at := map_option datetime6 (op_cancel_requested_at op),
     op_error := stored_error (op_error op), op_version := op_version op + 1\<rparr>"
  by (simp add: op_overwrite_def uploaded_struct_def)

text \<open>
  C10: an upload that succeeds under a limit below the largest \<open>int64\<close> found the operation \<open>CREATED\<close>,
  and its body is within the limit and has the digest of the header when there is one. The row then
  reads \<open>QUEUED\<close> in status and stage, one version up, with the size and the SHA-256 of the whole body, the
  file name of the header and the time of the upload to the microsecond; every other field is as it was
  (a cancel time to the microsecond, an error as its columns hold it). The file \<open>input\<close> of the node holds
  the body; nothing is published, a dispatch is started if one is configured, and the answer carries
  the same values.
\<close>

theorem upload_accepts:
  assumes "file_execute cfg inp w = (Inr out, w')" and "fc_max_file_size cfg < max_int64"
  shows "\<exists>op now f. db_operation (fi_operation_id inp) (db w) = Some op \<and> op_status op = StatusCreated \<and>
    int (length (fi_body inp)) \<le> fc_max_file_size cfg \<and>
    (fi_headers inp ''Digest'' = [] \<or> fi_headers inp ''Digest'' = file_digest_header (fi_body inp)) \<and>
    f = \<lparr>if_size_bytes = int (length (fi_body inp)), if_sha256 = sha256_hex (fi_body inp),
         if_file_name = fi_headers inp ''X-File-Name''\<rparr> \<and>
    db_operation (fi_operation_id inp) (db w') = Some (op\<lparr>
      op_status := StatusQueued, op_stage := StageQueued, op_updated_at := datetime6 now,
      op_input_file := Some f,
      op_cancel_requested_at := map_option datetime6 (op_cancel_requested_at op),
      op_error := stored_error (op_error op), op_version := op_version op + 1\<rparr>) \<and>
    disk w' (fc_node cfg) (input_path cfg (fi_operation_id inp)) = Some (fi_body inp) \<and>
    published w' = published w \<and>
    spawned w' = spawned w @
      (if fc_has_dispatch cfg then [TaskDispatch (fi_operation_id inp) (op_processor op)] else []) \<and>
    fo_operation_id out = fi_operation_id inp \<and> fo_status out = StatusQueued \<and>
    fo_stage out = StageQueued \<and> fo_input_file out = f \<and> fo_updated_at out = now \<and>
    fo_version out = op_version op + 1"
proof -
  obtain op now where loaded: "db_operation (fi_operation_id inp) (db w) = Some op" and
    fits: "int (length (received cfg inp)) \<le> fc_max_file_size cfg" and
    run: "op_status op = StatusCreated"
      "fi_headers inp ''Digest'' = [] \<or> fi_headers inp ''Digest'' = file_digest_header (received cfg inp)"
      "db_operation (fi_operation_id inp) (db w') = Some (op_overwrite
        (uploaded_struct (received cfg inp) (fi_headers inp ''X-File-Name'') now op) op)"
      "out = uploaded_output cfg (fi_headers inp ''X-File-Name'') (received cfg inp) now op"
      "disk w' (fc_node cfg) (input_path cfg (fi_operation_id inp)) = Some (received cfg inp)"
      "published w' = published w"
      "spawned w' = spawned w @
        (if fc_has_dispatch cfg then [TaskDispatch (op_id op) (op_processor op)] else [])"
    using file_execute_run [OF assms(1)] by blast
  have whole: "received cfg inp = fi_body inp" by (rule received_whole [OF fits assms(2)])
  have "op_id op = fi_operation_id inp" using db_operation_Some [OF loaded] by auto
  then show ?thesis
    using loaded fits run by (simp add: whole uploaded_stored uploaded_output_def)
qed

definition sample_upload :: "file_config" where
  "sample_upload = \<lparr>fc_node = ''n'', fc_staging_dir = ''/s'', fc_max_file_size = 2, fc_base_url = ''b'',
     fc_has_dispatch = True\<rparr>"

definition sample_body :: "bytes \<Rightarrow> file_input" where
  "sample_body b = \<lparr>fi_operation_id = ''op-1'', fi_body = b, fi_headers = (\<lambda>_. [])\<rparr>"

section \<open>Refusal\<close>

lemma file_stage_quiet:
  assumes "quiet w"
  obtains b w1 where
    "file_stage cfg inp op w =
       with_defer (extern ''remove temp'' (modify_world (disk_write (fc_node cfg)
           (filepath_join [staging_path cfg (fi_operation_id inp), temp_name b]) None)))
         (file_receive cfg inp (filepath_join [staging_path cfg (fi_operation_id inp), temp_name b]) op) w1"
    "quiet w1" "db w1 = db w" "same_bus w w1"
    "disk w1 = disk (disk_write (fc_node cfg)
       (filepath_join [staging_path cfg (fi_operation_id inp), temp_name b]) (Some []) w)"
proof -
  let ?b = "map (rnd w (draws w)) [0..<16]"
  let ?tmp = "filepath_join [staging_path cfg (fi_operation_id inp), temp_name ?b]"
  let ?w1 = "disk_write (fc_node cfg) ?tmp (Some [])
    (w\<lparr>draws := Suc (draws w), calls := Suc (Suc (calls w))\<rparr>)"
  have "file_stage cfg inp op w =
      with_defer (extern ''remove temp'' (modify_world (disk_write (fc_node cfg) ?tmp None)))
        (file_receive cfg inp ?tmp op) ?w1"
    using assms by (simp add: file_stage_def bindE_def wrap_err_def extern_quiet ret_def random16_def
        modify_simp Let_def del: filepath_join.simps)
  moreover have "quiet ?w1" using assms by simp
  ultimately show thesis by (rule that) (simp_all add: same_bus_def disk_write_def del: filepath_join.simps)
qed

lemma file_receive_refused:
  assumes "quiet w" and "fc_max_file_size cfg < max_int64"
    and "fc_max_file_size cfg < int (length (fi_body inp)) \<or>
      fi_headers inp ''Digest'' \<noteq> [] \<and> fi_headers inp ''Digest'' \<noteq> file_digest_header (fi_body inp)"
  obtains m where "file_receive cfg inp tmp op w =
    (Inl (ErrMsg m), disk_write (fc_node cfg) tmp (Some (received cfg inp)) (w\<lparr>calls := Suc (calls w)\<rparr>))"
proof -
  let ?c = "received cfg inp"
  have "int (length ?c) > fc_max_file_size cfg \<or>
      fi_headers inp ''Digest'' \<noteq> [] \<and> fi_headers inp ''Digest'' \<noteq> file_digest_header ?c"
    using assms(3) received_whole [OF _ assms(2), of inp] by (metis not_le)
  then have "\<exists>m. file_receive cfg inp tmp op w = (Inl (ErrMsg m),
      disk_write (fc_node cfg) tmp (Some ?c) (w\<lparr>calls := Suc (calls w)\<rparr>))"
    using assms(1)
    by (auto simp: file_receive_def received_def [symmetric] Let_def bindE_def wrap_err_def extern_quiet
        modify_simp fail_def)
  then show thesis using that by blast
qed

text \<open>
  An upload that is too long or carries a wrong digest is refused and leaves everything but a removed
  temporary file as it was.
\<close>

lemma refused_upload_run:
  assumes "quiet w" and "db_operation (fi_operation_id inp) (db w) = Some op"
    and "op_status op = StatusCreated" and "fc_max_file_size cfg < max_int64"
    and "fc_max_file_size cfg < int (length (fi_body inp)) \<or>
      fi_headers inp ''Digest'' \<noteq> [] \<and> fi_headers inp ''Digest'' \<noteq> file_digest_header (fi_body inp)"
  shows "\<exists>m w' b. file_execute cfg inp w = (Inl (ErrMsg m), w') \<and> db w' = db w \<and>
    published w' = published w \<and> spawned w' = spawned w \<and>
    disk w' = disk (disk_write (fc_node cfg)
      (filepath_join [staging_path cfg (fi_operation_id inp), temp_name b]) None w)"
proof -
  let ?w1 = "w\<lparr>calls := Suc (calls w)\<rparr>"
  have "quiet ?w1" using assms(1) by simp
  then obtain b w2 where
    stage: "file_stage cfg inp op ?w1 =
      with_defer (extern ''remove temp'' (modify_world (disk_write (fc_node cfg)
           (filepath_join [staging_path cfg (fi_operation_id inp), temp_name b]) None)))
         (file_receive cfg inp (filepath_join [staging_path cfg (fi_operation_id inp), temp_name b]) op) w2"
    and w2: "quiet w2" "db w2 = db ?w1" "same_bus ?w1 w2"
      "disk w2 = disk (disk_write (fc_node cfg)
        (filepath_join [staging_path cfg (fi_operation_id inp), temp_name b]) (Some []) ?w1)"
    by (rule file_stage_quiet)
  obtain m where "file_receive cfg inp
      (filepath_join [staging_path cfg (fi_operation_id inp), temp_name b]) op w2 =
    (Inl (ErrMsg m), disk_write (fc_node cfg)
      (filepath_join [staging_path cfg (fi_operation_id inp), temp_name b]) (Some (received cfg inp))
      (w2\<lparr>calls := Suc (calls w2)\<rparr>))"
    by (rule file_receive_refused [OF w2(1) assms(4,5)])
  then show ?thesis
    using stage w2 op_get_run [OF assms(1)] assms(2,3)
    by (simp add: file_execute_def bindE_def with_defer_def extern_quiet modify_simp same_bus_def
        del: filepath_join.simps)
      (rule exI [of _ b], simp add: disk_write_def fun_eq_iff del: filepath_join.simps)
qed

text \<open>An upload within the limit and with the right digest gets to the commit with what was read.\<close>

lemma file_receive_accepts:
  assumes "quiet w" and "int (length (received cfg inp)) \<le> fc_max_file_size cfg"
    and "fi_headers inp ''Digest'' = [] \<or> fi_headers inp ''Digest'' = file_digest_header (received cfg inp)"
  shows "file_receive cfg inp tmp op w = file_commit cfg inp (received cfg inp) op
    (disk_write (fc_node cfg) (input_path cfg (fi_operation_id inp)) (Some (received cfg inp))
      (disk_write (fc_node cfg) tmp None (disk_write (fc_node cfg) tmp (Some (received cfg inp))
        (w\<lparr>calls := Suc (Suc (calls w))\<rparr>))))"
proof -
  have ok: "(fi_headers inp ''Digest'' \<noteq> [] \<and>
      fi_headers inp ''Digest'' \<noteq> file_digest_header (received cfg inp)) = False"
    "(fc_max_file_size cfg < int (length (received cfg inp))) = False"
    using assms(2,3) by auto
  show ?thesis
    unfolding file_receive_def received_def [symmetric] Let_def ok if_False using assms(1)
    by (simp add: bindE_def wrap_err_def extern_quiet modify_simp del: filepath_join.simps)
      (simp add: disk_write_def del: filepath_join.simps)
qed

lemma file_commit_returns:
  assumes "\<exists>w2. op_update (uploaded_struct c (fi_headers inp ''X-File-Name'') (clock w (ticks w)) op)
      (w\<lparr>ticks := Suc (ticks w)\<rparr>) = (Inr (), w2)"
  shows "\<exists>out w'. file_commit cfg inp c op w = (Inr out, w')"
  using assms
  by (auto simp: file_commit_def bindE_def time_now_simp Let_def ret_def spawn_simp
      ignore_err_calm [OF calm_statements(2)])

lemma upload_of_sample_runs:
  assumes "quiet w" and t: "t_operations (db w) = t_operations (sample_db StatusCreated)"
    and len: "int (length (received cfg (sample_body b))) \<le> fc_max_file_size cfg"
    and max: "fc_max_file_size cfg \<le> max_int64"
  shows "\<exists>out w'. file_execute cfg (sample_body b) w = (Inr out, w')"
proof -
  let ?inp = "sample_body b"
  let ?op = "(sample_operation StatusCreated)\<lparr>op_created_at := 1000, op_updated_at := 2000\<rparr>"
  let ?v = "w\<lparr>calls := Suc (calls w)\<rparr>"
  have load: "db_operation ''op-1'' (db w) = Some ?op"
    using sample_loaded [of StatusCreated] t by (simp add: db_operation_def)
  have "quiet ?v" using assms(1) by simp
  then obtain c w1 where
    stage: "file_stage cfg ?inp ?op ?v =
      with_defer (extern ''remove temp'' (modify_world (disk_write (fc_node cfg)
           (filepath_join [staging_path cfg (fi_operation_id ?inp), temp_name c]) None)))
         (file_receive cfg ?inp
           (filepath_join [staging_path cfg (fi_operation_id ?inp), temp_name c]) ?op) w1"
    and w1: "quiet w1" "db w1 = db ?v"
    by (rule file_stage_quiet)
  let ?c = "received cfg ?inp"
  have digest: "fi_headers ?inp ''Digest'' = [] \<or> fi_headers ?inp ''Digest'' = file_digest_header ?c"
    by (simp add: sample_body_def)
  have distinct: "op_ids_distinct (db w)" using sample_ids_distinct [of StatusCreated] t by (simp add: op_ids_distinct_def)
  have look: "op_lookup ''op-1'' (t_operations (db w)) = Some (sample_row StatusCreated)" by (simp add: t)
  have up: "\<exists>w2. op_update (uploaded_struct ?c (fi_headers ?inp ''X-File-Name'') u ?op) v = (Inr (), w2)"
    if v: "quiet v" "db v = db w" for u v
  proof -
    have "\<exists>d'. op_update_stmt (uploaded_struct ?c (fi_headers ?inp ''X-File-Name'') u ?op) (db w) = Inr ((), d')"
      by (intro loaded_update_fits [OF distinct look])
        (use len max in \<open>simp_all add: uploaded_struct_def fits_simps sample_body_def
          del: length_take\<close>)
    then show ?thesis using op_update_run [OF v(1)] v(2) by auto
  qed
  have "\<exists>out w'. file_receive cfg ?inp
      (filepath_join [staging_path cfg (fi_operation_id ?inp), temp_name c]) ?op w1 = (Inr out, w')"
    unfolding file_receive_accepts [OF w1(1) len digest]
    by (rule file_commit_returns, rule up) (use w1 in \<open>simp_all del: filepath_join.simps\<close>)
  then have "\<exists>out w'. file_stage cfg ?inp ?op ?v = (Inr out, w')"
    unfolding stage by (auto simp: with_defer_def simp del: filepath_join.simps)
  moreover have "op_get_by_id (fi_operation_id ?inp) w = (Inr (Some ?op), ?v)"
    using load assms(1) by (simp add: op_get_run sample_body_def)
  ultimately show ?thesis
    by (simp add: file_execute_def bindE_def) (simp add: sample_operation_def)
qed

lemma sample_upload_runs:
  "\<exists>out w'. file_execute sample_upload (sample_body [1, 2]) (sample_world (sample_db StatusCreated)) =
     (Inr out, w')"
  by (rule upload_of_sample_runs) (simp_all add: sample_upload_def sample_body_def received_def int64_add_def max_int64_def)

section \<open>A lost race\<close>

lemma stale_update_run:
  assumes "quiet w" and "\<forall>r\<in>set (t_operations (db w)). r_id r = op_id s \<longrightarrow> r_version r \<noteq> op_version s - 1"
  shows "op_update s w = (Inr (), w\<lparr>calls := Suc (calls w)\<rparr>)"
proof -
  have "op_update_stmt s (db w) = Inr ((), db w)"
    using assms(2) by (intro op_update_stmt_no_match) (auto simp: op_update_where_def)
  then show ?thesis using op_update_run [OF assms(1)] by (cases w) simp
qed

lemma stale_commit:
  assumes "quiet w" and "\<forall>r\<in>set (t_operations (db w)). r_id r = op_id op \<longrightarrow> r_version r \<noteq> op_version op"
  shows "\<exists>out w'. file_commit cfg inp c op w = (Inr out, w') \<and> same_ops (db w) (db w') \<and>
    disk w' = disk w \<and> spawned w' = spawned w @
      (if fc_has_dispatch cfg then [TaskDispatch (op_id op) (op_processor op)] else []) \<and>
    fo_status out = StatusQueued \<and> fo_version out = op_version op + 1 \<and> quiet w'"
proof -
  let ?s = "uploaded_struct c (fi_headers inp ''X-File-Name'') (clock w (ticks w)) op"
  let ?w1 = "w\<lparr>ticks := Suc (ticks w), calls := Suc (calls w)\<rparr>"
  have "op_update ?s (w\<lparr>ticks := Suc (ticks w)\<rparr>) = (Inr (), ?w1)"
    using stale_update_run [of "w\<lparr>ticks := Suc (ticks w)\<rparr>" ?s] assms
    by (simp add: uploaded_struct_def)
  moreover have "ignore_err (event_append e) v = (Inr (), snd (event_append e v))" for e v
    by (rule ignore_err_calm [OF calm_statements(2)])
  moreover note ignored_event_run [OF this]
  moreover have "quiet (snd (event_append e v)) = quiet v" for e v
    using same_disk_quiet [OF ignored_event_run(1) [OF ignore_err_calm [OF calm_statements(2)]]] by simp
  ultimately show ?thesis
    using assms(1) by (simp add: file_commit_def bindE_def time_now_simp Let_def ret_def spawn_simp
        uploaded_struct_def same_disk_def same_bus_def same_ops_def)
qed

text \<open>
  An upload whose operation was changed by someone else after it was loaded succeeds all the same: no
  operation row changes, but the input file is replaced, and the dispatch is started.
\<close>

lemma stale_stage_run:
  assumes "quiet w"
    and "\<forall>r\<in>set (t_operations (db w)). r_id r = op_id op \<longrightarrow> r_version r \<noteq> op_version op"
    and "int (length (fi_body inp)) \<le> fc_max_file_size cfg" and "fc_max_file_size cfg < max_int64"
    and "fi_headers inp ''Digest'' = [] \<or> fi_headers inp ''Digest'' = file_digest_header (fi_body inp)"
  shows "\<exists>out w'. file_stage cfg inp op w = (Inr out, w') \<and>
    t_operations (db w') = t_operations (db w) \<and>
    disk w' (fc_node cfg) (input_path cfg (fi_operation_id inp)) = Some (fi_body inp) \<and>
    spawned w' = spawned w @
      (if fc_has_dispatch cfg then [TaskDispatch (op_id op) (op_processor op)] else []) \<and>
    fo_status out = StatusQueued \<and> fo_version out = op_version op + 1 \<and> quiet w'"
proof -
  obtain b w1 where
    stage: "file_stage cfg inp op w =
      with_defer (extern ''remove temp'' (modify_world (disk_write (fc_node cfg)
           (filepath_join [staging_path cfg (fi_operation_id inp), temp_name b]) None)))
         (file_receive cfg inp (filepath_join [staging_path cfg (fi_operation_id inp), temp_name b]) op) w1"
    and w1: "quiet w1" "db w1 = db w" "same_bus w w1"
    using assms(1) by (rule file_stage_quiet)
  let ?tmp = "filepath_join [staging_path cfg (fi_operation_id inp), temp_name b]"
  let ?w2 = "disk_write (fc_node cfg) (input_path cfg (fi_operation_id inp)) (Some (fi_body inp))
    (disk_write (fc_node cfg) ?tmp None (disk_write (fc_node cfg) ?tmp (Some (fi_body inp))
      (w1\<lparr>calls := Suc (Suc (calls w1))\<rparr>)))"
  have "file_receive cfg inp ?tmp op w1 = file_commit cfg inp (fi_body inp) op ?w2"
    using file_receive_accepts [OF w1(1), of cfg inp] assms(3,5) received_fitting [OF assms(3,4)] by simp
  moreover obtain out w3 where "file_commit cfg inp (fi_body inp) op ?w2 = (Inr out, w3)"
    "same_ops (db ?w2) (db w3)" "disk w3 = disk ?w2" "spawned w3 = spawned ?w2 @
      (if fc_has_dispatch cfg then [TaskDispatch (op_id op) (op_processor op)] else [])"
    "fo_status out = StatusQueued \<and> fo_version out = op_version op + 1 \<and> quiet w3"
    using stale_commit [of ?w2 op cfg inp "fi_body inp"] assms(2) w1 by auto
  moreover obtain w4 where "w4 = snd (extern ''remove temp''
    (modify_world (disk_write (fc_node cfg) ?tmp None)) w3)" by blast
  moreover note remove_temp_leaves [OF this temp_path_not_input]
  ultimately have "file_stage cfg inp op w = (Inr out, w4)" "same_ops (db w) (db w4)"
    "disk w4 (fc_node cfg) (input_path cfg (fi_operation_id inp)) = Some (fi_body inp)"
    "spawned w4 = spawned w @
      (if fc_has_dispatch cfg then [TaskDispatch (op_id op) (op_processor op)] else [])"
    "fo_status out = StatusQueued \<and> fo_version out = op_version op + 1 \<and> quiet w4"
    using stage w1 by (simp_all add: with_defer_def same_bus_def del: filepath_join.simps)
      (simp_all add: disk_write_def)
  then show ?thesis by (auto simp: same_ops_def)
qed

theorem upload_accepts_witness:
  "\<exists>out w'. file_execute sample_upload (sample_body [1, 2]) (sample_world (sample_db StatusCreated)) =
     (Inr out, w') \<and> fo_version out = 2 \<and> disk w' ''n'' ''/s/op-1/input'' = Some [1, 2] \<and>
     spawned w' = [TaskDispatch ''op-1'' ''demo'']"
proof -
  obtain out w' where run: "file_execute sample_upload (sample_body [1, 2])
    (sample_world (sample_db StatusCreated)) = (Inr out, w')" using sample_upload_runs by blast
  from upload_accepts [OF run] show ?thesis
    unfolding run
    by (auto simp: sample_loaded max_int64_def sample_operation_def sample_body_def sample_upload_def input_path_def
        staging_path_def sample_world_def initial_world_def)
qed


section \<open>The edges of an upload\<close>

lemma op_update_refused:
  assumes "quiet w" and "op_update_stmt s (db w) = Inl e"
  shows "op_update s w = (Inl e, w\<lparr>calls := Suc (calls w)\<rparr>)"
  using assms by (simp add: op_update_def exec_db_quiet)

lemma long_name_update:
  assumes "db_operation i d = Some op" and "\<not> varchar 256 name"
  shows "op_update_stmt (uploaded_struct c name now op) d = Inl (ErrSQL ''data too long'')"
proof -
  obtain r where r: "op_lookup i (t_operations d) = Some r" "op = row_to_operation r"
    using db_operation_Some [OF assms(1)] by blast
  then have "op_update_where (uploaded_struct c name now op) r"
    by (simp add: op_update_where_def uploaded_struct_def)
  moreover have "\<not> op_row_fits (op_update_row (uploaded_struct c name now op) r)"
    using assms(2) by (auto simp: op_row_fits_def op_update_row_def uploaded_struct_def varchar_opt_def null_string_def)
  ultimately show ?thesis using op_lookup_Some [OF r(1)] by (auto simp: op_update_stmt_def)
qed

text \<open>
  C7: a file name of more than 256 characters is noticed too late. When no call fails, the upload of a
  body within the limit (below the largest \<open>int64\<close>) and with the right digest, for a \<open>CREATED\<close> operation,
  with such a name in \<open>X-File-Name\<close> is refused, because the row no longer fits its table: the database is
  as before and no dispatch is started. But the body has then been renamed to \<open>input\<close>, and it stays on
  the disk of the node.
\<close>

theorem long_file_name_leaves_file:
  assumes "quiet w" and "db_operation (fi_operation_id inp) (db w) = Some op"
    and "op_status op = StatusCreated" and "\<not> varchar 256 (fi_headers inp ''X-File-Name'')"
    and "int (length (fi_body inp)) \<le> fc_max_file_size cfg" and "fc_max_file_size cfg < max_int64"
    and "fi_headers inp ''Digest'' = [] \<or> fi_headers inp ''Digest'' = file_digest_header (fi_body inp)"
  shows "\<exists>e w'. file_execute cfg inp w = (Inl e, w') \<and> db w' = db w \<and> spawned w' = spawned w \<and>
    disk w' (fc_node cfg) (input_path cfg (fi_operation_id inp)) = Some (fi_body inp)"
proof -
  let ?w1 = "w\<lparr>calls := Suc (calls w)\<rparr>"
  have "quiet ?w1" using assms(1) by simp
  then obtain b w2 where
    stage: "file_stage cfg inp op ?w1 =
      with_defer (extern ''remove temp'' (modify_world (disk_write (fc_node cfg)
           (filepath_join [staging_path cfg (fi_operation_id inp), temp_name b]) None)))
         (file_receive cfg inp (filepath_join [staging_path cfg (fi_operation_id inp), temp_name b]) op) w2"
    and w2: "quiet w2" "db w2 = db ?w1" "same_bus ?w1 w2"
    by (rule file_stage_quiet)
  let ?tmp = "filepath_join [staging_path cfg (fi_operation_id inp), temp_name b]"
  let ?w3 = "disk_write (fc_node cfg) (input_path cfg (fi_operation_id inp)) (Some (fi_body inp))
    (disk_write (fc_node cfg) ?tmp None (disk_write (fc_node cfg) ?tmp (Some (fi_body inp))
      (w2\<lparr>calls := Suc (Suc (calls w2))\<rparr>)))"
  let ?w4 = "?w3\<lparr>ticks := Suc (ticks ?w3), calls := Suc (calls ?w3)\<rparr>"
  have "file_receive cfg inp ?tmp op w2 = file_commit cfg inp (fi_body inp) op ?w3"
    using file_receive_accepts [OF w2(1), of cfg inp] assms(5,7) received_fitting [OF assms(5,6)] by simp
  also have "\<dots> = (Inl (ErrSQL ''data too long''), ?w4)"
    using w2 op_update_refused [of "?w3\<lparr>ticks := Suc (ticks ?w3)\<rparr>", OF _ long_name_update [of "fi_operation_id inp"]] assms(2,4)
    by (simp add: file_commit_def bindE_def time_now_simp Let_def del: filepath_join.simps)
  finally have rec: "file_receive cfg inp ?tmp op w2 = (Inl (ErrSQL ''data too long''), ?w4)" .
  obtain w5 where w5: "w5 = snd (extern ''remove temp''
    (modify_world (disk_write (fc_node cfg) ?tmp None)) ?w4)" by blast
  have "file_execute cfg inp w = (Inl (ErrSQL ''data too long''), w5)"
    using stage rec w5 op_get_run [OF assms(1)] assms(2,3)
    by (simp add: file_execute_def bindE_def with_defer_def del: filepath_join.simps)
  moreover have "disk ?w4 (fc_node cfg) (input_path cfg (fi_operation_id inp)) = Some (fi_body inp)"
    by (simp add: disk_write_def del: filepath_join.simps)
  ultimately show ?thesis
    using remove_temp_leaves [OF w5 temp_path_not_input] w2 by (simp add: same_bus_def del: filepath_join.simps)
qed

theorem long_file_name_leaves_file_witness:
  "\<exists>e w'. file_execute sample_upload ((sample_body [1, 2])\<lparr>fi_headers :=
       (\<lambda>k. if k = ''X-File-Name'' then replicate 257 CHR ''a'' else [])\<rparr>) (sample_world (sample_db StatusCreated)) =
     (Inl e, w') \<and> db w' = sample_db StatusCreated \<and> disk w' ''n'' ''/s/op-1/input'' = Some [1, 2]"
proof -
  let ?inp = "(sample_body [1, 2])\<lparr>fi_headers :=
    (\<lambda>k. if k = ''X-File-Name'' then replicate 257 CHR ''a'' else [])\<rparr>"
  have long: "\<not> varchar 256 (fi_headers ?inp ''X-File-Name'')"
    by (simp add: varchar_def char_count_def begins_character_def)
  have "\<exists>e w'. file_execute sample_upload ?inp (sample_world (sample_db StatusCreated)) = (Inl e, w') \<and>
      db w' = db (sample_world (sample_db StatusCreated)) \<and>
      spawned w' = spawned (sample_world (sample_db StatusCreated)) \<and>
      disk w' (fc_node sample_upload) (input_path sample_upload (fi_operation_id ?inp)) = Some (fi_body ?inp)"
    by (rule long_file_name_leaves_file [OF _ _ _ long, where op =
        "(sample_operation StatusCreated)\<lparr>op_created_at := 1000, op_updated_at := 2000\<rparr>"])
      (simp_all add: sample_body_def sample_loaded sample_upload_def max_int64_def sample_operation_def)
  then show ?thesis
    by (simp add: sample_body_def sample_upload_def input_path_def staging_path_def sample_world_def initial_world_def)
      blast
qed

text \<open>
  C22: with the size limit at the largest \<open>int64\<close>, one byte more than the limit is a negative number, and
  the limited reader reads nothing. Whatever its body, an upload that succeeds then stores the empty file
  and records the size 0 and the digest of no bytes; and it succeeds only without a digest or with that
  digest, so that a body that is not empty is refused when its own digest comes with it.
\<close>

theorem largest_limit_stores_nothing:
  assumes "file_execute cfg inp w = (Inr out, w')" and "fc_max_file_size cfg = max_int64"
  shows "\<exists>op'. db_operation (fi_operation_id inp) (db w') = Some op' \<and> op_status op' = StatusQueued \<and>
    op_input_file op' = Some \<lparr>if_size_bytes = 0, if_sha256 = sha256_hex [],
      if_file_name = fi_headers inp ''X-File-Name''\<rparr> \<and>
    disk w' (fc_node cfg) (input_path cfg (fi_operation_id inp)) = Some [] \<and>
    (fi_headers inp ''Digest'' = [] \<or> fi_headers inp ''Digest'' = file_digest_header []) \<and>
    fo_input_file out = \<lparr>if_size_bytes = 0, if_sha256 = sha256_hex [],
      if_file_name = fi_headers inp ''X-File-Name''\<rparr>"
  using file_execute_run [OF assms(1)] received_largest [OF assms(2), of inp]
  by (auto simp: uploaded_stored uploaded_output_def)

theorem largest_limit_stores_nothing_witness:
  "\<exists>out w'. file_execute (sample_upload\<lparr>fc_max_file_size := max_int64\<rparr>) (sample_body [1, 2])
       (sample_world (sample_db StatusCreated)) = (Inr out, w') \<and>
     disk w' ''n'' ''/s/op-1/input'' = Some [] \<and> if_size_bytes (fo_input_file out) = 0"
proof -
  let ?cfg = "sample_upload\<lparr>fc_max_file_size := max_int64\<rparr>"
  have max: "fc_max_file_size ?cfg = max_int64" by simp
  have "\<exists>out w'. file_execute ?cfg (sample_body [1, 2]) (sample_world (sample_db StatusCreated)) = (Inr out, w')"
    by (rule upload_of_sample_runs) (simp_all add: received_largest [OF max], simp_all add: max_int64_def)
  then obtain out w' where
    run: "file_execute ?cfg (sample_body [1, 2]) (sample_world (sample_db StatusCreated)) = (Inr out, w')" by blast
  from largest_limit_stores_nothing [OF run max] run show ?thesis
    by (auto simp: sample_body_def sample_upload_def input_path_def staging_path_def)
qed


section \<open>Cancel against upload\<close>

lemma same_ops_distinct: "same_ops d d' \<Longrightarrow> op_ids_distinct d' = op_ids_distinct d"
  by (simp add: same_ops_def op_ids_distinct_def)

interpretation distinct_ids: handler_guarantee "inv_rel op_ids_distinct" "\<lambda>_. True" "\<lambda>_. True"
  by unfold_locales
    (auto intro!: same_ops_inv other_tables_same_ops same_ops_distinct
      simp: stmt_keeps_def [of _ "op_insert _"] stmt_keeps_def [of _ "op_update_stmt _"] inv_rel_def
      intro: op_insert_ids_distinct op_update_ids_distinct)

lemma cancel_loaded_frame: "maintains same_disk (cancel_loaded base reason op)"
  unfolding cancel_loaded_def Let_def
  by (intro frame.m_intros op_update_frame frame_statements)

text \<open>
  C31: a cancel that comes between the load and the writes of an upload makes the node crash. When no
  call fails, the upload succeeds although its update finds no row, and starts the dispatch of an
  operation that has no input file; the dispatch panics, in a goroutine that nothing recovers. The limit
  is below the largest \<open>int64\<close> and is kept, and a digest that the upload names is right.
\<close>

theorem cancel_during_upload_crashes:
  assumes "quiet w" and "op_ids_distinct (db w)"
    and "db_operation (fi_operation_id inp) (db w) = Some op"
    and "op_status op = StatusCreated" and "op_input_file op = None"
    and "cancel_loaded base reason op w = (Inr (co, None), w1)"
    and "int (length (fi_body inp)) \<le> fc_max_file_size cfg" and "fc_max_file_size cfg < max_int64"
    and "fi_headers inp ''Digest'' = [] \<or> fi_headers inp ''Digest'' = file_digest_header (fi_body inp)"
    and "fc_has_dispatch cfg"
  shows "\<exists>out w2. file_stage cfg inp op w1 = (Inr out, w2) \<and>
    TaskDispatch (fi_operation_id inp) (op_processor op) \<in> set (spawned w2) \<and>
    fst (dispatch_execute dcfg (fi_operation_id inp) (op_processor op) w2) =
      Inl (Panic ''nil pointer dereference'')"
proof -
  let ?i = "fi_operation_id inp"
  have id: "op_id op = ?i" using db_operation_Some [OF assms(3)] by auto
  obtain now where row: "db_operation ?i (db w1) = Some (op_overwrite (cancelled_struct now op) op)"
    using cancel_loaded_run [OF assms(6,3)] assms(4) by auto
  have w1: "quiet w1" "op_ids_distinct (db w1)"
    using same_disk_quiet [OF frame.maintainsD [OF cancel_loaded_frame assms(6)]] assms(1,2,6)
      invs.keepsD [OF distinct_ids.h_cancel [where base = base and reason = reason and op = op], of w] by (simp_all add: inv_rel_def)
  obtain ra where ra: "op_lookup ?i (t_operations (db w1)) = Some ra" "r_version ra = op_version op + 1"
    using db_operation_Some [OF row]
    by (auto simp: cancelled_struct_def dest!: arg_cong [where f = op_version])
  have "r_version r \<noteq> op_version op" if "r \<in> set (t_operations (db w1))" "r_id r = op_id op" for r
    using op_lookup_unique [OF w1(2) that(1)] that(2) ra by (simp add: id)
  then have "\<forall>r\<in>set (t_operations (db w1)). r_id r = op_id op \<longrightarrow> r_version r \<noteq> op_version op"
    by blast
  from stale_stage_run [OF w1(1) this assms(7-9)] obtain out w2 where
    up: "file_stage cfg inp op w1 = (Inr out, w2)" "same_ops (db w1) (db w2)" "quiet w2"
      "TaskDispatch (op_id op) (op_processor op) \<in> set (spawned w2)"
    using assms(10) by (auto simp: same_ops_def)
  have "db_operation ?i (db w2) = Some (op_overwrite (cancelled_struct now op) op)"
    using row same_ops_reads [OF up(2)] by simp
  then have "fst (dispatch_execute dcfg ?i (op_processor op) w2) = Inl (Panic ''nil pointer dereference'')"
    using op_get_run [OF up(3), of ?i] assms(5)
    by (simp add: dispatch_execute_def bindE_def dispatch_loaded_def fail_def cancelled_struct_def)
  then show ?thesis using up id by auto
qed


definition fresh_operation :: operation where
  "fresh_operation = (sample_operation StatusCreated)\<lparr>op_created_at := 1000, op_updated_at := 2000,
     op_input_file := None\<rparr>"

definition fresh_db :: db where
  "fresh_db = empty_db\<lparr>t_operations := [op_create_row fresh_operation]\<rparr>"

theorem cancel_during_upload_crashes_witness:
  "\<exists>co w1 out w2. cancel_loaded ''b'' ''why'' fresh_operation (tick_world fresh_db) = (Inr (co, None), w1) \<and>
     file_stage sample_upload (sample_body [1, 2]) fresh_operation w1 = (Inr out, w2) \<and>
     fst (dispatch_execute \<lparr>dc_node = ''n'', dc_staging_dir = ''/s'', dc_base_url = ''b''\<rparr> ''op-1'' ''demo'' w2) =
       Inl (Panic ''nil pointer dereference'')"
proof -
  have loaded: "db_operation ''op-1'' fresh_db = Some fresh_operation" by code_simp
  have "\<not> isl (fst (cancel_loaded ''b'' ''why'' fresh_operation (tick_world fresh_db)))" by code_simp
  from runs_to_value [OF this] obtain co err w1 where
    run: "cancel_loaded ''b'' ''why'' fresh_operation (tick_world fresh_db) = (Inr (co, err), w1)" by auto
  have st: "op_status fresh_operation = StatusCreated" "op_input_file fresh_operation = None"
    "op_processor fresh_operation = ''demo''"
    by (simp_all add: fresh_operation_def sample_operation_def)
  have err: "err = None" using cancel_loaded_run [OF run] loaded st by simp
  have "op_ids_distinct fresh_db" by (simp add: fresh_db_def op_ids_distinct_def keys_distinct_def)
  then show ?thesis
    using cancel_during_upload_crashes [OF _ _ _ st(1,2) run [unfolded err], of "sample_body [1, 2]" sample_upload]
      loaded st run err
    by (fastforce simp: sample_body_def sample_upload_def max_int64_def)
qed

end
