(* ===== verification/Transfer_Properties.thy ===== *)
theory Transfer_Properties
  imports Transfer_Facts Usecase_Properties
begin

text \<open>
  Properties of the transfer of a file, from the chunks the dispatch publishes to the file the receiver
  leaves on its disk, and of what the transfer does not record.
\<close>

section \<open>Publishing\<close>

lemma sender_chunk_fits:
  assumes "varchar 64 (tr_id x)" and "int i < 2 ^ 31"
    and "0 \<le> tr_chunk_size_bytes x" and "tr_chunk_size_bytes x < 2 ^ 31"
  shows "chunk_row_fits (chunk_row (sender_chunk x (int i) (take (nat (tr_chunk_size_bytes x)) rest)))"
proof -
  have "length (show_base 10 i) \<le> 10" using assms(2) by (intro length_show_base_10) simp_all
  then have "varchar 192 (chunk_id_of (tr_id x) (int i))"
    unfolding chunk_id_of_def by (intro varchar_append [OF assms(1), where n = 11]) (simp_all add: fmt_d_def)
  moreover have "sql_bigint (int i * tr_chunk_size_bytes x)"
  proof -
    have "int i * tr_chunk_size_bytes x \<le> 2 ^ 31 * 2 ^ 31"
      using assms(2-4) by (intro mult_mono) simp_all
    moreover have "0 \<le> int i * tr_chunk_size_bytes x" using assms(3) by simp
    moreover have "sql_bigint z" if "z \<le> 2 ^ 31 * 2 ^ 31" "0 \<le> z" for z
      using that by (simp add: sql_ranges)
    ultimately show ?thesis by blast
  qed
  moreover have "sql_bigint (int (length (take (nat (tr_chunk_size_bytes x)) rest)))"
    using assms(3,4) by (simp add: sql_ranges)
  ultimately show ?thesis
    using assms
    by (simp add: chunk_row_fits_def chunk_row_def sender_chunk_def varchar_short sql_int_def del: length_take)
qed

lemma chunk_upsert_run:
  assumes "quiet w" and "chunk_row_fits (chunk_row c)"
  shows "\<exists>d'. chunk_upsert c w = (Inr (), w\<lparr>calls := Suc (calls w), db := d'\<rparr>)"
  using assms by (auto simp: chunk_upsert_def exec_db_quiet chunk_upsert_stmt_def Let_def)

definition published_chunk :: "file_transfer \<Rightarrow> nat \<Rightarrow> bytes \<Rightarrow> bus_msg" where
  "published_chunk x i p =
     \<lparr>bm_subject = transfer_chunks_subject (tr_id x), bm_headers = chunk_headers x (int i) p,
      bm_body = BodyRaw p\<rparr>"

lemma publish_chunks_run:
  assumes "quiet w" and "varchar 64 (tr_id x)" and "int (k + n) \<le> 2 ^ 31"
    and "0 \<le> tr_chunk_size_bytes x" and "tr_chunk_size_bytes x < 2 ^ 31"
  shows "\<exists>w'. publish_chunks x n (int k) rest w = (Inr (), w') \<and>
    published w' = published w @
      (let ps = chunk_plan (nat (tr_chunk_size_bytes x)) n rest
       in map (\<lambda>j. published_chunk x (k + j) (ps ! j)) [0..<length ps])"
  using assms(1,3)
proof (induction n arbitrary: k rest w)
  case 0
  then show ?case by (simp add: ret_simp)
next
  case (Suc n)
  let ?sz = "nat (tr_chunk_size_bytes x)"
  let ?p = "take ?sz rest"
  show ?case
  proof (cases "?p = []")
    case True
    then show ?thesis using Suc.prems(1)
      by (simp add: Let_def bindE_def wrap_err_def extern_quiet ret_def)
  next
    case False
    have "chunk_row_fits (chunk_row (sender_chunk x (int k) ?p))"
      using assms(2,4,5) Suc.prems(2) by (intro sender_chunk_fits) simp_all
    moreover have "quiet (w\<lparr>calls := Suc (calls w)\<rparr>)" using Suc.prems(1) by simp
    ultimately obtain d where up: "chunk_upsert (sender_chunk x (int k) ?p) (w\<lparr>calls := Suc (calls w)\<rparr>) =
      (Inr (), w\<lparr>calls := Suc (Suc (calls w)), db := d\<rparr>)"
      using chunk_upsert_run by fastforce
    let ?w1 = "w\<lparr>db := d, calls := Suc (Suc (Suc (calls w))),
      published := published w @ [published_chunk x k ?p]\<rparr>"
    have run: "publish_chunks x (Suc n) (int k) rest w = publish_chunks x n (int (Suc k)) (drop ?sz rest) ?w1"
      using False Suc.prems(1) up
      by (simp add: Let_def bindE_def wrap_err_def extern_quiet ret_def ignore_err_def attempt_def
          publish_with_headers_def publish_quiet published_chunk_def add.commute)
    have "quiet ?w1" using Suc.prems(1) by simp
    from Suc.IH [OF this, of "Suc k" "drop ?sz rest"] Suc.prems(2) obtain w' where
      "publish_chunks x n (int (Suc k)) (drop ?sz rest) ?w1 = (Inr (), w')"
      "published w' = published ?w1 @ (let ps = chunk_plan ?sz n (drop ?sz rest)
       in map (\<lambda>j. published_chunk x (Suc k + j) (ps ! j)) [0..<length ps])" by auto
    then show ?thesis unfolding run using False
      by (simp add: Let_def map_upt_Suc del: upt_Suc)
  qed
qed


lemma dispatch_transfer_simps [simp]:
  "tr_chunk_size_bytes (dispatch_transfer cfg op f worker aid now) = 65536"
  "tr_file_size_bytes (dispatch_transfer cfg op f worker aid now) = if_size_bytes f"
  "tr_file_checksum (dispatch_transfer cfg op f worker aid now) = if_sha256 f"
  "tr_staging_path (dispatch_transfer cfg op f worker aid now) =
     filepath_join [dc_staging_dir cfg, op_id op]"
  "tr_id (dispatch_transfer cfg op f worker aid now) = transfer_id_of (op_id op) now"
  "tr_destination_node_id (dispatch_transfer cfg op f worker aid now) = worker"
  by (simp_all add: dispatch_transfer_def dispatch_chunk_size_def)

lemma dispatch_transfer_chunks:
  assumes "if_size_bytes f = int n"
  shows "tr_total_chunks (dispatch_transfer cfg op f worker aid now) = int (chunk_count 65536 n)"
proof -
  have "int n + 65536 - 1 = int (n + 65536 - 1)" by simp
  then show ?thesis
    unfolding dispatch_transfer_def dispatch_total_chunks_def dispatch_chunk_size_def chunk_count_def
    using assms by (simp add: go_div_nonneg zdiv_int)
qed

definition sample_dispatch :: dispatch_config where
  "sample_dispatch = \<lparr>dc_node = ''n'', dc_staging_dir = ''/s'', dc_base_url = ''b''\<rparr>"

lemma publish_file_run:
  assumes "quiet w" and "x = dispatch_transfer cfg op f worker aid now"
    and "disk w (dc_node cfg) (filepath_join [tr_staging_path x, ''input'']) = Some content"
    and "if_size_bytes f = int (length content)" and "varchar 64 (tr_id x)"
    and "tr_total_chunks x \<le> 2 ^ 31"
  shows "\<exists>w'. publish_file_chunks cfg x w = (Inr (), w') \<and>
    published w' = published w @ map (\<lambda>i. case chunk_message x content i of (hs, p) \<Rightarrow>
      \<lparr>bm_subject = transfer_chunks_subject (tr_id x), bm_headers = hs, bm_body = BodyRaw p\<rparr>)
      [0..<nat (tr_total_chunks x)] \<and>
    concat (map (\<lambda>i. snd (chunk_message x content i)) [0..<nat (tr_total_chunks x)]) = content"
proof -
  let ?n = "chunk_count 65536 (length content)" and ?ps = "\<lambda>n. chunk_plan 65536 n content"
  have x: "tr_chunk_size_bytes x = 65536" "tr_total_chunks x = int ?n"
    using assms(2,4) by (simp_all add: dispatch_transfer_chunks)
  have len: "length (?ps ?n) = ?n" by (simp add: length_chunk_plan chunk_count_def)
  have piece: "?ps ?n ! i = chunk_bytes 65536 content i" if "i < ?n" for i
    using that len by (simp add: chunk_plan_nth chunk_bytes_def)
  let ?w1 = "w\<lparr>calls := Suc (Suc (calls w))\<rparr>"
  have "publish_file_chunks cfg x w = publish_chunks x ?n 0 content ?w1"
    using assms(1,3) x
    by (simp add: publish_file_chunks_def bindE_def wrap_err_def extern_quiet ret_def
        del: filepath_join.simps)
  moreover have "quiet ?w1" using assms(1) by simp
  from publish_chunks_run [OF this assms(5), of 0 ?n content] assms(6) x obtain w' where
    "publish_chunks x ?n 0 content ?w1 = (Inr (), w')" "published w' = published w @
      map (\<lambda>j. published_chunk x j (?ps ?n ! j)) [0..<?n]" by (auto simp: len Let_def)
  moreover have "concat (?ps ?n) = content"
  proof -
    have "length content \<le> 65536 * ?n" using chunk_count_iff [of 65536 ?n "length content"] by simp
    then show ?thesis by (simp add: chunk_plan_concat)
  qed
  moreover have "?ps ?n = map (chunk_bytes 65536 content) [0..<?n]"
    using piece len by (intro nth_equalityI) simp_all
  ultimately show ?thesis
    by (simp add: x chunk_message_def Let_def published_chunk_def)
qed

text \<open>
  C5: when no call fails, the file of an operation goes out completely: the chunks published are the
  consecutive pieces of 64 KiB of the file, in order, each with its index, offset, length and checksum,
  and put together they are the file. The size in the row must be that of the file, the transfer id has
  to fit its column and the number of chunks an \<open>INT\<close> column.
\<close>

theorem chunks_published:
  assumes "quiet w" and "x = dispatch_transfer cfg op f worker aid now"
    and "disk w (dc_node cfg) (filepath_join [tr_staging_path x, ''input'']) = Some content"
    and "if_size_bytes f = int (length content)" and "varchar 64 (tr_id x)"
    and "tr_total_chunks x \<le> 2 ^ 31"
  shows "\<exists>w'. publish_file_chunks cfg x w = (Inr (), w') \<and>
    published w' = published w @ map (\<lambda>i. case chunk_message x content i of (hs, p) \<Rightarrow>
      \<lparr>bm_subject = transfer_chunks_subject (tr_id x), bm_headers = hs, bm_body = BodyRaw p\<rparr>)
      [0..<nat (tr_total_chunks x)] \<and>
    concat (map (\<lambda>i. snd (chunk_message x content i)) [0..<nat (tr_total_chunks x)]) = content"
  by (rule publish_file_run [OF assms])

theorem chunks_published_witness:
  "\<exists>w'. publish_file_chunks sample_dispatch
     (dispatch_transfer sample_dispatch (sample_operation StatusQueued) \<lparr>if_size_bytes = 2, if_sha256 = [],
       if_file_name = []\<rparr> ''w'' ''a'' 0)
     (disk_write ''n'' ''/s/op-1/input'' (Some [1, 2]) (sample_world empty_db)) = (Inr (), w') \<and>
     length (published w') = 1"
proof -
  let ?x = "dispatch_transfer sample_dispatch (sample_operation StatusQueued) \<lparr>if_size_bytes = 2, if_sha256 = [],
       if_file_name = []\<rparr> ''w'' ''a'' 0"
  let ?w = "disk_write ''n'' ''/s/op-1/input'' (Some [1, 2]) (sample_world empty_db)"
  have n: "tr_total_chunks ?x = 1"
    by (simp add: dispatch_transfer_chunks [where n = 2] chunk_count_def)
  have id: "varchar 64 (tr_id ?x)"
    by (simp add: varchar_short transfer_id_of_def fmt_d_def show_base.simps sample_operation_def)
  have stored: "disk ?w (dc_node sample_dispatch) (filepath_join [tr_staging_path ?x, ''input'']) = Some [1, 2]"
    by (simp add: disk_write_def sample_dispatch_def sample_operation_def)
  have none: "published ?w = []" by (simp add: sample_world_def initial_world_def)
  obtain w' where "publish_file_chunks sample_dispatch ?x ?w = (Inr (), w')"
    "length (published w') = 1"
    using chunks_published [OF _ refl stored _ id] unfolding n none by auto
  then show ?thesis by blast
qed


section \<open>Receiving\<close>

definition sample_transfer :: "bytes \<Rightarrow> file_transfer" where
  "sample_transfer b = dispatch_transfer sample_dispatch (sample_operation StatusQueued)
     \<lparr>if_size_bytes = int (length b), if_sha256 = sha256_hex b, if_file_name = ''f''\<rparr> ''w'' ''a'' 0"

definition sample_receiver :: receiver_config where
  "sample_receiver = \<lparr>rc_node_id = ''w'', rc_staging_dir = ''/r''\<rparr>"

definition transfer_world :: "bytes \<Rightarrow> world" where
  "transfer_world b = sample_world (empty_db\<lparr>t_transfers := [transfer_create_row (sample_transfer b)]\<rparr>)"

text \<open>
  C3: when no call fails on the receiving node, a \<open>START_TRANSFER\<close> command for a transfer that is stored
  and addressed to the node, followed by deliveries of the chunks of the file in any order and any
  number of times, each at least once, leaves the file on the disk of the node, byte for byte. The
  file must not be empty, its size must be one that JSON numbers carry exactly, and the row of the
  transfer must fit its columns, with room for one more version.
\<close>

theorem transfer_delivers_file:
  assumes "quiet w" and "keys_distinct tr_id (t_transfers (db w))"
    and "x = dispatch_transfer cfg op
      \<lparr>if_size_bytes = int (length content), if_sha256 = sha256_hex content, if_file_name = name\<rparr>
      worker aid now"
    and "transfer_lookup (tr_id x) (t_transfers (db w)) = Some r"
    and "transfer_row_fits r \<and> sql_int (tr_version r + 1)"
    and "tr_destination_node_id r = rc_node_id rcfg"
    and "content \<noteq> []" and "int (length content) \<le> 2 ^ 53"
    and "set is = {..<nat (tr_total_chunks x)}"
  shows "\<exists>a w1 a' w2. accept_transfer rcfg (json_map_any (start_transfer_payload x)) w = (Inr a, w1) \<and>
    tr_status (ac_transfer a) = TransferStatusAccepted \<and>
    receive_all rcfg a (map (chunk_message x content) is) w1 = (Inr a', w2) \<and> ac_file a' = None \<and>
    disk w2 (rc_node_id rcfg) (final_path rcfg (json_map_any (start_transfer_payload x))) = Some content"
proof -
  have x: "tr_chunk_size_bytes x = 65536"
    "tr_total_chunks x = int (chunk_count 65536 (length content))"
    using assms(3) by (simp_all add: dispatch_transfer_chunks)
  have x': "tr_file_size_bytes x = int (length content)" "tr_file_checksum x = sha256_hex content"
    using assms(3) by simp_all
  obtain a w1 where acc: "accept_transfer rcfg (json_map_any (start_transfer_payload x)) w = (Inr a, w1)"
    "receiving rcfg (final_path rcfg (json_map_any (start_transfer_payload x)))
      (nat (tr_chunk_size_bytes x)) content {} a w1" "tr_status (ac_transfer a) = TransferStatusAccepted"
    using accept_receiving [OF assms(1,2,4-8) x'] x by auto
  have "int (length content) \<le> max_int64" using assms(8) by (simp add: max_int64_def)
  from receive_all_run [OF acc(2) _ _ this, of "is"] assms(9) x
  show ?thesis using acc by (fastforce simp: assembled_def)
qed

lemma sample_chunks: "tr_total_chunks (sample_transfer [7]) = 1"
  by (simp add: sample_transfer_def dispatch_transfer_chunks [where n = 1] chunk_count_def)

lemma sample_stored:
  "quiet (transfer_world [7])" "keys_distinct tr_id (t_transfers (db (transfer_world [7])))"
  "transfer_lookup (tr_id (sample_transfer [7])) (t_transfers (db (transfer_world [7]))) =
     Some (transfer_create_row (sample_transfer [7]))"
  "transfer_row_fits (transfer_create_row (sample_transfer [7])) \<and>
     sql_int (tr_version (transfer_create_row (sample_transfer [7])) + 1)"
  "tr_destination_node_id (transfer_create_row (sample_transfer [7])) = rc_node_id sample_receiver"
proof -
  show "transfer_row_fits (transfer_create_row (sample_transfer [7])) \<and>
      sql_int (tr_version (transfer_create_row (sample_transfer [7])) + 1)"
    using sample_chunks
    by (simp add: transfer_row_fits_def transfer_create_row_def file_transfer.defs varchar_short
        varchar_opt_def sql_ranges err_cols_fit_def no_err_cols_def sample_transfer_def
        transfer_id_of_def fmt_d_def show_base.simps)
      (simp add: dispatch_transfer_def sample_dispatch_def sample_operation_def varchar_short)
qed (simp_all add: transfer_world_def keys_distinct_def transfer_lookup_def sql_first_def
    transfer_create_row_def file_transfer.defs sample_transfer_def sample_receiver_def)

theorem transfer_delivers_file_witness:
  "\<exists>a w1 a' w2. accept_transfer sample_receiver (json_map_any (start_transfer_payload (sample_transfer [7])))
       (transfer_world [7]) = (Inr a, w1) \<and>
     receive_all sample_receiver a (map (chunk_message (sample_transfer [7]) [7]) [0, 0]) w1 = (Inr a', w2) \<and>
     disk w2 ''w'' (final_path sample_receiver (json_map_any (start_transfer_payload (sample_transfer [7])))) =
       Some [7]"
proof -
  have "set [0, 0] = {..<nat (tr_total_chunks (sample_transfer [7]))}" by (auto simp: sample_chunks)
  then show ?thesis
    using transfer_delivers_file [OF sample_stored(1,2) sample_transfer_def sample_stored(3-5), of "[0, 0]"]
    by (fastforce simp: sample_receiver_def)
qed

lemma sample_accepted:
  "\<exists>a w1. accept_transfer sample_receiver (json_map_any (start_transfer_payload (sample_transfer [7])))
     (transfer_world [7]) = (Inr a, w1)"
proof -
  have "tr_total_chunks (sample_transfer [7]) =
      int (chunk_count (nat (tr_chunk_size_bytes (sample_transfer [7]))) (length [7::byte]))"
    "tr_file_size_bytes (sample_transfer [7]) = int (length [7::byte])"
    "tr_file_checksum (sample_transfer [7]) = sha256_hex [7]" "0 < tr_chunk_size_bytes (sample_transfer [7])"
    by (simp_all add: sample_chunks) (simp_all add: sample_transfer_def chunk_count_def)
  then show ?thesis using accept_receiving [OF sample_stored, of "[7]"] by auto
qed

text \<open>
  C27: whatever is delivered to an accepted transfer and whichever calls fail, no row of a transfer or
  of an operation changes, so the transfer stays \<open>ACCEPTED\<close> for good, and nothing is published but
  the acceptance of chunks: the coordinator never hears that the file has arrived.
\<close>

theorem deliveries_never_recorded:
  "t_transfers (db (snd (receive_all cfg a ms w))) = t_transfers (db w) \<and>
   t_operations (db (snd (receive_all cfg a ms w))) = t_operations (db w) \<and>
   (\<exists>msgs. published (snd (receive_all cfg a ms w)) = published w @ msgs \<and>
      list_all (\<lambda>m. \<exists>e. ev_type e = EventTypeChunkAccepted \<and>
        bm_subject m = subject_coordinator_events \<and> bm_body m = BodyJson (marshal_event e)) msgs)"
proof -
  obtain r w' where run: "receive_all cfg a ms w = (r, w')" by fastforce
  obtain msgs where "published w' = published w @ msgs" "list_all chunk_accepted_msg msgs"
    using says.maintainsD [OF receive_all_says run] by (auto simp: publishes_def)
  moreover have "same_transfers (db w) (db w')"
    using transfers.keepsD [OF receive_all_keeps, of w cfg a ms] run by simp
  ultimately show ?thesis
    unfolding run snd_conv by (auto simp: same_transfers_def chunk_accepted_msg_def [abs_def])
qed

section \<open>What is refused\<close>

text \<open>
  C28: a finalization that reports no error has found the staging file open, as long as the command said
  and with the checksum the command said; one that fails before the file is closed leaves the transfer
  open. When the context of the transfer itself is used, as after the last chunk, an error is always
  reported.
\<close>

theorem finalize_only_verified:
  assumes "finalize_transfer cfg own_ctx tid a w = (Inr (a', None), w')"
  shows "\<not> own_ctx \<and> (\<exists>path. ac_file a = Some path \<and>
    int (length (file_content w (rc_node_id cfg) path)) = ac_total_bytes a \<and>
    sha256_hex (file_content w (rc_node_id cfg) path) = ac_file_sha256 a) \<and>
    ac_file a' = None \<and> tr_status (ac_transfer a') = TransferStatusCompleted"
proof (cases own_ctx)
  case True
  then show ?thesis
    using assms by (auto simp: finalize_own_ctx split: prod.splits sum.splits)
next
  case False
  obtain digest w1 where v: "finalize_verify cfg a w = (Inr digest, w1)"
    and rec: "finalize_record cfg own_ctx tid digest a w1 = (Inr (a', None), w')"
    using assms unfolding finalize_transfer_def
    by (auto simp: attempt_def ret_def elim!: bindE_InrE split: prod.splits sum.splits if_splits)
  have "ac_file a' = None \<and> tr_status (ac_transfer a') = TransferStatusCompleted"
    using rec unfolding finalize_record_def Let_def
    by (auto simp: ret_def completed_transfer_def elim!: bindE_InrE split: sum.splits)
  then show ?thesis using finalize_verify_Inr [OF v] False by auto
qed

theorem finalize_only_verified_witness:
  "\<exists>a' w'. finalize_transfer sample_receiver False ''t''
     \<lparr>ac_transfer = sample_transfer [], ac_total_chunks = 0, ac_total_bytes = 0,
      ac_file_sha256 = sha256_hex [], ac_received = [], ac_received_size = 0, ac_file = Some ''f'',
      ac_manifest_path = ''m''\<rparr> (sample_world empty_db) = (Inr (a', None), w') \<and>
     ac_file a' = None"
proof -
  let ?a = "\<lparr>ac_transfer = sample_transfer [], ac_total_chunks = 0, ac_total_bytes = 0,
      ac_file_sha256 = sha256_hex [], ac_received = [], ac_received_size = 0, ac_file = Some ''f'',
      ac_manifest_path = ''m''\<rparr>"
  have none: "file_content (sample_world empty_db) n p = []" for n p
    by (simp add: file_content_def sample_world_def initial_world_def)
  obtain w1 where v: "finalize_verify sample_receiver ?a (sample_world empty_db) = (Inr (sha256_hex []), w1)"
    "same_disk (sample_world empty_db) w1" "db w1 = empty_db"
    using finalize_verify_ok [of "sample_world empty_db" ?a "''f''" sample_receiver "[]"] none by auto
  have q: "quiet w1" using same_disk_quiet [OF v(2)] by simp
  have up: "transfer_update_stmt x empty_db = Inr ((), empty_db)" for x
    by (simp add: transfer_update_stmt_def empty_db_def sql_update_def)
  obtain a' w' where "finalize_transfer sample_receiver False ''t'' ?a (sample_world empty_db) = (Inr (a', None), w')"
    using q up v(3)
    by (simp add: finalize_transfer_def finalize_record_def bindE_def v(1) attempt_def with_ctx_def
        time_now_simp Let_def wrap_err_def transfer_update_run ignore_err_calm calm_statements
        calm_extern calm_modify change_file_def ret_def del: json_text.simps)
  from finalize_only_verified [OF this] this show ?thesis by blast
qed


text \<open>
  C29: a delivery without a readable index, with a length or a checksum that its payload does not have,
  with an index that was received before, or for a transfer whose file is closed, changes nothing: not
  the transfer, not the disk, not the database, and nothing is published.
\<close>

theorem bad_chunk_changes_nothing:
  assumes "sscanf_d (header_get hs ''X-Chunk-Index'') = None \<or>
    int (length payload) \<noteq> scan_or_zero (header_get hs ''X-Payload-Length'') \<or>
    sha256_hex payload \<noteq> header_get hs ''X-Chunk-SHA256'' \<or> ac_file a = None \<or>
    (\<exists>i. sscanf_d (header_get hs ''X-Chunk-Index'') = Some i \<and> i \<in> fst ` set (ac_received a))"
  shows "handle_chunk cfg a hs payload w = (Inr a, w)"
proof -
  show ?thesis
  proof (cases "sscanf_d (header_get hs ''X-Chunk-Index'')")
    case None
    then show ?thesis by (simp add: handle_chunk_def ret_simp)
  next
    case (Some i)
    have seen: "map_of (ac_received a) i = None \<longleftrightarrow> i \<notin> fst ` set (ac_received a)"
      by (simp add: map_of_eq_None_iff)
    show ?thesis
    proof (cases "map_of (ac_received a) i")
      case None
      then show ?thesis using assms Some seen
        by (auto simp: handle_chunk_def Let_def ret_simp split: option.split)
    next
      case (Some c)
      then show ?thesis using \<open>sscanf_d _ = Some i\<close>
        by (simp add: handle_chunk_def Let_def ret_simp split: option.split)
    qed
  qed
qed

definition sample_active :: "(int \<times> file_chunk) list \<Rightarrow> active_transfer" where
  "sample_active cs = \<lparr>ac_transfer = sample_transfer [7], ac_total_chunks = 1, ac_total_bytes = 1,
      ac_file_sha256 = sha256_hex [7], ac_received = cs, ac_received_size = 0, ac_file = Some ''f'',
      ac_manifest_path = ''m''\<rparr>"

theorem bad_chunk_changes_nothing_witness:
  "handle_chunk sample_receiver (sample_active []) [(''X-Chunk-Index'', ''0''), (''X-Payload-Length'', ''2'')]
     [7] (sample_world empty_db) = (Inr (sample_active []), sample_world empty_db)"
proof (rule bad_chunk_changes_nothing)
  have "scan_or_zero ''2'' = 2" by code_simp
  then show "sscanf_d (header_get [(''X-Chunk-Index'', ''0''), (''X-Payload-Length'', ''2'')] ''X-Chunk-Index'') = None \<or>
    int (length [7::byte]) \<noteq>
      scan_or_zero (header_get [(''X-Chunk-Index'', ''0''), (''X-Payload-Length'', ''2'')] ''X-Payload-Length'') \<or>
    sha256_hex [7] \<noteq> header_get [(''X-Chunk-Index'', ''0''), (''X-Payload-Length'', ''2'')] ''X-Chunk-SHA256'' \<or>
    ac_file (sample_active []) = None \<or>
    (\<exists>i. sscanf_d (header_get [(''X-Chunk-Index'', ''0''), (''X-Payload-Length'', ''2'')] ''X-Chunk-Index'') = Some i \<and>
      i \<in> fst ` set (ac_received (sample_active [])))"
    by (simp add: header_get_def)
qed

text \<open>A transfer that has counted its total stays open, whatever comes.\<close>

lemma overfull_step:
  assumes "ac_total_chunks a \<le> int (length (ac_received a))"
  shows "\<exists>a' w'. handle_chunk cfg a hs payload w = (Inr a', w') \<and> ac_file a' = ac_file a \<and>
    ac_total_chunks a' \<le> int (length (ac_received a'))"
proof -
  have store: "\<exists>a' w'. store_chunk cfg a c v = (Inr a', w') \<and> ac_file a' = ac_file a \<and>
      ac_total_chunks a' \<le> int (length (ac_received a'))" for c v
    using store_chunk_run [of v cfg a c] assms by auto
  have "calm (write_chunk cfg path off payload)" for path off
    unfolding write_chunk_def change_file_def
    by (intro calm_if calm_extern calm_modify calm_fail) simp
  note run = attempt_calm [OF this]
  show ?thesis
    using assms store
    by (auto simp: handle_chunk_def Let_def ret_simp bindE_def run split: option.split sum.split)
qed

text \<open>
  C30: the receiver counts indices and does not look whether they belong to the file. Once a transfer is
  open with as many indices as it has chunks or more, for instance because a stray index was accepted
  before the last genuine chunk, no further delivery, the missing chunk included, ever closes it.
\<close>

theorem overfull_never_completes:
  assumes "ac_total_chunks a \<le> int (length (ac_received a))"
  shows "\<exists>a' w'. receive_all cfg a ms w = (Inr a', w') \<and> ac_file a' = ac_file a"
  using assms
proof (induction ms arbitrary: a w)
  case Nil
  then show ?case by (simp add: ret_simp)
next
  case (Cons m ms)
  obtain hs p where m: "m = (hs, p)" by fastforce
  obtain a1 w1 where "handle_chunk cfg a hs p w = (Inr a1, w1)" "ac_file a1 = ac_file a"
    "ac_total_chunks a1 \<le> int (length (ac_received a1))"
    using overfull_step [OF Cons.prems] by blast
  then show ?case using Cons.IH [of a1 w1] m by (simp add: bindE_def)
qed

theorem overfull_never_completes_witness:
  "\<exists>a' w'. receive_all sample_receiver
     (sample_active [(5, received_chunk ''t'' 5 0 [] [])]) [chunk_message (sample_transfer [7]) [7] 0]
     (sample_world empty_db) = (Inr a', w') \<and> ac_file a' = Some ''f''"
  using overfull_never_completes [of "sample_active [(5, received_chunk ''t'' 5 0 [] [])]"]
  by (simp add: sample_active_def)

section \<open>Dispatch\<close>

lemma calm_dispatch_statements:
  "calm (transfer_create x)" "calm (job_create j)" "calm (attempt_create t)" "calm (op_update op)"
  "calm (publish_command n c doc)" "calm (publish_with_headers subj data hs)" "calm select_worker"
  unfolding transfer_create_def job_create_def attempt_create_def op_update_def publish_command_def
    publish_with_headers_def select_worker_def node_list_healthy_def Let_def
  by (intro calm_intros calm_exec_db calm_query_db calm_fail;
      auto simp: transfer_insert_def job_insert_def attempt_insert_def op_update_stmt_def
        sql_insert_def Let_def split: if_splits sum.splits)+

lemma calm_publish_chunks: "calm (publish_chunks x n idx rest)"
  by (induction n arbitrary: idx rest)
    (auto simp: Let_def intro!: calm_intros calm_statements calm_dispatch_statements)

lemma calm_publish_file_chunks: "calm (publish_file_chunks cfg x)"
  unfolding publish_file_chunks_def
  by (intro calm_intros calm_publish_chunks) (simp_all add: calm_def split: option.split)

lemma calm_dispatch_loaded:
  assumes "op_input_file op = Some f"
  shows "calm (dispatch_loaded cfg processor op)"
  unfolding dispatch_loaded_def assms option.case dispatch_record_def Let_def
  by (intro calm_intros calm_generate_id calm_publish_file_chunks calm_dispatch_statements calm_statements)

text \<open>
  The dispatch of an operation panics exactly when the operation is loaded and has no input file:
  the log line after the load follows a nil pointer. Every other failure is an error value.
\<close>

lemma dispatch_panics_iff:
  "(\<exists>m w'. dispatch_execute cfg i processor w = (Inl (Panic m), w')) =
   (outcome_of w (calls w) = Done \<and>
    (\<exists>op. db_operation i (db w) = Some op \<and> op_input_file op = None))"
proof -
  have get: "op_get_by_id i w = (case outcome_of w (calls w) of
      Done \<Rightarrow> (Inr (db_operation i (db w)), w\<lparr>calls := Suc (calls w)\<rparr>)
    | _ \<Rightarrow> (Inl (ErrExternal ''select operations''), w\<lparr>calls := Suc (calls w)\<rparr>))"
    by (simp add: op_get_by_id_def query_db_def extern_def Let_def split: outcome.split)
  have calm: "dispatch_loaded cfg processor op v \<noteq> (Inl (Panic m), w')"
    if "op_input_file op = Some f" for op f v m w'
    using calm_dispatch_loaded [OF that] by (metis calm_def fst_conv is_panic.simps(1))
  have nil: "dispatch_loaded cfg processor op v = (Inl (Panic ''nil pointer dereference''), v)"
    if "op_input_file op = None" for op v
    using that by (simp add: dispatch_loaded_def fail_def)
  show ?thesis
  proof (cases "db_operation i (db w)")
    case None
    then show ?thesis by (auto simp: dispatch_execute_def bindE_def get fail_def split: outcome.split)
  next
    case (Some op)
    then show ?thesis
      by (cases "op_input_file op")
        (auto simp: dispatch_execute_def bindE_def get calm nil split: outcome.split)
  qed
qed

end
