(* ===== verification/Role_Properties.thy ===== *)
theory Role_Properties
  imports Role_Facts Upload_Properties Transfer_Properties
begin

text \<open>
  Properties of the role manager: which events and commands it acts on, what its handlers store, how
  long a processing job waits, and what a node subscribes to and reports.
\<close>

definition sample_node :: "string \<Rightarrow> node_config" where
  "sample_node r = \<lparr>nc_id = ''w'', nc_role = r, nc_incarnation_id = ''i'', nc_heartbeat_timeout = 10,
     nc_staging_dir = ''/r'', nc_has_nats = True, nc_has_receiver = True, nc_has_indexer = True\<rparr>"

definition idle_worker :: worker where
  "idle_worker = \<lparr>wk_active = {}, wk_open = []\<rparr>"

section \<open>Events\<close>

text \<open>
  C11: an event that a node publishes is acted on by no node: the keys it is written with are not the
  keys it is read with, so it arrives without a type, and the consumer does nothing with it.
\<close>

theorem published_events_are_ignored:
  "handle_event cfg st (BodyJson (marshal_event e)) w = (Inr st, w)"
  by (simp add: handle_event_def decoded_event handle_decoded_def zero_event_message_def ret_simp Let_def)

text \<open>
  C6: no message on the event subject, whatever it holds and whichever calls fail, changes the table of
  operations, although four of its types are there to complete, fail, cancel or advance an operation.
\<close>

theorem events_never_change_operations:
  assumes "op_ids_distinct (db w)"
  shows "t_operations (db (snd (handle_event cfg st b w))) = t_operations (db w)"
  using handle_event_same_ops [OF assms] by (simp add: same_ops_def)

theorem events_never_change_operations_witness:
  "t_operations (db (snd (handle_event (sample_node ''entry'') idle_worker
     (BodyJson (JObj [(''event_type'', JStr ''ProcessingSucceeded''), (''operation_id'', JStr ''op-1'')]))
     (sample_world (sample_db StatusDispatched))))) = t_operations (sample_db StatusDispatched)"
  using events_never_change_operations [of "sample_world (sample_db StatusDispatched)"] by simp

lemma event_append_run:
  assumes "quiet w" and "event_fits e" and "ev_id e \<notin> ev_id ` set (t_events (db w))"
  shows "event_append e w =
    (Inr (), w\<lparr>calls := Suc (calls w), db := (db w)\<lparr>t_events := t_events (db w) @ [event_row e]\<rparr>\<rparr>)"
proof -
  have "ev_id (event_row e) = ev_id e" by (simp add: event_row_def)
  then show ?thesis
    using assms
    by (simp add: event_append_def exec_db_quiet event_append_stmt_def sql_insert_def image_iff) metis
qed

text \<open>
  When no call fails, a well-formed message that the processing of a stored operation succeeded is
  entered in the event log as \<open>OPERATION_COMPLETED\<close> and handed to the search indexer as a completed
  operation, while the stored operation stays as it was.
\<close>

lemma completion_logged_not_stored:
  assumes "quiet w" and "op_ids_distinct (db w)" and "db_operation (em_operation_id m) (db w) = Some op"
    and "em_event_type m = event_type_string EventTypeProcessingSucceeded"
    and "length (em_operation_id m) \<le> 64" and "length (nc_id cfg) \<le> 128"
    and "id_of ''evt'' (map (rnd w (draws w)) [0..<16]) \<notin> ev_id ` set (t_events (db w))"
  shows "\<exists>w' e now. handle_decoded cfg st m w = (Inr st, w') \<and>
    t_operations (db w') = t_operations (db w) \<and>
    t_events (db w') = t_events (db w) @ [event_row e] \<and> ev_type e = EventTypeOperationCompleted \<and>
    ev_operation_id e = em_operation_id m \<and>
    spawned w' = spawned w @ (if nc_has_indexer cfg
      then [TaskIndex (settled StatusCompleted StageCompleted None now op) e] else [])"
proof -
  let ?oid = "em_operation_id m" and ?now = "clock w (ticks w)"
  let ?op = "settled StatusCompleted StageCompleted None ?now op"
  let ?w1 = "w\<lparr>calls := Suc (calls w)\<rparr>"
  define e where "e = \<lparr>ev_id = id_of ''evt'' (map (rnd w (draws w)) [0..<16]), ev_operation_id = ?oid,
      ev_type = EventTypeOperationCompleted, ev_job_id = None, ev_attempt_id = None,
      ev_transfer_id = None, ev_payload = [(''payload'', JObj (em_payload m))],
      ev_correlation_id = ?oid, ev_issued_at = ?now, ev_actor_node_id = nc_id cfg, ev_version = 1\<rparr>"
  have "based_on_nothing op (db w)" by (rule loaded_based_on_nothing [OF assms(2,3)])
  then have up: "op_update ?op (w\<lparr>calls := Suc (calls w), ticks := Suc (ticks w)\<rparr>) =
      (Inr (), w\<lparr>calls := Suc (Suc (calls w)), ticks := Suc (ticks w)\<rparr>)"
    using assms(1) by (subst stale_update_run) (auto simp: based_on_nothing_def op_update_where_def)
  have ev: "event_append e (w\<lparr>calls := Suc (Suc (calls w)), ticks := Suc (ticks w), draws := Suc (draws w)\<rparr>) =
      (Inr (), w\<lparr>calls := Suc (Suc (Suc (calls w))), ticks := Suc (ticks w), draws := Suc (draws w),
         db := (db w)\<lparr>t_events := t_events (db w) @ [event_row e]\<rparr>\<rparr>)"
    using assms(1,5-7)
    by (subst event_append_run) (simp_all add: e_def event_fits_def varchar_short varchar_opt_def sql_ranges)
  show ?thesis
    using assms(1,3,4) up ev
    by (intro exI [of _ "snd (handle_decoded cfg st m w)"] exI [of _ e] exI [of _ ?now])
      (simp add: e_def handle_decoded_def handle_processing_succeeded_def settle_def bindE_def
        attempt_def op_get_run settle_loaded_def time_now_simp generate_id_simp ignore_err_def ret_def
        spawn_simp Let_def)
qed

section \<open>The wait of a job\<close>

text \<open>
  A processing job waits for the first look that sees no active transfer with the operation's id in
  its name, and then reports success; while every look sees one it never returns.
\<close>

lemma processing_waits_for_transfers:
  "handle_process_job cfg obs cancelled cmd w =
     (if \<forall>k. has_active_transfer (obs k) (pc_operation_id cmd) then None
      else Some (process_job_after_wait cfg cancelled cmd w))"
proof (cases "check_transfer obs (pc_operation_id cmd) 0")
  case None
  then show ?thesis using check_transfer_None_iff [of obs "pc_operation_id cmd"]
    by (simp add: handle_process_job_def)
next
  case (Some k)
  then have "\<not> (\<forall>k. has_active_transfer (obs k) (pc_operation_id cmd))"
    using check_transfer_None_iff [of obs "pc_operation_id cmd"] by simp
  then show ?thesis using Some by (simp add: handle_process_job_def)
qed

lemma transfer_id_contains: "contains_sub (transfer_id_of oid now) oid"
  unfolding transfer_id_of_def by (rule contains_sub_infix)

lemma start_transfer_Ack:
  assumes "start_transfer cfg st cmd w = (Inr (st', Ack), w')"
  shows "wk_active st' = insert (field_string (pc_payload cmd) ''transfer_id'') (wk_active st)"
  using assms unfolding start_transfer_def Let_def
  by (auto simp: ret_def fail_def elim!: bindE_InrE split: if_splits sum.splits option.splits json.splits)

text \<open>
  C12: a worker that has accepted the transfer of an operation never gets to process it. The id of the
  transfer contains the operation's id and stays in the set: whatever events the nodes publish and
  whatever else is added between two looks, the wait of the job that follows has no end.
\<close>

theorem accepted_transfer_blocks_processing:
  assumes "start_transfer cfg st cmd w = (Inr (s 0, Ack), w')"
    and "field_string (pc_payload cmd) ''transfer_id'' = transfer_id_of (pc_operation_id job) now"
    and "\<And>k. wk_active (s k) \<subseteq> wk_active (s (Suc k)) \<or>
      (\<exists>e v v'. handle_event cfg (s k) (BodyJson (marshal_event e)) v = (Inr (s (Suc k)), v'))"
  shows "handle_process_job cfg (\<lambda>k. wk_active (s k)) cancelled job v = None"
proof -
  have here: "transfer_id_of (pc_operation_id job) now \<in> wk_active (s 0)"
    using start_transfer_Ack [OF assms(1)] assms(2) by simp
  have "transfer_id_of (pc_operation_id job) now \<in> wk_active (s k)" for k
  proof (induction k)
    case 0
    show ?case by (rule here)
  next
    case (Suc k)
    then show ?case using assms(3) [of k]
      by (auto simp: handle_event_def decoded_event handle_decoded_def zero_event_message_def ret_simp Let_def)
  qed
  then have "has_active_transfer (wk_active (s k)) (pc_operation_id job)" for k
    using transfer_id_contains [of "pc_operation_id job" now] by (auto simp: has_active_transfer_def)
  then show ?thesis
    using check_transfer_None_iff [of "\<lambda>k. wk_active (s k)" "pc_operation_id job"]
    by (simp add: handle_process_job_def)
qed

theorem accepted_transfer_blocks_processing_witness:
  "\<exists>st w'. start_transfer (sample_node ''worker'') idle_worker
      \<lparr>pc_command_id = ''c'', pc_operation_id = ''op-1'', pc_job_id = ''j'', pc_type = ''START_TRANSFER'',
       pc_payload = json_map_any (start_transfer_payload (sample_transfer [7]))\<rparr> (transfer_world [7]) =
      (Inr (st, Ack), w') \<and>
    handle_process_job (sample_node ''worker'') (\<lambda>_. wk_active st) False
      \<lparr>pc_command_id = ''d'', pc_operation_id = ''op-1'', pc_job_id = ''j'', pc_type = ''PROCESS_UPDATE'',
       pc_payload = []\<rparr> w' = None"
proof -
  let ?cmd = "\<lparr>pc_command_id = ''c'', pc_operation_id = ''op-1'', pc_job_id = ''j'', pc_type = ''START_TRANSFER'',
       pc_payload = json_map_any (start_transfer_payload (sample_transfer [7]))\<rparr>"
  have cfg: "receiver_of (sample_node ''worker'') = sample_receiver"
    by (simp add: receiver_of_def sample_node_def sample_receiver_def)
  have on: "nc_has_receiver (sample_node ''worker'')" by (simp add: sample_node_def)
  have fields: "map_of (pc_payload ?cmd) ''attempt_id'' = Some (JStr ''a'')"
    "field_string (pc_payload ?cmd) ''transfer_id'' = transfer_id_of ''op-1'' 0"
    by (simp_all add: payload_fields(1))
      (simp_all add: start_transfer_payload_def sample_transfer_def dispatch_transfer_def sample_operation_def)
  obtain a w1 where "accept_transfer sample_receiver (pc_payload ?cmd) (transfer_world [7]) = (Inr a, w1)"
    using sample_accepted by auto
  then obtain st where run: "start_transfer (sample_node ''worker'') idle_worker ?cmd (transfer_world [7]) =
      (Inr (st, Ack), w1)"
    using fields(1)
    by (simp add: start_transfer_def on cfg bindE_def attempt_def ret_def Let_def)
  have "handle_process_job (sample_node ''worker'') (\<lambda>_. wk_active st) False
      \<lparr>pc_command_id = ''d'', pc_operation_id = ''op-1'', pc_job_id = ''j'', pc_type = ''PROCESS_UPDATE'',
       pc_payload = []\<rparr> w1 = None"
    by (rule accepted_transfer_blocks_processing [of _ _ _ _ "\<lambda>_. st", OF run, where now = 0])
      (simp_all add: fields(2) del: process_command.simps, simp)
  then show ?thesis using run by blast
qed


section \<open>Start and heartbeats\<close>

text \<open>A database call leaves the subscriptions and the goroutines alone.\<close>

lemma exec_db_InrD:
  "exec_db what g w = (Inr x, w') \<Longrightarrow> subscribed w' = subscribed w \<and> spawned w' = spawned w"
  by (auto simp: exec_db_def extern_def Let_def split: outcome.splits sum.splits prod.splits)

lemma nats_subscribe_InrD:
  "nats_subscribe subj consumer w = (Inr x, w') \<Longrightarrow>
     subscribed w' = subscribed w @ [(consumer, subj)] \<and> spawned w' = spawned w"
  unfolding nats_subscribe_def
  by (auto simp: ret_def modify_simp elim!: bindE_InrE wrap_err_InrE extern_InrE)

lemma register_InrD:
  "register_node cfg w = (Inr x, w') \<Longrightarrow> subscribed w' = subscribed w \<and> spawned w' = spawned w"
  by (auto simp: register_node_def node_upsert_def bindE_time_now dest!: exec_db_InrD)

text \<open>
  A node that has started has registered itself, runs the heartbeat loop and consumes what its role
  asks for: a worker its command subject and the coordinator events, an entry node the coordinator
  events, and a hybrid node both, so that it subscribes to the events twice under one consumer name.
\<close>

lemma role_subscriptions:
  assumes "role_start cfg w = (Inr (), w')"
  shows "spawned w' = spawned w @ [TaskHeartbeat] \<and>
    subscribed w' = subscribed w @
      (if nc_has_nats cfg then
         (let cmds = (''cmd-processor-'' @ nc_id cfg, node_command_subject (nc_id cfg));
              evs = (''coordinator-events-'' @ nc_id cfg, subject_coordinator_events)
          in (if nc_role cfg = ''worker'' then [cmds, evs]
              else if nc_role cfg = ''hybrid'' then [cmds, evs, evs] else [evs]))
       else [])"
proof -
  obtain x w1 where "register_node cfg w = (Inr x, w1)"
    and rest: "bindE (spawn TaskHeartbeat) (\<lambda>_.
      bindE (if is_worker (parse_role (nc_role cfg)) then start_worker_tasks cfg else ret ()) (\<lambda>_.
      if is_entry (parse_role (nc_role cfg)) then start_coordinator_tasks cfg else ret ())) w1 = (Inr (), w')"
    using assms unfolding role_start_def Let_def by (rule bindE_InrE)
  note reg = register_InrD [OF this(1)]
  show ?thesis
    using rest reg unfolding start_worker_tasks_def start_coordinator_tasks_def
      start_command_consumer_def start_event_consumer_def
    by (auto simp: parse_role_def is_worker_def is_entry_def spawn_simp ret_def Let_def
        elim!: bindE_InrE dest!: nats_subscribe_InrD split: if_splits)
qed

text \<open>A tick whose number is taken.\<close>

lemma repeated_tick:
  assumes "(nc_id cfg, nc_incarnation_id cfg, sq) \<in> heartbeat_key ` set (t_heartbeats (db w))"
  shows "\<exists>w'. heartbeat_tick cfg sq w = (Inr (), w') \<and> db w' = db w"
proof -
  let ?now = "clock w (ticks w)" and ?w1 = "w\<lparr>ticks := Suc (ticks w)\<rparr>"
  define h where "h = \<lparr>hb_node_id = nc_id cfg, hb_incarnation_id = nc_incarnation_id cfg, hb_sequence = sq,
        hb_status = NodeStatusHealthy,
        hb_capabilities = [role_string (parse_role (nc_role cfg))], hb_active_jobs = 0,
        hb_active_transfers = 0, hb_resources = None, hb_self_checks = None, hb_draining = False,
        hb_shutdown_deadline_at = None, hb_observed_at = ?now,
        hb_heartbeat_deadline_at = ?now + nc_heartbeat_timeout cfg\<rparr>"
  have "heartbeat_key (heartbeat_row h) = (nc_id cfg, nc_incarnation_id cfg, sq)"
    by (simp add: heartbeat_key_def heartbeat_row_def h_def)
  then have "\<exists>x\<in>set (t_heartbeats (db w)). heartbeat_key x = heartbeat_key (heartbeat_row h)"
    using assms by auto
  then have no: "\<exists>e. heartbeat_insert_stmt h (db w) = Inl e \<and> \<not> is_panic e"
    by (auto simp: heartbeat_insert_stmt_def sql_insert_def)
  then have "\<exists>e w'. heartbeat_insert h ?w1 = (Inl e, w') \<and> \<not> is_panic e \<and> db w' = db w"
    by (auto simp: heartbeat_insert_def exec_db_def extern_def Let_def split: outcome.split)
  then show ?thesis
    unfolding h_def
    by (auto simp: heartbeat_tick_def time_now_simp Let_def bindE_def attempt_def ret_def)
qed

text \<open>
  A node that is restarted with the incarnation id it had before counts its heartbeats from one
  again. As long as the numbers are taken by the rows of its earlier run, nothing of its ticks reaches
  the database: no heartbeat, no deadline, no status.
\<close>

lemma restarted_heartbeats_lost:
  assumes "\<And>k. k < n \<Longrightarrow> (nc_id cfg, nc_incarnation_id cfg, sq + 1 + int k) \<in>
    heartbeat_key ` set (t_heartbeats (db w))"
  shows "\<exists>w'. heartbeat_loop cfg sq n w = (Inr (), w') \<and> db w' = db w"
  using assms
proof (induction n arbitrary: sq w)
  case 0
  then show ?case by (simp add: ret_simp)
next
  case (Suc n)
  obtain w1 where "heartbeat_tick cfg (sq + 1) w = (Inr (), w1)" "db w1 = db w"
    using repeated_tick [of cfg "sq + 1" w] Suc.prems [of 0] by auto
  moreover have "(nc_id cfg, nc_incarnation_id cfg, sq + 1 + 1 + int k) \<in>
      heartbeat_key ` set (t_heartbeats (db w))" if "k < n" for k
    using Suc.prems [of "Suc k"] that by (simp add: add.assoc)
  ultimately show ?case using Suc.IH [of "sq + 1" w1] by (simp add: bindE_def)
qed

end
