(* ===== verification/Transfer_Sender.thy ===== *)
theory Transfer_Sender
  imports Role_Manager
begin

text \<open>
  The transfer sender (\<open>infrastructure/transfer/transfer.go\<close>), a second way to send the file of an
  operation to a node, which nothing in the program calls: the transfer row, the start command, and
  the chunks with their long headers. The pause after every ten chunks does not show in the world.
\<close>

record sender_config =
  sd_node :: string
  sd_staging_dir :: string

definition sender_chunk_size :: int where
  "sender_chunk_size = 64 * 1024"

definition sender_total_chunks :: "int \<Rightarrow> int" where
  "sender_total_chunks sz = go_div (sz + sender_chunk_size - 1) sender_chunk_size"

definition sender_transfer ::
  "sender_config \<Rightarrow> string \<Rightarrow> string \<Rightarrow> int \<Rightarrow> string \<Rightarrow> int \<Rightarrow> int \<Rightarrow> file_transfer" where
  "sender_transfer cfg oid target sz checksum stamp now =
     \<lparr>tr_id = ''transfer-'' @ oid @ ''-'' @ fmt_d stamp, tr_attempt_id = [], tr_operation_id = oid,
      tr_file_id = ''file-'' @ oid, tr_source_node_id = ''self'', tr_destination_node_id = target,
      tr_file_size_bytes = sz, tr_chunk_size_bytes = sender_chunk_size,
      tr_total_chunks = sender_total_chunks sz, tr_file_checksum = checksum,
      tr_checksum_algorithm = ''sha256'', tr_status = TransferStatusCreated,
      tr_staging_path = filepath_join [sd_staging_dir cfg, oid],
      tr_staging_reservation_id = None, tr_deadline_at = now + minutes 30,
      tr_accepted_at = None, tr_completed_at = None, tr_received_chunks = 0, tr_error = None,
      tr_version = 1\<rparr>"

text \<open>The command is one flat object; its type is in a member \<open>command_type\<close>.\<close>

definition sender_start_command :: "file_transfer \<Rightarrow> json" where
  "sender_start_command x =
     JObj [(''checksum_algorithm'', JStr ''sha256''),
           (''chunk_size_bytes'', JInt (tr_chunk_size_bytes x)),
           (''command_id'', JStr (''cmd-start-'' @ tr_id x)),
           (''command_type'', JStr ''StartTransfer''),
           (''destination_node_id'', JStr (tr_destination_node_id x)),
           (''file_id'', JStr (tr_file_id x)),
           (''file_sha256'', JStr (tr_file_checksum x)),
           (''file_size_bytes'', JInt (tr_file_size_bytes x)),
           (''operation_id'', JStr (tr_operation_id x)),
           (''source_node_id'', JStr ''self''),
           (''total_chunks'', JInt (tr_total_chunks x)),
           (''transfer_deadline_at'', JStr (rfc3339 (tr_deadline_at x))),
           (''transfer_id'', JStr (tr_id x))]"

definition sent_chunk :: "file_transfer \<Rightarrow> int \<Rightarrow> bytes \<Rightarrow> file_chunk" where
  "sent_chunk x idx payload =
     \<lparr>ck_id = tr_id x @ '':'' @ fmt_d idx, ck_transfer_id = tr_id x, ck_chunk_index = idx,
      ck_chunk_offset = idx * sender_chunk_size, ck_chunk_size = int (length payload),
      ck_checksum = sha256_hex payload, ck_publish_state = ''published'',
      ck_ack_state = ''pending'', ck_received_at = None, ck_acknowledged_at = None,
      ck_version = 1\<rparr>"

definition sender_headers :: "file_transfer \<Rightarrow> int \<Rightarrow> bytes \<Rightarrow> (string \<times> string) list" where
  "sender_headers x idx payload =
     [(''Nats-Msg-Id'', tr_id x @ '':'' @ fmt_d idx), (''X-Schema-Version'', ''1''),
      (''X-Message-Type'', ''chunk''), (''X-Operation-Id'', tr_operation_id x),
      (''X-Correlation-Id'', tr_operation_id x), (''X-Transfer-Id'', tr_id x),
      (''X-Chunk-Id'', tr_id x @ '':'' @ fmt_d idx), (''X-Chunk-Index'', fmt_d idx),
      (''X-Offset'', fmt_d (idx * sender_chunk_size)),
      (''X-Payload-Length'', fmt_d (int (length payload))),
      (''X-Chunk-Size'', fmt_d sender_chunk_size),
      (''X-Total-Bytes'', fmt_d (tr_file_size_bytes x)),
      (''X-Total-Chunks'', fmt_d (tr_total_chunks x)), (''X-Chunk-SHA256'', sha256_hex payload),
      (''X-File-SHA256'', tr_file_checksum x), (''X-Source-Node-Id'', ''self''),
      (''X-Destination-Node-Id'', tr_destination_node_id x),
      (''X-Chunk-Deadline-At'', rfc3339 (tr_deadline_at x)),
      (''X-Transfer-Deadline-At'', rfc3339 (tr_deadline_at x))]"

text \<open>The loop, as in the dispatch: a failed publication is logged and the next chunk follows.\<close>

fun send_chunks :: "file_transfer \<Rightarrow> nat \<Rightarrow> int \<Rightarrow> bytes \<Rightarrow> unit io" where
  "send_chunks x 0 idx rest = ret ()"
| "send_chunks x (Suc n) idx rest =
     (let sz = nat sender_chunk_size in
      bindE (wrap_err (''read chunk '' @ fmt_d idx) (extern ''read'' (ret (take sz rest))))
        (\<lambda>payload.
      if payload = [] then ret ()
      else
        bindE (wrap_err (''upsert chunk '' @ fmt_d idx) (chunk_upsert (sent_chunk x idx payload)))
          (\<lambda>_.
        bindE (ignore_err (publish_with_headers (transfer_chunks_subject (tr_id x)) payload
          (sender_headers x idx payload))) (\<lambda>_.
        send_chunks x n (idx + 1) (drop sz rest)))))"

text \<open>With the operation loaded. \<open>op.InputFile.SHA256\<close> is read whether or not there is an input file.\<close>

definition stat_file :: "string \<Rightarrow> string \<Rightarrow> string \<Rightarrow> int io" where
  "stat_file what n p =
     extern what (\<lambda>w. case disk w n p of
       None \<Rightarrow> (Inl (ErrExternal ''no such file''), w)
     | Some c \<Rightarrow> (Inr (int (length c)), w))"

definition open_file :: "string \<Rightarrow> string \<Rightarrow> string \<Rightarrow> bytes io" where
  "open_file what n p =
     extern what (\<lambda>w. case disk w n p of
       None \<Rightarrow> (Inl (ErrExternal ''no such file''), w)
     | Some c \<Rightarrow> (Inr c, w))"

definition send_loaded :: "sender_config \<Rightarrow> string \<Rightarrow> string \<Rightarrow> operation \<Rightarrow> unit io" where
  "send_loaded cfg oid target op =
     (let path = filepath_join [sd_staging_dir cfg, oid, ''input''] in
      bindE (wrap_err ''stat ingress file'' (stat_file ''stat'' (sd_node cfg) path)) (\<lambda>sz.
      bindE time_now (\<lambda>stamp.
      bindE time_now (\<lambda>now.
      case op_input_file op of
        None \<Rightarrow> fail (Panic ''nil pointer dereference'')
      | Some f \<Rightarrow>
          (let x = sender_transfer cfg oid target sz (if_sha256 f) stamp now in
           bindE (wrap_err ''create transfer'' (transfer_create x)) (\<lambda>_.
           bindE (wrap_err ''publish start transfer''
             (nats_publish (node_command_subject target) (BodyJson (sender_start_command x)))) (\<lambda>_.
           bindE (wrap_err ''open ingress file'' (open_file ''open'' (sd_node cfg) path)) (\<lambda>content.
           send_chunks x (nat (tr_total_chunks x)) 0 content))))))))"

definition send_execute :: "sender_config \<Rightarrow> string \<Rightarrow> string \<Rightarrow> unit io" where
  "send_execute cfg oid target =
     bindE (op_get_by_id oid) (\<lambda>m.
       case m of
         None \<Rightarrow> fail (ErrMsg (''operation not found: '' @ oid))
       | Some op \<Rightarrow> send_loaded cfg oid target op)"

section \<open>Facts\<close>

text \<open>The row of a chunk is the one the dispatch stores, and the receiver reads the same headers.\<close>

lemma sent_chunk_eq:
  "tr_chunk_size_bytes x = sender_chunk_size \<Longrightarrow> sent_chunk x idx p = sender_chunk x idx p"
  by (simp add: sent_chunk_def sender_chunk_def chunk_id_of_def)

definition read_headers :: "string list" where
  "read_headers = [''X-Chunk-Index'', ''X-Offset'', ''X-Payload-Length'', ''X-Chunk-SHA256'', ''X-Transfer-Id'']"

lemma sender_headers_read:
  assumes "tr_chunk_size_bytes x = sender_chunk_size" and "k \<in> set read_headers"
  shows "header_get (sender_headers x idx p) k = header_get (chunk_headers x idx p) k"
proof -
  have "header_get (sender_headers x idx p) ''X-Chunk-Index'' = fmt_d idx"
    "header_get (sender_headers x idx p) ''X-Offset'' = fmt_d (idx * sender_chunk_size)"
    "header_get (sender_headers x idx p) ''X-Payload-Length'' = fmt_d (int (length p))"
    "header_get (sender_headers x idx p) ''X-Chunk-SHA256'' = sha256_hex p"
    "header_get (sender_headers x idx p) ''X-Transfer-Id'' = tr_id x"
    unfolding sender_headers_def header_get_def by simp_all
  moreover have "header_get (chunk_headers x idx p) ''X-Chunk-Index'' = fmt_d idx"
    "header_get (chunk_headers x idx p) ''X-Offset'' = fmt_d (idx * sender_chunk_size)"
    "header_get (chunk_headers x idx p) ''X-Payload-Length'' = fmt_d (int (length p))"
    "header_get (chunk_headers x idx p) ''X-Chunk-SHA256'' = sha256_hex p"
    "header_get (chunk_headers x idx p) ''X-Transfer-Id'' = tr_id x"
    unfolding chunk_headers_def header_get_def assms(1) by simp_all
  ultimately show ?thesis using assms(2) unfolding read_headers_def set_simps by (elim insertE emptyE) (simp_all only:)
qed

text \<open>So a receiver does the same with a chunk of either.\<close>

lemma handle_chunk_cong:
  assumes "\<And>k. k \<in> set read_headers \<Longrightarrow> header_get hs k = header_get hs' k"
  shows "handle_chunk cfg a hs p = handle_chunk cfg a hs' p"
proof -
  have "header_get hs k = header_get hs' k" if "k \<in> {''X-Chunk-Index'', ''X-Offset'',
      ''X-Payload-Length'', ''X-Chunk-SHA256'', ''X-Transfer-Id''}" for k
    using assms that by (auto simp: read_headers_def)
  then have "header_get hs ''X-Chunk-Index'' = header_get hs' ''X-Chunk-Index''"
    "header_get hs ''X-Offset'' = header_get hs' ''X-Offset''"
    "header_get hs ''X-Payload-Length'' = header_get hs' ''X-Payload-Length''"
    "header_get hs ''X-Chunk-SHA256'' = header_get hs' ''X-Chunk-SHA256''"
    "header_get hs ''X-Transfer-Id'' = header_get hs' ''X-Transfer-Id''" by blast+
  then show ?thesis by (simp only: handle_chunk_def)
qed

text \<open>The start command has no member \<open>type\<close>, and the keys it has do not fold to one.\<close>

lemma folded_keys:
  "fold_case ''checksum_algorithm'' = ''checksum_algorithm''"
  "fold_case ''chunk_size_bytes'' = ''chunk_size_bytes''" "fold_case ''command_id'' = ''command_id''"
  "fold_case ''command_type'' = ''command_type''"
  "fold_case ''destination_node_id'' = ''destination_node_id''" "fold_case ''file_id'' = ''file_id''"
  "fold_case ''file_sha256'' = ''file_sha256''" "fold_case ''file_size_bytes'' = ''file_size_bytes''"
  "fold_case ''operation_id'' = ''operation_id''" "fold_case ''source_node_id'' = ''source_node_id''"
  "fold_case ''total_chunks'' = ''total_chunks''"
  "fold_case ''transfer_deadline_at'' = ''transfer_deadline_at''"
  "fold_case ''transfer_id'' = ''transfer_id''" "fold_case ''job_id'' = ''job_id''"
  "fold_case ''type'' = ''type''" "fold_case ''payload'' = ''payload''"
  by code_simp+

lemma decoded_start_command:
  "unmarshal_command (sender_start_command x) =
     Some \<lparr>pc_command_id = ''cmd-start-'' @ tr_id x, pc_operation_id = tr_operation_id x,
           pc_job_id = [], pc_type = [], pc_payload = []\<rparr>"
  by (simp add: unmarshal_command_def sender_start_command_def struct_string_def struct_map_def
      struct_values_def folded_keys del: fold_case_simps)

text \<open>
  The sender is the dispatch's twin for the chunks and not for the command: a chunk of it has the row
  that the dispatch stores, and a receiver does with it what it does with the dispatch's; but a worker
  that gets its start command acknowledges the message and does nothing.
\<close>

lemma sender_equals_dispatch:
  "let x = sender_transfer cfg oid target sz checksum stamp now
   in sent_chunk x idx p = sender_chunk x idx p \<and>
      handle_chunk rcfg a (sender_headers x idx p) p w = handle_chunk rcfg a (chunk_headers x idx p) p w \<and>
      handle_command ncfg obs cancelled st (BodyJson (sender_start_command x)) w = Some (Inr (st, Ack), w)"
proof -
  let ?x = "sender_transfer cfg oid target sz checksum stamp now"
  have size: "tr_chunk_size_bytes ?x = sender_chunk_size" by (simp add: sender_transfer_def)
  have "handle_chunk rcfg a (sender_headers ?x idx p) p = handle_chunk rcfg a (chunk_headers ?x idx p) p"
    by (rule handle_chunk_cong) (rule sender_headers_read [OF size])
  then show ?thesis
    by (simp add: Let_def sent_chunk_eq [OF size] handle_command_def decoded_start_command)
qed

end
