(* ===== verification/System_Properties.thy ===== *)
theory System_Properties
  imports Usecase_Properties
begin

text \<open>
  Properties of the whole system: what holds in every state that any interleaving of the handlers, or
  of their single statements, reaches, whatever the environment does and whichever calls fail.
\<close>

section \<open>A state to look at\<close>

text \<open>The world after one create in an empty database.\<close>

definition created_world :: world where
  "created_world = snd (sample_create (sample_world empty_db))"

lemma created_reachable: "reachable (created_world, {})"
proof -
  have "step (sample_world empty_db, {}) (created_world, {})"
    unfolding created_world_def sample_create_def by (rule step.create)
  then show ?thesis
    unfolding reachable_def by (intro exI [of _ "sample_world empty_db"]) (auto simp: empty_db_def)
qed

lemma created_row:
  "\<exists>i now. t_operations (db created_world) = [op_create_row (new_operation sample_input i now)]"
proof -
  obtain out where run: "sample_create (sample_world empty_db) = (Inr out, created_world)"
    using sample_create_runs unfolding created_world_def by blast
  obtain now w1 where "db w1 = empty_db" "create_fresh idempotency_keys_columns ''http://h'' sample_input
      ''k'' ''POST'' ''/o'' now w1 = (Inr out, created_world)"
    using create_execute_is_fresh [OF disjI1 [OF refl], where w = "sample_world empty_db"] run
    unfolding sample_create_def by (metis db_sample(1))
  from create_fresh_run [OF this(2)] this(1) show ?thesis by (auto simp: empty_db_def)
qed

section \<open>Statuses\<close>

text \<open>
  C1: starting from an empty table, and in whatever order the statements of any number of handlers reach
  the database, no operation is ever in a status beyond \<open>DISPATCHED\<close>: the table holds \<open>CREATED\<close>, \<open>QUEUED\<close>
  and \<open>DISPATCHED\<close> operations only, although five handlers write \<open>TRANSFERRED\<close>, \<open>COMPLETED\<close>, \<open>FAILED\<close> and
  \<open>CANCELLED\<close>.
\<close>

theorem interleaved_statuses:
  assumes "t_operations d0 = []" and "sql_steps (d0, {}) (d, L)" and "r \<in> set (t_operations d)"
  shows "r_status r \<in> {StatusCreated, StatusQueued, StatusDispatched}"
  using sql_inv_steps [OF assms(2) sql_inv_start [OF assms(1)]] assms(3)
  by (auto simp: sql_inv_def early_ops_def early_def)

lemma reachable_statuses:
  assumes "reachable (w, L)" and "r \<in> set (t_operations (db w))"
  shows "r_status r \<in> {StatusCreated, StatusQueued, StatusDispatched}"
  using reachable_inv [OF assms(1)] assms(2) by (auto simp: sys_inv_def early_ops_def early_def)

theorem interleaved_statuses_witness:
  "r_status (hd (t_operations (db created_world))) \<in> {StatusCreated, StatusQueued, StatusDispatched}"
proof -
  have "steps (sample_world empty_db, {}) (created_world, {})"
    unfolding created_world_def sample_create_def by (intro r_into_rtranclp step.create)
  from steps_sent [OF this] obtain K where "sql_steps (empty_db, {}) (db created_world, K)" by auto
  moreover have "hd (t_operations (db created_world)) \<in> set (t_operations (db created_world))"
    using created_row by auto
  ultimately show ?thesis by (intro interleaved_statuses) (simp_all add: empty_db_def)
qed

section \<open>Grains\<close>

text \<open>
  C2: the handlers do nothing to the database but send statements: a run of whole handlers, whatever
  fails in them, is a run of the statements that are listed for the structs they have loaded. So what
  holds for every interleaving of statements holds for every interleaving of handlers.
\<close>

theorem handlers_are_statements:
  assumes "steps (w, L) (w', L')"
  shows "\<exists>K. L' \<subseteq> K \<and> sql_steps (db w, L) (db w', K)"
  using steps_sent [OF assms] by simp

theorem handlers_are_statements_witness:
  "\<exists>K. sql_steps (empty_db, {}) (db created_world, K) \<and> db created_world \<noteq> empty_db"
proof -
  have "steps (sample_world empty_db, {}) (created_world, {})"
    unfolding created_world_def sample_create_def by (intro r_into_rtranclp step.create)
  from handlers_are_statements [OF this] show ?thesis
    using created_row by (auto simp: empty_db_def)
qed

section \<open>Rows\<close>

text \<open>
  C9: no interleaving of statements deletes an operation, moves it or rewrites what it was created with: a
  row keeps its place, id, maximum of attempts, creation time, client reference and deadline, its version
  never falls, and as long as the version is the same the whole row is. This needs no assumption on the
  state.
\<close>

theorem interleaved_rows_evolve:
  assumes "sql_steps s s'" and "k < length (t_operations (fst s))"
  shows "k < length (t_operations (fst s')) \<and>
    (let r = t_operations (fst s) ! k; r' = t_operations (fst s') ! k
     in r_id r' = r_id r \<and> r_max_attempts r' = r_max_attempts r \<and>
        r_created_at r' = r_created_at r \<and> r_client_reference r' = r_client_reference r \<and>
        r_deadline r' = r_deadline r \<and> r_version r \<le> r_version r' \<and>
        (r_version r' = r_version r \<longrightarrow> r' = r))"
proof -
  have "row_evolves (t_operations (fst s) ! k) (t_operations (fst s') ! k)"
    "k < length (t_operations (fst s'))"
    using rows_evolving.along_sql_steps [OF assms(1)] assms(2) by (auto simp: ops_evolve_def)
  then show ?thesis by (auto simp: row_evolves_def Let_def)
qed

lemma rows_evolve:
  assumes "steps s s'" and "k < length (t_operations (db (fst s)))"
  shows "k < length (t_operations (db (fst s'))) \<and>
    row_evolves (t_operations (db (fst s)) ! k) (t_operations (db (fst s')) ! k)"
  using steps_evolve [OF assms(1)] assms(2) by (auto simp: ops_evolve_def)

theorem interleaved_rows_evolve_witness:
  "r_version (t_operations (db created_world) ! 0) \<le>
     r_version (t_operations (db (snd (sample_create created_world))) ! 0)"
proof -
  have "steps (created_world, {}) (snd (sample_create created_world), {})"
    unfolding sample_create_def by (intro r_into_rtranclp step.create)
  from steps_sent [OF this] obtain K where
    run: "sql_steps (db created_world, {}) (db (snd (sample_create created_world)), K)" by auto
  from interleaved_rows_evolve [OF run, of 0] created_row show ?thesis
    by (auto simp: Let_def)
qed

section \<open>What cannot be reached\<close>

text \<open>
  In no reachable state does a request for a result succeed, and no retry is accepted: the status
  \<open>COMPLETED\<close> that the one asks for and the statuses \<open>FAILED\<close> and \<open>TIMEOUT\<close> that the other asks for are
  never stored. Unless a call fails, the answers are that the result is not ready and that the state
  does not allow a retry.
\<close>

lemma refused_everywhere:
  assumes "reachable (w, L)"
  shows "isl (fst (result_execute i w)) \<and> isl (fst (retry_execute base i reason w)) \<and>
    (quiet w \<longrightarrow> db_operation i (db w) \<noteq> None \<longrightarrow>
       fst (result_execute i w) = Inl ErrResultNotReady \<and>
       fst (retry_execute base i reason w) = Inl ErrInvalidStateForRetry)"
proof -
  have early: "early (op_status op)" if "db_operation i (db w) = Some op" for op
    using load_backed [OF _ that] reachable_inv [OF assms] by (auto simp: sys_inv_def backed_def)
  obtain r w1 where g: "op_get_by_id i w = (r, w1)" by fastforce
  have "isl (fst (result_execute i w)) \<and> isl (fst (retry_execute base i reason w))"
  proof (cases "\<exists>op. r = Inr (Some op)")
    case True
    then obtain op where r: "r = Inr (Some op)" by blast
    then have "early (op_status op)" using g op_get_Inr [of i w op w1] early by blast
    then show ?thesis using g r
      by (auto simp: result_execute_def retry_execute_def bindE_def retry_loaded_def fail_def
          early_def)
  next
    case False
    then show ?thesis using g
      by (auto simp: result_execute_def retry_execute_def bindE_def fail_def
          split: sum.split option.split)
  qed
  moreover have "fst (result_execute i w) = Inl ErrResultNotReady \<and>
      fst (retry_execute base i reason w) = Inl ErrInvalidStateForRetry"
    if "quiet w" "db_operation i (db w) = Some op" for op
    using op_get_run [OF that(1), of i] that(2) early [OF that(2)]
    by (auto simp: result_execute_def retry_execute_def bindE_def retry_loaded_def fail_def
        early_def)
  ultimately show ?thesis by blast
qed

section \<open>The event log\<close>

text \<open>
  The log of events is append-only: whatever runs, the events that are there stay there, in their
  order, and new ones come behind them. This needs no assumption on the state.
\<close>

lemma event_log_append_only:
  assumes "steps s s'"
  shows "\<exists>es. t_events (db (fst s')) = t_events (db (fst s)) @ es"
  using steps_events_grow [OF assms] by (simp add: events_grow_def)

section \<open>Retries\<close>

text \<open>
  C13: no interleaving of statements, however many retries race and whatever fails, takes an operation
  over its budget: if every row's retry count is within its maximum at the start, it is at every later
  time.
\<close>

theorem interleaved_retry_budget:
  assumes "within_budget d0" and "sql_steps (d0, {}) (d, L)" and "r \<in> set (t_operations d)"
  shows "r_retry_count r \<le> r_max_attempts r"
  using budget_inv_steps [OF assms(2)] assms(1,3) by (auto simp: budget_inv_def within_budget_def)

lemma retry_budget_holds:
  assumes "within_budget (db w0)" and "steps (w0, {}) (w, L)" and "r \<in> set (t_operations (db w))"
  shows "r_retry_count r \<le> r_max_attempts r"
  using steps_within_budget [OF assms(1,2)] assms(3) by (simp add: within_budget_def)

text \<open>Two retries that loaded the same operation race for its last attempt; the second write finds nothing.\<close>

theorem interleaved_retry_budget_witness:
  "\<exists>op d1. db_operation ''op-1'' (sample_db StatusFailed) = Some op \<and>
     op_update_stmt (retried_struct 7 op) (sample_db StatusFailed) = Inr ((), d1) \<and>
     op_update_stmt (retried_struct 8 op) d1 = Inr ((), d1) \<and>
     list_all (\<lambda>r. r_retry_count r \<le> r_max_attempts r) (t_operations d1)"
proof -
  let ?d = "sample_db StatusFailed"
  let ?op = "(sample_operation StatusFailed)\<lparr>op_created_at := 1000, op_updated_at := 2000\<rparr>"
  have get: "db_operation ''op-1'' ?d = Some ?op" by (simp add: sample_loaded)
  have w: "writes ?op (retried_struct now ?op)" for now
    by (rule writes.retry) (simp_all add: sample_operation_def)
  obtain d1 where one: "op_update_stmt (retried_struct 7 ?op) ?d = Inr ((), d1)"
    and two: "op_update_stmt (retried_struct 8 ?op) d1 = Inr ((), d1)"
    by (simp add: op_update_stmt_def op_update_where_def op_row_fits_def op_update_row_def retried_struct_def
        sample_defs op_create_row_def empty_db_def varchar_short sql_ranges err_cols_fit_def
        error_to_cols_def no_err_cols_def null_string_def sql_update_def)
  have "sql_step (?d, {}) (?d, {?op})" by (rule sql_step.load [OF get])
  moreover have "sql_step (?d, {?op}) (d1, {?op})" "sql_step (d1, {?op}) (d1, {?op})"
    by (rule sql_step.run, rule statement.update [OF _ w one], simp)
      (rule sql_step.run, rule statement.update [OF _ w two], simp)
  ultimately have "sql_steps (?d, {}) (d1, {?op})"
    by (meson converse_rtranclp_into_rtranclp r_into_rtranclp)
  moreover have "within_budget ?d"
    using sample_ids_distinct [of StatusFailed]
    by (simp add: within_budget_def sample_defs op_create_row_def)
  ultimately have "r_retry_count r \<le> r_max_attempts r" if "r \<in> set (t_operations d1)" for r
    using interleaved_retry_budget that by blast
  then show ?thesis using get one two by (auto simp: list_all_iff)
qed

end
