(* ===== verification/Config.thy ===== *)
theory Config
  imports World
begin

text \<open>
  Configuration (\<open>config/config.go\<close>): the getters over the environment with their fallbacks, sizes, the
  validation, and the DSN and base URL that \<open>app/bootstrap.go\<close> and \<open>app/router.go\<close> derive from it. The
  environment is a map from names to values.
\<close>

type_synonym env = "string \<Rightarrow> string option"

section \<open>Getters\<close>

definition get_string :: "env \<Rightarrow> string \<Rightarrow> string \<Rightarrow> string" where
  "get_string e key fallback = (case e key of None \<Rightarrow> fallback | Some v \<Rightarrow> v)"

definition get_int :: "env \<Rightarrow> string \<Rightarrow> int \<Rightarrow> int" where
  "get_int e key fallback =
     (case e key of
        None \<Rightarrow> fallback
      | Some v \<Rightarrow> (case parse_int64 v of (n, err) \<Rightarrow> if err then fallback else n))"

text \<open>\<open>strconv.ParseBool\<close>.\<close>

definition parse_bool :: "string \<Rightarrow> bool option" where
  "parse_bool s =
     (if s \<in> set [''1'', ''t'', ''T'', ''true'', ''TRUE'', ''True''] then Some True
      else if s \<in> set [''0'', ''f'', ''F'', ''false'', ''FALSE'', ''False''] then Some False
      else None)"

definition get_bool :: "env \<Rightarrow> string \<Rightarrow> bool \<Rightarrow> bool" where
  "get_bool e key fallback =
     (case e key of
        None \<Rightarrow> fallback
      | Some v \<Rightarrow> (case parse_bool v of None \<Rightarrow> fallback | Some b \<Rightarrow> b))"

text \<open>
  \<open>time.ParseDuration\<close>: a sign, then the number 0 alone, or a sequence of decimal numbers each with a
  fraction and a unit. A value that does not fit an int64 is an error. The units are tried longest
  first; the micro sign is its UTF-8 encoding. The fraction is truncated to whole nanoseconds.
\<close>

definition duration_units :: "(string \<times> int) list" where
  "duration_units =
     [(''ns'', 1), (''us'', 1000), ([CHR 0xC2, CHR 0xB5] @ ''s'', 1000),
      ([CHR 0xCE, CHR 0xBC] @ ''s'', 1000), (''ms'', 1000000), (''s'', 1000000000),
      (''m'', 60000000000), (''h'', 3600000000000)]"

definition is_unit_char :: "char \<Rightarrow> bool" where
  "is_unit_char c = (\<not> is_digit c \<and> c \<noteq> CHR ''.'')"

lemma length_dropWhile_less: "takeWhile P s \<noteq> [] \<Longrightarrow> length (dropWhile P s) < length s"
  by (cases s) (auto simp: length_dropWhile_le le_imp_less_Suc split: if_splits)

function parse_duration_terms :: "string \<Rightarrow> int \<Rightarrow> int option" where
  "parse_duration_terms s acc =
     (if s = [] then Some acc
      else
        (let whole = takeWhile is_digit s; r1 = dropWhile is_digit s;
             dot = (r1 \<noteq> [] \<and> hd r1 = CHR ''.'');
             frac = (if dot then takeWhile is_digit (tl r1) else []);
             r2 = (if dot then dropWhile is_digit (tl r1) else r1);
             u = takeWhile is_unit_char r2
         in if whole = [] \<and> frac = [] \<or> u = [] then None
            else case map_of duration_units u of
              None \<Rightarrow> None
            | Some k \<Rightarrow>
                (let v = acc + int (digits_value whole) * k +
                         int (digits_value frac) * k div 10 ^ length frac
                 in if v > 2 ^ 63 then None
                    else parse_duration_terms (dropWhile is_unit_char r2) v)))"
  by pat_completeness auto

termination
proof (relation "measure (\<lambda>(s, _). length s)", simp)
  fix s whole r1 u :: string and frac r2 :: string and dot and acc k v :: int
  assume r1: "r1 = dropWhile is_digit s" and d: "dot = (r1 \<noteq> [] \<and> hd r1 = CHR ''.'')"
    and r2: "r2 = (if dot then dropWhile is_digit (tl r1) else r1)"
    and u: "u = takeWhile is_unit_char r2"
    and n: "\<not> (whole = [] \<and> frac = [] \<or> u = [])"
  have "length (dropWhile is_unit_char r2) < length r2"
    using n u by (intro length_dropWhile_less) simp
  also have "length r2 \<le> length r1"
    unfolding r2 by (auto intro: le_trans [OF length_dropWhile_le])
  also have "length r1 \<le> length s" unfolding r1 by (rule length_dropWhile_le)
  finally show "((dropWhile is_unit_char r2, v), s, acc) \<in> measure (\<lambda>(s, _). length s)" by simp
qed

declare parse_duration_terms.simps [simp del]

definition parse_duration :: "string \<Rightarrow> int option" where
  "parse_duration s =
     (let neg = (s \<noteq> [] \<and> hd s = CHR ''-'');
          body = (if s \<noteq> [] \<and> (hd s = CHR ''-'' \<or> hd s = CHR ''+'') then tl s else s)
      in if body = ''0'' then Some 0
         else if body = [] then None
         else case parse_duration_terms body 0 of
           None \<Rightarrow> None
         | Some d \<Rightarrow> if neg then Some (- d) else if d > max_int64 then None else Some d)"

definition get_duration :: "env \<Rightarrow> string \<Rightarrow> int \<Rightarrow> int" where
  "get_duration e key fallback =
     (case e key of
        None \<Rightarrow> fallback
      | Some v \<Rightarrow> (case parse_duration v of None \<Rightarrow> fallback | Some d \<Rightarrow> d))"

section \<open>Sizes\<close>

text \<open>The error of \<open>ParseInt\<close> is dropped; the product is an int64 product.\<close>

type_synonym int64 = "64 word"

definition parse_size :: "string \<Rightarrow> int64" where
  "parse_size s =
     (let num = (\<lambda>t. word_of_int (fst (parse_int64 t)) :: int64) in
      if s = [] then 1048576
      else if has_suffix s ''KiB'' then num (trim_suffix s ''KiB'') * 1024
      else if has_suffix s ''MiB'' then num (trim_suffix s ''MiB'') * 1024 * 1024
      else if has_suffix s ''GiB'' then num (trim_suffix s ''GiB'') * 1024 * 1024 * 1024
      else num s)"

section \<open>The configuration\<close>

record http_config =
  h_host :: string
  h_port :: string
  h_read_timeout :: int
  h_idle_timeout :: int
  h_shutdown_timeout :: int
  h_cors_origin :: string

record db_config =
  d_host :: string
  d_port :: string
  d_name :: string
  d_username :: string
  d_password :: string
  d_max_open_conns :: int
  d_max_idle_conns :: int
  d_conn_max_lifetime :: int
  d_conn_max_idle_time :: int
  d_connect_timeout :: int

record nats_config =
  n_url :: string
  n_connect_timeout :: int
  n_reconnect_period :: int
  n_max_reconnect :: int
  n_drain_timeout :: int
  n_stream_name :: string

record node_settings =
  ns_id :: string
  ns_role :: string
  ns_incarnation_id :: string
  ns_heartbeat_interval :: int
  ns_heartbeat_timeout :: int

record file_settings =
  f_path :: string
  f_chunk_size :: string
  f_max_size :: string
  f_transfer_timeout :: int
  f_chunk_ack_timeout :: int

record operation_settings =
  o_operation_timeout :: int
  o_command_action_timeout :: int
  o_processing_timeout :: int

record elastic_config =
  e_enabled :: bool
  e_url :: string
  e_username :: string
  e_password :: string
  e_index :: string
  e_workers :: int
  e_channel_cap :: int
  e_flush_bytes :: int
  e_flush_interval :: int
  e_max_retries :: int
  e_dlq_path :: string

record app_settings =
  a_app_name :: string
  a_app_env :: string
  a_gin_mode :: string

record application_config =
  cf_app :: app_settings
  cf_http :: http_config
  cf_db :: db_config
  cf_nats :: nats_config
  cf_node :: node_settings
  cf_file :: file_settings
  cf_operation :: operation_settings
  cf_elastic :: elastic_config

definition load_http :: "env \<Rightarrow> http_config" where
  "load_http e =
     \<lparr>h_host = get_string e ''HTTP_HOST'' ''0.0.0.0'', h_port = get_string e ''HTTP_PORT'' ''8080'',
      h_read_timeout = get_duration e ''HTTP_READ_HEADER_TIMEOUT'' (seconds 5),
      h_idle_timeout = get_duration e ''HTTP_IDLE_TIMEOUT'' (seconds 60),
      h_shutdown_timeout = get_duration e ''HTTP_SHUTDOWN_TIMEOUT'' (seconds 10),
      h_cors_origin = get_string e ''CORS_ALLOWED_ORIGINS'' ''http://localhost:3000''\<rparr>"

definition load_db :: "env \<Rightarrow> db_config" where
  "load_db e =
     \<lparr>d_host = get_string e ''DB_HOST'' ''127.0.0.1'', d_port = get_string e ''DB_PORT'' ''3306'',
      d_name = get_string e ''DB_NAME'' ''file_service'', d_username = get_string e ''DB_USER'' ''app'',
      d_password = get_string e ''DB_PASSWORD'' ''secret'',
      d_max_open_conns = get_int e ''DB_MAX_OPEN_CONNS'' 20,
      d_max_idle_conns = get_int e ''DB_MAX_IDLE_CONNS'' 10,
      d_conn_max_lifetime = get_duration e ''DB_CONN_MAX_LIFETIME'' (minutes 30),
      d_conn_max_idle_time = get_duration e ''DB_CONN_MAX_IDLE_TIME'' (minutes 5),
      d_connect_timeout = get_duration e ''DB_CONNECT_TIMEOUT'' (seconds 5)\<rparr>"

definition load_nats :: "env \<Rightarrow> nats_config" where
  "load_nats e =
     \<lparr>n_url = get_string e ''NATS_URL'' ''nats://localhost:4222'',
      n_connect_timeout = get_duration e ''NATS_CONNECT_TIMEOUT'' (seconds 5),
      n_reconnect_period = get_duration e ''NATS_RECONNECT_WAIT'' (seconds 2),
      n_max_reconnect = get_int e ''NATS_MAX_RECONNECTS'' (- 1),
      n_drain_timeout = get_duration e ''NATS_DRAIN_TIMEOUT'' (seconds 10),
      n_stream_name = get_string e ''NATS_STREAM_NAME'' ''FILE_SERVICE''\<rparr>"

text \<open>The incarnation id is generated whether or not the environment names one.\<close>

definition load_node :: "env \<Rightarrow> string \<Rightarrow> node_settings" where
  "load_node e incarnation =
     \<lparr>ns_id = get_string e ''NODE_ID'' ''node-1'', ns_role = get_string e ''NODE_ROLE'' ''entry'',
      ns_incarnation_id = get_string e ''NODE_INCARNATION_ID'' incarnation,
      ns_heartbeat_interval = get_duration e ''NODE_HEARTBEAT_INTERVAL'' (seconds 5),
      ns_heartbeat_timeout = get_duration e ''NODE_HEARTBEAT_TIMEOUT'' (seconds 15)\<rparr>"

definition load_file :: "env \<Rightarrow> file_settings" where
  "load_file e =
     \<lparr>f_path = get_string e ''FILE_STAGING_DIR'' ''/tmp/transfers'',
      f_chunk_size = get_string e ''FILE_CHUNK_SIZE'' ''1MiB'',
      f_max_size = get_string e ''FILE_MAX_SIZE'' ''1GiB'',
      f_transfer_timeout = get_duration e ''FILE_TRANSFER_TIMEOUT'' (minutes 30),
      f_chunk_ack_timeout = get_duration e ''FILE_CHUNK_ACK_TIMEOUT'' (seconds 10)\<rparr>"

definition load_operation :: "env \<Rightarrow> operation_settings" where
  "load_operation e =
     \<lparr>o_operation_timeout = get_duration e ''OPERATION_TIMEOUT'' (minutes 30),
      o_command_action_timeout = get_duration e ''COMMAND_ACK_TIMEOUT'' (seconds 10),
      o_processing_timeout = get_duration e ''PROCESSING_TIMEOUT'' (minutes 10)\<rparr>"

definition load_elastic :: "env \<Rightarrow> elastic_config" where
  "load_elastic e =
     \<lparr>e_enabled = get_bool e ''ELASTIC_ENABLED'' False,
      e_url = get_string e ''ELASTIC_URL'' ''http://localhost:9200'',
      e_username = get_string e ''ELASTIC_USER'' ''elastic'',
      e_password = get_string e ''ELASTIC_PASSWORD'' ''changeme'',
      e_index = get_string e ''ELASTIC_INDEX_PREFIX'' ''file-service-operation-completed'',
      e_workers = get_int e ''ELASTIC_WORKERS'' 2,
      e_channel_cap = get_int e ''ELASTIC_CHANNEL_CAP'' 1000,
      e_flush_bytes = get_int e ''ELASTIC_FLUSH_BYTES'' 5242880,
      e_flush_interval = get_duration e ''ELASTIC_FLUSH_INTERVAL'' (seconds 5),
      e_max_retries = get_int e ''ELASTIC_MAX_RETRIES'' 5,
      e_dlq_path = get_string e ''ELASTIC_DLQ_PATH'' ''/tmp/update/es-dead-letter''\<rparr>"

text \<open>The first argument is \<open>gin.DebugMode\<close>, a constant of the web framework.\<close>

definition load_app :: "string \<Rightarrow> env \<Rightarrow> app_settings" where
  "load_app debug_mode e =
     \<lparr>a_app_name = get_string e ''APP_NAME'' ''node-service'',
      a_app_env = get_string e ''APP_ENV'' ''development'',
      a_gin_mode = get_string e ''GIN_MODE'' debug_mode\<rparr>"

definition load_config :: "string \<Rightarrow> env \<Rightarrow> application_config io" where
  "load_config debug_mode e =
     bindE (generate_id ''inc'') (\<lambda>inc.
     ret \<lparr>cf_app = load_app debug_mode e, cf_http = load_http e, cf_db = load_db e,
          cf_nats = load_nats e, cf_node = load_node e inc, cf_file = load_file e,
          cf_operation = load_operation e, cf_elastic = load_elastic e\<rparr>)"

definition validate :: "application_config \<Rightarrow> go_error option" where
  "validate c =
     (if ns_id (cf_node c) = [] then Some (ErrMsg ''NODE_ID is required'')
      else if ns_role (cf_node c) = [] then Some (ErrMsg ''NODE_ROLE is required'')
      else if n_url (cf_nats c) = [] then Some (ErrMsg ''NATS_URL is required'')
      else if d_host (cf_db c) = [] then Some (ErrMsg ''DB_HOST is required'')
      else if d_name (cf_db c) = [] then Some (ErrMsg ''DB_NAME is required'')
      else if d_username (cf_db c) = [] then Some (ErrMsg ''DB_USER is required'')
      else None)"

section \<open>Derived settings\<close>

definition build_dsn :: "db_config \<Rightarrow> string" where
  "build_dsn c =
     d_username c @ '':'' @ d_password c @ ''@tcp('' @
     (if d_host c = ''localhost'' then ''127.0.0.1'' else d_host c) @ '':'' @ d_port c @ '')/'' @
     d_name c @ ''?parseTime=true&multiStatements=true''"

text \<open>\<open>RegisterRouter\<close>: the origin allowed by CORS, without a final slash, is the base of every URL.\<close>

definition base_url :: "http_config \<Rightarrow> string" where
  "base_url c =
     (if h_cors_origin c \<noteq> [] then trim_suffix (h_cors_origin c) ''/''
      else ''http://'' @ h_host c @ '':'' @ h_port c)"

definition staging_dir :: "file_settings \<Rightarrow> string" where
  "staging_dir c = (if f_path c = [] then ''/tmp/file-service-staging'' else f_path c)"

definition max_file_size :: "file_settings \<Rightarrow> int" where
  "max_file_size c = sint (parse_size (f_max_size c))"

section \<open>Facts\<close>

definition size_units :: "(string \<times> int) list" where
  "size_units = [(''KiB'', 1024), (''MiB'', 1024 * 1024), (''GiB'', 1024 * 1024 * 1024)]"

lemma no_unit_on_digits:
  "list_all is_digit s \<Longrightarrow> \<not> has_suffix s ''KiB'' \<and> \<not> has_suffix s ''MiB'' \<and> \<not> has_suffix s ''GiB''"
proof -
  assume d: "list_all is_digit s"
  have "\<not> has_suffix s (p @ [CHR ''B''])" for p
  proof
    assume "has_suffix s (p @ [CHR ''B''])"
    then have "CHR ''B'' \<in> set (drop (length s - length (p @ [CHR ''B''])) s)"
      by (simp add: has_suffix_def)
    then have "CHR ''B'' \<in> set s" by (rule in_set_dropD)
    then show False using d by (auto simp: list_all_iff is_digit_def)
  qed
  from this [of "''Ki''"] this [of "''Mi''"] this [of "''Gi''"] show ?thesis by simp
qed

text \<open>A size in a unit is the number times the factor, as an int64.\<close>

lemma parse_size_unit:
  assumes "(u, k) \<in> set size_units"
  shows "parse_size (show_base 10 n @ u) = word_of_int (fst (parse_int64 (show_base 10 n)) * k)"
proof -
  have ne: "show_base 10 n @ u \<noteq> []" by simp
  consider "u = ''KiB'' \<and> k = 1024" | "u = ''MiB'' \<and> k = 1024 * 1024" |
    "u = ''GiB'' \<and> k = 1024 * 1024 * 1024"
    using assms by (auto simp: size_units_def)
  then show ?thesis
    using ne
    by cases (simp_all add: parse_size_def has_suffix_append_longer has_suffix_def
        trim_suffix_append Let_def mult.assoc)
qed

lemma parse_size_plain:
  "parse_size (show_base 10 n) = word_of_int (fst (parse_int64 (show_base 10 n)))"
  using no_unit_on_digits [OF show_base_10_digits, of n] by (simp add: parse_size_def Let_def)

lemma sint_word_of_int_64:
  "sint (word_of_int i :: int64) = (i + 2 ^ 63) mod 2 ^ 64 - 2 ^ 63"
  by (simp add: sint_uint uint_word_of_int signed_take_bit_eq_take_bit_shift take_bit_eq_mod
      mod_simps)

lemma sint_word_of_int_small:
  "- (2 ^ 63) \<le> i \<Longrightarrow> i < 2 ^ 63 \<Longrightarrow> sint (word_of_int i :: int64) = i"
  by (simp add: sint_word_of_int_64)

end
