(* ===== verification/Config_Properties.thy ===== *)
theory Config_Properties
  imports Config Samples
begin

text \<open>
  Properties of the configuration: how sizes and durations are read, wrap-around included, and which
  environments are accepted.
\<close>

section \<open>Sizes\<close>

text \<open>
  C40: a size of digits and a unit, or of digits alone, is the number times the unit as an int64: exact
  below 2^63, and wrapped around beyond, so that a large limit reads as a negative or a small one. The
  number itself has to fit an int64.
\<close>

theorem size_wraps:
  assumes "(u, k) \<in> set (([], 1) # size_units)" and "int n \<le> max_int64"
  shows "sint (parse_size (show_base 10 n @ u)) = (int n * k + 2 ^ 63) mod 2 ^ 64 - 2 ^ 63"
proof -
  have n: "fst (parse_int64 (show_base 10 n)) = int n" using assms(2) by (simp add: parse_int64_show)
  show ?thesis
  proof (cases "(u, k) \<in> set size_units")
    case True
    from parse_size_unit [OF this, of n] show ?thesis by (simp only: n sint_word_of_int_64)
  next
    case False
    then have "u = []" "k = 1" using assms(1) by auto
    then show ?thesis
      by (simp only: append_Nil2 parse_size_plain n sint_word_of_int_64 mult_1_right)
  qed
qed

theorem size_wraps_witness:
  "sint (parse_size (show_base 10 8589934592 @ ''GiB'')) = - (2 ^ 63)"
proof -
  have "sint (parse_size (show_base 10 8589934592 @ ''GiB'')) =
      (int 8589934592 * (1024 * 1024 * 1024) + 2 ^ 63) mod 2 ^ 64 - 2 ^ 63"
    by (rule size_wraps) (simp_all add: size_units_def max_int64_def)
  then show ?thesis by simp
qed

section \<open>Durations\<close>

lemma digits_then_unit:
  assumes "list_all is_digit s" and "u \<noteq> []" and "\<not> is_digit (hd u)"
  shows "takeWhile is_digit (s @ u) = s" "dropWhile is_digit (s @ u) = u"
  using assms by (cases u; auto simp: list_all_iff)+

lemma duration_units_chars:
  "(u, k) \<in> set duration_units \<Longrightarrow> u \<noteq> [] \<and> \<not> is_digit (hd u) \<and> hd u \<noteq> CHR ''.'' \<and>
     list_all is_unit_char u \<and> map_of duration_units u = Some k"
  by (auto simp: duration_units_def is_unit_char_def is_digit_def)

text \<open>
  A duration of digits and one of the units from \<open>ns\<close> to \<open>h\<close> is the number times the unit, when that
  fits an int64; a larger one is an error, and the setting then falls back to its default.
\<close>

lemma duration_in_unit:
  assumes "(u, k) \<in> set duration_units"
  shows "get_duration (e(key \<mapsto> show_base 10 n @ u)) key fallback =
    (if int n * k \<le> max_int64 then int n * k else fallback)"
proof -
  let ?s = "show_base 10 n @ u"
  note u = duration_units_chars [OF assms]
  have k: "0 < k" using assms by (auto simp: duration_units_def)
  have hd: "is_digit (hd ?s)" using show_base_10_hd_digit [of n] by simp
  then have sign: "hd ?s \<noteq> CHR ''-''" "hd ?s \<noteq> CHR ''+''" by (auto simp: is_digit_def)
  have ne: "?s \<noteq> ''0''"
  proof
    assume "?s = ''0''"
    then have "list_all is_digit ?s" by (simp add: is_digit_def)
    then show False using u by (cases u) auto
  qed
  have whole: "takeWhile is_digit ?s = show_base 10 n" "dropWhile is_digit ?s = u"
    using digits_then_unit [OF show_base_10_digits] u by auto
  have unit: "takeWhile is_unit_char u = u" "dropWhile is_unit_char u = []"
    using u by (auto simp: list_all_iff takeWhile_eq_all_conv)
  have "parse_duration_terms ?s 0 = (if int n * k > 2 ^ 63 then None else Some (int n * k))"
    using u k by (subst parse_duration_terms.simps)
      (simp add: whole unit Let_def digits_value_show parse_duration_terms.simps [of "[]"] digits_value_def [of "[]"])
  then show ?thesis
    using ne sign by (simp add: get_duration_def parse_duration_def Let_def max_int64_def)
qed

section \<open>Validation\<close>

lemma get_string_empty: "d \<noteq> [] \<Longrightarrow> get_string e k d = [] \<longleftrightarrow> e k = Some []"
  by (auto simp: get_string_def split: option.split)

lemma load_config_fields:
  assumes "load_config debug_mode e w = (Inr c, w')"
  shows "ns_id (cf_node c) = get_string e ''NODE_ID'' ''node-1''"
    "ns_role (cf_node c) = get_string e ''NODE_ROLE'' ''entry''"
    "n_url (cf_nats c) = get_string e ''NATS_URL'' ''nats://localhost:4222''"
    "d_host (cf_db c) = get_string e ''DB_HOST'' ''127.0.0.1''"
    "d_name (cf_db c) = get_string e ''DB_NAME'' ''file_service''"
    "d_username (cf_db c) = get_string e ''DB_USER'' ''app''"
proof -
  obtain inc where "c = \<lparr>cf_app = load_app debug_mode e, cf_http = load_http e, cf_db = load_db e,
          cf_nats = load_nats e, cf_node = load_node e inc, cf_file = load_file e,
          cf_operation = load_operation e, cf_elastic = load_elastic e\<rparr>"
    using assms by (auto simp: load_config_def generate_id_simp bindE_def ret_def)
  then show "ns_id (cf_node c) = get_string e ''NODE_ID'' ''node-1''"
    "ns_role (cf_node c) = get_string e ''NODE_ROLE'' ''entry''"
    "n_url (cf_nats c) = get_string e ''NATS_URL'' ''nats://localhost:4222''"
    "d_host (cf_db c) = get_string e ''DB_HOST'' ''127.0.0.1''"
    "d_name (cf_db c) = get_string e ''DB_NAME'' ''file_service''"
    "d_username (cf_db c) = get_string e ''DB_USER'' ''app''"
    by (simp_all add: load_node_def load_nats_def load_db_def)
qed

text \<open>
  A loaded configuration is rejected exactly when one of six variables is set to the empty string:
  a variable that is not set has a default that is not empty. The id of the node, its role, the URL of
  NATS and the host, name and user of the database are looked at, the rest is not.
\<close>

lemma config_accepted_iff:
  assumes "load_config debug_mode e w = (Inr c, w')"
  shows "validate c = None \<longleftrightarrow>
    list_all (\<lambda>v. e v \<noteq> Some [])
      [''NODE_ID'', ''NODE_ROLE'', ''NATS_URL'', ''DB_HOST'', ''DB_NAME'', ''DB_USER'']"
  by (simp add: validate_def load_config_fields [OF assms] get_string_empty)

end
