(* ===== verification/Http.thy ===== *)
theory Http
  imports File_Op Cancel_Retry Query_Ops
begin

text \<open>
  The HTTP handlers (\<open>operation/handler.go\<close>), the middleware (\<open>app/middleware.go\<close>) and the routes
  (\<open>app/router.go\<close>). A request is given by its method, path and headers and by what the standard
  library's parsers make of its query and body: the first JSON value, if there is one, the bytes, and
  the multipart form. Of the gin context the model keeps what the code uses: the headers and JSON
  bodies written, the request id and the list of errors.
\<close>

section \<open>Requests, contexts and the application\<close>

datatype form = FormMalformed | FormWithoutFile | FormFile bytes

record http_request =
  hr_method :: string
  hr_path :: string
  hr_headers :: "string \<Rightarrow> string"
  hr_query :: "string \<Rightarrow> string"
  hr_json :: "json option"
  hr_body :: bytes
  hr_form :: form
  hr_content_length :: int

record http_context =
  cx_headers :: "(string \<times> string) list"
  cx_request_id :: "string option"
  cx_errors :: "string list"
  cx_writes :: "(int \<times> json) list"

definition empty_context :: http_context where
  "empty_context = \<lparr>cx_headers = [], cx_request_id = None, cx_errors = [], cx_writes = []\<rparr>"

type_synonym handler = "http_request \<Rightarrow> http_context \<Rightarrow> http_context io"

text \<open>\<open>c.JSON(code, body)\<close>. The first status written is the one the client gets.\<close>

definition http_json :: "int \<Rightarrow> json \<Rightarrow> http_context \<Rightarrow> http_context io" where
  "http_json code body cx = ret (cx\<lparr>cx_writes := cx_writes cx @ [(code, body)]\<rparr>)"

definition cx_status :: "http_context \<Rightarrow> int" where
  "cx_status cx = (case cx_writes cx of [] \<Rightarrow> 200 | (code, _) # _ \<Rightarrow> code)"

definition error_body :: "string \<Rightarrow> json" where
  "error_body msg = JObj [(''error'', JStr msg)]"

record create_request =
  cr_processor :: string
  cr_options :: json_map
  cr_metadata :: json_map
  cr_deadline :: "int option"
  cr_max_attempts :: "int option"
  cr_client_reference :: string

text \<open>
  The use cases with what they are built with. The validator library, which checks the tags of a
  decoded request, is a parameter, and so is the text of a foreign error; the connection to NATS is
  absent, or present and connected or not.
\<close>

record http_app =
  ha_base :: string
  ha_file :: file_config
  ha_key_columns :: "string list"
  ha_validate :: "create_request \<Rightarrow> string option"
  ha_foreign :: "string \<Rightarrow> string"
  ha_nats :: "bool option"

text \<open>\<open>err.Error()\<close>.\<close>

fun error_text :: "(string \<Rightarrow> string) \<Rightarrow> go_error \<Rightarrow> string" where
  "error_text ext ErrOperationNotFound = ''operation not found''"
| "error_text ext ErrPortsOperationNotFound = ''operation not found''"
| "error_text ext ErrAlreadyTerminal = ''operation is in terminal state, cancellation not applicable''"
| "error_text ext ErrInvalidState = ''operation not in CREATED state''"
| "error_text ext ErrInvalidStateForRetry =
     ''operation not in FAILED or TIMEOUT state, or retry not allowed''"
| "error_text ext ErrResultNotReady = ''result not ready - operation not COMPLETED''"
| "error_text ext ErrResultExpired = ''result expired - removed by retention policy''"
| "error_text ext ErrNoHealthyWorker = ''no healthy worker available''"
| "error_text ext ErrInvalidTransition = ''invalid operation status transition''"
| "error_text ext ErrVersionMismatch = ''version mismatch: operation was modified concurrently''"
| "error_text ext ErrInvalidStateForOp = ''operation not in valid state for this action''"
| "error_text ext (ErrExternal s) = ext s"
| "error_text ext (ErrSQL s) = ext s"
| "error_text ext (ErrMsg s) = s"
| "error_text ext (ErrWrap m e) = m @ '': '' @ error_text ext e"
| "error_text ext (Panic s) = ext s"

definition internal_error :: "http_app \<Rightarrow> go_error \<Rightarrow> http_context \<Rightarrow> http_context io" where
  "internal_error app e = http_json 500 (error_body (error_text (ha_foreign app) e))"

text \<open>The status that a table of sentinel errors gives an error, with 500 for the rest.\<close>

fun error_response :: "http_app \<Rightarrow> (go_error \<times> int \<times> string) list \<Rightarrow> go_error \<Rightarrow> http_context \<Rightarrow>
  http_context io" where
  "error_response app [] e = internal_error app e"
| "error_response app ((t, code, msg) # ts) e =
     (if errors_is e t then http_json code (error_body msg) else error_response app ts e)"

section \<open>Decoding\<close>

text \<open>\<open>Time.UnmarshalJSON\<close>: RFC 3339 with \<open>Z\<close> or an offset; fraction digits beyond nine are dropped.\<close>

definition parse_time :: "string \<Rightarrow> int option" where
  "parse_time s =
     (let cut = (\<lambda>b. if list_all is_digit (drop 29 b) then take 29 b else b);
          off = drop (length s - 6) s;
          num = (\<lambda>i. int (digits_value (take 2 (drop i off))))
      in if s \<noteq> [] \<and> last s = CHR ''Z'' then parse_rfc3339 (cut (butlast s) @ ''Z'')
         else if length s < 6 \<or> hd off \<notin> {CHR ''+'', CHR ''-''} \<or> off ! 3 \<noteq> CHR '':'' \<or>
                 \<not> list_all is_digit (take 2 (drop 1 off)) \<or>
                 \<not> list_all is_digit (take 2 (drop 4 off)) \<or> num 1 > 23 \<or> num 4 > 59 then None
         else map_option (\<lambda>t. t - (if hd off = CHR ''-'' then - 1 else 1) *
                (num 1 * 3600 + num 4 * 60) * 1000000000)
              (parse_rfc3339 (cut (take (length s - 6) s) @ ''Z'')))"

definition struct_opt_time :: "json_map \<Rightarrow> string \<Rightarrow> int option option" where
  "struct_opt_time m tag =
     foldl (\<lambda>acc v. case acc of None \<Rightarrow> None | Some x \<Rightarrow>
       (case v of JStr t \<Rightarrow> map_option Some (parse_time t) | JNull \<Rightarrow> Some None | _ \<Rightarrow> None))
       (Some None) (struct_values m tag)"

definition struct_int_from :: "int \<Rightarrow> json_map \<Rightarrow> string \<Rightarrow> int option" where
  "struct_int_from zero m tag =
     foldl (\<lambda>acc v. case acc of None \<Rightarrow> None | Some x \<Rightarrow>
       (case v of JInt i \<Rightarrow> if min_int64 \<le> i \<and> i \<le> max_int64 then Some i else None
        | JNull \<Rightarrow> Some x | _ \<Rightarrow> None)) (Some zero) (struct_values m tag)"

definition struct_retry_policy :: "json_map \<Rightarrow> string \<Rightarrow> int option option" where
  "struct_retry_policy m tag =
     foldl (\<lambda>acc v. case acc of None \<Rightarrow> None | Some x \<Rightarrow>
       (case v of
          JObj p \<Rightarrow> map_option Some
            (struct_int_from (case x of None \<Rightarrow> 0 | Some i \<Rightarrow> i) p ''max_attempts'')
        | JNull \<Rightarrow> Some None | _ \<Rightarrow> None)) (Some None) (struct_values m tag)"

definition decode_create :: "json \<Rightarrow> create_request option" where
  "decode_create j =
     (case j of
        JObj m \<Rightarrow>
          (case (struct_string m ''processor'', struct_map m ''options'', struct_map m ''metadata'') of
             (Some p, Some opts, Some meta) \<Rightarrow>
               (case (struct_opt_time m ''deadline'', struct_retry_policy m ''retry_policy'',
                      struct_string m ''client_reference'') of
                  (Some d, Some rp, Some ref) \<Rightarrow>
                    Some \<lparr>cr_processor = p, cr_options = opts, cr_metadata = meta, cr_deadline = d,
                          cr_max_attempts = rp, cr_client_reference = ref\<rparr>
                | _ \<Rightarrow> None)
           | _ \<Rightarrow> None)
      | JNull \<Rightarrow> Some \<lparr>cr_processor = [], cr_options = [], cr_metadata = [], cr_deadline = None,
                       cr_max_attempts = None, cr_client_reference = []\<rparr>
      | _ \<Rightarrow> None)"

definition decode_reason :: "json \<Rightarrow> string option" where
  "decode_reason j =
     (case j of JObj m \<Rightarrow> struct_string m ''reason'' | JNull \<Rightarrow> Some [] | _ \<Rightarrow> None)"


section \<open>Handlers\<close>

definition create_operations :: "http_app \<Rightarrow> handler" where
  "create_operations app rq cx =
     (if hr_headers rq ''Idempotency-Key'' = [] then
        http_json 400 (error_body ''Idempotency-Key header is required'') cx
      else
        (case Option.bind (hr_json rq) decode_create of
           None \<Rightarrow> http_json 400 (error_body ''invalid JSON body'') cx
         | Some r \<Rightarrow>
             (case ha_validate app r of
                Some e \<Rightarrow> http_json 422 (JObj [(''details'', JStr e), (''error'', JStr ''validation failed'')]) cx
              | None \<Rightarrow>
                  bindE (attempt (create_execute (ha_key_columns app) (ha_base app)
                    \<lparr>ci_processor = cr_processor r, ci_options = cr_options r,
                     ci_metadata = cr_metadata r, ci_deadline = cr_deadline r,
                     ci_retry_policy = cr_max_attempts r,
                     ci_client_reference = cr_client_reference r\<rparr>
                    (hr_headers rq ''Idempotency-Key'') (hr_method rq) (hr_path rq))) (\<lambda>res.
                  case res of
                    Inl e \<Rightarrow> internal_error app e cx
                  | Inr out \<Rightarrow> http_json 202 (JObj
                      [(''created_at'', JStr (rfc3339 (co_created_at out))),
                       (''operation_id'', JStr (co_operation_id out)),
                       (''result_url'', JStr (co_result_url out)),
                       (''stage'', JStr (op_stage_string (co_stage out))),
                       (''status'', JStr (op_status_string (co_status out))),
                       (''status_url'', JStr (co_status_url out)),
                       (''upload_target'', marshal_upload_target (co_upload_target out)),
                       (''version'', JInt (co_version out))]) cx))))"

definition non_empty :: "string \<Rightarrow> string option" where
  "non_empty s = (if s = [] then None else Some s)"

definition list_item :: "operation \<Rightarrow> json" where
  "list_item op =
     JObj [(''created_at'', JStr (rfc3339 (op_created_at op))),
           (''max_attempts'', JInt (op_max_attempts op)), (''operation_id'', JStr (op_id op)),
           (''processor'', JStr (op_processor op)), (''retry_count'', JInt (op_retry_count op)),
           (''stage'', JStr (op_stage_string (op_stage op))),
           (''status'', JStr (op_status_string (op_status op))),
           (''updated_at'', JStr (rfc3339 (op_updated_at op))), (''version'', JInt (op_version op))]"

text \<open>The page size is always 50: the query parameter \<open>limit\<close> is not looked at.\<close>

definition list_operations :: "http_app \<Rightarrow> handler" where
  "list_operations app rq cx =
     bindE (attempt (list_execute
       \<lparr>fl_status = map_option op_status_of_string (non_empty (hr_query rq ''status'')),
        fl_processor = non_empty (hr_query rq ''processor''),
        fl_cursor = non_empty (hr_query rq ''cursor''), fl_limit = 50\<rparr>)) (\<lambda>res.
       case res of
         Inl e \<Rightarrow> internal_error app e cx
       | Inr out \<Rightarrow> http_json 200 (JObj
           [(''items'', JArr (map list_item (lo_operations out))),
            (''next_cursor'', (case lo_next_cursor out of None \<Rightarrow> JNull | Some s \<Rightarrow> JStr s))]) cx)"

definition opt_member :: "string \<Rightarrow> ('a \<Rightarrow> json) \<Rightarrow> 'a option \<Rightarrow> json_map" where
  "opt_member k f v = (case v of None \<Rightarrow> [] | Some x \<Rightarrow> [(k, f x)])"

definition input_file_body :: "input_file \<Rightarrow> json" where
  "input_file_body f =
     JObj [(''file_name'', JStr (if_file_name f)), (''sha256'', JStr (if_sha256 f)),
           (''size_bytes'', JInt (if_size_bytes f))]"

definition operation_body :: "string \<Rightarrow> operation \<Rightarrow> json" where
  "operation_body base op =
     JObj (opt_member ''cancel_requested_at'' (\<lambda>t. JStr (rfc3339 t)) (op_cancel_requested_at op) @
       [(''created_at'', JStr (rfc3339 (op_created_at op)))] @
       opt_member ''current_attempt_id'' JStr (op_current_attempt_id op) @
       opt_member ''current_job_id'' JStr (op_current_job_id op) @
       opt_member ''current_transfer_id'' JStr (op_current_transfer_id op) @
       opt_member ''deadline'' (\<lambda>t. JStr (rfc3339 t)) (op_deadline op) @
       opt_member ''error'' (\<lambda>e. JObj [(''code'', JStr (err_code e)), (''message'', JStr (err_message e))])
         (op_error op) @
       opt_member ''input_file'' input_file_body (op_input_file op) @
       [(''max_attempts'', JInt (op_max_attempts op)), (''operation_id'', JStr (op_id op)),
        (''processor'', JStr (op_processor op)),
        (''result_url'', JStr (base @ ''/operations/'' @ op_id op @ ''/result'')),
        (''retry_count'', JInt (op_retry_count op)),
        (''stage'', JStr (op_stage_string (op_stage op))),
        (''status'', JStr (op_status_string (op_status op))),
        (''status_url'', JStr (base @ ''/operations/'' @ op_id op)),
        (''updated_at'', JStr (rfc3339 (op_updated_at op))), (''version'', JInt (op_version op))])"

definition get_operation :: "http_app \<Rightarrow> string \<Rightarrow> handler" where
  "get_operation app i rq cx =
     (if i = [] then http_json 400 (error_body ''operation id is required'') cx
      else
        bindE (attempt (get_execute i)) (\<lambda>res.
          case res of
            Inl e \<Rightarrow> internal_error app e cx
          | Inr None \<Rightarrow> http_json 404 (error_body ''operation not found'') cx
          | Inr (Some op) \<Rightarrow> http_json 200 (operation_body (ha_base app) op) cx))"

text \<open>
  The upload: the three headers that are passed on, and the body or the file of a multipart form.
\<close>

definition upload_headers :: "(string \<Rightarrow> string) \<Rightarrow> string \<Rightarrow> string" where
  "upload_headers h k = (if k \<in> {''Digest'', ''X-File-Size'', ''X-File-Name''} then h k else [])"

definition upload_body :: "http_request \<Rightarrow> string + bytes" where
  "upload_body rq =
     (if has_prefix (hr_headers rq ''Content-Type'') ''multipart/form-data'' then
        (case hr_form rq of
           FormMalformed \<Rightarrow> Inl ''invalid multipart form''
         | FormWithoutFile \<Rightarrow> Inl ''file field is required''
         | FormFile b \<Rightarrow> Inr b)
      else Inr (hr_body rq))"

definition file_errors :: "(go_error \<times> int \<times> string) list" where
  "file_errors = [(ErrOperationNotFound, 404, ''operation not found''),
                  (ErrInvalidState, 409, ''operation not in CREATED state'')]"

definition file_operations :: "http_app \<Rightarrow> string \<Rightarrow> handler" where
  "file_operations app i rq cx =
     (if i = [] then http_json 400 (error_body ''operation id is required'') cx
      else if hr_headers rq ''Idempotency-Key'' = [] then
        http_json 400 (error_body ''Idempotency-Key header is required'') cx
      else
        (case upload_body rq of
           Inl msg \<Rightarrow> http_json 400 (error_body msg) cx
         | Inr b \<Rightarrow>
             bindE (attempt (file_execute (ha_file app)
               \<lparr>fi_operation_id = i, fi_body = b, fi_headers = upload_headers (hr_headers rq)\<rparr>)) (\<lambda>res.
               case res of
                 Inl e \<Rightarrow> error_response app file_errors e cx
               | Inr out \<Rightarrow> http_json 202 (JObj
                   [(''input_file'', input_file_body (fo_input_file out)),
                    (''operation_id'', JStr (fo_operation_id out)),
                    (''result_url'', JStr (fo_result_url out)),
                    (''stage'', JStr (op_stage_string (fo_stage out))),
                    (''status'', JStr (op_status_string (fo_status out))),
                    (''status_url'', JStr (fo_status_url out)),
                    (''updated_at'', JStr (rfc3339 (fo_updated_at out))),
                    (''version'', JInt (fo_version out))]) cx)))"

text \<open>Cancel and retry start alike: an id, a key, and a JSON body with a reason.\<close>

definition with_reason :: "string \<Rightarrow> http_request \<Rightarrow> http_context \<Rightarrow>
  (string \<Rightarrow> http_context io) \<Rightarrow> http_context io" where
  "with_reason i rq cx k =
     (if i = [] then http_json 400 (error_body ''operation id is required'') cx
      else if hr_headers rq ''Idempotency-Key'' = [] then
        http_json 400 (error_body ''Idempotency-Key header is required'') cx
      else
        (case Option.bind (hr_json rq) decode_reason of
           None \<Rightarrow> http_json 400 (error_body ''invalid JSON body'') cx
         | Some reason \<Rightarrow> k reason))"

definition cancel_errors :: "(go_error \<times> int \<times> string) list" where
  "cancel_errors = [(ErrOperationNotFound, 404, ''operation not found''),
     (ErrAlreadyTerminal, 409, ''operation is in terminal state, cancellation not applicable'')]"

definition cancel_operations :: "http_app \<Rightarrow> string \<Rightarrow> handler" where
  "cancel_operations app i rq cx =
     with_reason i rq cx (\<lambda>reason.
       bindE (attempt (cancel_execute (ha_base app) i reason)) (\<lambda>res.
         case res of
           Inl e \<Rightarrow> error_response app cancel_errors e cx
         | Inr (out, Some e) \<Rightarrow> error_response app cancel_errors e cx
         | Inr (out, None) \<Rightarrow>
             (case cn_cancel_requested_at out of
                None \<Rightarrow> fail (Panic ''nil pointer dereference'')
              | Some t \<Rightarrow> http_json 202 (JObj
                  [(''cancel_requested_at'', JStr (rfc3339 t)),
                   (''operation_id'', JStr (cn_operation_id out)),
                   (''status'', JStr (op_status_string (cn_status out))),
                   (''status_url'', JStr (cn_status_url out)),
                   (''version'', JInt (cn_version out))]) cx)))"

definition retry_errors :: "(go_error \<times> int \<times> string) list" where
  "retry_errors = [(ErrOperationNotFound, 404, ''operation not found''),
     (ErrInvalidStateForRetry, 409, ''operation not in FAILED or TIMEOUT state, or retry not allowed'')]"

definition retry_operations :: "http_app \<Rightarrow> string \<Rightarrow> handler" where
  "retry_operations app i rq cx =
     with_reason i rq cx (\<lambda>reason.
       bindE (attempt (retry_execute (ha_base app) i reason)) (\<lambda>res.
         case res of
           Inl e \<Rightarrow> error_response app retry_errors e cx
         | Inr out \<Rightarrow> http_json 202 (JObj
             [(''current_attempt_id'', JStr (ry_current_attempt_id out)),
              (''current_job_id'', JStr (ry_current_job_id out)),
              (''max_attempts'', JInt (ry_max_attempts out)),
              (''operation_id'', JStr (ry_operation_id out)),
              (''retry_count'', JInt (ry_retry_count out)),
              (''status'', JStr (op_status_string (ry_status out))),
              (''status_url'', JStr (ry_status_url out)),
              (''updated_at'', JStr (rfc3339 (ry_updated_at out))),
              (''version'', JInt (ry_version out))]) cx))"

definition result_errors :: "(go_error \<times> int \<times> string) list" where
  "result_errors = [(ErrOperationNotFound, 404, ''operation not found''),
     (ErrResultNotReady, 409, ''result not ready - operation not COMPLETED''),
     (ErrResultExpired, 410, ''result expired - removed by retention policy'')]"

definition result_operations :: "http_app \<Rightarrow> string \<Rightarrow> handler" where
  "result_operations app i rq cx =
     (if i = [] then http_json 400 (error_body ''operation id is required'') cx
      else
        bindE (attempt (result_execute i)) (\<lambda>res.
          case res of
            Inl e \<Rightarrow> error_response app result_errors e cx
          | Inr r \<Rightarrow> http_json 200 (JObj
              [(''operation_id'', JStr (rs_operation_id r)),
               (''processor'', JStr (rs_processor r)),
               (''produced_at'', JStr (rfc3339 (rs_produced_at r))),
               (''result_id'', JStr (rs_id r)), (''schema_version'', JInt (rs_schema_version r)),
               (''value'', (case rs_value r of None \<Rightarrow> JNull | Some v \<Rightarrow> JObj v))]) cx))"

text \<open>\<open>ReadinessCheck\<close> of \<open>app/app.go\<close>, and the three health endpoints.\<close>

definition readiness_check :: "bool option \<Rightarrow> go_error option" where
  "readiness_check nats =
     (case nats of Some True \<Rightarrow> None | _ \<Rightarrow> Some (ErrMsg ''nats not connected''))"

definition health :: handler where
  "health rq = http_json 200 (JObj [(''status'', JStr ''ok'')])"

definition health_live :: handler where
  "health_live rq = http_json 200 (JObj [(''status'', JStr ''alive'')])"

definition health_ready :: "http_app \<Rightarrow> handler" where
  "health_ready app rq =
     (case readiness_check (ha_nats app) of
        Some e \<Rightarrow> http_json 503 (JObj [(''error'', JStr (error_text (ha_foreign app) e)),
                                      (''status'', JStr ''not ready'')])
      | None \<Rightarrow> http_json 200 (JObj [(''status'', JStr ''ready'')]))"


section \<open>Middleware\<close>

text \<open>
  A middleware takes the rest of the chain, \<open>c.Next()\<close>; one that aborts does not call it. After a
  panic the context is as it was when the recovery was entered: no handler writes before it panics.
\<close>

definition generate_request_id :: "string io" where
  "generate_request_id = bindE random16 (\<lambda>b. ret (hex_encode b))"

definition get_request_id :: "http_context \<Rightarrow> string" where
  "get_request_id cx = (case cx_request_id cx of None \<Rightarrow> [] | Some i \<Rightarrow> i)"

definition correlation_middleware :: "handler \<Rightarrow> handler" where
  "correlation_middleware next_h rq cx =
     bindE (if hr_headers rq ''X-Request-ID'' = [] then generate_request_id
            else ret (hr_headers rq ''X-Request-ID'')) (\<lambda>i.
     next_h rq (cx\<lparr>cx_headers := cx_headers cx @ [(''X-Request-ID'', i)], cx_request_id := Some i\<rparr>))"

definition middleware_error :: "http_context \<Rightarrow> string \<Rightarrow> string \<Rightarrow> bool \<Rightarrow> json" where
  "middleware_error cx code msg retryable =
     JObj [(''error'', JObj [(''code'', JStr code), (''message'', JStr msg),
       (''request_id'', JStr (get_request_id cx)), (''retryable'', JBool retryable)])]"

text \<open>
  The inner switch of \<open>ErrorMiddleware\<close> asks for statuses that its guard excludes; the model has it all
  the same. The middleware is not installed.
\<close>

definition error_middleware :: "handler \<Rightarrow> handler" where
  "error_middleware next_h rq cx =
     bindE (next_h rq cx) (\<lambda>cx1.
       if cx_errors cx1 \<noteq> [] \<and> (cx_status cx1 = 200 \<or> cx_status cx1 = 202) then
         (case (if cx_status cx1 = 404 then (404, ''OPERATION_NOT_FOUND'')
                else if cx_status cx1 = 400 then (400, ''VALIDATION_ERROR'')
                else if cx_status cx1 = 409 then (409, ''OPERATION_CONFLICT'')
                else (500, ''INTERNAL_ERROR'')) of
            (code, name) \<Rightarrow> http_json code (middleware_error cx1 name (last (cx_errors cx1)) False) cx1)
       else ret cx1)"

definition sanitize_error_middleware :: "handler \<Rightarrow> handler" where
  "sanitize_error_middleware next_h rq cx =
     bindE (next_h rq cx) (\<lambda>cx1.
       if cx_errors cx1 \<noteq> [] \<and> cx_status cx1 \<ge> 500 then
         http_json 500 (middleware_error cx1 ''INTERNAL_ERROR'' ''An unexpected error occurred'' True) cx1
       else ret cx1)"

definition recovery_middleware :: "handler \<Rightarrow> handler" where
  "recovery_middleware next_h rq cx w =
     (case next_h rq cx w of
        (Inl (Panic m), w1) \<Rightarrow>
          http_json 500 (middleware_error cx ''INTERNAL_ERROR'' ''An unexpected error occurred'' True) cx w1
      | r \<Rightarrow> r)"

definition cors_middleware :: "string list \<Rightarrow> handler \<Rightarrow> handler" where
  "cors_middleware allowed next_h rq cx =
     (let origin = hr_headers rq ''Origin'';
          cx1 = (if list_ex (\<lambda>a. origin = a \<or> a = ''*'') allowed
                 then cx\<lparr>cx_headers := cx_headers cx @
                   [(''Access-Control-Allow-Origin'', origin),
                    (''Access-Control-Allow-Credentials'', ''true''),
                    (''Access-Control-Allow-Headers'', ''Content-Type, Authorization, Idempotency-Key, If-Match, Digest, X-File-Size, X-File-Name, X-Request-ID''),
                    (''Access-Control-Allow-Methods'', ''GET, POST, PUT, DELETE, OPTIONS''),
                    (''Access-Control-Max-Age'', ''86400'')]\<rparr>
                 else cx)
      in if hr_method rq = ''OPTIONS'' then ret (cx1\<lparr>cx_writes := cx_writes cx1 @ [(204, JNull)]\<rparr>)
         else next_h rq cx1)"

text \<open>\<open>c.ContentType()\<close>: the header up to the first blank or semicolon.\<close>

definition content_type :: "http_request \<Rightarrow> string" where
  "content_type rq = takeWhile (\<lambda>c. c \<noteq> CHR '' '' \<and> c \<noteq> CHR '';'') (hr_headers rq ''Content-Type'')"

definition content_type_middleware :: "handler \<Rightarrow> handler" where
  "content_type_middleware next_h rq cx =
     (if (hr_method rq = ''POST'' \<or> hr_method rq = ''PUT'') \<and>
         content_type rq \<notin> {''application/json'', ''application/octet-stream'', ''multipart/form-data''}
      then http_json 415 (middleware_error cx ''VALIDATION_ERROR''
        ''Content-Type must be application/json or application/octet-stream'' False) cx
      else next_h rq cx)"

definition auth_middleware :: "handler \<Rightarrow> handler" where
  "auth_middleware next_h rq cx = next_h rq cx"

definition request_size_limit_middleware :: "int \<Rightarrow> handler \<Rightarrow> handler" where
  "request_size_limit_middleware max_size next_h rq cx =
     (if hr_content_length rq > max_size then
        http_json 413 (middleware_error cx ''CONTENT_TOO_LARGE''
          ''Request body exceeds maximum allowed size'' False) cx
      else next_h rq cx)"

section \<open>Routes\<close>

text \<open>
  The registered routes with their path parameter. Which of them a request takes is the router
  library's choice and a parameter; a parameter in the middle of a path may be empty.
\<close>

datatype endpoint =
    EpHealth
  | EpLive
  | EpReady
  | EpCreate
  | EpList
  | EpGet string
  | EpFile string
  | EpCancel string
  | EpRetry string
  | EpResult string

fun endpoint_route :: "endpoint \<Rightarrow> string \<times> string" where
  "endpoint_route EpHealth = (''GET'', ''/api/v1/health'')"
| "endpoint_route EpLive = (''GET'', ''/api/v1/health/live'')"
| "endpoint_route EpReady = (''GET'', ''/api/v1/health/ready'')"
| "endpoint_route EpCreate = (''POST'', ''/api/v1/operations'')"
| "endpoint_route EpList = (''GET'', ''/api/v1/operations'')"
| "endpoint_route (EpGet i) = (''GET'', ''/api/v1/operations/'' @ i)"
| "endpoint_route (EpFile i) = (''PUT'', ''/api/v1/operations/'' @ i @ ''/file'')"
| "endpoint_route (EpCancel i) = (''POST'', ''/api/v1/operations/'' @ i @ ''/cancel'')"
| "endpoint_route (EpRetry i) = (''POST'', ''/api/v1/operations/'' @ i @ ''/retry'')"
| "endpoint_route (EpResult i) = (''GET'', ''/api/v1/operations/'' @ i @ ''/result'')"

fun endpoint_handler :: "http_app \<Rightarrow> endpoint \<Rightarrow> handler" where
  "endpoint_handler app EpHealth = health"
| "endpoint_handler app EpLive = health_live"
| "endpoint_handler app EpReady = health_ready app"
| "endpoint_handler app EpCreate =
     auth_middleware (content_type_middleware (create_operations app))"
| "endpoint_handler app EpList = auth_middleware (list_operations app)"
| "endpoint_handler app (EpGet i) = auth_middleware (get_operation app i)"
| "endpoint_handler app (EpFile i) =
     auth_middleware (content_type_middleware (request_size_limit_middleware (2 ^ 30) (file_operations app i)))"
| "endpoint_handler app (EpCancel i) =
     auth_middleware (content_type_middleware (cancel_operations app i))"
| "endpoint_handler app (EpRetry i) =
     auth_middleware (content_type_middleware (retry_operations app i))"
| "endpoint_handler app (EpResult i) = auth_middleware (result_operations app i)"

text \<open>The chain a routed request goes through.\<close>

definition serve :: "http_app \<Rightarrow> endpoint \<Rightarrow> http_request \<Rightarrow> http_context io" where
  "serve app ep rq =
     correlation_middleware (recovery_middleware (sanitize_error_middleware (endpoint_handler app ep)))
       rq empty_context"

section \<open>JSON helpers\<close>

text \<open>
  The writers of \<open>app/json.go\<close>, which no handler uses. \<open>c.Status\<close> alone writes nothing; the encoder does.
\<close>

definition write_json :: "int \<Rightarrow> json \<Rightarrow> http_context \<Rightarrow> http_context io" where
  "write_json status data cx =
     (let cx1 = cx\<lparr>cx_headers := cx_headers cx @
        [(''Content-Type'', ''application/json; charset=utf-8'')]\<rparr>
      in ret (cx1\<lparr>cx_writes := cx_writes cx1 @ [(status, data)]\<rparr>))"

definition write_json_error :: "int \<Rightarrow> string \<Rightarrow> http_context \<Rightarrow> http_context io" where
  "write_json_error status err = write_json status (JObj [(''error'', JStr err)])"

definition json_response :: "int \<Rightarrow> json \<Rightarrow> http_context \<Rightarrow> http_context io" where
  "json_response status data = write_json status (JObj [(''data'', data)])"

end
