(* ===== verification/Api_Types.thy ===== *)
theory Api_Types
  imports Http
begin

text \<open>
  The documented interface: the types of the responses (\<open>operation/swagger_types.go\<close>) and the statuses in
  the annotations of the handlers (\<open>operation/handler.go\<close>). A type says how a Go value of it is encoded:
  a struct as an object with the tagged members, of which those marked \<open>omitempty\<close> may be missing, a
  time as a string, a nil slice or map as null.
\<close>

datatype json_type =
    TStr
  | TInt
  | TBool
  | TAny
  | TStrOrNull
  | TArr json_type
  | TMap json_type
  | TObj "(string \<times> bool \<times> json_type) list"

abbreviation (input) field :: "string \<Rightarrow> json_type \<Rightarrow> string \<times> bool \<times> json_type" where
  "field k t \<equiv> (k, True, t)"

abbreviation (input) omitempty :: "string \<Rightarrow> json_type \<Rightarrow> string \<times> bool \<times> json_type" where
  "omitempty k t \<equiv> (k, False, t)"

section \<open>Conformance\<close>

fun conforms :: "json \<Rightarrow> json_type \<Rightarrow> bool" where
  "conforms JNull t = (case t of TAny \<Rightarrow> True | TStrOrNull \<Rightarrow> True | TArr _ \<Rightarrow> True | TMap _ \<Rightarrow> True | _ \<Rightarrow> False)"
| "conforms (JBool b) t = (t = TBool \<or> t = TAny)"
| "conforms (JInt i) t = (t = TInt \<or> t = TAny)"
| "conforms (JStr s) t = (t = TStr \<or> t = TStrOrNull \<or> t = TAny)"
| "conforms (JArr js) t =
     (case t of TAny \<Rightarrow> True | TArr e \<Rightarrow> list_all (\<lambda>c. c e) (map conforms js) | _ \<Rightarrow> False)"
| "conforms (JObj kvs) t =
     (case t of
        TAny \<Rightarrow> True
      | TMap e \<Rightarrow> list_all (\<lambda>(k, c). c e) (map (map_prod id conforms) kvs)
      | TObj fs \<Rightarrow>
          list_all (\<lambda>(k, c). case map_of fs k of None \<Rightarrow> False | Some (_, e) \<Rightarrow> c e)
            (map (map_prod id conforms) kvs) \<and>
          list_all (\<lambda>(k, needed, _). needed \<longrightarrow> list_ex (\<lambda>(l, _). l = k) kvs) fs
      | _ \<Rightarrow> False)"

section \<open>The response types\<close>

definition upload_target_type :: json_type where
  "upload_target_type = TObj
     [field ''method'' TStr, field ''url'' TStr, field ''headers'' (TMap TStr),
      field ''expires_at'' TStr, field ''max_bytes'' TInt]"

definition create_response_type :: json_type where
  "create_response_type = TObj
     [field ''operation_id'' TStr, field ''status'' TStr, field ''stage'' TStr,
      field ''upload_target'' upload_target_type, field ''status_url'' TStr, field ''result_url'' TStr,
      field ''created_at'' TStr, field ''version'' TInt]"

definition operation_item_type :: json_type where
  "operation_item_type = TObj
     [field ''operation_id'' TStr, field ''status'' TStr, field ''stage'' TStr, field ''processor'' TStr,
      field ''retry_count'' TInt, field ''max_attempts'' TInt, field ''created_at'' TStr,
      field ''updated_at'' TStr, field ''version'' TInt]"

definition list_response_type :: json_type where
  "list_response_type = TObj
     [field ''items'' (TArr operation_item_type), field ''next_cursor'' TStrOrNull]"

definition input_file_type :: json_type where
  "input_file_type = TObj
     [field ''size_bytes'' TInt, field ''sha256'' TStr, field ''file_name'' TStr]"

definition operation_error_type :: json_type where
  "operation_error_type = TObj [field ''code'' TStr, field ''message'' TStr]"

definition operation_response_type :: json_type where
  "operation_response_type = TObj
     [field ''operation_id'' TStr, field ''status'' TStr, field ''stage'' TStr, field ''processor'' TStr,
      field ''retry_count'' TInt, field ''max_attempts'' TInt, field ''created_at'' TStr,
      field ''updated_at'' TStr, omitempty ''deadline'' TStr, omitempty ''input_file'' input_file_type,
      omitempty ''current_job_id'' TStr, omitempty ''current_attempt_id'' TStr,
      omitempty ''current_transfer_id'' TStr, omitempty ''cancel_requested_at'' TStr,
      omitempty ''error'' operation_error_type, field ''status_url'' TStr, field ''result_url'' TStr,
      field ''version'' TInt]"

definition file_response_type :: json_type where
  "file_response_type = TObj
     [field ''operation_id'' TStr, field ''status'' TStr, field ''stage'' TStr,
      field ''input_file'' input_file_type, field ''status_url'' TStr, field ''result_url'' TStr,
      field ''updated_at'' TStr, field ''version'' TInt]"

definition cancel_response_type :: json_type where
  "cancel_response_type = TObj
     [field ''operation_id'' TStr, field ''status'' TStr, field ''cancel_requested_at'' TStr,
      field ''status_url'' TStr, field ''version'' TInt]"

definition retry_response_type :: json_type where
  "retry_response_type = TObj
     [field ''operation_id'' TStr, field ''status'' TStr, field ''retry_count'' TInt,
      field ''max_attempts'' TInt, field ''current_job_id'' TStr, field ''current_attempt_id'' TStr,
      field ''status_url'' TStr, field ''updated_at'' TStr, field ''version'' TInt]"

definition result_response_type :: json_type where
  "result_response_type = TObj
     [field ''operation_id'' TStr, field ''result_id'' TStr, field ''processor'' TStr,
      field ''schema_version'' TInt, field ''value'' (TMap TAny), field ''produced_at'' TStr]"

definition error_detail_item_type :: json_type where
  "error_detail_item_type = TObj [omitempty ''field'' TStr, omitempty ''reason'' TStr]"

definition error_detail_type :: json_type where
  "error_detail_type = TObj
     [field ''code'' TStr, field ''message'' TStr, omitempty ''details'' (TArr error_detail_item_type),
      omitempty ''operation_id'' TStr, field ''request_id'' TStr, field ''retryable'' TBool]"

definition error_response_type :: json_type where
  "error_response_type = TObj [field ''error'' error_detail_type]"

definition reason_input_type :: json_type where
  "reason_input_type = TObj [omitempty ''reason'' TStr]"

text \<open>\<open>gin.H\<close> is a map to anything.\<close>

fun success_type :: "endpoint \<Rightarrow> json_type" where
  "success_type EpCreate = create_response_type"
| "success_type EpList = list_response_type"
| "success_type (EpGet _) = operation_response_type"
| "success_type (EpFile _) = file_response_type"
| "success_type (EpCancel _) = cancel_response_type"
| "success_type (EpRetry _) = retry_response_type"
| "success_type (EpResult _) = result_response_type"
| "success_type _ = TMap TAny"

section \<open>The documented statuses\<close>

definition create_documented :: "int list" where
  "create_documented = [202, 400, 401, 403, 409, 422, 503]"

definition list_documented :: "int list" where "list_documented = [200, 401, 403, 503]"

definition get_documented :: "int list" where "get_documented = [200, 304, 401, 403, 404, 503]"

definition file_documented :: "int list" where
  "file_documented = [202, 200, 400, 401, 403, 404, 409, 412, 413, 422, 503]"

definition cancel_documented :: "int list" where
  "cancel_documented = [202, 200, 400, 401, 403, 404, 409, 412, 503]"

definition retry_documented :: "int list" where
  "retry_documented = [202, 200, 401, 403, 404, 409, 412, 422, 503]"

definition result_documented :: "int list" where
  "result_documented = [200, 401, 403, 404, 409, 410, 503]"

fun documented_codes :: "endpoint \<Rightarrow> int list" where
  "documented_codes EpHealth = [200]"
| "documented_codes EpLive = [200]"
| "documented_codes EpReady = [200, 503]"
| "documented_codes EpCreate = create_documented"
| "documented_codes EpList = list_documented"
| "documented_codes (EpGet _) = get_documented"
| "documented_codes (EpFile _) = file_documented"
| "documented_codes (EpCancel _) = cancel_documented"
| "documented_codes (EpRetry _) = retry_documented"
| "documented_codes (EpResult _) = result_documented"

end
