(* ===== verification/Http_Properties.thy ===== *)
theory Http_Properties
  imports Api_Types System_Properties Upload_Properties
begin

text \<open>
  Properties of the HTTP interface: every request is answered once, what refused requests leave alone,
  which answers the endpoints give, and that what a create returns can be read for ever after.
\<close>

section \<open>What every handler keeps to\<close>

definition refusal :: "int \<Rightarrow> bool" where
  "refusal code = (code = 400 \<or> code = 413 \<or> code = 415 \<or> code = 422)"

text \<open>
  A handler panics, or it writes one of the given replies and leaves the rest of the context alone;
  with a refusal it has done nothing else.
\<close>

definition answered :: "(int \<times> json) set \<Rightarrow> http_context \<Rightarrow> world \<Rightarrow> (go_error + http_context) \<times> world \<Rightarrow> bool" where
  "answered A cx w res =
     (case res of
        (Inl e, w') \<Rightarrow> is_panic e \<and> (\<exists>b. (500, b) \<in> A)
      | (Inr cx', w') \<Rightarrow> \<exists>code b. cx' = cx\<lparr>cx_writes := cx_writes cx @ [(code, b)]\<rparr> \<and>
          (code, b) \<in> A \<and> (refusal code \<longrightarrow> w' = w))"

definition answers :: "(int \<times> json) set \<Rightarrow> handler \<Rightarrow> bool" where
  "answers A h = (\<forall>rq cx w. answered A cx w (h rq cx w))"

lemma answersI: "(\<And>rq cx w. answered A cx w (h rq cx w)) \<Longrightarrow> answers A h"
  by (simp add: answers_def)

lemma answersD: "answers A h \<Longrightarrow> answered A cx w (h rq cx w)"
  by (simp add: answers_def)

lemma answered_mono: "answered A cx w res \<Longrightarrow> A \<subseteq> B \<Longrightarrow> answered B cx w res"
  unfolding answered_def by (fastforce split: prod.splits sum.splits)

lemma answers_mono: "answers A h \<Longrightarrow> A \<subseteq> B \<Longrightarrow> answers B h"
  unfolding answers_def using answered_mono by blast

named_theorems answered_intros "how a handler answers"

lemma answered_json [answered_intros]:
  "(code, b) \<in> A \<Longrightarrow> answered A cx w (http_json code b cx w)"
  by (auto simp: answered_def http_json_def ret_def)

lemma answered_json_late:
  "(code, b) \<in> A \<Longrightarrow> \<not> refusal code \<Longrightarrow> answered A cx w (http_json code b cx w')"
  by (auto simp: answered_def http_json_def ret_def)

lemma answered_attempt [answered_intros]:
  assumes "\<And>r w'. answered A cx w (k r w')" and "(500, b) \<in> A"
  shows "answered A cx w (bindE (attempt m) k w)"
  using assms
  by (auto simp: bindE_def attempt_def answered_def [of A cx w "(Inl _, _)"] split: prod.split sum.split)

lemma answered_panic: "(500, b) \<in> A \<Longrightarrow> answered A cx w (fail (Panic m) w')"
  by (auto simp: answered_def fail_def)

section \<open>Replies\<close>

text \<open>The body of an error that a handler reports: an object whose member \<open>error\<close> is the text.\<close>

definition plain_error :: "json \<Rightarrow> bool" where
  "plain_error b =
     (case b of JObj kvs \<Rightarrow> (case map_of kvs ''error'' of Some (JStr _) \<Rightarrow> True | _ \<Rightarrow> False) | _ \<Rightarrow> False)"

lemma plain_error_body [simp]: "plain_error (error_body m)"
  by (simp add: plain_error_def error_body_def)

lemma plain_error_obj:
  "plain_error (JObj kvs) = (case map_of kvs ''error'' of Some (JStr _) \<Rightarrow> True | _ \<Rightarrow> False)"
  by (simp add: plain_error_def)

lemma plain_error_not_documented: "plain_error b \<Longrightarrow> \<not> conforms b error_response_type"
  by (cases b)
    (auto simp: plain_error_def error_response_type_def error_detail_type_def list_all_iff image_iff
      split: option.splits json.splits dest!: map_of_SomeD intro!: bexI [of _ "(''error'', JStr _)"])

text \<open>Nor does the helper that nothing calls write the documented error.\<close>

lemma json_helper_error:
  assumes "write_json_error status err cx w = (Inr cx', w')"
  obtains b where "cx_writes cx' = cx_writes cx @ [(status, b)]" and "\<not> conforms b error_response_type"
proof (rule that)
  show "cx_writes cx' = cx_writes cx @ [(status, error_body err)]"
    using assms by (auto simp: write_json_error_def write_json_def error_body_def ret_def)
  show "\<not> conforms (error_body err) error_response_type"
    by (rule plain_error_not_documented) simp
qed

lemma middleware_error_conforms [simp]: "conforms (middleware_error cx c m r) error_response_type"
  by (simp add: middleware_error_def error_response_type_def error_detail_type_def)

text \<open>
  The replies with one of the given statuses: with 200 and 202 a body of the given kind, with 413 and 415
  the error object of the middleware, and else a plain error. A body with 500 is either.
\<close>

definition reply_fits :: "(json \<Rightarrow> bool) \<Rightarrow> int \<Rightarrow> json \<Rightarrow> bool" where
  "reply_fits P code b =
     (if code = 200 \<or> code = 202 then P b
      else if code = 413 \<or> code = 415 then conforms b error_response_type
      else plain_error b)"

definition replies :: "int list \<Rightarrow> (json \<Rightarrow> bool) \<Rightarrow> (int \<times> json) set" where
  "replies codes P = {(code, b). code \<in> set codes \<and> reply_fits P code b}"

lemma mem_replies [simp]: "(code, b) \<in> replies codes P \<longleftrightarrow> code \<in> set codes \<and> reply_fits P code b"
  by (simp add: replies_def)

lemma reply_500: "500 \<in> set codes \<Longrightarrow> (500, error_body m) \<in> replies codes P"
  by (simp add: reply_fits_def)

lemma answered_internal:
  "500 \<in> set codes \<Longrightarrow> answered (replies codes P) cx w (internal_error app e cx w')"
  by (simp add: internal_error_def refusal_def answered_json_late reply_fits_def)

lemma answered_table:
  assumes "\<forall>(t, code, msg) \<in> set ts. code \<in> set codes \<and> code \<in> {404, 409, 410}" and "500 \<in> set codes"
  shows "answered (replies codes P) cx w (error_response app ts e cx w')"
  using assms
  by (induction ts) (auto simp: refusal_def reply_fits_def intro!: answered_json_late answered_internal)

lemmas answered_call = answered_attempt [OF _ reply_500]
lemmas answered_late = answered_json_late answered_table answered_internal answered_panic [OF reply_500]

section \<open>The bodies of the handlers\<close>

lemma conforms_any [simp]: "conforms j TAny"
proof -
  have "t = TAny \<Longrightarrow> conforms j t" for t by (induction j t rule: conforms.induct) auto
  then show ?thesis by simp
qed

lemma list_item_conforms [simp]: "conforms (list_item op) operation_item_type"
  by (simp add: list_item_def operation_item_type_def)

lemma input_file_conforms [simp]: "conforms (input_file_body f) input_file_type"
  by (simp add: input_file_body_def input_file_type_def)

lemma opt_member_all: "list_all P (map f (opt_member k g v)) \<longleftrightarrow> (\<forall>x. v = Some x \<longrightarrow> P (f (k, g x)))"
  by (cases v) (simp_all add: opt_member_def)

lemma operation_body_conforms [simp]: "conforms (operation_body base op) operation_response_type"
  by (simp add: operation_body_def operation_response_type_def operation_error_type_def opt_member_all)

lemma upload_target_differs: "\<not> conforms (marshal_upload_target u) upload_target_type"
  by (simp add: marshal_upload_target_def upload_target_type_def)

lemmas response_types = create_response_type_def list_response_type_def file_response_type_def
  cancel_response_type_def retry_response_type_def result_response_type_def

section \<open>The handlers\<close>

definition success_fits :: "endpoint \<Rightarrow> json \<Rightarrow> bool" where
  "success_fits ep b = (conforms b (success_type ep) \<longleftrightarrow> ep \<noteq> EpCreate)"

lemma health_answers: "answers (replies [200] (success_fits EpHealth)) health"
  by (rule answersI) (auto simp: health_def reply_fits_def success_fits_def intro: answered_json)

lemma health_live_answers: "answers (replies [200] (success_fits EpLive)) health_live"
  by (rule answersI) (auto simp: health_live_def reply_fits_def success_fits_def intro: answered_json)

lemma health_ready_answers: "answers (replies [200, 503] (success_fits EpReady)) (health_ready app)"
  by (rule answersI)
    (auto simp: health_ready_def reply_fits_def success_fits_def plain_error_def split: option.split
      intro!: answered_json)

lemma create_answers: "answers (replies [202, 400, 422, 500] (success_fits EpCreate)) (create_operations app)"
  by (rule answersI)
    (auto simp: create_operations_def refusal_def reply_fits_def success_fits_def plain_error_obj
      response_types upload_target_differs split: option.split sum.split
      intro!: answered_json answered_call answered_late)

lemma list_answers: "answers (replies [200, 500] (success_fits EpList)) (list_operations app)"
  by (rule answersI)
    (auto simp: list_operations_def refusal_def reply_fits_def success_fits_def response_types list_all_iff
      split: sum.split option.split intro!: answered_call answered_late)

lemma get_answers: "answers (replies [200, 400, 404, 500] (success_fits (EpGet i))) (get_operation app i)"
  by (rule answersI)
    (auto simp: get_operation_def refusal_def reply_fits_def success_fits_def split: sum.split option.split
      intro!: answered_json answered_call answered_late)

lemma file_answers:
  "answers (replies [202, 400, 404, 409, 500] (success_fits (EpFile i))) (file_operations app i)"
  by (rule answersI)
    (auto simp: file_operations_def refusal_def file_errors_def reply_fits_def success_fits_def response_types
      split: sum.split intro!: answered_json answered_call answered_late)

lemma with_reason_answered:
  assumes "\<And>reason. answered (replies codes P) cx w (k reason w)" and "400 \<in> set codes"
  shows "answered (replies codes P) cx w (with_reason i rq cx k w)"
  using assms by (auto simp: with_reason_def reply_fits_def split: option.split intro!: answered_json)

lemma cancel_answers:
  "answers (replies [202, 400, 404, 409, 500] (success_fits (EpCancel i))) (cancel_operations app i)"
  by (rule answersI)
    (auto simp: cancel_operations_def refusal_def cancel_errors_def reply_fits_def success_fits_def
      response_types split: sum.split option.split
      intro!: with_reason_answered answered_call answered_late)

lemma retry_answers:
  "answers (replies [202, 400, 404, 409, 500] (success_fits (EpRetry i))) (retry_operations app i)"
  by (rule answersI)
    (auto simp: retry_operations_def refusal_def retry_errors_def reply_fits_def success_fits_def
      response_types split: sum.split intro!: with_reason_answered answered_call answered_late)

lemma result_answers:
  "answers (replies [200, 400, 404, 409, 410, 500] (success_fits (EpResult i))) (result_operations app i)"
  by (rule answersI)
    (auto simp: result_operations_def refusal_def result_errors_def reply_fits_def success_fits_def
      response_types list_all_iff split: sum.split option.split
      intro!: answered_json answered_call answered_late)

section \<open>The middleware\<close>

text \<open>A middleware that may refuse a request with some statuses and else leaves it to the rest.\<close>

locale gate =
  fixes mw :: "handler \<Rightarrow> handler" and own :: "(int \<times> json) set"
  assumes passes: "answered own cx w (mw h rq cx w) \<or> mw h rq cx w = h rq cx w"
begin

lemma guards: "answers A h \<Longrightarrow> answers (own \<union> A) (mw h)"
  using passes unfolding answers_def by (metis answered_mono sup_ge1 sup_ge2)

end

interpretation auth_gate: gate auth_middleware "{}"
  by unfold_locales (simp add: auth_middleware_def)

interpretation type_gate: gate content_type_middleware "replies [415] P" for P
  by unfold_locales (auto simp: content_type_middleware_def reply_fits_def intro: answered_json)

interpretation size_gate: gate "request_size_limit_middleware n" "replies [413] P" for n P
  by unfold_locales (auto simp: request_size_limit_middleware_def reply_fits_def intro: answered_json)

fun endpoint_codes :: "endpoint \<Rightarrow> int list" where
  "endpoint_codes EpHealth = [200]"
| "endpoint_codes EpLive = [200]"
| "endpoint_codes EpReady = [200, 503]"
| "endpoint_codes EpCreate = [202, 400, 415, 422, 500]"
| "endpoint_codes EpList = [200, 500]"
| "endpoint_codes (EpGet _) = [200, 400, 404, 500]"
| "endpoint_codes (EpFile _) = [202, 400, 404, 409, 413, 415, 500]"
| "endpoint_codes (EpCancel _) = [202, 400, 404, 409, 415, 500]"
| "endpoint_codes (EpRetry _) = [202, 400, 404, 409, 415, 500]"
| "endpoint_codes (EpResult _) = [200, 400, 404, 409, 410, 500]"

lemmas gates = auth_gate.guards type_gate.guards size_gate.guards

lemma endpoint_answers: "answers (replies (endpoint_codes ep) (success_fits ep)) (endpoint_handler app ep)"
  by (cases ep)
    (simp_all only: endpoint_handler.simps,
      (rule answers_mono [OF _ subset_refl] answers_mono, 
       (rule gates health_answers health_live_answers health_ready_answers create_answers list_answers
         get_answers file_answers cancel_answers retry_answers result_answers)+,
       (auto simp: replies_def))+)

lemma codes_documented:
  "code \<in> set (endpoint_codes ep) \<Longrightarrow> code \<in> set (documented_codes ep) \<union> {400, 415, 500}"
  by (cases ep) (auto simp: create_documented_def list_documented_def get_documented_def
      file_documented_def cancel_documented_def retry_documented_def result_documented_def)

section \<open>A request from end to end\<close>

definition request_context :: "string \<Rightarrow> http_context" where
  "request_context i = empty_context\<lparr>cx_headers := [(''X-Request-ID'', i)], cx_request_id := Some i\<rparr>"

definition request_id_ok :: "http_request \<Rightarrow> string \<Rightarrow> bool" where
  "request_id_ok rq i =
     (if hr_headers rq ''X-Request-ID'' = [] then length i = 32 else i = hr_headers rq ''X-Request-ID'')"

lemma correlation_run:
  obtains n i where "correlation_middleware h rq empty_context w = h rq (request_context i) (w\<lparr>draws := n\<rparr>)"
    and "request_id_ok rq i"
proof (cases "hr_headers rq ''X-Request-ID'' = []")
  case True
  then show ?thesis
    by (intro that [of "hex_encode (map (rnd w (draws w)) [0..<16])" "Suc (draws w)"])
      (simp_all add: correlation_middleware_def generate_request_id_def random16_def bindE_def ret_def
        request_context_def empty_context_def request_id_ok_def)
next
  case False
  then show ?thesis
    by (intro that [of "hr_headers rq ''X-Request-ID''" "draws w"])
      (simp_all add: correlation_middleware_def bindE_def ret_def request_context_def
        empty_context_def request_id_ok_def)
qed

text \<open>
  A request runs the handler of its endpoint in the same world but for the random source, and a panic
  becomes an answer with status 500.
\<close>

lemma serve_run:
  obtains n i r w' where "endpoint_handler app ep rq (request_context i) (w\<lparr>draws := n\<rparr>) = (r, w')"
    and "request_id_ok rq i"
    and "serve app ep rq w = (Inr (case r of Inr cx \<Rightarrow> cx | Inl _ \<Rightarrow> (request_context i)\<lparr>cx_writes :=
      [(500, middleware_error (request_context i) ''INTERNAL_ERROR'' ''An unexpected error occurred'' True)]\<rparr>), w')"
    and "answered (replies (endpoint_codes ep) (success_fits ep)) (request_context i) (w\<lparr>draws := n\<rparr>) (r, w')"
proof -
  obtain n i where corr: "serve app ep rq w = recovery_middleware (sanitize_error_middleware
      (endpoint_handler app ep)) rq (request_context i) (w\<lparr>draws := n\<rparr>)" and i: "request_id_ok rq i"
    unfolding serve_def by (rule correlation_run)
  obtain r w' where run: "endpoint_handler app ep rq (request_context i) (w\<lparr>draws := n\<rparr>) = (r, w')"
    by fastforce
  have ans: "answered (replies (endpoint_codes ep) (success_fits ep)) (request_context i) (w\<lparr>draws := n\<rparr>) (r, w')"
    using answersD [OF endpoint_answers] run by metis
  have err: "cx_errors (request_context i) = []" "cx_writes (request_context i) = []"
    by (simp_all add: request_context_def empty_context_def)
  show ?thesis
  proof (cases r)
    case (Inl e)
    then obtain m where "e = Panic m" using ans by (cases e) (auto simp: answered_def)
    then show ?thesis using corr run Inl i ans err
      by (intro that [OF run]) (auto simp: recovery_middleware_def sanitize_error_middleware_def
          bindE_def http_json_def ret_def)
  next
    case (Inr cx)
    then have "cx_errors cx = []" using ans err by (auto simp: answered_def)
    then show ?thesis using corr run Inr i ans
      by (intro that [OF run]) (auto simp: recovery_middleware_def sanitize_error_middleware_def
          bindE_def ret_def)
  qed
qed

text \<open>A concrete application: the use cases of the samples, a connected bus, no validation error.\<close>

definition sample_app :: http_app where
  "sample_app = \<lparr>ha_base = ''http://h'', ha_file = sample_upload, ha_key_columns = idempotency_keys_columns,
     ha_validate = (\<lambda>r. if cr_processor r = [] then Some ''processor'' else None), ha_foreign = (\<lambda>s. s),
     ha_nats = Some True\<rparr>"

definition sample_request :: "string \<Rightarrow> (string \<times> string) list \<Rightarrow> json option \<Rightarrow> bytes \<Rightarrow> http_request" where
  "sample_request m hs j b =
     \<lparr>hr_method = m, hr_path = ''/'', hr_headers = (\<lambda>k. case map_of hs k of None \<Rightarrow> [] | Some v \<Rightarrow> v),
      hr_query = (\<lambda>_. []), hr_json = j, hr_body = b, hr_form = FormMalformed,
      hr_content_length = int (length b)\<rparr>"

section \<open>Answers\<close>

lemma serve_answered:
  "\<exists>i code b w'. serve app ep rq w = (Inr \<lparr>cx_headers = [(''X-Request-ID'', i)], cx_request_id = Some i,
       cx_errors = [], cx_writes = [(code, b)]\<rparr>, w') \<and>
     code \<in> set (endpoint_codes ep) \<and> request_id_ok rq i"
proof -
  obtain n i r w' where "request_id_ok rq i"
    and s: "serve app ep rq w = (Inr (case r of Inr cx \<Rightarrow> cx | Inl _ \<Rightarrow> (request_context i)\<lparr>cx_writes :=
      [(500, middleware_error (request_context i) ''INTERNAL_ERROR'' ''An unexpected error occurred'' True)]\<rparr>), w')"
    and ans: "answered (replies (endpoint_codes ep) (success_fits ep)) (request_context i) (w\<lparr>draws := n\<rparr>) (r, w')"
    by (rule serve_run)
  then show ?thesis
    by (cases r) (auto simp: answered_def request_context_def empty_context_def)
qed

text \<open>
  C18: every request that has a route is answered, whatever it holds and whichever call fails: one body
  is written, with one of the statuses listed for its endpoint, under the request's id or a new one of
  32 digits, and no panic gets past the recovery.
\<close>

theorem every_request_answered:
  "\<exists>i code b w'. serve app ep rq w = (Inr \<lparr>cx_headers = [(''X-Request-ID'', i)], cx_request_id = Some i,
       cx_errors = [], cx_writes = [(code, b)]\<rparr>, w') \<and>
     code \<in> set (endpoint_codes ep) \<and> request_id_ok rq i"
  by (rule serve_answered)

text \<open>
  C20: the one reply to a request has a documented status, or 400, 415 or 500. When the handler panics it
  is the recovery's 500, the documented error object with the code \<open>INTERNAL_ERROR\<close>. Otherwise the body of a
  success has the documented type, but for the one of a create, whose upload target has other member
  names; a body with 413 or 415 is the documented error object; and a body with any other status, 500
  included, never is: its member \<open>error\<close> is a text, where all endpoints but the readiness check document an
  object.
\<close>

theorem responses_conform:
  "\<exists>i n r code b w'. fst (endpoint_handler app ep rq (request_context i) (w\<lparr>draws := n\<rparr>)) = r \<and>
     serve app ep rq w = (Inr ((request_context i)\<lparr>cx_writes := [(code, b)]\<rparr>), w') \<and>
     code \<in> set (documented_codes ep) \<union> {400, 415, 500} \<and>
     (case r of
        Inl e \<Rightarrow> is_panic e \<and> code = 500 \<and> conforms b error_response_type \<and>
          b = middleware_error (request_context i) ''INTERNAL_ERROR'' ''An unexpected error occurred'' True
      | Inr cx \<Rightarrow>
          if code \<in> {200, 202} then conforms b (success_type ep) \<longleftrightarrow> ep \<noteq> EpCreate
          else if code \<in> {413, 415} then conforms b error_response_type
          else plain_error b \<and> \<not> conforms b error_response_type)"
proof -
  obtain n i r w' where "request_id_ok rq i"
    and run: "endpoint_handler app ep rq (request_context i) (w\<lparr>draws := n\<rparr>) = (r, w')"
    and s: "serve app ep rq w = (Inr (case r of Inr cx \<Rightarrow> cx | Inl _ \<Rightarrow> (request_context i)\<lparr>cx_writes :=
      [(500, middleware_error (request_context i) ''INTERNAL_ERROR'' ''An unexpected error occurred'' True)]\<rparr>), w')"
    and ans: "answered (replies (endpoint_codes ep) (success_fits ep)) (request_context i)
      (w\<lparr>draws := n\<rparr>) (r, w')"
    by (rule serve_run)
  have r: "fst (endpoint_handler app ep rq (request_context i) (w\<lparr>draws := n\<rparr>)) = r" using run by simp
  show ?thesis
  proof (cases r)
    case (Inl e)
    with s r ans show ?thesis
      by (intro exI [of _ i] exI [of _ n] exI [of _ r] exI [of _ 500] exI [of _ w'] exI [of _ "middleware_error (request_context i)
        ''INTERNAL_ERROR'' ''An unexpected error occurred'' True"]) (simp add: answered_def)
  next
    case (Inr cx)
    with ans obtain code b where cx: "cx = (request_context i)\<lparr>cx_writes := [(code, b)]\<rparr>"
      and "code \<in> set (endpoint_codes ep)" and "reply_fits (success_fits ep) code b"
      by (auto simp: answered_def request_context_def empty_context_def)
    then show ?thesis using s r Inr codes_documented [of code ep] plain_error_not_documented [of b]
      by (intro exI [of _ i] exI [of _ n] exI [of _ r] exI [of _ code] exI [of _ b] exI [of _ w'])
        (auto simp: reply_fits_def success_fits_def split: if_splits)
  qed
qed

text \<open>
  C19: a request that is refused with 400, 413, 415 or 422 has changed nothing: the world after it is the
  world before it, up to the random numbers drawn. A create, an upload, a cancel or a retry without an
  idempotency key is always refused so.
\<close>

theorem refused_requests_change_nothing:
  assumes "serve app ep rq w = (Inr cx, w')"
  shows "(cx_status cx \<in> {400, 413, 415, 422} \<longrightarrow> (\<exists>n. w' = w\<lparr>draws := n\<rparr>)) \<and>
    (hr_headers rq ''Idempotency-Key'' = [] \<longrightarrow>
     (ep = EpCreate \<or> (\<exists>i. ep = EpFile i \<or> ep = EpCancel i \<or> ep = EpRetry i)) \<longrightarrow>
       cx_status cx \<in> {400, 413, 415, 422})"
proof -
  obtain n i r w1 where run: "endpoint_handler app ep rq (request_context i) (w\<lparr>draws := n\<rparr>) = (r, w1)"
    and s: "serve app ep rq w = (Inr (case r of Inr cx \<Rightarrow> cx | Inl _ \<Rightarrow> (request_context i)\<lparr>cx_writes :=
      [(500, middleware_error (request_context i) ''INTERNAL_ERROR'' ''An unexpected error occurred'' True)]\<rparr>), w1)"
    and ans: "answered (replies (endpoint_codes ep) (success_fits ep)) (request_context i) (w\<lparr>draws := n\<rparr>) (r, w1)"
    by (rule serve_run)
  have w: "cx_writes (request_context i) = []" by (simp add: request_context_def empty_context_def)
  have "cx_status cx \<in> {400, 413, 415, 422} \<Longrightarrow> w' = w\<lparr>draws := n\<rparr>"
    using s ans assms w
    by (cases r) (auto simp: answered_def cx_status_def refusal_def)
  moreover have "cx_status cx \<in> {400, 413, 415, 422}"
    if "hr_headers rq ''Idempotency-Key'' = []"
      and "ep = EpCreate \<or> (\<exists>i. ep = EpFile i \<or> ep = EpCancel i \<or> ep = EpRetry i)"
    using that(2) that(1) run s assms w
    by (auto simp: auth_middleware_def content_type_middleware_def request_size_limit_middleware_def
        create_operations_def file_operations_def cancel_operations_def retry_operations_def
        with_reason_def http_json_def ret_def cx_status_def split: if_splits)
  ultimately show ?thesis by blast
qed

theorem refused_requests_change_nothing_witness:
  "\<exists>n. snd (serve sample_app EpCreate (sample_request ''POST'' [] None []) (sample_world empty_db)) =
     (sample_world empty_db)\<lparr>draws := n\<rparr>"
proof -
  obtain cx w' where run: "serve sample_app EpCreate (sample_request ''POST'' [] None []) (sample_world empty_db) = (Inr cx, w')"
    by (rule serve_run) blast
  from refused_requests_change_nothing [OF run] show ?thesis
    using run by (auto simp: sample_request_def)
qed



section \<open>Creating and reading over HTTP\<close>

lemma create_served:
  assumes "create_operations app rq cx w = (Inr cx', w')" and "cx_writes cx = []" and "cx_status cx' = 202"
  obtains r inp k m p out bd where "create_execute (ha_key_columns app) (ha_base app) inp k m p w = (Inr out, w')"
    and "Option.bind (hr_json rq) decode_create = Some r" and "ci_deadline inp = cr_deadline r"
    and "cx_writes cx' = [(202, JObj bd)]" and "map_of bd ''operation_id'' = Some (JStr (co_operation_id out))"
    and "map_of bd ''status_url'' = Some (JStr (co_status_url out))"
    and "map_of bd ''result_url'' = Some (JStr (co_result_url out))"
proof -
  obtain r where key: "hr_headers rq ''Idempotency-Key'' \<noteq> []"
    and r: "Option.bind (hr_json rq) decode_create = Some r" and v: "ha_validate app r = None"
    using assms by (auto simp: create_operations_def http_json_def ret_def cx_status_def
        split: if_splits option.splits)
  let ?run = "create_execute (ha_key_columns app) (ha_base app)
     \<lparr>ci_processor = cr_processor r, ci_options = cr_options r, ci_metadata = cr_metadata r,
      ci_deadline = cr_deadline r, ci_retry_policy = cr_max_attempts r,
      ci_client_reference = cr_client_reference r\<rparr>
     (hr_headers rq ''Idempotency-Key'') (hr_method rq) (hr_path rq) w"
  obtain res w1 where run: "?run = (res, w1)" by fastforce
  from assms(1) key r v run have *: "bindE (attempt (\<lambda>_. (res, w1))) (\<lambda>res. case res of
        Inl e \<Rightarrow> internal_error app e cx
      | Inr out \<Rightarrow> http_json 202 (JObj
          [(''created_at'', JStr (rfc3339 (co_created_at out))),
           (''operation_id'', JStr (co_operation_id out)),
           (''result_url'', JStr (co_result_url out)),
           (''stage'', JStr (op_stage_string (co_stage out))),
           (''status'', JStr (op_status_string (co_status out))),
           (''status_url'', JStr (co_status_url out)),
           (''upload_target'', marshal_upload_target (co_upload_target out)),
           (''version'', JInt (co_version out))]) cx) w = (Inr cx', w')"
    by (simp add: create_operations_def bindE_def attempt_def)
  show ?thesis
  proof (cases res)
    case (Inl e)
    then have False using * assms(2,3)
      by (auto simp: bindE_def attempt_def internal_error_def http_json_def ret_def cx_status_def
          split: if_splits)
    then show ?thesis ..
  next
    case (Inr out)
    then show ?thesis using * run assms(2) r
      by (intro that [of _ _ _ _ out r]) (auto simp: bindE_def attempt_def http_json_def ret_def)
  qed
qed

text \<open>
  Reading an operation that is stored: the row that a create appended stays the first one with its id,
  and is the one that is loaded.
\<close>

lemma appended_row_is_loaded:
  assumes "t_operations d1 = rs @ [row]" and "op_lookup (r_id row) rs = None" and "ops_evolve d1 d2"
  obtains row' where "row_evolves row row'" and "db_operation (r_id row) d2 = Some (row_to_operation row')"
proof -
  let ?k = "length rs" and ?t = "t_operations d2"
  have k: "?k < length ?t" and ev: "\<And>j. j \<le> ?k \<Longrightarrow> row_evolves ((rs @ [row]) ! j) (?t ! j)"
    using assms(1,3) by (auto simp: ops_evolve_def)
  have row: "row_evolves row (?t ! ?k)" using ev [of ?k] by simp
  have "r_id (?t ! j) \<noteq> r_id row" if "j < ?k" for j
    using ev [of j] that sql_first_None [of "\<lambda>x. r_id x = r_id row" rs] assms(2)
    by (auto simp: row_evolves_def nth_append op_lookup_def)
  then have "op_lookup (r_id row) ?t = Some (?t ! ?k)"
    using k row unfolding op_lookup_def sql_first_def find_Some_iff
    by (intro exI [of _ ?k]) (simp add: row_evolves_def)
  then show ?thesis using that [OF row] by (simp add: db_operation_def)
qed

lemma quietD: "quiet w \<Longrightarrow> outcome_of w n = Done"
  by (simp add: quiet_def)

lemma get_stored:
  assumes "db_operation i (db w) = Some op" and "i \<noteq> []" and "cx_writes cx = []"
    and "get_operation app i rq cx w = (res, w')"
  shows "\<exists>cx'. res = Inr cx' \<and> cx_status cx' \<in> {200, 500} \<and>
    (quiet w \<or> cx_status cx' = 200 \<longrightarrow> cx_writes cx' = [(200, operation_body (ha_base app) op)])"
proof -
  obtain r w1 where g: "op_get_by_id i w = (r, w1)" by fastforce
  have "r = Inr (Some op) \<or> (r = Inl (ErrExternal ''select operations'') \<and> \<not> quiet w)"
    using g assms(1) quietD [of w "calls w"]
    by (cases "outcome_of w (calls w)") (auto simp: op_get_by_id_def query_db_def extern_def Let_def)
  then show ?thesis
    using assms g
    by (cases r) (auto simp: get_operation_def get_execute_def bindE_def attempt_def internal_error_def
        http_json_def ret_def cx_status_def split: if_splits)
qed

text \<open>What a create stored under the id that it returned, and how that id is read later.\<close>

lemma created_then_get:
  assumes "ha_key_columns app = idempotency_keys_columns"
    and "serve app EpCreate rq w = (Inr cx, w1)" and "cx_status cx = 202"
    and "steps (w1, L) (w2, L')" and "serve app (EpGet i) rq2 w2 = (Inr cx2, w3)"
    and "cx_writes cx = [(202, JObj bd)]" and "map_of bd ''operation_id'' = Some (JStr i)"
  obtains r inp now row where "Option.bind (hr_json rq) decode_create = Some r"
    and "ci_deadline inp = cr_deadline r" and "row_evolves (op_create_row (new_operation inp i now)) row"
    and "map_of bd ''status_url'' = Some (JStr (co_status_url (create_result (ha_base app) i now)))"
    and "map_of bd ''result_url'' = Some (JStr (co_result_url (create_result (ha_base app) i now)))"
    and "cx_status cx2 \<in> {200, 500}"
    and "quiet w2 \<or> cx_status cx2 = 200 \<longrightarrow>
      cx_writes cx2 = [(200, operation_body (ha_base app) (row_to_operation row))]"
proof -
  obtain n j r wa where run: "endpoint_handler app EpCreate rq (request_context j) (w\<lparr>draws := n\<rparr>) = (r, wa)"
    and s: "serve app EpCreate rq w = (Inr (case r of Inr cx \<Rightarrow> cx | Inl _ \<Rightarrow> (request_context j)\<lparr>cx_writes :=
      [(500, middleware_error (request_context j) ''INTERNAL_ERROR'' ''An unexpected error occurred'' True)]\<rparr>), wa)"
    by (rule serve_run)
  have none: "cx_writes (request_context k) = []" for k by (simp add: request_context_def empty_context_def)
  have "r = Inr cx" "wa = w1" using s assms(2,3) by (auto simp: cx_status_def split: sum.splits)
  then have "create_operations app rq (request_context j) (w\<lparr>draws := n\<rparr>) = (Inr cx, w1)"
    using run assms(3) none [of j]
    by (auto simp: auth_middleware_def content_type_middleware_def http_json_def ret_def cx_status_def
        split: if_splits)
  then obtain inp k m p out bd' rc where c: "create_execute (ha_key_columns app) (ha_base app) inp k m p
      (w\<lparr>draws := n\<rparr>) = (Inr out, w1)" and rc: "Option.bind (hr_json rq) decode_create = Some rc"
      "ci_deadline inp = cr_deadline rc" and bd': "cx_writes cx = [(202, JObj bd')]"
      "map_of bd' ''operation_id'' = Some (JStr (co_operation_id out))"
      "map_of bd' ''status_url'' = Some (JStr (co_status_url out))"
      "map_of bd' ''result_url'' = Some (JStr (co_result_url out))"
    using none assms(3) by (elim create_served)
  have id: "bd' = bd" "co_operation_id out = i" using bd'(1,2) assms(6,7) by auto
  obtain now wb where "create_fresh (ha_key_columns app) (ha_base app) inp k m p now wb = (Inr out, w1)"
    using create_execute_is_fresh [OF disjI1 [OF assms(1)], of "w\<lparr>draws := n\<rparr>"] c by metis
  from create_fresh_run [OF this] id(2) have out: "out = create_result (ha_base app) i now" "i \<noteq> []"
    and row: "t_operations (db w1) = t_operations (db wb) @ [op_create_row (new_operation inp i now)]"
      "op_lookup i (t_operations (db wb)) = None"
    by (auto simp: create_result_def)
  have i: "r_id (op_create_row (new_operation inp i now)) = i"
    by (simp add: op_create_row_def new_operation_def)
  have ev: "ops_evolve (db w1) (db w2)" using steps_evolve [OF assms(4)] by simp
  obtain row' where row': "row_evolves (op_create_row (new_operation inp i now)) row'"
    and op: "db_operation i (db w2) = Some (row_to_operation row')"
    using appended_row_is_loaded [OF row(1) _ ev] row(2) unfolding i by blast
  obtain n2 j2 r2 wc where run2: "endpoint_handler app (EpGet i) rq2 (request_context j2) (w2\<lparr>draws := n2\<rparr>) = (r2, wc)"
    and s2: "serve app (EpGet i) rq2 w2 = (Inr (case r2 of Inr cx \<Rightarrow> cx | Inl _ \<Rightarrow> (request_context j2)\<lparr>cx_writes :=
      [(500, middleware_error (request_context j2) ''INTERNAL_ERROR'' ''An unexpected error occurred'' True)]\<rparr>), wc)"
    by (rule serve_run)
  have "get_operation app i rq2 (request_context j2) (w2\<lparr>draws := n2\<rparr>) = (r2, wc)"
    using run2 by (simp add: auth_middleware_def)
  from get_stored [OF _ out(2) none this, of "row_to_operation row'"] op s2 assms(5)
  have "cx_status cx2 \<in> {200, 500}" "quiet w2 \<or> cx_status cx2 = 200 \<longrightarrow>
    cx_writes cx2 = [(200, operation_body (ha_base app) (row_to_operation row'))]" by auto
  then show ?thesis using that [OF rc row'] bd'(3,4) out(1) unfolding id by simp
qed

text \<open>
  C23: what a create returned can be read for ever after: whatever runs after a create that was answered
  with 202, a request for the operation with the returned id is answered with 200 and that operation, or
  with 500 when the query fails, but never with 404; and the links of the answer are the routes under
  which the operation and its result are served.
\<close>

theorem created_operation_stays_readable:
  assumes "ha_key_columns app = idempotency_keys_columns"
    and "serve app EpCreate rq w = (Inr cx, w1)" and "cx_status cx = 202"
    and "steps (w1, L) (w2, L')" and "serve app (EpGet i) rq2 w2 = (Inr cx2, w3)"
    and "cx_writes cx = [(202, JObj bd)]" and "map_of bd ''operation_id'' = Some (JStr i)"
  shows "cx_status cx2 \<in> {200, 500} \<and>
    (quiet w2 \<longrightarrow> (\<exists>op. op_id op = i \<and> cx_writes cx2 = [(200, operation_body (ha_base app) op)])) \<and>
    map_of bd ''status_url'' = Some (JStr (ha_base app @ snd (endpoint_route (EpGet i)))) \<and>
    map_of bd ''result_url'' = Some (JStr (ha_base app @ snd (endpoint_route (EpResult i))))"
proof -
  from assms obtain r inp now row where
    row: "row_evolves (op_create_row (new_operation inp i now)) row"
    and links: "map_of bd ''status_url'' = Some (JStr (co_status_url (create_result (ha_base app) i now)))"
      "map_of bd ''result_url'' = Some (JStr (co_result_url (create_result (ha_base app) i now)))"
    and get: "cx_status cx2 \<in> {200, 500}" "quiet w2 \<or> cx_status cx2 = 200 \<longrightarrow>
      cx_writes cx2 = [(200, operation_body (ha_base app) (row_to_operation row))]"
    by (rule created_then_get)
  have "op_id (row_to_operation row) = i"
    using row by (simp add: row_evolves_def op_create_row_def new_operation_def)
  with get(2) have "quiet w2 \<longrightarrow> (\<exists>op. op_id op = i \<and> cx_writes cx2 = [(200, operation_body (ha_base app) op)])"
    by blast
  then show ?thesis using get(1) links by (simp add: create_result_def status_url_def)
qed

text \<open>The sample: one create and one read.\<close>

definition sample_post :: http_request where
  "sample_post = sample_request ''POST'' [(''Idempotency-Key'', ''k''), (''Content-Type'', ''application/json'')]
     (Some (JObj [(''processor'', JStr ''demo'')])) []"

lemma sample_post_decoded:
  "Option.bind (hr_json sample_post) decode_create = Some \<lparr>cr_processor = ''demo'', cr_options = [],
     cr_metadata = [], cr_deadline = None, cr_max_attempts = None, cr_client_reference = []\<rparr>"
  by (simp add: sample_post_def sample_request_def) code_simp

lemma posted_runs:
  assumes "quiet w" and "db w = empty_db" and "content_type rq = ''application/json''"
    and "hr_headers rq ''Idempotency-Key'' = ''k''" and "Option.bind (hr_json rq) decode_create =
      Some \<lparr>cr_processor = ''demo'', cr_options = [], cr_metadata = [], cr_deadline = d,
        cr_max_attempts = None, cr_client_reference = []\<rparr>"
  obtains cx w' i bd where "serve sample_app EpCreate rq w = (Inr cx, w')"
    and "cx_writes cx = [(202, JObj bd)]" and "map_of bd ''operation_id'' = Some (JStr i)" and "quiet w'"
proof -
  obtain n j r wa where run: "endpoint_handler sample_app EpCreate rq (request_context j) (w\<lparr>draws := n\<rparr>) = (r, wa)"
    and s: "serve sample_app EpCreate rq w = (Inr (case r of Inr cx \<Rightarrow> cx | Inl _ \<Rightarrow> (request_context j)\<lparr>cx_writes :=
      [(500, middleware_error (request_context j) ''INTERNAL_ERROR'' ''An unexpected error occurred'' True)]\<rparr>), wa)"
    by (rule serve_run)
  obtain out w2 where ex: "create_execute idempotency_keys_columns ''http://h'' (sample_input\<lparr>ci_deadline := d\<rparr>)
      ''k'' (hr_method rq) (hr_path rq) (w\<lparr>draws := n\<rparr>) = (Inr out, w2)" and q: "quiet w2"
    using create_runs [of "w\<lparr>draws := n\<rparr>" "''http://h''" d "''k''" "hr_method rq" "hr_path rq"] assms(1,2)
    by auto
  have "\<exists>bd. r = Inr ((request_context j)\<lparr>cx_writes := [(202, JObj bd)]\<rparr>) \<and> wa = w2 \<and>
      map_of bd ''operation_id'' = Some (JStr (co_operation_id out))"
    using run ex assms(3-5)
    by (auto simp: auth_middleware_def content_type_middleware_def create_operations_def
        sample_app_def bindE_def attempt_def http_json_def ret_def request_context_def empty_context_def
        sample_input_def)
  then show ?thesis using that s q by auto
qed

lemma sample_post_runs:
  assumes "quiet w" and "db w = empty_db"
  shows "\<exists>cx w' i bd. serve sample_app EpCreate sample_post w = (Inr cx, w') \<and> cx_writes cx = [(202, JObj bd)] \<and>
    map_of bd ''operation_id'' = Some (JStr i)"
proof -
  have "content_type sample_post = ''application/json''" "hr_headers sample_post ''Idempotency-Key'' = ''k''"
    by (simp_all add: sample_post_def sample_request_def content_type_def)
  from posted_runs [OF assms this sample_post_decoded] show ?thesis by metis
qed

theorem created_operation_stays_readable_witness:
  "\<exists>cx bd i cx2. fst (serve sample_app EpCreate sample_post (sample_world empty_db)) = Inr cx \<and>
     cx_writes cx = [(202, JObj bd)] \<and> map_of bd ''operation_id'' = Some (JStr i) \<and>
     fst (serve sample_app (EpGet i) sample_post
       (snd (serve sample_app EpCreate sample_post (sample_world empty_db)))) = Inr cx2 \<and>
     cx_status cx2 \<in> {200, 500}"
proof -
  obtain cx w1 i bd where run: "serve sample_app EpCreate sample_post (sample_world empty_db) = (Inr cx, w1)"
    "cx_writes cx = [(202, JObj bd)]" "map_of bd ''operation_id'' = Some (JStr i)"
    using sample_post_runs [of "sample_world empty_db"] by auto
  obtain cx2 w3 where get: "serve sample_app (EpGet i) sample_post w1 = (Inr cx2, w3)"
    by (rule serve_run) blast
  have "cx_status cx2 \<in> {200, 500}"
    using created_operation_stays_readable [OF _ run(1) _ rtranclp.rtrancl_refl get run(2,3)] run(2)
    by (simp add: sample_app_def cx_status_def)
  then show ?thesis using run get by auto
qed

section \<open>What the interface never answers\<close>

text \<open>
  C25: in every reachable state, a request for a result is not answered with 200 and a retry not with 202,
  whatever the request and the environment; when no call fails, the result of a stored operation is
  answered with 409.
\<close>

theorem no_result_served:
  assumes "reachable (w, L)" and "serve app (EpResult i) rq w = (Inr cx, w')"
    and "serve app (EpRetry i) rq w = (Inr cx2, w'')"
  shows "cx_status cx \<noteq> 200 \<and> cx_status cx2 \<noteq> 202 \<and>
    (quiet w \<longrightarrow> db_operation i (db w) \<noteq> None \<longrightarrow> i \<noteq> [] \<longrightarrow> cx_status cx = 409)"
proof -
  have none: "cx_writes (request_context k) = []" for k by (simp add: request_context_def empty_context_def)
  have reach: "reachable (w\<lparr>draws := n\<rparr>, L)" for n
    using assms(1) step.environment [of "w\<lparr>draws := n\<rparr>" w L]
    by (auto simp: reachable_def intro: rtranclp.rtrancl_into_rtrancl)
  obtain n j r w1 where run: "endpoint_handler app (EpResult i) rq (request_context j) (w\<lparr>draws := n\<rparr>) = (r, w1)"
    and s: "serve app (EpResult i) rq w = (Inr (case r of Inr cx \<Rightarrow> cx | Inl _ \<Rightarrow> (request_context j)\<lparr>cx_writes :=
      [(500, middleware_error (request_context j) ''INTERNAL_ERROR'' ''An unexpected error occurred'' True)]\<rparr>), w1)"
    by (rule serve_run)
  obtain e v where e: "result_execute i (w\<lparr>draws := n\<rparr>) = (Inl e, v)"
    using refused_everywhere [OF reach, of i n] by (metis isl_def surjective_pairing)
  have "cx_status cx \<noteq> 200"
    using s assms(2) run e none [of j]
    by (auto simp: auth_middleware_def result_operations_def result_errors_def internal_error_def
        bindE_def attempt_def http_json_def ret_def cx_status_def split: if_splits)
  moreover have "cx_status cx = 409" if "quiet w" "db_operation i (db w) \<noteq> None" "i \<noteq> []"
  proof -
    have "e = ErrResultNotReady" using refused_everywhere [OF reach, of i n] that e by simp
    then show ?thesis using s assms(2) run e none [of j] that(3)
      by (auto simp: auth_middleware_def result_operations_def result_errors_def
          bindE_def attempt_def http_json_def ret_def cx_status_def)
  qed
  moreover have "cx_status cx2 \<noteq> 202"
  proof -
    obtain n j r w1 where run: "endpoint_handler app (EpRetry i) rq (request_context j) (w\<lparr>draws := n\<rparr>) = (r, w1)"
      and s: "serve app (EpRetry i) rq w = (Inr (case r of Inr cx \<Rightarrow> cx | Inl _ \<Rightarrow> (request_context j)\<lparr>cx_writes :=
        [(500, middleware_error (request_context j) ''INTERNAL_ERROR'' ''An unexpected error occurred'' True)]\<rparr>), w1)"
      by (rule serve_run)
    have "retry_execute base i reason (w\<lparr>draws := n\<rparr>) \<noteq> (Inr y, v)" for base reason y v
      using refused_everywhere [OF reach, of i n base reason] by auto
    then show ?thesis using s assms(3) run none [of j]
      by (auto simp: auth_middleware_def content_type_middleware_def retry_operations_def with_reason_def
          retry_errors_def internal_error_def bindE_def attempt_def http_json_def ret_def cx_status_def
          split: if_splits option.splits prod.splits sum.splits)
  qed
  ultimately show ?thesis by blast
qed

theorem no_result_served_witness:
  "cx_status (projr (fst (serve sample_app (EpResult ''op-1'') sample_post created_world))) \<noteq> 200"
proof -
  obtain cx w' where a: "serve sample_app (EpResult ''op-1'') sample_post created_world = (Inr cx, w')"
    by (rule serve_run) blast
  obtain cx2 w'' where b: "serve sample_app (EpRetry ''op-1'') sample_post created_world = (Inr cx2, w'')"
    by (rule serve_run) blast
  from no_result_served [OF created_reachable a b] a show ?thesis by simp
qed

lemma opt_member_skip: "k \<noteq> l \<Longrightarrow> map_of (opt_member k f v @ r) l = map_of r l"
  by (simp add: opt_member_def split: option.split)

text \<open>
  The links that reading an operation gives lead nowhere: neither is the base address followed by
  the path of a route, unlike the links of a create.
\<close>

lemma read_links_are_no_routes:
  "\<exists>bd su ru. operation_body base op = JObj bd \<and> map_of bd ''status_url'' = Some (JStr su) \<and>
     map_of bd ''result_url'' = Some (JStr ru) \<and>
     su \<noteq> base @ snd (endpoint_route ep) \<and> ru \<noteq> base @ snd (endpoint_route ep)"
proof -
  have "take 2 (snd (endpoint_route ep)) = ''/a''" by (cases ep) simp_all
  moreover have "take 2 (''/operations/'' @ x) = ''/o''" for x by simp
  moreover have "''/a'' \<noteq> ''/o''" by simp
  ultimately have "''/operations/'' @ x \<noteq> snd (endpoint_route ep)" for x by metis
  then show ?thesis
    by (simp add: operation_body_def opt_member_skip del: map_of_append)
qed

end
