(* ===== verification/Indexer.thy ===== *)
theory Indexer
  imports Create_Op "HOL-Library.Multiset"
begin

text \<open>
  The search indexer (\<open>infrastructure/elasticsearch/document.go\<close>, \<open>indexer.go\<close>): the document of a
  completed operation, the channel of documents, the two workers that send them to Elasticsearch, the
  dead letter file, and the stop. Elasticsearch is seen through
  its answers and the documents it has taken, in order; the client knows the index it writes to.
\<close>

section \<open>The document\<close>

record completed_document =
  cd_operation_id :: string
  cd_node_id :: string
  cd_update_type :: string
  cd_status :: string
  cd_duration_ms :: int
  cd_file_size :: int
  cd_started_at :: int
  cd_completed_at :: int
  cd_processor :: string
  cd_event_type :: string
  cd_actor_node_id :: string
  cd_issued_at :: int
  cd_client_ref :: string
  cd_retry_count :: int
  cd_max_attempts :: int
  cd_input_file_name :: string
  cd_input_file_size :: int

text \<open>\<open>t.Sub(u)\<close> saturates, and \<open>Milliseconds\<close> cuts towards zero.\<close>

definition time_sub :: "int \<Rightarrow> int \<Rightarrow> int" where
  "time_sub t u = max min_int64 (min max_int64 (t - u))"

definition milliseconds :: "int \<Rightarrow> int" where
  "milliseconds d = (if d < 0 then - ((- d) div 1000000) else d div 1000000)"

definition build_completed_document :: "operation \<Rightarrow> operation_event \<Rightarrow> string \<Rightarrow> completed_document" where
  "build_completed_document op evt node =
     (let completed = (if ev_issued_at evt > op_created_at op then ev_issued_at evt else op_updated_at op);
          file_size = (case op_input_file op of None \<Rightarrow> 0 | Some f \<Rightarrow> if_size_bytes f)
      in \<lparr>cd_operation_id = op_id op, cd_node_id = node, cd_update_type = ''PROCESS_UPDATE'',
          cd_status = op_status_string (op_status op),
          cd_duration_ms = (if op_created_at op \<noteq> zero_time \<and> completed \<noteq> zero_time
            then milliseconds (time_sub completed (op_created_at op)) else 0),
          cd_file_size = file_size, cd_started_at = op_created_at op, cd_completed_at = completed,
          cd_processor = op_processor op, cd_event_type = event_type_string (ev_type evt),
          cd_actor_node_id = ev_actor_node_id evt, cd_issued_at = ev_issued_at evt,
          cd_client_ref = op_client_reference op, cd_retry_count = op_retry_count op,
          cd_max_attempts = op_max_attempts op,
          cd_input_file_name = (case op_input_file op of None \<Rightarrow> [] | Some f \<Rightarrow> if_file_name f),
          cd_input_file_size = file_size\<rparr>)"

text \<open>The JSON form; the last group leaves out empty values.\<close>

definition marshal_document :: "completed_document \<Rightarrow> json" where
  "marshal_document d =
     JObj ([(''operation_id'', JStr (cd_operation_id d)), (''node_id'', JStr (cd_node_id d)),
            (''update_type'', JStr (cd_update_type d)), (''status'', JStr (cd_status d)),
            (''duration_ms'', JInt (cd_duration_ms d)), (''file_size'', JInt (cd_file_size d)),
            (''started_at'', JStr (rfc3339_nano (cd_started_at d))),
            (''completed_at'', JStr (rfc3339_nano (cd_completed_at d))),
            (''processor'', JStr (cd_processor d)), (''event_type'', JStr (cd_event_type d)),
            (''actor_node_id'', JStr (cd_actor_node_id d)),
            (''issued_at'', JStr (rfc3339_nano (cd_issued_at d)))] @
           (if cd_client_ref d = [] then [] else [(''client_reference'', JStr (cd_client_ref d))]) @
           [(''retry_count'', JInt (cd_retry_count d)), (''max_attempts'', JInt (cd_max_attempts d))] @
           (if cd_input_file_name d = [] then [] else [(''input_file_name'', JStr (cd_input_file_name d))]) @
           (if cd_input_file_size d = 0 then [] else [(''input_file_size'', JInt (cd_input_file_size d))]))"

section \<open>The indexer\<close>

definition default_channel_cap :: nat where "default_channel_cap = 1000"
definition default_workers :: nat where "default_workers = 2"

record indexed_doc =
  xd_doc :: string
  xd_id :: string
  xd_op_id :: string

record dead_letter =
  dl_failed_at :: int
  dl_op_id :: string
  dl_document :: string

text \<open>
  A worker waits in its select, has a document in hand (while it drains, or not), drains, or is done.
\<close>

datatype index_worker = Waiting | Indexing bool indexed_doc | Draining | Finished

record indexer =
  ix_client :: string
  ix_node :: string
  ix_queue :: "indexed_doc list"
  ix_buffer :: "indexed_doc list"
  ix_closed :: bool
  ix_cancelled :: bool
  ix_workers :: "index_worker list"
  ix_sent :: "indexed_doc list"
  ix_dead :: "dead_letter list"

definition new_indexer :: "string \<Rightarrow> string \<Rightarrow> indexer" where
  "new_indexer index node = \<lparr>ix_client = index, ix_node = node, ix_queue = [], ix_buffer = [], ix_closed = False,
     ix_cancelled = False, ix_workers = [], ix_sent = [], ix_dead = []\<rparr>"

definition ix_start :: "indexer \<Rightarrow> indexer" where
  "ix_start s = s\<lparr>ix_workers := ix_workers s @ replicate default_workers Waiting\<rparr>"

definition build_doc :: "string \<Rightarrow> operation \<Rightarrow> operation_event \<Rightarrow> string" where
  "build_doc node op evt = json_text (marshal_document (build_completed_document op evt node))"

definition make_doc :: "string \<Rightarrow> operation \<Rightarrow> operation_event \<Rightarrow> indexed_doc" where
  "make_doc node op evt = \<lparr>xd_doc = build_doc node op evt, xd_id = op_id op, xd_op_id = op_id op\<rparr>"

text \<open>The dead letter file takes the document, or cannot be opened or written and the document is gone.\<close>

definition dlq_from_doc :: "bool \<Rightarrow> int \<Rightarrow> indexed_doc \<Rightarrow> indexer \<Rightarrow> indexer" where
  "dlq_from_doc writable now d s =
     (if writable then s\<lparr>ix_dead := ix_dead s @
        [\<lparr>dl_failed_at = now, dl_op_id = xd_op_id d, dl_document = xd_doc d\<rparr>]\<rparr>
      else s)"

definition ix_index :: "bool \<Rightarrow> int \<Rightarrow> operation \<Rightarrow> operation_event \<Rightarrow> indexer \<Rightarrow> indexer" where
  "ix_index writable now op evt s =
     (let d = make_doc (ix_node s) op evt
      in if length (ix_queue s) < default_channel_cap then s\<lparr>ix_queue := ix_queue s @ [d]\<rparr>
         else dlq_from_doc writable now d s)"

text \<open>\<open>Stop\<close> closes the channel \<open>closed\<close> and waits until the workers are done.\<close>

definition ix_close :: "indexer \<Rightarrow> indexer" where
  "ix_close s = s\<lparr>ix_closed := True\<rparr>"

definition ix_stopped :: "indexer \<Rightarrow> bool" where
  "ix_stopped s = (ix_closed s \<and> list_all (\<lambda>wk. wk = Finished) (ix_workers s))"

text \<open>The flusher empties a buffer that nothing fills.\<close>

definition ix_flush :: "indexer \<Rightarrow> indexer" where
  "ix_flush s = (if ix_buffer s = [] then s else s\<lparr>ix_buffer := []\<rparr>)"

definition set_worker :: "nat \<Rightarrow> index_worker \<Rightarrow> indexer \<Rightarrow> indexer" where
  "set_worker k wk s = s\<lparr>ix_workers := (ix_workers s)[k := wk]\<rparr>"

text \<open>
  The Elasticsearch client. A server answers a request with an error of the transport or with a status, and
  has stored the document or not; with a status of the 200s it has. The client takes every status below
  400 for a success, a redirection too, which it does not follow.
\<close>

record index_request =
  iq_index :: string
  iq_document_id :: string
  iq_body :: string
  iq_refresh :: string

type_synonym es_answer = "go_error + int"
type_synonym es_server = "index_request \<Rightarrow> es_answer \<times> bool"

definition index_request_of :: "string \<Rightarrow> string \<Rightarrow> string \<Rightarrow> index_request" where
  "index_request_of index doc id' =
     \<lparr>iq_index = index, iq_document_id = id', iq_body = doc, iq_refresh = ''false''\<rparr>"

definition client_index :: "es_answer \<Rightarrow> go_error option" where
  "client_index answer =
     (case answer of
        Inl e \<Rightarrow> Some (ErrWrap ''error indexing document'' e)
      | Inr status \<Rightarrow>
          if status \<ge> 400 then Some (ErrMsg (''elasticsearch returned status '' @ fmt_d status)) else None)"

definition stored_by :: "es_answer \<times> bool \<Rightarrow> bool" where
  "stored_by r =
     ((case fst r of Inl e \<Rightarrow> False | Inr status \<Rightarrow> 200 \<le> status \<and> status < 300) \<or> snd r)"

text \<open>A server that has stored every document for which the client sees a success.\<close>

definition faithful :: "es_server \<Rightarrow> bool" where
  "faithful es = (\<forall>rq. client_index (fst (es rq)) = None \<longrightarrow> stored_by (es rq))"

text \<open>A document in hand: it is sent, and set aside in the dead letter file after an error.\<close>

definition index_doc :: "es_server \<Rightarrow> bool \<Rightarrow> int \<Rightarrow> indexed_doc \<Rightarrow> indexer \<Rightarrow> indexer" where
  "index_doc es writable now d s =
     (let r = es (index_request_of (ix_client s) (xd_doc d) (xd_id d));
          s1 = (if stored_by r then s\<lparr>ix_sent := ix_sent s @ [d]\<rparr> else s)
      in case client_index (fst r) of None \<Rightarrow> s1 | Some _ \<Rightarrow> dlq_from_doc writable now d s1)"

text \<open>
  What worker \<open>k\<close> does next. In the select of a waiting worker both cases may be ready; \<open>stop\<close> says
  which is taken.
\<close>

definition worker_next :: "bool \<Rightarrow> es_server \<Rightarrow> bool \<Rightarrow> int \<Rightarrow> nat \<Rightarrow> indexer \<Rightarrow> indexer option" where
  "worker_next stop es writable now k s =
     (if k < length (ix_workers s) then
        (case ix_workers s ! k of
           Waiting \<Rightarrow>
             (if stop then
                (if ix_closed s \<or> ix_cancelled s then Some (set_worker k Draining s) else None)
              else
                (case ix_queue s of
                   [] \<Rightarrow> None
                 | d # q \<Rightarrow> Some (set_worker k (Indexing False d) (s\<lparr>ix_queue := q\<rparr>))))
         | Indexing draining d \<Rightarrow>
             Some (set_worker k (if draining then Draining else Waiting) (index_doc es writable now d s))
         | Draining \<Rightarrow>
             (case ix_queue s of
                [] \<Rightarrow> Some (set_worker k Finished s)
              | d # q \<Rightarrow> Some (set_worker k (Indexing True d) (s\<lparr>ix_queue := q\<rparr>)))
         | Finished \<Rightarrow> None)
      else None)"

text \<open>
  The steps, with the documents handed over in them. The first argument says that the dead letter file
  can always be written, and that Elasticsearch has stored whatever it answers with a success.
\<close>

inductive ix_step :: "bool \<Rightarrow> indexer \<Rightarrow> indexed_doc list \<Rightarrow> indexer \<Rightarrow> bool" for lossless where
  start: "ix_workers s = [] \<Longrightarrow> ix_step lossless s [] (ix_start s)"
| submit: "(lossless \<Longrightarrow> writable) \<Longrightarrow>
    ix_step lossless s [make_doc (ix_node s) op evt] (ix_index writable now op evt s)"
| run: "(lossless \<Longrightarrow> writable \<and> faithful es) \<Longrightarrow> worker_next stop es writable now k s = Some s' \<Longrightarrow> ix_step lossless s [] s'"
| flush: "ix_step lossless s [] (ix_flush s)"
| close: "ix_step lossless s [] (ix_close s)"
| cancel: "ix_step lossless s [] (s\<lparr>ix_cancelled := True\<rparr>)"

inductive ix_run :: "bool \<Rightarrow> indexer \<Rightarrow> indexed_doc list \<Rightarrow> indexer \<Rightarrow> bool" for lossless where
  refl: "ix_run lossless s [] s"
| step: "ix_run lossless s ds s' \<Longrightarrow> ix_step lossless s' es s'' \<Longrightarrow> ix_run lossless s (ds @ es) s''"

inductive_cases ix_stepE: "ix_step lossless s ds s'"

end
