(* ===== verification/Indexer_Properties.thy ===== *)
theory Indexer_Properties
  imports Indexer Samples "HOL-Library.Sublist"
begin

text \<open>
  Properties of the search indexer: the channel stays within its capacity; no document is lost while it
  runs, if the dead letter file can be written and Elasticsearch stores what it accepts; a stop drains the
  channel and ends; and what is handed over after it stays in the channel, and is lost with the process.
\<close>

section \<open>Invariants of a run\<close>

text \<open>
  An invariant of the indexer and of the documents handed over so far.
\<close>

locale indexer_invariant =
  fixes lossless :: bool and I :: "indexed_doc list \<Rightarrow> indexer \<Rightarrow> bool"
  assumes kept: "I ds s \<Longrightarrow> ix_step lossless s es s' \<Longrightarrow> I (ds @ es) s'"
begin

lemma along_run: "ix_run lossless s es s' \<Longrightarrow> I ds s \<Longrightarrow> I (ds @ es) s'"
proof (induction rule: ix_run.induct)
  case (refl s)
  then show ?case by simp
next
  case (step s es s' es' s'')
  then show ?case using kept [of "ds @ es"] by simp
qed

lemma from_start: "ix_run lossless s es s' \<Longrightarrow> I [] s \<Longrightarrow> I es s'"
  using along_run [of s es s' "[]"] by simp

end

section \<open>Where the documents are\<close>

definition doc_key :: "indexed_doc \<Rightarrow> string \<times> string" where
  "doc_key d = (xd_op_id d, xd_doc d)"

definition dead_key :: "dead_letter \<Rightarrow> string \<times> string" where
  "dead_key e = (dl_op_id e, dl_document e)"

fun in_hand :: "index_worker \<Rightarrow> (string \<times> string) multiset" where
  "in_hand (Indexing _ d) = {#doc_key d#}"
| "in_hand _ = {#}"

definition hands :: "index_worker list \<Rightarrow> (string \<times> string) multiset" where
  "hands ws = sum_list (map in_hand ws)"

definition kept_docs :: "indexer \<Rightarrow> (string \<times> string) multiset" where
  "kept_docs s = mset (map doc_key (ix_queue s)) + hands (ix_workers s) +
     mset (map doc_key (ix_sent s)) + mset (map dead_key (ix_dead s))"

lemma hands_update:
  "k < length ws \<Longrightarrow> hands (ws[k := wk]) + in_hand (ws ! k) = hands ws + in_hand wk"
  by (induction ws arbitrary: k) (auto simp: hands_def nth_Cons' list_update.simps(2) split: nat.split)

lemma hands_append: "hands (ws @ vs) = hands ws + hands vs"
  by (simp add: hands_def)

lemma kept_set_worker:
  "k < length (ix_workers s) \<Longrightarrow>
     kept_docs (set_worker k wk s) + in_hand (ix_workers s ! k) = kept_docs s + in_hand wk"
  using hands_update [of k "ix_workers s" wk] by (simp add: kept_docs_def set_worker_def)

lemma kept_dlq:
  "kept_docs (dlq_from_doc writable now d s) = kept_docs s + (if writable then {#doc_key d#} else {#})"
  by (simp add: kept_docs_def dlq_from_doc_def dead_key_def doc_key_def)

lemma kept_index_doc:
  "(writable \<and> faithful es \<longrightarrow> kept_docs s + {#doc_key d#} \<subseteq># kept_docs (index_doc es writable now d s)) \<and>
   set_mset (kept_docs (index_doc es writable now d s)) \<subseteq> insert (doc_key d) (set_mset (kept_docs s))"
proof -
  have "kept_docs (s\<lparr>ix_sent := ix_sent s @ [d]\<rparr>) = kept_docs s + {#doc_key d#}"
    by (simp add: kept_docs_def)
  then show ?thesis by (auto simp: index_doc_def Let_def kept_dlq faithful_def split: option.split)
qed

lemma workers_frame [simp]:
  "ix_workers (dlq_from_doc writable now d s) = ix_workers s"
  "ix_workers (index_doc es writable now d s) = ix_workers s"
  "ix_queue (dlq_from_doc writable now d s) = ix_queue s"
  "ix_queue (index_doc es writable now d s) = ix_queue s"
  by (simp_all add: dlq_from_doc_def index_doc_def Let_def split: option.split)

lemma kept_take:
  "ix_queue s = d # q \<Longrightarrow> kept_docs s = kept_docs (s\<lparr>ix_queue := q\<rparr>) + {#doc_key d#}"
  by (simp add: kept_docs_def)

text \<open>
  A worker keeps every document if the dead letter file can be written and a success means that the
  document is stored, and makes none up.
\<close>

lemma worker_next_keeps:
  assumes "worker_next stop es writable now k s = Some s'"
  shows "(writable \<and> faithful es \<longrightarrow> kept_docs s \<subseteq># kept_docs s') \<and> set_mset (kept_docs s') \<subseteq> set_mset (kept_docs s)"
proof -
  have k: "k < length (ix_workers s)" using assms by (simp add: worker_next_def split: if_splits)
  have take: "kept_docs s' = kept_docs s"
    if "ix_queue s = d # q" "in_hand (ix_workers s ! k) = {#}"
      "s' = set_worker k (Indexing dr d) (s\<lparr>ix_queue := q\<rparr>)" for d q dr
    using kept_set_worker [of k "s\<lparr>ix_queue := q\<rparr>" "Indexing dr d"] kept_take [OF that(1)] that k by simp
  have move: "kept_docs s' = kept_docs s"
    if "in_hand (ix_workers s ! k) = {#}" "s' = set_worker k wk s" "in_hand wk = {#}" for wk
    using kept_set_worker [OF k, of wk] that by simp
  show ?thesis
  proof (cases "ix_workers s ! k")
    case (Indexing dr d)
    let ?s1 = "index_doc es writable now d s"
    have "s' = set_worker k (if dr then Draining else Waiting) ?s1"
      using assms Indexing k by (simp add: worker_next_def)
    then have eq: "kept_docs s' + {#doc_key d#} = kept_docs ?s1"
      using kept_set_worker [of k ?s1 "if dr then Draining else Waiting"] Indexing k by simp
    have "doc_key d \<in># hands (ix_workers s)"
      using k Indexing by (force simp: hands_def in_set_conv_nth set_mset_sum_list)
    then have d: "doc_key d \<in># kept_docs s" by (simp add: kept_docs_def)
    have "set_mset (kept_docs s') \<subseteq> set_mset (kept_docs ?s1)"
      unfolding eq [symmetric] by auto
    also have "\<dots> \<subseteq> set_mset (kept_docs s)"
      using kept_index_doc [of writable es s d now] d by blast
    finally have "set_mset (kept_docs s') \<subseteq> set_mset (kept_docs s)" .
    moreover have "writable \<and> faithful es \<longrightarrow> kept_docs s \<subseteq># kept_docs s'"
    proof
      assume "writable \<and> faithful es"
      then have "kept_docs s + {#doc_key d#} \<subseteq># kept_docs s' + {#doc_key d#}"
        using kept_index_doc [of writable es s d now] unfolding eq by blast
      then show "kept_docs s \<subseteq># kept_docs s'" by simp
    qed
    ultimately show ?thesis by blast
  qed (use assms k take move in \<open>auto simp: worker_next_def split: if_splits list.splits\<close>)
qed


lemma kept_submit:
  "(writable \<longrightarrow> kept_docs s + {#doc_key (make_doc (ix_node s) op evt)#} \<subseteq># kept_docs (ix_index writable now op evt s)) \<and>
   set_mset (kept_docs (ix_index writable now op evt s)) \<subseteq>
     insert (doc_key (make_doc (ix_node s) op evt)) (set_mset (kept_docs s))"
proof -
  have "kept_docs (s\<lparr>ix_queue := ix_queue s @ [d]\<rparr>) = kept_docs s + {#doc_key d#}" for d
    by (simp add: kept_docs_def)
  then show ?thesis by (auto simp: ix_index_def Let_def kept_dlq)
qed

lemma kept_others [simp]:
  "kept_docs (ix_start s) = kept_docs s" "kept_docs (ix_flush s) = kept_docs s"
  "kept_docs (ix_close s) = kept_docs s" "kept_docs (s\<lparr>ix_cancelled := b\<rparr>) = kept_docs s"
  by (simp_all add: kept_docs_def ix_start_def ix_flush_def ix_close_def hands_append default_workers_def
      hands_def numeral_2_eq_2)

interpretation accounted: indexer_invariant True "\<lambda>ds s. mset (map doc_key ds) \<subseteq># kept_docs s"
proof
  fix ds s es s'
  assume I: "mset (map doc_key ds) \<subseteq># kept_docs s" and st: "ix_step True s es s'"
  from st show "mset (map doc_key (ds @ es)) \<subseteq># kept_docs s'"
  proof cases
    case (submit writable op evt now)
    let ?x = "{#doc_key (make_doc (ix_node s) op evt)#}"
    have "mset (map doc_key ds) + ?x \<subseteq># kept_docs s + ?x"
      using I by (rule subset_mset.add_right_mono)
    also have "\<dots> \<subseteq># kept_docs s'"
      using submit kept_submit [of writable s op evt now] by simp
    finally show ?thesis using submit by simp
  next
    case (run writable es2 stop now k)
    then show ?thesis using I worker_next_keeps [OF run(3)] by (auto intro: subset_mset.trans)
  qed (use I in auto)
qed

interpretation honest: indexer_invariant lossless "\<lambda>ds s. set_mset (kept_docs s) \<subseteq> doc_key ` set ds"
proof
  fix ds s es s'
  assume I: "set_mset (kept_docs s) \<subseteq> doc_key ` set ds" and st: "ix_step lossless s es s'"
  from st show "set_mset (kept_docs s') \<subseteq> doc_key ` set (ds @ es)"
  proof cases
    case (submit writable op evt now)
    then show ?thesis using kept_submit [of writable s op evt now] I by auto
  next
    case (run writable es2 stop now k)
    then show ?thesis using I worker_next_keeps [OF run(3)] by auto
  qed (use I in auto)
qed

interpretation bounded: indexer_invariant lossless "\<lambda>ds s. length (ix_queue s) \<le> default_channel_cap"
proof
  fix ds s es s'
  assume I: "length (ix_queue s) \<le> default_channel_cap" and st: "ix_step lossless s es s'"
  from st show "length (ix_queue s') \<le> default_channel_cap"
    using I
    by cases (auto simp: ix_start_def ix_index_def Let_def ix_flush_def ix_close_def worker_next_def
        set_worker_def split: if_splits index_worker.splits list.splits)
qed

lemma new_indexer_empty [simp]: "kept_docs (new_indexer index node) = {#}" "ix_queue (new_indexer index node) = []"
  by (simp_all add: kept_docs_def new_indexer_def hands_def)

text \<open>
  C37: in every run of the indexer the channel holds at most 1000 documents, and whatever is stored by
  Elasticsearch, in the dead letter file, in the channel or in a worker's hand has been handed over before.
  If the dead letter file can always be written and Elasticsearch has stored each document that it answers
  with a status below 400, then every document handed over is in one of these four places, as often as it
  was handed over. That includes a document that was handed over when the workers were done: it is in the
  channel, where nothing takes it any more.
\<close>

theorem documents_are_kept:
  assumes "ix_run lossless (new_indexer index node) ds s"
  shows "length (ix_queue s) \<le> 1000 \<and> set_mset (kept_docs s) \<subseteq> doc_key ` set ds \<and>
    (lossless \<longrightarrow> mset (map doc_key ds) \<subseteq># kept_docs s)"
proof -
  have "length (ix_queue s) \<le> 1000"
    using bounded.from_start [OF assms] by (simp add: default_channel_cap_def)
  moreover have "set_mset (kept_docs s) \<subseteq> doc_key ` set ds"
    by (rule honest.from_start [OF assms]) simp
  moreover have "mset (map doc_key ds) \<subseteq># kept_docs s" if "lossless"
    using accounted.from_start [of "new_indexer index node" ds s] assms that by simp
  ultimately show ?thesis by blast
qed

lemma one_document_run:
  "ix_run True (new_indexer ''i'' ''n'') [make_doc ''n'' op evt] (ix_index True 0 op evt (new_indexer ''i'' ''n''))"
  using ix_run.step [OF ix_run.refl ix_step.submit [of True True "new_indexer ''i'' ''n''" op evt 0]]
  by (simp add: new_indexer_def)

theorem documents_are_kept_witness:
  "\<exists>op evt. {# doc_key (make_doc ''n'' op evt) #} \<subseteq># kept_docs (ix_index True 0 op evt (new_indexer ''i'' ''n''))"
  using documents_are_kept [OF one_document_run] by auto

text \<open>Without the second condition a document gets lost: a redirection is taken for a success.\<close>

lemma redirection_loses_document:
  assumes "es (index_request_of (ix_client s) (xd_doc d) (xd_id d)) = (Inr 301, False)"
  shows "index_doc es writable now d s = s"
  by (simp add: index_doc_def assms client_index_def stored_by_def)

section \<open>Stopping\<close>

text \<open>The steps of the workers alone.\<close>

definition worker_step :: "indexer \<Rightarrow> indexer \<Rightarrow> bool" where
  "worker_step s s' = (\<exists>stop es writable now k. worker_next stop es writable now k s = Some s')"

text \<open>
  A run during the stop: steps of the workers and documents handed over meanwhile, with their number. (The
  flusher, which moves no document, is left aside.)
\<close>

inductive stop_run :: "bool \<Rightarrow> nat \<Rightarrow> indexer \<Rightarrow> indexed_doc list \<Rightarrow> indexer \<Rightarrow> bool" for lossless where
  none: "stop_run lossless 0 s [] s"
| work: "stop_run lossless n s ds s' \<Longrightarrow> (lossless \<Longrightarrow> writable \<and> faithful es) \<Longrightarrow>
    worker_next stop es writable now k s' = Some s'' \<Longrightarrow> stop_run lossless (Suc n) s ds s''"
| hand_over: "stop_run lossless n s ds s' \<Longrightarrow> (lossless \<Longrightarrow> writable) \<Longrightarrow>
    stop_run lossless (Suc n) s (ds @ [make_doc (ix_node s') op evt]) (ix_index writable now op evt s')"

fun worker_weight :: "index_worker \<Rightarrow> nat" where
  "worker_weight Waiting = 2"
| "worker_weight (Indexing draining _) = (if draining then 2 else 3)"
| "worker_weight Draining = 1"
| "worker_weight Finished = 0"

definition work_left :: "indexer \<Rightarrow> nat" where
  "work_left s = 2 * length (ix_queue s) + sum_list (map worker_weight (ix_workers s))"

lemma weight_update:
  "k < length ws \<Longrightarrow> sum_list (map worker_weight (ws[k := wk])) + worker_weight (ws ! k) =
     sum_list (map worker_weight ws) + worker_weight wk"
  by (induction ws arbitrary: k) (auto split: nat.split simp: nth_Cons')

lemma worker_next_cases:
  assumes "worker_next stop es writable now k s = Some s'"
  obtains (leave) "k < length (ix_workers s)" "ix_workers s ! k = Waiting" "ix_closed s \<or> ix_cancelled s"
      "s' = set_worker k Draining s"
  | (take) d q draining where "k < length (ix_workers s)" "ix_queue s = d # q"
      "ix_workers s ! k = (if draining then Draining else Waiting)"
      "s' = set_worker k (Indexing draining d) (s\<lparr>ix_queue := q\<rparr>)"
  | (send) d draining where "k < length (ix_workers s)" "ix_workers s ! k = Indexing draining d"
      "s' = set_worker k (if draining then Draining else Waiting) (index_doc es writable now d s)"
  | (finish) "k < length (ix_workers s)" "ix_workers s ! k = Draining" "ix_queue s = []"
      "s' = set_worker k Finished s"
  using assms unfolding worker_next_def
  by (cases "ix_workers s ! k"; cases "ix_queue s") (auto split: if_splits)

lemma set_worker_simps [simp]:
  "ix_workers (set_worker k wk s) = (ix_workers s)[k := wk]" "ix_queue (set_worker k wk s) = ix_queue s"
  "ix_closed (set_worker k wk s) = ix_closed s" "ix_sent (set_worker k wk s) = ix_sent s"
  by (simp_all add: set_worker_def)

lemma index_doc_closed [simp]: "ix_closed (index_doc es writable now d s) = ix_closed s"
  by (simp add: index_doc_def dlq_from_doc_def Let_def split: option.split)

lemma worker_next_shrinks:
  assumes "worker_next stop es writable now k s = Some s'"
  shows "work_left s' < work_left s"
  using assms
proof (cases rule: worker_next_cases)
  case leave
  then show ?thesis using weight_update [of k "ix_workers s" Draining] by (simp add: work_left_def)
next
  case (take d q draining)
  then show ?thesis using weight_update [of k "ix_workers s" "Indexing draining d"]
    by (auto simp: work_left_def split: if_splits)
next
  case (send d draining)
  then show ?thesis
    using weight_update [of k "ix_workers s" "if draining then Draining else Waiting"]
    by (auto simp: work_left_def split: if_splits)
next
  case finish
  then show ?thesis using weight_update [of k "ix_workers s" Finished] by (simp add: work_left_def)
qed

lemma worker_next_frame:
  assumes "worker_next stop es writable now k s = Some s'"
  shows "ix_closed s' = ix_closed s \<and> length (ix_workers s') = length (ix_workers s)"
  using assms by (cases rule: worker_next_cases) auto

text \<open>
  The last worker to finish has seen the channel empty: either some worker is not done, or the channel
  holds what was handed over after all were.
\<close>

definition drained_if_done :: "indexed_doc list \<Rightarrow> indexer \<Rightarrow> bool" where
  "drained_if_done ds s =
     ((\<exists>wk\<in>set (ix_workers s). wk \<noteq> Finished) \<or>
      (\<exists>late. suffix late ds \<and> ix_queue s = take default_channel_cap late))"

lemma drained_work:
  assumes "worker_next stop es writable now k s = Some s'"
  shows "drained_if_done ds s'"
proof -
  have last: "k < length ws \<Longrightarrow> \<exists>wk\<in>set (ws[k := v]). wk \<noteq> Finished" if "v \<noteq> Finished" for ws v
    using that set_update_memI [of k ws v] by blast
  have "suffix [] ds" by simp
  then show ?thesis
    by (cases rule: worker_next_cases [OF assms])
      (auto simp: drained_if_done_def intro!: last intro: exI [of _ "[]"])
qed

lemma drained_hand_over:
  assumes "drained_if_done ds s"
  shows "drained_if_done (ds @ [make_doc (ix_node s) op evt]) (ix_index writable now op evt s)"
proof (cases "\<exists>wk\<in>set (ix_workers s). wk \<noteq> Finished")
  case True
  then show ?thesis by (simp add: drained_if_done_def ix_index_def Let_def)
next
  case False
  then obtain late where "suffix late ds" "ix_queue s = take default_channel_cap late"
    using assms by (auto simp: drained_if_done_def)
  then show ?thesis
    unfolding drained_if_done_def
    by (intro disjI2 exI [of _ "late @ [make_doc (ix_node s) op evt]"])
      (auto simp: ix_index_def Let_def suffix_def min_def)
qed

lemma index_frame [simp]:
  "ix_closed (ix_index writable now op evt s) = ix_closed s"
  "ix_workers (ix_index writable now op evt s) = ix_workers s"
  by (simp_all add: ix_index_def dlq_from_doc_def Let_def)

lemma work_left_index: "work_left (ix_index writable now op evt s) \<le> work_left s + 2"
  by (simp add: ix_index_def dlq_from_doc_def work_left_def Let_def)

lemma stop_run_invariant:
  assumes "stop_run lossless n s ds s'" and "drained_if_done [] s"
  shows "ix_closed s' = ix_closed s \<and> length (ix_workers s') = length (ix_workers s) \<and>
    drained_if_done ds s' \<and> n + work_left s' \<le> work_left s + 3 * length ds \<and>
    (lossless \<longrightarrow> kept_docs s + mset (map doc_key ds) \<subseteq># kept_docs s')"
  using assms
proof induction
  case (none s)
  then show ?case by simp
next
  case (work n s ds s' writable es stop now k s'')
  then show ?case
    using worker_next_frame [OF work(3)] worker_next_shrinks [OF work(3)] worker_next_keeps [OF work(3)]
      drained_work [OF work(3), of ds]
    by (auto intro: subset_mset.trans)
next
  case (hand_over n s ds s' writable op evt now)
  let ?x = "{#doc_key (make_doc (ix_node s') op evt)#}"
  have "kept_docs s + mset (map doc_key ds) + ?x \<subseteq># kept_docs (ix_index writable now op evt s')" if lossless
  proof -
    have "kept_docs s + mset (map doc_key ds) + ?x \<subseteq># kept_docs s' + ?x"
      using hand_over that by (intro subset_mset.add_right_mono) simp
    also have "\<dots> \<subseteq># kept_docs (ix_index writable now op evt s')"
      using hand_over(2) that kept_submit [of writable s' op evt now] by blast
    finally show ?thesis .
  qed
  moreover have "work_left (ix_index writable now op evt s') \<le> work_left s' + 2" by (rule work_left_index)
  ultimately show ?case
    using hand_over drained_hand_over [of ds s'] by simp
qed

lemma hands_finished: "hands (replicate n Finished) = {#}"
  by (induction n) (simp_all add: hands_def)

text \<open>While a closed indexer has a worker that is not done, some worker can go on.\<close>

lemma worker_can_go_on:
  assumes "ix_closed s" and "wk \<in> set (ix_workers s)" and "wk \<noteq> Finished"
  shows "\<exists>s'. worker_step s s'"
proof -
  obtain k where k: "k < length (ix_workers s)" "ix_workers s ! k = wk"
    using assms(2) by (auto simp: in_set_conv_nth)
  have "worker_next True (\<lambda>_. (Inr 200, True)) True 0 k s \<noteq> None"
    using k assms(1,3) by (cases wk) (auto simp: worker_next_def split: list.split)
  then show ?thesis unfolding worker_step_def by blast
qed

text \<open>
  C38: once the indexer is closed, with none of its workers done yet, the stop comes to its end. Let its
  workers go on in any order, whatever Elasticsearch answers and whether or not the dead letter file can
  be written, while documents are still handed over. The number of steps is bounded by the work there is
  at the start and three for each document handed over; and either some worker can go on, or the stop
  returns: every worker is done, none has a document in hand, and the channel is empty but for (at most
  1000 of) the last documents handed over, those that came when the workers were done. If the dead letter
  file can always be written and Elasticsearch has stored what it answers with a success, then no document
  has left the places of C37 meanwhile. Each call to Elasticsearch is taken to return.
\<close>

theorem stop_drains:
  assumes "ix_closed s" and "ix_workers s \<noteq> []" and "Finished \<notin> set (ix_workers s)"
    and "stop_run lossless n s ds s'"
  shows "n \<le> work_left s + 3 * length ds \<and>
    ((\<exists>s''. worker_step s' s'') \<or>
     ix_stopped s' \<and> hands (ix_workers s') = {#} \<and>
     (\<exists>late. suffix late ds \<and> ix_queue s' = take 1000 late)) \<and>
    (lossless \<longrightarrow> kept_docs s + mset (map doc_key ds) \<subseteq># kept_docs s')"
proof -
  have "drained_if_done [] s"
    using assms(2,3) by (cases "ix_workers s") (auto simp: drained_if_done_def)
  from stop_run_invariant [OF assms(4) this] assms(1)
  have run: "ix_closed s'" "length (ix_workers s') = length (ix_workers s)" "drained_if_done ds s'"
    "n \<le> work_left s + 3 * length ds" "lossless \<longrightarrow> kept_docs s + mset (map doc_key ds) \<subseteq># kept_docs s'"
    by auto
  have "(\<exists>s''. worker_step s' s'') \<or> ix_stopped s' \<and> hands (ix_workers s') = {#} \<and>
     (\<exists>late. suffix late ds \<and> ix_queue s' = take 1000 late)"
  proof (cases "\<exists>wk\<in>set (ix_workers s'). wk \<noteq> Finished")
    case True
    then show ?thesis using worker_can_go_on run(1) by auto
  next
    case False
    then have all: "ix_workers s' = replicate (length (ix_workers s')) Finished"
      by (intro replicate_eqI) auto
    then have "hands (ix_workers s') = {#}" by (metis hands_finished)
    then show ?thesis using run(1,3) False
      by (auto simp: ix_stopped_def list_all_iff drained_if_done_def default_channel_cap_def)
  qed
  then show ?thesis using run(4,5) by blast
qed

text \<open>A stop with one document in the channel and another handed over, on a server that stores all.\<close>

fun work_through :: "(bool \<times> nat) list \<Rightarrow> indexer \<Rightarrow> indexer option" where
  "work_through [] s = Some s"
| "work_through ((stop, k) # ks) s =
     (case worker_next stop (\<lambda>_. (Inr 200, True)) True 0 k s of None \<Rightarrow> None | Some s' \<Rightarrow> work_through ks s')"

lemma work_through_run:
  "stop_run lossless n s ds s' \<Longrightarrow> work_through ks s' = Some s'' \<Longrightarrow> stop_run lossless (n + length ks) s ds s''"
proof (induction ks arbitrary: n s')
  case Nil
  then show ?case by simp
next
  case (Cons a ks)
  obtain stop k where a: "a = (stop, k)" by fastforce
  obtain t where t: "worker_next stop (\<lambda>_. (Inr 200, True)) True 0 k s' = Some t" "work_through ks t = Some s''"
    using Cons.prems(2) by (auto simp: a split: option.splits)
  have "stop_run lossless (Suc n) s ds t"
    by (rule stop_run.work [OF Cons.prems(1) _ t(1)]) (simp add: faithful_def stored_by_def)
  from Cons.IH [OF this t(2)] show ?case by simp
qed

definition completed_event :: operation_event where
  "completed_event = \<lparr>ev_id = ''evt-1'', ev_operation_id = ''op-1'', ev_type = EventTypeOperationCompleted,
     ev_job_id = None, ev_attempt_id = None, ev_transfer_id = None, ev_payload = [],
     ev_correlation_id = ''op-1'', ev_issued_at = 3000, ev_actor_node_id = ''w'', ev_version = 1\<rparr>"

definition stopping_indexer :: "operation_event \<Rightarrow> indexer" where
  "stopping_indexer evt =
     ix_close (ix_start (ix_index True 0 (sample_operation StatusCompleted) evt (new_indexer ''i'' ''n'')))"

theorem stop_drains_witness:
  "\<exists>d1 d2 s'. d1 = make_doc ''n'' (sample_operation StatusCompleted) completed_event \<and>
     d2 = make_doc ''n'' (sample_operation StatusFailed) completed_event \<and> ix_queue (stopping_indexer completed_event) = [d1] \<and>
     stop_run True 9 (stopping_indexer completed_event) [d2] s' \<and> 9 = work_left (stopping_indexer completed_event) + 3 \<and>
     ix_stopped s' \<and> ix_queue s' = [] \<and> ix_sent s' = [d1, d2]"
proof -
  let ?d1 = "make_doc ''n'' (sample_operation StatusCompleted) completed_event"
  let ?d2 = "make_doc ''n'' (sample_operation StatusFailed) completed_event"
  let ?s = "stopping_indexer completed_event"
  let ?s' = "?s\<lparr>ix_queue := [], ix_workers := [Finished, Finished], ix_sent := [?d1, ?d2]\<rparr>"
  let ?ks = "[(False, 0::nat), (False, 0), (True, 1), (False, 0), (False, 0), (True, 0), (False, 0), (False, 1)]"
  have s: "ix_closed ?s" "ix_workers ?s = [Waiting, Waiting]" "ix_queue ?s = [?d1]" "ix_node ?s = ''n''"
    "ix_sent ?s = []" "ix_cancelled ?s = False"
    by (simp_all add: stopping_indexer_def ix_close_def ix_start_def ix_index_def new_indexer_def
        default_workers_def default_channel_cap_def numeral_2_eq_2 Let_def)
  have "stop_run True 1 ?s [?d2] (ix_index True 0 (sample_operation StatusFailed) completed_event ?s)"
    using stop_run.hand_over [OF stop_run.none, of True True ?s "sample_operation StatusFailed" completed_event 0] s(4) by simp
  moreover have "work_through ?ks (ix_index True 0 (sample_operation StatusFailed) completed_event ?s) = Some ?s'"
    using s by (simp add: ix_index_def Let_def default_channel_cap_def worker_next_def set_worker_def
        index_doc_def client_index_def stored_by_def)
  ultimately have "stop_run True (1 + length ?ks) ?s [?d2] ?s'" by (rule work_through_run)
  moreover have "1 + length ?ks = 9" by simp
  ultimately have run: "stop_run True 9 ?s [?d2] ?s'" by metis
  have "\<not> (\<exists>s''. worker_step ?s' s'')"
    by (auto simp: worker_step_def worker_next_def less_Suc_eq numeral_2_eq_2)
  then have "ix_stopped ?s'"
    using stop_drains [OF s(1) _ _ run] s(2) by auto
  moreover have "9 = work_left ?s + 3" using s by (simp add: work_left_def)
  ultimately show ?thesis using s run by (intro exI [of _ ?d1] exI [of _ ?d2] exI [of _ ?s']) simp
qed

text \<open>What is handed over when the workers are done.\<close>

definition stranded :: "indexer \<Rightarrow> indexed_doc list \<Rightarrow> indexer \<Rightarrow> bool" where
  "stranded s0 ds s = (ix_workers s0 \<noteq> [] \<longrightarrow> list_all (\<lambda>wk. wk = Finished) (ix_workers s0) \<longrightarrow>
     ix_workers s = ix_workers s0 \<and> ix_sent s = ix_sent s0 \<and>
     ix_queue s = ix_queue s0 @ take (default_channel_cap - length (ix_queue s0)) ds)"

interpretation stranded: indexer_invariant lossless "stranded s0"
proof
  fix ds s es s'
  assume I: "stranded s0 ds s" and st: "ix_step lossless s es s'"
  show "stranded s0 (ds @ es) s'"
    unfolding stranded_def
  proof (intro impI)
    assume s0: "ix_workers s0 \<noteq> []" "list_all (\<lambda>wk. wk = Finished) (ix_workers s0)"
    have no: "worker_next stop es2 writable now k s = None" for stop es2 writable now k
      using I s0 by (simp add: stranded_def worker_next_def list_all_length)
    from st show "ix_workers s' = ix_workers s0 \<and> ix_sent s' = ix_sent s0 \<and>
        ix_queue s' = ix_queue s0 @ take (default_channel_cap - length (ix_queue s0)) (ds @ es)"
      by cases (use I s0 no in \<open>auto simp: stranded_def ix_index_def Let_def dlq_from_doc_def
          ix_flush_def ix_close_def\<close>)
  qed
qed

text \<open>
  A document that is handed over when the workers are done is never sent: it stays in the channel,
  or is set aside once the channel is full. The application stops the indexer before it stops the
  consumers that hand documents over.
\<close>

lemma documents_after_stop_are_stranded:
  assumes "ix_workers s \<noteq> []" and "list_all (\<lambda>wk. wk = Finished) (ix_workers s)"
    and "ix_run lossless s ds s'"
  shows "ix_sent s' = ix_sent s \<and>
    ix_queue s' = ix_queue s @ take (default_channel_cap - length (ix_queue s)) ds"
  using stranded.from_start [OF assms(3), of s] assms(1,2) by (simp add: stranded_def)

section \<open>The document\<close>

text \<open>
  The document of an operation that was updated no earlier than it was created has its times in
  order and a duration that is not negative, whatever the event; and unless a time is the zero time or the
  difference does not fit an \<open>int64\<close>, the duration is the difference in full milliseconds.
\<close>

lemma completed_document_times:
  assumes "op_created_at op \<le> op_updated_at op"
  shows "let d = build_completed_document op evt node
    in cd_started_at d \<le> cd_completed_at d \<and> 0 \<le> cd_duration_ms d \<and>
      (cd_started_at d \<noteq> zero_time \<longrightarrow> cd_completed_at d \<noteq> zero_time \<longrightarrow>
       cd_completed_at d - cd_started_at d \<le> max_int64 \<longrightarrow>
         cd_duration_ms d = (cd_completed_at d - cd_started_at d) div 1000000)"
  using assms
  by (auto simp: build_completed_document_def Let_def milliseconds_def time_sub_def max_def min_def
      max_int64_def min_int64_def)

end
