(* ===== verification/Nats_Stream.thy ===== *)
theory Nats_Stream
  imports Nats_Client
begin

text \<open>
  The JetStream stream (\<open>ensureStream\<close> in \<open>infrastructure/nats/client.go\<close>) and the running consumers.
  The server is seen through the configuration of the stream, if there is one, and the answers it gives;
  how a subject is matched against a pattern is the server's and a parameter of the properties.
\<close>

section \<open>The stream\<close>

record stream_config =
  st_name :: string
  st_subjects :: "string list"
  st_retention :: string
  st_max_age :: int
  st_storage :: string

text \<open>How the calls end: whether the stream can be asked for and its info read, and the two writes.\<close>

record stream_api =
  sa_lookup :: bool
  sa_info :: bool
  sa_update :: outcome
  sa_create :: outcome

definition chunk_pattern :: string where "chunk_pattern = ''data.transfer.>''"

definition new_stream :: "string \<Rightarrow> stream_config" where
  "new_stream name =
     \<lparr>st_name = name,
      st_subjects = [''operations.>'', ''jobs.>'', ''attempts.>'', ''transfers.>'', ''results.>'',
        ''control.>'', chunk_pattern],
      st_retention = ''interest'', st_max_age = 7 * hours 24, st_storage = ''file''\<rparr>"

text \<open>A stream that is there gets the chunk pattern; an error of reading its info is passed over.\<close>

definition ensure_stream ::
  "string \<Rightarrow> stream_api \<Rightarrow> stream_config option \<Rightarrow> (go_error + unit) \<times> stream_config option" where
  "ensure_stream name api st =
     (if \<not> sa_lookup api then (Inl (ErrWrap ''check stream'' (ErrExternal ''stream'')), st)
      else
        (case st of
           Some cfg \<Rightarrow>
             (if sa_info api \<and> chunk_pattern \<notin> set (st_subjects cfg) then
                (let cfg1 = cfg\<lparr>st_subjects := st_subjects cfg @ [chunk_pattern]\<rparr> in
                 (if sa_update api = Done then Inr ()
                  else Inl (ErrWrap ''update stream subjects'' (ErrExternal ''update stream'')),
                  if sa_update api = Lost then st else Some cfg1))
              else (Inr (), st))
         | None \<Rightarrow>
             (if sa_create api = Done then Inr ()
              else Inl (ErrWrap ''create stream'' (ErrExternal ''create stream'')),
              if sa_create api = Lost then None else Some (new_stream name))))"

section \<open>Consumers\<close>

text \<open>
  The consumers the client has started and not stopped, by their handle, with their durable names. \<open>Close\<close>
  stops them all and drains a connection that is up; the second component says which were stopped, and
  whether the connection was drained and closed.
\<close>

definition stop_consumer :: "nat \<Rightarrow> (nat \<times> string) list \<Rightarrow> (nat \<times> string) list \<times> nat list" where
  "stop_consumer c cs =
     (if c \<in> fst ` set cs then (filter (\<lambda>x. fst x \<noteq> c) cs, [c]) else (cs, []))"

definition close_client :: "bool \<Rightarrow> (nat \<times> string) list \<Rightarrow> (nat \<times> string) list \<times> nat list \<times> bool" where
  "close_client connected cs = ([], map fst cs, connected)"

section \<open>The subjects the program uses\<close>

definition used_subjects :: "string \<Rightarrow> string \<Rightarrow> string list" where
  "used_subjects node transfer =
     [node_command_subject node, subject_coordinator_events, transfer_chunks_subject transfer]"

definition stream_captures :: "(string \<Rightarrow> string \<Rightarrow> bool) \<Rightarrow> stream_config \<Rightarrow> string \<Rightarrow> bool" where
  "stream_captures matches cfg subj = list_ex (\<lambda>p. matches p subj) (st_subjects cfg)"

text \<open>
  C39: when the stream is set up without an error, and it is new, or is an older one that holds the
  control subjects and whose info could be read, it captures every subject on which the program publishes
  or listens: commands to a node, events, and the chunks of a transfer. The server's rule for a pattern
  that ends in \<open>.>\<close> is the hypothesis: it matches what begins like it and goes on.
\<close>

theorem stream_captures_subjects:
  assumes "\<And>p x. x \<noteq> [] \<Longrightarrow> matches (p @ ''.>'') (p @ ''.'' @ x)"
    and "ensure_stream name api st = (Inr (), Some cfg)"
    and "case st of None \<Rightarrow> True | Some old \<Rightarrow> sa_info api \<and> ''control.>'' \<in> set (st_subjects old)"
  shows "list_all (stream_captures matches cfg) (used_subjects node transfer)"
proof -
  have "''control.>'' \<in> set (st_subjects cfg) \<and> chunk_pattern \<in> set (st_subjects cfg)"
    using assms(2,3)
    by (auto simp: ensure_stream_def Let_def new_stream_def split: option.splits if_splits)
  moreover have "matches ''control.>'' (''control.'' @ x)" if "x \<noteq> []" for x
    using assms(1) [OF that, of "''control''"] by simp
  moreover have "matches chunk_pattern (''data.transfer.'' @ x)" if "x \<noteq> []" for x
    using assms(1) [OF that, of "''data.transfer''"] by (simp add: chunk_pattern_def)
  ultimately have "stream_captures matches cfg (''control.'' @ x)"
    "stream_captures matches cfg (''data.transfer.'' @ x)" if "x \<noteq> []" for x
    using that unfolding stream_captures_def list_ex_iff by blast+
  from this(1) [of "''node.'' @ node @ ''.commands''"] this(1) [of "''events''"]
    this(2) [of "transfer @ ''.chunks''"]
  show ?thesis
    by (simp add: used_subjects_def node_command_subject_def subject_coordinator_events_def
        transfer_chunks_subject_def)
qed

definition prefix_match :: "string \<Rightarrow> string \<Rightarrow> bool" where
  "prefix_match p s =
     (if take 2 (rev p) = ''>.'' then has_prefix s (butlast p) \<and> length (butlast p) < length s else p = s)"

theorem stream_captures_subjects_witness:
  "list_all (stream_captures prefix_match (new_stream ''s'')) (used_subjects ''n'' ''t'')"
proof (rule stream_captures_subjects)
  show "prefix_match (p @ ''.>'') (p @ ''.'' @ x)" if "x \<noteq> []" for p x
    using that by (simp add: prefix_match_def has_prefix_def butlast_append)
  show "ensure_stream ''s'' \<lparr>sa_lookup = True, sa_info = True, sa_update = Done, sa_create = Done\<rparr> None =
    (Inr (), Some (new_stream ''s''))"
    by (simp add: ensure_stream_def)
qed simp

end
