(* ===== verification/Store_Refinement.thy ===== *)
theory Store_Refinement
  imports Storage_Properties
begin

text \<open>
  What the repository of operations promises: an abstract store, a map from ids to operations with three
  calls, insert, overwrite and swap. Each statement of the repository does what the call says, or fails
  and does nothing; a call whose acknowledgement is lost has done what it says.
\<close>

section \<open>The abstract store\<close>

type_synonym store = "string \<Rightarrow> operation option"

datatype store_call =
    Insert operation
  | Overwrite operation
  | Swap string op_status op_status int

text \<open>The time is only used by the swap.\<close>

fun store_apply :: "int \<Rightarrow> store_call \<Rightarrow> store \<Rightarrow> store" where
  "store_apply now (Insert op) m =
     (case m (op_id op) of
        None \<Rightarrow> m(op_id op \<mapsto> op\<lparr>op_created_at := datetime6 (op_created_at op),
          op_updated_at := datetime6 (op_updated_at op), op_deadline := map_option datetime6 (op_deadline op),
          op_cancel_requested_at := None, op_error := None\<rparr>)
      | Some _ \<Rightarrow> m)"
| "store_apply now (Overwrite s) m =
     (case m (op_id s) of
        None \<Rightarrow> m
      | Some o' \<Rightarrow> if op_version o' = op_version s - 1 then m(op_id s \<mapsto> op_overwrite s o') else m)"
| "store_apply now (Swap i from_st to_st v) m =
     (case m i of
        None \<Rightarrow> m
      | Some o' \<Rightarrow>
          if op_status_string (op_status o') = op_status_string from_st \<and> op_version o' = v
          then m(i \<mapsto> o'\<lparr>op_status := to_st, op_stage := stage_for_status to_st,
            op_updated_at := datetime6 now, op_version := v + 1\<rparr>)
          else m)"

text \<open>Nothing is deleted, and an operation changes with a higher version only.\<close>

definition store_le :: "store \<Rightarrow> store \<Rightarrow> bool" where
  "store_le m m' = (\<forall>i o'. m i = Some o' \<longrightarrow>
     (\<exists>o''. m' i = Some o'' \<and> (o'' = o' \<or> op_version o' < op_version o'')))"

lemma store_apply_le: "store_le m (store_apply now c m)"
  by (cases c) (auto simp: store_le_def split: option.split)

lemma store_le_refl: "store_le m m"
  by (simp add: store_le_def)

lemma store_le_trans: "store_le a b \<Longrightarrow> store_le b c \<Longrightarrow> store_le a c"
  unfolding store_le_def
proof (intro allI impI)
  fix i o1
  assume ab: "\<forall>i o'. a i = Some o' \<longrightarrow> (\<exists>o''. b i = Some o'' \<and> (o'' = o' \<or> op_version o' < op_version o''))"
    and bc: "\<forall>i o'. b i = Some o' \<longrightarrow> (\<exists>o''. c i = Some o'' \<and> (o'' = o' \<or> op_version o' < op_version o''))"
    and "a i = Some o1"
  then obtain o2 where o2: "b i = Some o2" "o2 = o1 \<or> op_version o1 < op_version o2" by blast
  then obtain o3 where "c i = Some o3" "o3 = o2 \<or> op_version o2 < op_version o3" using bc by blast
  then show "\<exists>o3. c i = Some o3 \<and> (o3 = o1 \<or> op_version o1 < op_version o3)" using o2 by auto
qed

section \<open>Refinement\<close>

text \<open>An implementation of the calls on worlds, with the store that a world stands for.\<close>

locale store_implementation =
  fixes abs :: "world \<Rightarrow> store"
    and call :: "store_call \<Rightarrow> unit io"
    and valid :: "store_call \<Rightarrow> bool"
  assumes does_or_fails: "valid c \<Longrightarrow> call c w = (res, w') \<Longrightarrow>
      abs w' = store_apply (clock w (ticks w)) c (abs w) \<or> isl res \<and> abs w' = abs w"
begin

text \<open>A sequence of calls, whatever each of them returns.\<close>

fun calls_run :: "store_call list \<Rightarrow> world \<Rightarrow> world" where
  "calls_run [] w = w"
| "calls_run (c # cs) w = calls_run cs (snd (call c w))"

lemma calls_only_grow: "list_all valid cs \<Longrightarrow> store_le (abs w) (abs (calls_run cs w))"
proof (induction cs arbitrary: w)
  case Nil
  then show ?case by (simp add: store_le_refl)
next
  case (Cons c cs)
  have "store_le (abs w) (abs (snd (call c w)))"
    using does_or_fails [of c w "fst (call c w)" "snd (call c w)"] Cons.prems store_apply_le store_le_refl
    by fastforce
  then show ?case using Cons store_le_trans by fastforce
qed

end

section \<open>The repository\<close>

definition store_of :: "world \<Rightarrow> store" where
  "store_of w = (\<lambda>i. db_operation i (db w))"

fun repository_call :: "store_call \<Rightarrow> unit io" where
  "repository_call (Insert op) = op_create op"
| "repository_call (Overwrite s) = op_update s"
| "repository_call (Swap i from_st to_st v) = bindE (op_transition i from_st to_st v) (\<lambda>_. ret ())"

text \<open>An input file, which no caller passes to \<open>Create\<close>, has to have a positive size.\<close>

fun valid_call :: "store_call \<Rightarrow> bool" where
  "valid_call (Insert op) = (case op_input_file op of None \<Rightarrow> True | Some f \<Rightarrow> 0 < if_size_bytes f)"
| "valid_call _ = True"

lemma exec_db_cases:
  assumes "exec_db what g w = (res, w')"
  obtains (ran) x where "g (db w) = Inr (x, db w')" | (failed) "isl res" "db w' = db w"
  using assms
  by (auto simp: exec_db_def extern_def Let_def split: outcome.splits sum.splits prod.splits)

lemma insert_refines:
  assumes "valid_call (Insert op)" and "op_insert op d = Inr (x, d')"
  shows "(\<lambda>i. db_operation i d') = store_apply now (Insert op) (\<lambda>i. db_operation i d)"
proof -
  obtain t where put: "sql_insert r_id (op_create_row op) (t_operations d) = Inr t" "t_operations d' = t"
    using op_insert_Inr [OF assms(2)] by auto
  moreover have "row_to_operation (op_create_row op) = op\<lparr>
       op_created_at := datetime6 (op_created_at op), op_updated_at := datetime6 (op_updated_at op),
       op_deadline := map_option datetime6 (op_deadline op), op_cancel_requested_at := None,
       op_error := None\<rparr>"
    using assms(1) by (cases "op_input_file op")
      (simp_all add: row_to_operation_def op_create_row_def cols_to_error_def no_err_cols_def)
  moreover have "r_id (op_create_row op) = op_id op" by (simp add: op_create_row_def)
  ultimately show ?thesis
    using op_table.get_after_put [OF put(1)] op_table.put_Inr_iff [of "op_create_row op"]
    by (auto simp: db_operation_def fun_eq_iff)
qed

lemma overwrite_refines:
  assumes "op_update_stmt s d = Inr ((), d')"
  shows "(\<lambda>i. db_operation i d') = store_apply now (Overwrite s) (\<lambda>i. db_operation i d)"
proof
  fix k
  have "db_operation k d' =
      map_option (\<lambda>o'. if k = op_id s \<and> op_version o' = op_version s - 1 then op_overwrite s o' else o')
        (db_operation k d)"
    by (cases "op_lookup k (t_operations d)")
      (simp_all add: db_operation_def op_versions.get_after_put [OF assms] row_to_operation_update)
  then show "db_operation k d' = store_apply now (Overwrite s) (\<lambda>i. db_operation i d) k"
    by (cases "db_operation (op_id s) d"; cases "k = op_id s") (auto simp: option.map_ident)
qed

lemma swap_refines:
  assumes "op_transition_stmt i from_st to_st v now d = Inr (x, d')"
  shows "(\<lambda>i. db_operation i d') = store_apply now (Swap i from_st to_st v) (\<lambda>i. db_operation i d)"
proof
  fix k
  let ?p = "op_transition_where i from_st v" and ?f = "op_transition_row to_st now"
  have d': "t_operations d' = sql_update ?p ?f (t_operations d)"
    using assms by (auto simp: op_transition_stmt_def Let_def split: if_splits)
  have row: "row_to_operation (?f r) = (row_to_operation r)\<lparr>op_status := to_st,
      op_stage := stage_for_status to_st, op_updated_at := datetime6 now, op_version := r_version r + 1\<rparr>" for r
    by (simp add: row_to_operation_def op_transition_row_def)
  have "r_id r = k" if "op_lookup k (t_operations d) = Some r" for r
    using op_lookup_Some [OF that] by simp
  then show "db_operation k d' = store_apply now (Swap i from_st to_st v) (\<lambda>i. db_operation i d) k"
    using op_table.get_after_update [of ?f k ?p "t_operations d"]
    by (cases "op_lookup k (t_operations d)"; cases "k = i")
      (auto simp: db_operation_def d' row op_transition_where_def split: option.split)
qed

interpretation repository: store_implementation store_of repository_call valid_call
proof
  fix c w res w'
  assume v: "valid_call c" and run: "repository_call c w = (res, w')"
  show "store_of w' = store_apply (clock w (ticks w)) c (store_of w) \<or> isl res \<and> store_of w' = store_of w"
  proof (cases c)
    case (Insert op)
    with run have "exec_db ''insert operations'' (op_insert op) w = (res, w')" by (simp add: op_create_def)
    then show ?thesis
      by (cases rule: exec_db_cases) (use insert_refines v Insert in \<open>auto simp: store_of_def\<close>)
  next
    case (Overwrite s)
    with run have "exec_db ''update operations'' (op_update_stmt s) w = (res, w')" by (simp add: op_update_def)
    then show ?thesis
      by (cases rule: exec_db_cases) (use overwrite_refines Overwrite in \<open>auto simp: store_of_def\<close>)
  next
    case (Swap i from_st to_st v)
    let ?w = "w\<lparr>ticks := Suc (ticks w)\<rparr>"
    obtain r where "exec_db ''transition operations''
        (op_transition_stmt i from_st to_st v (clock w (ticks w))) ?w = (r, w')" "isl res = isl r"
      using run Swap
      by (auto simp: op_transition_def bindE_def time_now_def ret_def split: prod.splits sum.splits)
    then show ?thesis
      by (cases rule: exec_db_cases) (use swap_refines Swap in \<open>auto simp: store_of_def\<close>)
  qed
qed

text \<open>
  C8: the repository of operations refines the abstract store: every call, in any world, has done on the
  operations that can be read what the store's call does, or has returned an error and done nothing; so
  whatever sequence of calls runs and whichever fail, no operation is lost or goes back to an earlier
  version.
\<close>

theorem repository_refines_store:
  assumes "valid_call c" and "repository_call c w = (res, w')" and "list_all valid_call cs"
  shows "(store_of w' = store_apply (clock w (ticks w)) c (store_of w) \<or> isl res \<and> store_of w' = store_of w) \<and>
    store_le (store_of w) (store_of (repository.calls_run cs w))"
  using repository.does_or_fails [OF assms(1,2)] repository.calls_only_grow [OF assms(3)] by blast

theorem repository_refines_store_witness:
  "store_le (store_of (sample_world (sample_db StatusCreated)))
     (store_of (repository.calls_run [Overwrite (sample_operation StatusQueued)]
       (sample_world (sample_db StatusCreated))))"
  using repository_refines_store [of "Overwrite (sample_operation StatusQueued)"
      "sample_world (sample_db StatusCreated)" "fst (repository_call (Overwrite (sample_operation StatusQueued))
        (sample_world (sample_db StatusCreated)))" "snd (repository_call (Overwrite (sample_operation StatusQueued))
        (sample_world (sample_db StatusCreated)))" "[Overwrite (sample_operation StatusQueued)]"]
  by simp

end
