(* ===== verification/Application.thy ===== *)
theory Application
  imports Config Http Role_Manager Nats_Stream Indexer
begin

text \<open>
  The process: \<open>Bootstrap\<close> (\<open>app/bootstrap.go\<close>), \<open>RegisterRouter\<close> (\<open>app/router.go\<close>), \<open>Run\<close> (\<open>app/app.go\<close>)
  and \<open>main\<close>, with \<open>nats.NewClient\<close>. What the process asks of the libraries is written down as a list of
  actions, each with whether it succeeded; the world's oracle decides that. A process is a function of
  the world and the actions so far.
\<close>

section \<open>Actions\<close>

record nats_options =
  no_url :: string
  no_reconnect_wait :: int
  no_max_reconnects :: int
  no_timeout :: int

record server_options =
  so_addr :: string
  so_read_timeout :: int
  so_read_header_timeout :: int
  so_idle_timeout :: int

datatype action =
    SetDocsHost string
  | SetMode string
  | OpenDatabase string
  | PingDatabase
  | LimitConnections int int int int
  | SetDialect string
  | Migrate string
  | ConnectNats nats_options
  | NewJetStream
  | MakeElastic string string string bool
  | ElasticInfo
  | Listen server_options
  | StartRoles
  | StartIndexer
  | AwaitSignal
  | StopIndexer int
  | StopConsumers
  | DrainNats
  | CloseNats
  | CloseDatabase
  | ShutdownServer int

type_synonym log = "(action \<times> bool) list"
type_synonym 'a process = "(world \<times> log, 'a) effect"

definition perform :: "string \<Rightarrow> action \<Rightarrow> unit process" where
  "perform what a = (\<lambda>(w, l).
     case extern what (ret ()) w of
       (Inl e, w1) \<Rightarrow> (Inl e, w1, l @ [(a, False)])
     | (Inr _, w1) \<Rightarrow> (Inr (), w1, l @ [(a, True)]))"

text \<open>An action that reports no error.\<close>

definition record_action :: "action \<Rightarrow> unit process" where
  "record_action a = (\<lambda>(w, l). (Inr (), w, l @ [(a, True)]))"

definition in_world :: "'a io \<Rightarrow> 'a process" where
  "in_world m = (\<lambda>(w, l). case m w of (r, w1) \<Rightarrow> (r, w1, l))"

section \<open>What the libraries bring\<close>

text \<open>
  The constants and checks of the web framework, of the NATS library and of the validator, the parser of
  URLs, which gives the scheme and the normal form, and how the server answers about the stream.
\<close>

record libraries =
  lb_debug_mode :: string
  lb_mode_known :: "string \<Rightarrow> bool"
  lb_reconnect_wait :: int
  lb_validate :: "create_request \<Rightarrow> string option"
  lb_foreign :: "string \<Rightarrow> string"
  lb_parse_url :: "string \<Rightarrow> go_error + (string \<times> string)"
  lb_stream_api :: stream_api
  lb_stream :: "stream_config option"

section \<open>The application\<close>

record nats_client =
  nl_stream_name :: string
  nl_consumers :: "(nat \<times> string) list"

record application =
  ap_config :: application_config
  ap_router :: "http_app option"
  ap_has_db :: bool
  ap_has_elastic :: bool
  ap_indexer :: "indexer option"
  ap_receiver :: "receiver_config option"
  ap_nats :: "nats_client option"

definition new_client :: "libraries \<Rightarrow> nats_config \<Rightarrow> nats_client process" where
  "new_client lib c =
     bindE (wrap_err ''connect nats'' (perform ''nats connect'' (ConnectNats
       \<lparr>no_url = n_url c, no_reconnect_wait = lb_reconnect_wait lib,
        no_max_reconnects = n_max_reconnect c, no_timeout = n_connect_timeout c\<rparr>))) (\<lambda>_.
     bindE (attempt (perform ''jetstream'' NewJetStream)) (\<lambda>js.
     case js of
       Inl e \<Rightarrow> bindE (record_action CloseNats) (\<lambda>_. fail (ErrWrap ''create jetstream context'' e))
     | Inr _ \<Rightarrow>
         (case fst (ensure_stream (n_stream_name c) (lb_stream_api lib) (lb_stream lib)) of
            Inl e \<Rightarrow> bindE (record_action CloseNats) (\<lambda>_. fail (ErrWrap ''ensure stream'' e))
          | Inr _ \<Rightarrow> ret \<lparr>nl_stream_name = n_stream_name c, nl_consumers = []\<rparr>)))"

text \<open>
  The Elasticsearch client: an answer of any status to the request for information will do. Certificates
  are not verified for the schemes http and https.
\<close>

definition new_elastic_client :: "libraries \<Rightarrow> elastic_config \<Rightarrow> string process" where
  "new_elastic_client lib c =
     (case lb_parse_url lib (e_url c) of
        Inl e \<Rightarrow> fail (ErrWrap ''invalid elasticsearch URL'' e)
      | Inr (scheme, url) \<Rightarrow>
          bindE (wrap_err ''error creating elasticsearch client'' (perform ''elasticsearch client''
            (MakeElastic url (e_username c) (e_password c) (scheme = ''http'' \<or> scheme = ''https'')))) (\<lambda>_.
          bindE (wrap_err ''error connecting to elasticsearch'' (perform ''elasticsearch info'' ElasticInfo)) (\<lambda>_.
          ret (e_index c))))"

text \<open>The search is left out when it is not enabled or its client cannot be made.\<close>

definition init_elastic :: "libraries \<Rightarrow> application_config \<Rightarrow> (bool \<times> indexer option) process" where
  "init_elastic lib c =
     (if e_enabled (cf_elastic c) then
        bindE (attempt (new_elastic_client lib (cf_elastic c))) (\<lambda>r.
        case r of
          Inl _ \<Rightarrow> ret (False, None)
        | Inr index \<Rightarrow> ret (True, Some (new_indexer index (ns_id (cf_node c)))))
      else ret (False, None))"

definition new_application ::
  "application_config \<Rightarrow> receiver_config \<Rightarrow> nats_client \<Rightarrow> bool \<Rightarrow> indexer option \<Rightarrow> application" where
  "new_application c rc nc es ix =
     \<lparr>ap_config = c, ap_router = None, ap_has_db = True, ap_has_elastic = es, ap_indexer = ix,
      ap_receiver = Some rc, ap_nats = Some nc\<rparr>"

text \<open>The part of \<open>Bootstrap\<close> after the configuration is loaded.\<close>

definition bootstrap_with :: "libraries \<Rightarrow> application_config \<Rightarrow> application process" where
  "bootstrap_with lib c =
     bindE (record_action (SetDocsHost (''localhost:'' @ h_port (cf_http c)))) (\<lambda>_.
     bindE (if lb_mode_known lib (a_gin_mode (cf_app c)) then record_action (SetMode (a_gin_mode (cf_app c)))
            else fail (Panic ''gin mode unknown'')) (\<lambda>_.
     bindE (case validate c of Some e \<Rightarrow> fail (ErrWrap ''config validation failed'' e) | None \<Rightarrow> ret ()) (\<lambda>_.
     bindE (wrap_err ''open database'' (perform ''sql open'' (OpenDatabase (build_dsn (cf_db c))))) (\<lambda>_.
     bindE (attempt (perform ''ping'' PingDatabase)) (\<lambda>p.
     bindE (case p of
              Inl e \<Rightarrow> bindE (ignore_err (perform ''close'' CloseDatabase)) (\<lambda>_. fail (ErrWrap ''ping database'' e))
            | Inr _ \<Rightarrow> ret ()) (\<lambda>_.
     bindE (record_action (LimitConnections (d_max_open_conns (cf_db c)) (d_max_idle_conns (cf_db c))
       (d_conn_max_lifetime (cf_db c)) (d_conn_max_idle_time (cf_db c)))) (\<lambda>_.
     bindE (wrap_err ''set goose dialect'' (perform ''goose dialect'' (SetDialect ''mysql''))) (\<lambda>_.
     bindE (wrap_err ''migrations'' (perform ''goose up''
       (Migrate ''internal/infrastructure/mariadb/migrations''))) (\<lambda>_.
     bindE (wrap_err ''init nats'' (new_client lib (cf_nats c))) (\<lambda>nc.
     bindE (init_elastic lib c) (\<lambda>(es, ix).
     ret (new_application c
       \<lparr>rc_node_id = ns_id (cf_node c), rc_staging_dir = staging_dir (cf_file c)\<rparr> nc es ix))))))))))))"

definition bootstrap :: "libraries \<Rightarrow> env \<Rightarrow> application process" where
  "bootstrap lib e = bindE (in_world (load_config (lb_debug_mode lib) e)) (bootstrap_with lib)"

section \<open>The wiring\<close>

definition dispatch_config_of :: "application \<Rightarrow> dispatch_config" where
  "dispatch_config_of app =
     \<lparr>dc_node = ns_id (cf_node (ap_config app)), dc_staging_dir = staging_dir (cf_file (ap_config app)),
      dc_base_url = base_url (cf_http (ap_config app))\<rparr>"

definition file_config_of :: "application \<Rightarrow> file_config" where
  "file_config_of app =
     \<lparr>fc_node = ns_id (cf_node (ap_config app)), fc_staging_dir = staging_dir (cf_file (ap_config app)),
      fc_max_file_size = max_file_size (cf_file (ap_config app)),
      fc_base_url = base_url (cf_http (ap_config app)), fc_has_dispatch = True\<rparr>"

text \<open>\<open>connected\<close> is what the connection to NATS answers when a request asks for it.\<close>

definition http_app_of :: "libraries \<Rightarrow> bool \<Rightarrow> application \<Rightarrow> http_app" where
  "http_app_of lib connected app =
     \<lparr>ha_base = base_url (cf_http (ap_config app)), ha_file = file_config_of app,
      ha_key_columns = idempotency_keys_columns, ha_validate = lb_validate lib,
      ha_foreign = lb_foreign lib, ha_nats = map_option (\<lambda>_. connected) (ap_nats app)\<rparr>"

definition register_router :: "libraries \<Rightarrow> bool \<Rightarrow> application \<Rightarrow> application" where
  "register_router lib connected app = app\<lparr>ap_router := Some (http_app_of lib connected app)\<rparr>"

definition node_config_of :: "application \<Rightarrow> node_config" where
  "node_config_of app =
     (let c = cf_node (ap_config app) in
      \<lparr>nc_id = ns_id c, nc_role = ns_role c, nc_incarnation_id = ns_incarnation_id c,
       nc_heartbeat_timeout = ns_heartbeat_timeout c,
       nc_staging_dir = (case ap_receiver app of None \<Rightarrow> [] | Some rc \<Rightarrow> rc_staging_dir rc),
       nc_has_nats = (ap_nats app \<noteq> None), nc_has_receiver = (ap_receiver app \<noteq> None),
       nc_has_indexer = (ap_indexer app \<noteq> None)\<rparr>)"

section \<open>Running\<close>

definition server_options_of :: "http_config \<Rightarrow> server_options" where
  "server_options_of c =
     \<lparr>so_addr = h_host c @ '':'' @ h_port c, so_read_timeout = h_read_timeout c,
      so_read_header_timeout = h_read_timeout c, so_idle_timeout = h_idle_timeout c\<rparr>"

definition nats_close :: "bool \<Rightarrow> unit process" where
  "nats_close connected =
     bindE (record_action StopConsumers) (\<lambda>_.
     if connected then
       bindE (ignore_err (perform ''drain'' DrainNats)) (\<lambda>_. record_action CloseNats)
     else ret ())"

text \<open>
  \<open>Run\<close>. A server that cannot listen ends the process from its goroutine; the model ends it at once. The
  heartbeat goroutine makes its ticker as soon as it runs, which panics for an interval that is not
  positive; the model places the panic at the wait for the signal.
\<close>

definition run :: "bool \<Rightarrow> application \<Rightarrow> unit process" where
  "run connected app =
     (let c = ap_config app; timeout = h_shutdown_timeout (cf_http c) in
      if ap_router app = None then
        fail (ErrMsg ''router not initialized: call RegisterRouter before Run'')
      else
        bindE (wrap_err ''server error'' (perform ''listen'' (Listen (server_options_of (cf_http c))))) (\<lambda>_.
        bindE (record_action StartRoles) (\<lambda>_.
        bindE (wrap_err ''start role tasks'' (in_world (role_start (node_config_of app)))) (\<lambda>_.
        bindE (if ap_indexer app \<noteq> None then record_action StartIndexer else ret ()) (\<lambda>_.
        bindE (if ns_heartbeat_interval (cf_node c) \<le> 0
               then fail (Panic ''non-positive interval for NewTicker'') else record_action AwaitSignal) (\<lambda>_.
        bindE (if ap_indexer app \<noteq> None then record_action (StopIndexer timeout) else ret ()) (\<lambda>_.
        bindE (if ap_nats app \<noteq> None then nats_close connected else ret ()) (\<lambda>_.
        bindE (if ap_has_db app then ignore_err (perform ''close'' CloseDatabase) else ret ()) (\<lambda>_.
        wrap_err ''graceful shutdown failed'' (perform ''shutdown'' (ShutdownServer timeout)))))))))))"

text \<open>\<open>main\<close>, and the status with which the process ends.\<close>

definition main_process :: "libraries \<Rightarrow> env \<Rightarrow> bool \<Rightarrow> unit process" where
  "main_process lib e connected =
     bindE (bootstrap lib e) (\<lambda>app. run connected (register_router lib connected app))"

definition exit_code :: "go_error + unit \<Rightarrow> int" where
  "exit_code r = (case r of Inr _ \<Rightarrow> 0 | Inl e \<Rightarrow> if is_panic e then 2 else 1)"

definition health_check :: "application \<Rightarrow> (string \<times> string) list" where
  "health_check app =
     [(''status'', ''ok''), (''node_id'', ns_id (cf_node (ap_config app))),
      (''role'', ns_role (cf_node (ap_config app)))]"

text \<open>What the parts of a started application are built with.\<close>

definition wiring :: "libraries \<Rightarrow> env \<Rightarrow> bool \<Rightarrow> (http_app \<times> dispatch_config \<times> node_config) process" where
  "wiring lib e connected =
     bindE (bootstrap lib e) (\<lambda>app. ret (http_app_of lib connected app, dispatch_config_of app, node_config_of app))"

section \<open>What is open\<close>

datatype resource = Database | Connection | Server

fun opens :: "resource \<Rightarrow> action \<Rightarrow> bool" where
  "opens Database (OpenDatabase _) = True"
| "opens Connection (ConnectNats _) = True"
| "opens Server (Listen _) = True"
| "opens _ _ = False"

fun closes :: "resource \<Rightarrow> action \<Rightarrow> bool" where
  "closes Database CloseDatabase = True"
| "closes Connection CloseNats = True"
| "closes Server (ShutdownServer _) = True"
| "closes _ _ = False"

text \<open>A connection that is told to close is closed, whether or not that reports an error.\<close>

definition is_open :: "resource \<Rightarrow> log \<Rightarrow> bool" where
  "is_open r l = foldl (\<lambda>o' (a, ok). if opens r a then ok else if closes r a then False else o') False l"

end
