(* ===== verification/Application_Properties.thy ===== *)
theory Application_Properties
  imports Application Config_Properties Role_Properties
begin

text \<open>
  Properties of the process: which settings matter, what a failed start leaves open, in which order a
  running process is taken down, and an interval that ends it. They are computed as weakest
  preconditions of \<open>main\<close>.
\<close>

section \<open>Weakest preconditions\<close>

definition wp :: "('s, 'a) effect \<Rightarrow> ('a \<Rightarrow> 's \<Rightarrow> bool) \<Rightarrow> (go_error \<Rightarrow> 's \<Rightarrow> bool) \<Rightarrow> 's \<Rightarrow> bool" where
  "wp m Q F s = (case m s of (Inl e, s1) \<Rightarrow> F e s1 | (Inr x, s1) \<Rightarrow> Q x s1)"

named_theorems wp_simps "weakest preconditions of the combinators"

lemma wp_ret [wp_simps]: "wp (ret x) Q F = Q x"
  by (rule ext) (simp add: wp_def ret_def)

lemma wp_fail [wp_simps]: "wp (fail e) Q F = F e"
  by (rule ext) (simp add: wp_def fail_def)

lemma wp_bind [wp_simps]: "wp (bindE m f) Q F s = wp m (\<lambda>x. wp (f x) Q F) F s"
  by (auto simp: wp_def bindE_def split: prod.split sum.split)

lemma wp_attempt [wp_simps]:
  "wp (attempt m) Q F s = wp m (\<lambda>x. Q (Inr x)) (\<lambda>e. if is_panic e then F e else Q (Inl e)) s"
  by (auto simp: wp_def attempt_def split: prod.split sum.split)

lemma wp_ignore_err [wp_simps]:
  "wp (ignore_err m) Q F s = wp m (\<lambda>_. Q ()) (\<lambda>e. if is_panic e then F e else Q ()) s"
  by (simp add: ignore_err_def wp_bind wp_attempt wp_ret)

lemma wp_wrap [wp_simps]:
  "wp (wrap_err msg m) Q F s = wp m Q (\<lambda>e. F (if is_panic e then e else ErrWrap msg e)) s"
  by (auto simp: wp_def wrap_err_def split: prod.split sum.split)

lemma wp_record [wp_simps]: "wp (record_action a) Q F (w, l) = Q () (w, l @ [(a, True)])"
  by (simp add: wp_def record_action_def)

lemma wp_perform [wp_simps]:
  "wp (perform what a) Q F (w, l) =
     (let w1 = w\<lparr>calls := Suc (calls w)\<rparr> in
      if outcome_of w (calls w) = Done then Q () (w1, l @ [(a, True)])
      else F (ErrExternal what) (w1, l @ [(a, False)]))"
  by (simp add: wp_def perform_def extern_def ret_def Let_def split: outcome.split)

lemma wp_if [wp_simps]: "wp (if b then m else n) Q F s = (if b then wp m Q F s else wp n Q F s)"
  by simp

lemma wp_in_world [wp_simps]:
  "wp (in_world m) Q F (w, l) = wp m (\<lambda>x w1. Q x (w1, l)) (\<lambda>e w1. F e (w1, l)) w"
  by (auto simp: wp_def in_world_def split: prod.split sum.split)

lemma wp_always: "(\<And>x s. Q x s) \<Longrightarrow> (\<And>e s. F e s) \<Longrightarrow> wp m Q F s"
  by (simp add: wp_def split: prod.split sum.split)

lemma wp_mono:
  "wp m Q F s \<Longrightarrow> (\<And>x s. Q x s \<Longrightarrow> Q' x s) \<Longrightarrow> (\<And>e s. F e s \<Longrightarrow> F' e s) \<Longrightarrow> wp m Q' F' s"
  by (auto simp: wp_def split: prod.splits sum.splits)

lemma is_open_Nil [simp]: "\<not> is_open r []"
  by (simp add: is_open_def)

lemma is_open_snoc [simp]:
  "is_open r (l @ [(a, ok)]) = (if opens r a then ok else if closes r a then False else is_open r l)"
  by (simp add: is_open_def)

section \<open>Bootstrap\<close>

lemma bootstrap_with_wp:
  "wp (bootstrap_with lib c)
     (\<lambda>app (w, l). is_open Database l \<and> is_open Connection l \<and> \<not> is_open Server l \<and> ap_config app = c \<and>
        ap_nats app \<noteq> None \<and> ap_has_db app \<and> (AwaitSignal, True) \<notin> set l \<and> validate c = None)
     (\<lambda>e (w, l). \<not> is_open Connection l \<and> \<not> is_open Server l \<and> (AwaitSignal, True) \<notin> set l \<and>
        (is_open Database l \<longleftrightarrow> (PingDatabase, True) \<in> set l)) (w, [])"
  by (cases "validate c"; cases "fst (ensure_stream (n_stream_name (cf_nats c)) (lb_stream_api lib) (lb_stream lib))";
      cases "lb_parse_url lib (e_url (cf_elastic c))")
    (simp_all add: bootstrap_with_def new_client_def init_elastic_def new_elastic_client_def case_prod_beta' wp_simps Let_def new_application_def
      del: append_assoc append.simps)


lemma bootstrap_wp:
  "wp (bootstrap lib e)
     (\<lambda>app (w', l). is_open Database l \<and> is_open Connection l \<and> \<not> is_open Server l \<and>
        ap_nats app \<noteq> None \<and> ap_has_db app \<and> (AwaitSignal, True) \<notin> set l \<and> validate (ap_config app) = None \<and>
        (\<exists>wc. load_config (lb_debug_mode lib) e w = (Inr (ap_config app), wc)))
     (\<lambda>e (w', l). \<not> is_open Connection l \<and> \<not> is_open Server l \<and> (AwaitSignal, True) \<notin> set l \<and>
        (is_open Database l \<longleftrightarrow> (PingDatabase, True) \<in> set l)) (w, [])"
  by (simp add: bootstrap_def load_config_def generate_id_simp wp_simps)
    (simp add: wp_def [of "generate_id _"] generate_id_simp bindE_def ret_def,
      rule wp_mono [OF bootstrap_with_wp], auto)

text \<open>A start that fails leaves the database open once it answered, and never the connection to NATS.\<close>

lemma failed_start_leaves_database_open:
  assumes "bootstrap lib e (w, []) = (Inl err, w', l)"
  shows "\<not> is_open Connection l \<and> (is_open Database l \<longleftrightarrow> (PingDatabase, True) \<in> set l)"
  using bootstrap_wp [of lib e w] assms by (simp add: wp_def)

section \<open>The run\<close>

lemma run_wp:
  assumes "is_open Database l0" and "is_open Connection l0"
    and "ap_nats app \<noteq> None" and "ap_has_db app" and "(AwaitSignal, True) \<notin> set l0"
  shows "wp (run connected app)
     (\<lambda>_ (w, l). 0 < ns_heartbeat_interval (cf_node (ap_config app)) \<and>
        (\<exists>pre ok. l = (pre @ [(CloseDatabase, ok)]) @ [(ShutdownServer (h_shutdown_timeout (cf_http (ap_config app))), True)] \<and>
         is_open Server pre \<and> is_open Connection pre = (\<not> connected) \<and> (AwaitSignal, True) \<in> set pre \<and>
         (ap_indexer app \<noteq> None \<longrightarrow> (StopIndexer (h_shutdown_timeout (cf_http (ap_config app))), True) \<in> set pre)))
     (\<lambda>e (w, l). True) (w0, l0)"
  using assms
  by (cases connected; cases "ap_indexer app"; cases "ns_heartbeat_interval (cf_node (ap_config app)) \<le> 0")
    (simp_all add: run_def Let_def nats_close_def wp_simps del: append_assoc append.simps,
      (auto intro!: wp_always simp del: append_assoc append.simps)+)


lemma interval_of:
  "load_config debug_mode e w = (Inr c, wc) \<Longrightarrow>
   ns_heartbeat_interval (cf_node c) = get_duration e ''NODE_HEARTBEAT_INTERVAL'' (seconds 5)"
  by (auto simp: load_config_def generate_id_simp bindE_def ret_def load_node_def)

lemma main_wp:
  "wp (main_process lib e connected)
     (\<lambda>_ (w', l). 0 < get_duration e ''NODE_HEARTBEAT_INTERVAL'' (seconds 5) \<and>
        (\<exists>pre ok t. l = pre @ [(CloseDatabase, ok), (ShutdownServer t, True)] \<and>
         is_open Server pre \<and> is_open Connection pre = (\<not> connected) \<and> (AwaitSignal, True) \<in> set pre))
     (\<lambda>e (w', l). True) (w, [])"
  unfolding main_process_def wp_bind
  by (rule wp_mono [OF bootstrap_wp])
    (auto intro!: wp_mono [OF run_wp] simp: register_router_def dest: interval_of)

section \<open>Settings\<close>

definition unused_settings :: "string list" where
  "unused_settings =
     [''APP_NAME'', ''APP_ENV'', ''DB_CONNECT_TIMEOUT'', ''NATS_RECONNECT_WAIT'', ''NATS_DRAIN_TIMEOUT'',
      ''FILE_CHUNK_SIZE'', ''FILE_TRANSFER_TIMEOUT'', ''FILE_CHUNK_ACK_TIMEOUT'', ''OPERATION_TIMEOUT'',
      ''COMMAND_ACK_TIMEOUT'', ''PROCESSING_TIMEOUT'', ''ELASTIC_WORKERS'', ''ELASTIC_CHANNEL_CAP'',
      ''ELASTIC_FLUSH_BYTES'', ''ELASTIC_FLUSH_INTERVAL'', ''ELASTIC_MAX_RETRIES'', ''ELASTIC_DLQ_PATH'']"

text \<open>What the process uses of a configuration: the rest is set to nothing.\<close>

definition used_part :: "application_config \<Rightarrow> application_config" where
  "used_part c = c
     \<lparr>cf_app := (cf_app c)\<lparr>a_app_name := [], a_app_env := []\<rparr>,
      cf_db := (cf_db c)\<lparr>d_connect_timeout := 0\<rparr>,
      cf_nats := (cf_nats c)\<lparr>n_reconnect_period := 0, n_drain_timeout := 0\<rparr>,
      cf_file := (cf_file c)\<lparr>f_chunk_size := [], f_transfer_timeout := 0, f_chunk_ack_timeout := 0\<rparr>,
      cf_operation := (cf_operation c)\<lparr>o_operation_timeout := 0, o_command_action_timeout := 0,
        o_processing_timeout := 0\<rparr>,
      cf_elastic := (cf_elastic c)\<lparr>e_workers := 0, e_channel_cap := 0, e_flush_bytes := 0,
        e_flush_interval := 0, e_max_retries := 0, e_dlq_path := []\<rparr>\<rparr>"

text \<open>A continuation that looks at the used part only makes of a configuration what it makes of its used part.\<close>

lemma bind_ret [simp]: "bindE (ret x) f = f x"
  by (rule ext) (simp add: bindE_def ret_def)

lemma bind_pair: "bindE m (\<lambda>(x, y). f x y) = bindE m (\<lambda>z. f (fst z) (snd z))"
  by (simp add: case_prod_beta')

lemma used_nats_fields:
  "n_url (cf_nats (used_part c)) = n_url (cf_nats c)"
  "n_max_reconnect (cf_nats (used_part c)) = n_max_reconnect (cf_nats c)"
  "n_connect_timeout (cf_nats (used_part c)) = n_connect_timeout (cf_nats c)"
  "n_stream_name (cf_nats (used_part c)) = n_stream_name (cf_nats c)"
  by (simp_all add: used_part_def)

lemma used_client: "new_client lib (cf_nats (used_part c)) = new_client lib (cf_nats c)"
  unfolding new_client_def used_nats_fields ..

lemma used_elastic_fields:
  "e_enabled (cf_elastic (used_part c)) = e_enabled (cf_elastic c)"
  "e_url (cf_elastic (used_part c)) = e_url (cf_elastic c)"
  "e_username (cf_elastic (used_part c)) = e_username (cf_elastic c)"
  "e_password (cf_elastic (used_part c)) = e_password (cf_elastic c)"
  "e_index (cf_elastic (used_part c)) = e_index (cf_elastic c)"
  "cf_node (used_part c) = cf_node c"
  by (simp_all add: used_part_def)

lemma used_elastic: "init_elastic lib (used_part c) = init_elastic lib c"
  unfolding init_elastic_def new_elastic_client_def used_elastic_fields ..

lemma used_fields:
  "cf_http (used_part c) = cf_http c" "cf_node (used_part c) = cf_node c"
  "a_gin_mode (cf_app (used_part c)) = a_gin_mode (cf_app c)" "validate (used_part c) = validate c"
  "build_dsn (cf_db (used_part c)) = build_dsn (cf_db c)"
  "d_max_open_conns (cf_db (used_part c)) = d_max_open_conns (cf_db c)"
  "d_max_idle_conns (cf_db (used_part c)) = d_max_idle_conns (cf_db c)"
  "d_conn_max_lifetime (cf_db (used_part c)) = d_conn_max_lifetime (cf_db c)"
  "d_conn_max_idle_time (cf_db (used_part c)) = d_conn_max_idle_time (cf_db c)"
  "staging_dir (cf_file (used_part c)) = staging_dir (cf_file c)"
  "max_file_size (cf_file (used_part c)) = max_file_size (cf_file c)"
  by (simp_all add: used_part_def validate_def build_dsn_def staging_dir_def max_file_size_def)

lemma bootstrap_used_part:
  assumes "\<And>rc nc es ix. g (new_application c rc nc es ix) = g (new_application (used_part c) rc nc es ix)"
  shows "bindE (bootstrap_with lib c) g = bindE (bootstrap_with lib (used_part c)) g"
  by (simp only: bootstrap_with_def bindE_assoc bind_pair bind_ret assms used_fields used_client used_elastic)

lemma new_application_fields:
  "ap_config (new_application c rc nc es ix) = c" "ap_nats (new_application c rc nc es ix) = Some nc"
  "ap_has_db (new_application c rc nc es ix) = True" "ap_indexer (new_application c rc nc es ix) = ix"
  "ap_receiver (new_application c rc nc es ix) = Some rc"
  by (simp_all add: new_application_def)

lemma parts_used_part:
  "http_app_of lib connected (new_application c rc nc es ix) =
     http_app_of lib connected (new_application (used_part c) rc nc es ix)"
  "dispatch_config_of (new_application c rc nc es ix) = dispatch_config_of (new_application (used_part c) rc nc es ix)"
  "node_config_of (new_application c rc nc es ix) = node_config_of (new_application (used_part c) rc nc es ix)"
  by (simp_all add: http_app_of_def file_config_of_def dispatch_config_of_def node_config_of_def
      new_application_fields used_fields Let_def)

lemma registered_fields:
  "ap_config (register_router lib k app) = ap_config app" "ap_nats (register_router lib k app) = ap_nats app"
  "ap_has_db (register_router lib k app) = ap_has_db app" "ap_indexer (register_router lib k app) = ap_indexer app"
  "ap_router (register_router lib k app) = Some (http_app_of lib k app)"
  "node_config_of (register_router lib k app) = node_config_of app"
  by (simp_all add: register_router_def node_config_of_def)

lemma run_used_part:
  "run connected (register_router lib connected (new_application c rc nc es ix)) =
   run connected (register_router lib connected (new_application (used_part c) rc nc es ix))"
  unfolding run_def Let_def registered_fields new_application_fields used_fields
    parts_used_part(1) [of lib connected c] parts_used_part(3) [of c] ..

text \<open>Environments that agree on the other settings give configurations with the same used part.\<close>

lemma load_config_used:
  assumes "\<And>k. k \<notin> set unused_settings \<Longrightarrow> e k = e' k"
  shows "bindE (load_config d e) (\<lambda>c. ret (used_part c)) = bindE (load_config d e') (\<lambda>c. ret (used_part c))"
proof -
  have same: "k \<notin> set unused_settings \<Longrightarrow> get_string e k = get_string e' k"
    "k \<notin> set unused_settings \<Longrightarrow> get_int e k = get_int e' k"
    "k \<notin> set unused_settings \<Longrightarrow> get_bool e k = get_bool e' k"
    "k \<notin> set unused_settings \<Longrightarrow> get_duration e k = get_duration e' k" for k
    using assms [of k] by (simp_all add: fun_eq_iff get_string_def get_duration_def get_int_def get_bool_def)
  show ?thesis
    unfolding load_config_def bindE_assoc bind_ret
    by (simp add: used_part_def load_app_def load_http_def load_db_def load_nats_def load_node_def
        load_file_def load_operation_def load_elastic_def same unused_settings_def)
qed


lemma in_world_bind: "in_world (bindE m (\<lambda>x. ret (f x))) = bindE (in_world m) (\<lambda>x. ret (f x))"
  by (rule ext) (auto simp: in_world_def bindE_def ret_def split: prod.split sum.split)

lemma bootstrap_settings:
  assumes "\<And>k. k \<notin> set unused_settings \<Longrightarrow> e k = e' k"
    and "\<And>c rc nc es ix. g (new_application c rc nc es ix) = g (new_application (used_part c) rc nc es ix)"
  shows "bindE (bootstrap lib e) g = bindE (bootstrap lib e') g"
proof -
  have "bindE (bootstrap lib f) g =
    bindE (in_world (bindE (load_config (lb_debug_mode lib) f) (\<lambda>c. ret (used_part c))))
      (\<lambda>c. bindE (bootstrap_with lib c) g)" for f
    unfolding bootstrap_def in_world_bind bindE_assoc bind_ret
      bootstrap_used_part [OF assms(2), symmetric] ..
  then show ?thesis using load_config_used [OF assms(1)] by simp
qed

text \<open>
  C35: seventeen of the settings have no effect: with another value of one of them, or none, the process
  does the same and its parts are built with the same values. Among them are the timeouts of operations,
  transfers and processing, the chunk size, and all limits of the search indexer.
\<close>

theorem settings_without_effect:
  "list_all (\<lambda>k. main_process lib (e(k := v)) connected = main_process lib e connected \<and>
       wiring lib (e(k := v)) connected = wiring lib e connected) unused_settings"
proof -
  have "main_process lib (e(k := v)) connected = main_process lib e connected \<and>
    wiring lib (e(k := v)) connected = wiring lib e connected" if "k \<in> set unused_settings" for k
  proof
    have other: "k' \<notin> set unused_settings \<Longrightarrow> (e(k := v)) k' = e k'" for k' using that by auto
    show "main_process lib (e(k := v)) connected = main_process lib e connected"
      unfolding main_process_def by (rule bootstrap_settings [OF other run_used_part])
    show "wiring lib (e(k := v)) connected = wiring lib e connected"
      unfolding wiring_def by (rule bootstrap_settings [OF other]) (simp_all add: parts_used_part [symmetric])
  qed
  then show ?thesis by (simp add: list_all_iff)
qed

section \<open>The end of a process\<close>

text \<open>
  C34: a process that ends normally was told to stop while it was serving, and then closed the connection
  to NATS, if it was up, and the database before the server: when the database is closed the server still
  takes requests.
\<close>

theorem database_closed_before_server:
  assumes "main_process lib e connected (w, []) = (Inr (), w', l)"
  shows "\<exists>pre ok t. l = pre @ [(CloseDatabase, ok), (ShutdownServer t, True)] \<and> (AwaitSignal, True) \<in> set pre \<and>
    is_open Server (pre @ [(CloseDatabase, ok)]) \<and> is_open Connection pre = (\<not> connected)"
  using main_wp [of lib e connected w] assms by (auto simp: wp_def)

text \<open>
  A process whose heartbeat interval is not positive never ends normally. The validation of the
  configuration does not look at it: a process that is told an interval of zero passes the validation,
  starts its roles, and panics (\<open>zero_interval_run\<close>).
\<close>

lemma bad_interval_never_ends_well:
  assumes "get_duration e ''NODE_HEARTBEAT_INTERVAL'' (seconds 5) \<le> 0"
  shows "exit_code (fst (main_process lib e connected (w, []))) \<noteq> 0"
  using main_wp [of lib e connected w] assms
  by (auto simp: wp_def exit_code_def split: prod.splits sum.splits)

section \<open>A process of the defaults\<close>

definition sample_libraries :: libraries where
  "sample_libraries = \<lparr>lb_debug_mode = ''debug'', lb_mode_known = (\<lambda>m. m = ''debug''), lb_reconnect_wait = seconds 2,
     lb_validate = (\<lambda>_. None), lb_foreign = (\<lambda>s. s), lb_parse_url = (\<lambda>s. Inr (''http'', s)),
     lb_stream_api = \<lparr>sa_lookup = True, sa_info = True, sa_update = Done, sa_create = Done\<rparr>, lb_stream = None\<rparr>"

lemma default_run:
  "fst (main_process sample_libraries (\<lambda>_. None) True (tick_world empty_db, [])) = Inr ()"
  by code_simp

lemma zero_interval_run:
  "exit_code (fst (main_process sample_libraries [''NODE_HEARTBEAT_INTERVAL'' \<mapsto> ''0s''] True
     (tick_world empty_db, []))) = 2"
  by code_simp

theorem database_closed_before_server_witness:
  "\<exists>w' l pre ok t. main_process sample_libraries (\<lambda>_. None) True (tick_world empty_db, []) = (Inr (), w', l) \<and>
     l = pre @ [(CloseDatabase, ok), (ShutdownServer t, True)] \<and> is_open Server (pre @ [(CloseDatabase, ok)])"
proof -
  obtain w' l where run:
    "main_process sample_libraries (\<lambda>_. None) True (tick_world empty_db, []) = (Inr (), w', l)"
    using default_run by (metis prod.collapse)
  from database_closed_before_server [OF run] run show ?thesis by blast
qed

section \<open>The start\<close>

lemma quiet_bootstrap_with_wp:
  assumes "quiet w" and "lb_mode_known lib (a_gin_mode (cf_app c))"
    and "\<not> isl (fst (ensure_stream (n_stream_name (cf_nats c)) (lb_stream_api lib) (lb_stream lib)))"
  shows "wp (bootstrap_with lib c) (\<lambda>_ s. validate c = None)
    (\<lambda>_ (w, l). validate c \<noteq> None \<and> map fst l = [SetDocsHost (''localhost:'' @ h_port (cf_http c)),
      SetMode (a_gin_mode (cf_app c))]) (w, [])"
proof -
  have d: "outcome_of w n = Done" for n using assms(1) by (simp add: quiet_def)
  show ?thesis using assms(2,3)
    by (cases "validate c"; cases "fst (ensure_stream (n_stream_name (cf_nats c)) (lb_stream_api lib) (lb_stream lib))";
        cases "lb_parse_url lib (e_url (cf_elastic c))")
      (simp_all add: bootstrap_with_def new_client_def init_elastic_def new_elastic_client_def case_prod_beta' wp_simps Let_def d)
qed

definition required_settings :: "string list" where
  "required_settings = [''NODE_ID'', ''NODE_ROLE'', ''NATS_URL'', ''DB_HOST'', ''DB_NAME'', ''DB_USER'']"

text \<open>
  C33: when every call succeeds, the web framework knows the mode and the stream can be set up, the start
  succeeds exactly when none of six variables is set to the empty string: a variable that is not set has
  a default that is not empty. A start that fails so has not touched the database or NATS.
\<close>

theorem start_succeeds_iff:
  assumes "quiet w" and "lb_mode_known lib (get_string e ''GIN_MODE'' (lb_debug_mode lib))"
    and "\<not> isl (fst (ensure_stream (get_string e ''NATS_STREAM_NAME'' ''FILE_SERVICE'') (lb_stream_api lib) (lb_stream lib)))"
  shows "case bootstrap lib e (w, []) of
      (Inr app, s) \<Rightarrow> list_all (\<lambda>v. e v \<noteq> Some []) required_settings
    | (Inl err, w', l) \<Rightarrow> \<not> list_all (\<lambda>v. e v \<noteq> Some []) required_settings \<and>
        \<not> list_ex (\<lambda>(a, _). opens Database a \<or> opens Connection a) l"
proof -
  obtain c w1 where load: "load_config (lb_debug_mode lib) e w = (Inr c, w1)" and w1: "w1 = w\<lparr>draws := Suc (draws w)\<rparr>"
    and mode: "a_gin_mode (cf_app c) = get_string e ''GIN_MODE'' (lb_debug_mode lib)"
    and stream: "n_stream_name (cf_nats c) = get_string e ''NATS_STREAM_NAME'' ''FILE_SERVICE''"
    by (simp add: load_config_def generate_id_simp bindE_def ret_def load_app_def load_nats_def)
  have v: "validate c = None \<longleftrightarrow> list_all (\<lambda>v. e v \<noteq> Some []) required_settings"
    unfolding required_settings_def by (rule config_accepted_iff [OF load])
  have "wp (bootstrap lib e) (\<lambda>_ s. validate c = None)
    (\<lambda>_ (w, l). validate c \<noteq> None \<and> map fst l = [SetDocsHost (''localhost:'' @ h_port (cf_http c)),
      SetMode (a_gin_mode (cf_app c))]) (w, [])"
    using quiet_bootstrap_with_wp [of w1 lib c] assms mode stream
    by (simp add: bootstrap_def wp_simps wp_def [of "load_config _ _"] load w1)
  then show ?thesis
    by (auto simp: wp_def v list_ex_iff split: prod.splits sum.splits)
qed

theorem start_succeeds_iff_witness:
  "isl (fst (bootstrap sample_libraries [''DB_NAME'' \<mapsto> []] (tick_world empty_db, [])))"
proof -
  have "quiet (tick_world empty_db)" by (simp add: quiet_def tick_world_def initial_world_def)
  moreover have "lb_mode_known sample_libraries
      (get_string [''DB_NAME'' \<mapsto> []] ''GIN_MODE'' (lb_debug_mode sample_libraries))"
    by code_simp
  moreover have "\<not> isl (fst (ensure_stream (get_string [''DB_NAME'' \<mapsto> []] ''NATS_STREAM_NAME'' ''FILE_SERVICE'')
      (lb_stream_api sample_libraries) (lb_stream sample_libraries)))"
    by code_simp
  ultimately show ?thesis
    using start_succeeds_iff [of "tick_world empty_db" sample_libraries "[''DB_NAME'' \<mapsto> []]"]
    by (auto simp: required_settings_def split: prod.splits sum.splits)
qed

section \<open>The parts of a started process\<close>

lemma bootstrap_with_parts:
  "wp (bootstrap_with lib c)
     (\<lambda>app (w, l). ap_config app = c \<and> ap_nats app \<noteq> None \<and>
        ap_receiver app = Some \<lparr>rc_node_id = ns_id (cf_node c), rc_staging_dir = staging_dir (cf_file c)\<rparr>)
     (\<lambda>e s. True) (w, [])"
  by (cases "validate c"; cases "fst (ensure_stream (n_stream_name (cf_nats c)) (lb_stream_api lib) (lb_stream lib))";
      cases "lb_parse_url lib (e_url (cf_elastic c))")
    (simp_all add: bootstrap_with_def new_client_def init_elastic_def new_elastic_client_def case_prod_beta' wp_simps Let_def new_application_def)

text \<open>
  The upload, the dispatch and the receiver of a started process work on one node and in one directory, and
  the links that the use cases return have one base: the parts fit together.
\<close>

lemma parts_agree:
  assumes "wiring lib e connected (w, []) = (Inr (h, d, n), s)"
  shows "fc_staging_dir (ha_file h) = dc_staging_dir d \<and> nc_staging_dir n = dc_staging_dir d \<and>
    fc_node (ha_file h) = dc_node d \<and> nc_id n = dc_node d \<and> ha_base h = dc_base_url d \<and>
    fc_base_url (ha_file h) = dc_base_url d \<and> nc_has_nats n \<and> nc_has_receiver n \<and> ha_nats h = Some connected"
proof -
  have "wp (wiring lib e connected) (\<lambda>(h, d, n) s. fc_staging_dir (ha_file h) = dc_staging_dir d \<and>
    nc_staging_dir n = dc_staging_dir d \<and> fc_node (ha_file h) = dc_node d \<and> nc_id n = dc_node d \<and>
    ha_base h = dc_base_url d \<and> fc_base_url (ha_file h) = dc_base_url d \<and> nc_has_nats n \<and> nc_has_receiver n \<and>
    ha_nats h = Some connected) (\<lambda>_ _. True) (w, [])"
    unfolding wiring_def bootstrap_def
    by (simp add: wp_simps, rule wp_always)
      (auto intro!: wp_mono [OF bootstrap_with_parts] simp: http_app_of_def file_config_of_def
        dispatch_config_of_def node_config_of_def Let_def)
  then show ?thesis using assms by (simp add: wp_def)
qed

end
