(* ===== verification/Delivery.thy ===== *)
theory Delivery
  imports Application_Properties Transfer_Properties Upload_Properties
begin

text \<open>
  What the dispatch of an uploaded file publishes and stores, and how the role manager of the worker takes it.
\<close>

section \<open>What leaves the transfers alone\<close>

definition leaves_transfers :: "world \<Rightarrow> world \<Rightarrow> bool" where
  "leaves_transfers w w' =
     (disk w' = disk w \<and> outcome_of w' = outcome_of w \<and> t_transfers (db w') = t_transfers (db w))"

interpretation apart: world_guarantee leaves_transfers
  by unfold_locales (simp_all add: leaves_transfers_def)

lemma apart_statements:
  "maintains leaves_transfers (chunk_upsert c)" "maintains leaves_transfers (event_append e)"
  "maintains leaves_transfers (job_create j)" "maintains leaves_transfers (attempt_create a)"
  "maintains leaves_transfers (op_update op)" "maintains leaves_transfers (publish subj hs b)"
  unfolding chunk_upsert_def event_append_def job_create_def attempt_create_def op_update_def
  by (intro apart.m_exec_db apart.m_publish;
      auto simp: leaves_transfers_def chunk_upsert_stmt_def event_append_stmt_def job_insert_def
        attempt_insert_def op_update_stmt_def Let_def split: if_splits sum.splits)+

lemma publish_chunks_apart: "maintains leaves_transfers (publish_chunks x n idx rest)"
  by (induction n arbitrary: idx rest)
    (auto simp: Let_def publish_with_headers_def intro!: apart.m_intros apart_statements)

lemma publish_file_apart: "maintains leaves_transfers (publish_file_chunks cfg x)"
  unfolding publish_file_chunks_def
  by (intro apart.m_intros publish_chunks_apart) (simp add: maintains_def apart.refl split: option.split)

lemma dispatch_record_apart: "maintains leaves_transfers (dispatch_record cfg p op worker jid aid cid tok tid t)"
  unfolding dispatch_record_def Let_def by (intro apart.m_intros apart_statements)

lemma dispatch_record_silent: "maintains same_bus (dispatch_record cfg p op worker jid aid cid tok tid t)"
  unfolding dispatch_record_def Let_def job_create_def attempt_create_def op_update_def event_append_def
  by (intro silent.m_intros silent_exec_db)

lemma select_worker_apart: "maintains leaves_transfers select_worker" "maintains same_bus select_worker"
  unfolding select_worker_def node_list_healthy_def
  by (intro apart.m_intros silent.m_intros)+


section \<open>The dispatch\<close>

lemma transfer_create_run:
  assumes "transfer_create x w = (Inr u, w')"
  shows "transfer_row_fits (transfer_create_row x)" and "tr_id x \<notin> tr_id ` set (t_transfers (db w))"
    and "t_transfers (db w') = t_transfers (db w) @ [transfer_create_row x]"
    and "disk w' = disk w" "outcome_of w' = outcome_of w" "same_bus w w'"
proof -
  have ins: "transfer_insert x (db w) = Inr (u, db w')"
    using assms unfolding transfer_create_def by (rule exec_db_Inr)
  have id: "tr_id (transfer_create_row x) = tr_id x" by (simp add: transfer_create_row_def file_transfer.defs)
  from ins have "transfer_row_fits (transfer_create_row x) \<and> tr_id x \<notin> tr_id ` set (t_transfers (db w)) \<and>
    (db w)\<lparr>t_transfers := t_transfers (db w) @ [transfer_create_row x]\<rparr> = db w'"
    by (auto simp: transfer_insert_def sql_insert_def id split: if_splits sum.splits)
  then show "transfer_row_fits (transfer_create_row x)" "tr_id x \<notin> tr_id ` set (t_transfers (db w))"
    "t_transfers (db w') = t_transfers (db w) @ [transfer_create_row x]"
    by (simp_all, metis db.select_convs(4) db.surjective db.update_convs(4))
  show "disk w' = disk w" "outcome_of w' = outcome_of w"
    using frame.maintainsD [OF frame_exec_db assms [unfolded transfer_create_def]] by (simp_all add: same_disk_def)
  show "same_bus w w'"
    by (rule silent.maintainsD [OF silent_exec_db assms [unfolded transfer_create_def]])
qed

lemma publish_command_quiet:
  "quiet w \<Longrightarrow> publish_command n t j w = (Inr (), w\<lparr>calls := Suc (calls w), published := published w @
     [\<lparr>bm_subject = node_command_subject n, bm_headers = [], bm_body = BodyJson j\<rparr>]\<rparr>)"
  by (simp add: publish_command_def Let_def wrap_err_def publish_quiet)

text \<open>The messages of the chunks of a file.\<close>

definition chunk_messages :: "file_transfer \<Rightarrow> bytes \<Rightarrow> bus_msg list" where
  "chunk_messages x content = map (\<lambda>i. case chunk_message x content i of (hs, p) \<Rightarrow>
      \<lparr>bm_subject = transfer_chunks_subject (tr_id x), bm_headers = hs, bm_body = BodyRaw p\<rparr>)
      [0..<nat (tr_total_chunks x)]"

lemma dispatch_runs:
  assumes "quiet w" and "dispatch_execute cfg i p w = (Inr out, w2)"
    and "db_operation i (db w) = Some op" and "op_input_file op = Some f"
    and "disk w (dc_node cfg) (filepath_join [filepath_join [dc_staging_dir cfg, op_id op], ''input'']) = Some content"
    and "if_size_bytes f = int (length content)"
  obtains x aid now cid jid fin where "x = dispatch_transfer cfg op f (do_worker_node_id out) aid now"
    and "published w2 = published w @
      \<lparr>bm_subject = node_command_subject (do_worker_node_id out), bm_headers = [],
       bm_body = BodyJson (start_transfer_command cid jid x)\<rparr> # chunk_messages x content @ [fin]"
    and "t_transfers (db w2) = t_transfers (db w) @ [transfer_create_row x]"
    and "tr_id x \<notin> tr_id ` set (t_transfers (db w))" and "transfer_row_fits (transfer_create_row x)"
    and "quiet w2"
proof -
  let ?w0 = "w\<lparr>calls := Suc (calls w)\<rparr>"
  have "dispatch_execute cfg i p w = dispatch_loaded cfg p op ?w0"
    using assms(1,3) by (simp add: dispatch_execute_def op_get_by_id_def bindE_def query_db_quiet)
  then have run: "dispatch_loaded cfg p op ?w0 = (Inr out, w2)" using assms(2) by simp
  obtain s wa now wb jid wc aid wd c we k wf cid tok wg wh wi wj u v y z where
    steps: "select_worker ?w0 = (Inr s, wa)" "time_now wa = (Inr now, wb)"
      "generate_id ''job'' wb = (Inr jid, wc)" "generate_id ''attempt'' wc = (Inr aid, wd)"
      "generate_id [] wd = (Inr c, we)" "generate_id [] we = (Inr k, wf)" and
    created: "transfer_create (dispatch_transfer cfg op f (sr_node_id s) aid now) wf = (Inr u, wg)" and
    told: "publish_command (sr_node_id s) ''START_TRANSFER''
      (start_transfer_command cid jid (dispatch_transfer cfg op f (sr_node_id s) aid now)) wg = (Inr v, wh)" and
    sent: "ignore_err (publish_file_chunks cfg (dispatch_transfer cfg op f (sr_node_id s) aid now)) wh = (Inr y, wi)" and
    asked: "publish_command (sr_node_id s) ''PROCESS_UPDATE''
      (process_update_command cid jid (op_id op) aid p) wi = (Inr z, wj)" and
    recorded: "dispatch_record cfg p op (sr_node_id s) jid aid cid tok
      (tr_id (dispatch_transfer cfg op f (sr_node_id s) aid now)) now wj = (Inr out, w2)"
    using run assms(4) unfolding dispatch_loaded_def Let_def
    by (simp only: option.case) (elim bindE_InrE wrap_err_InrE, rule that, assumption+)
  let ?x = "dispatch_transfer cfg op f (sr_node_id s) aid now"
  have before: "disk wf = disk w" "outcome_of wf = outcome_of w" "t_transfers (db wf) = t_transfers (db w)"
    "published wf = published w"
    using apart.maintainsD [OF select_worker_apart(1) steps(1)] silent.maintainsD [OF select_worker_apart(2) steps(1)] steps(2-)
    by (auto simp: leaves_transfers_def same_bus_def time_now_simp generate_id_simp)
  note created = transfer_create_run [OF created]
  have q: "quiet wf" "quiet wg" using assms(1) before(2) created(5) by (simp_all add: quiet_def)
  have wh: "wh = wg\<lparr>calls := Suc (calls wg), published := published wg @
     [\<lparr>bm_subject = node_command_subject (sr_node_id s), bm_headers = [], bm_body =
       BodyJson (start_transfer_command cid jid ?x)\<rparr>]\<rparr>"
    using told q by (simp add: publish_command_quiet)
  have stored: "disk wh (dc_node cfg) (filepath_join [tr_staging_path ?x, ''input'']) = Some content"
    using assms(5) before(1) created(4) wh by (simp del: filepath_join.simps)
  have fits: "varchar 64 (tr_id ?x)" "tr_total_chunks ?x \<le> 2 ^ 31"
    using created(1) by (simp_all add: transfer_row_fits_def transfer_create_row_def file_transfer.defs
        varchar_short sql_ranges)
  have "quiet wh" using q(2) wh by simp
  from publish_file_run [OF this HOL.refl stored assms(6) fits] obtain wi' where
    "publish_file_chunks cfg ?x wh = (Inr (), wi')" "published wi' = published wh @ chunk_messages ?x content"
    by (auto simp: chunk_messages_def)
  then have chunks: "publish_file_chunks cfg ?x wh = (Inr (), wi)" "published wi = published wh @ chunk_messages ?x content"
    using sent by (simp_all add: ignore_err_Inr)
  have wi: "leaves_transfers wh wi" by (rule apart.maintainsD [OF publish_file_apart chunks(1)])
  then have "quiet wi" using \<open>quiet wh\<close> by (simp add: leaves_transfers_def quiet_def)
  then have wj: "wj = wi\<lparr>calls := Suc (calls wi), published := published wi @
     [\<lparr>bm_subject = node_command_subject (sr_node_id s), bm_headers = [], bm_body =
       BodyJson (process_update_command cid jid (op_id op) aid p)\<rparr>]\<rparr>"
    using asked by (simp add: publish_command_quiet)
  have last: "leaves_transfers wj w2" "same_bus wj w2"
    by (rule apart.maintainsD [OF dispatch_record_apart recorded] silent.maintainsD [OF dispatch_record_silent recorded])+
  have worker: "do_worker_node_id out = sr_node_id s"
    using recorded unfolding dispatch_record_def Let_def by (auto simp: ret_def elim!: bindE_InrE)
  show thesis
  proof (rule that [of ?x aid now cid jid])
    show "?x = dispatch_transfer cfg op f (do_worker_node_id out) aid now" by (simp add: worker)
    show "published w2 = published w @ \<lparr>bm_subject = node_command_subject (do_worker_node_id out), bm_headers = [],
       bm_body = BodyJson (start_transfer_command cid jid ?x)\<rparr> # chunk_messages ?x content @
       [\<lparr>bm_subject = node_command_subject (sr_node_id s), bm_headers = [], bm_body =
       BodyJson (process_update_command cid jid (op_id op) aid p)\<rparr>]"
      using last(2) wj chunks(2) wh created(6) before(4) by (simp add: same_bus_def worker)
    show "t_transfers (db w2) = t_transfers (db w) @ [transfer_create_row ?x]"
      using last(1) wj wi wh created(3) before(3) by (simp add: leaves_transfers_def)
    show "quiet w2" using last(1) wj \<open>quiet wi\<close> by (simp add: leaves_transfers_def quiet_def)
  qed (use created(1,2) before(3) in auto)
qed


section \<open>The worker\<close>

lemma chunk_payload_of_start:
  "map_of (json_map_any (start_transfer_payload x)) ''attempt_id'' = Some (JStr (tr_attempt_id x))"
  by (simp add: start_transfer_payload_def)

text \<open>The role manager of the worker opens the transfer that the command names.\<close>

lemma worker_starts:
  assumes "nc_has_receiver wn"
    and "accept_transfer (receiver_of wn) (json_map_any (start_transfer_payload x)) w = (Inr a, w')"
  shows "\<exists>st1. handle_command wn obs cancelled st (BodyJson (start_transfer_command cid jid x)) w =
      Some (Inr (st1, Ack), w') \<and> map_of (wk_open st1) (tr_id x) = Some a"
  using assms
  by (simp add: handle_command_def start_transfer_command_def decoded_command start_transfer_def bindE_def
      attempt_def ret_def Let_def payload_fields(1) chunk_payload_of_start)

definition delivered :: "bus_msg \<Rightarrow> (string \<times> string) list \<times> bytes" where
  "delivered m = (bm_headers m, case bm_body m of BodyRaw b \<Rightarrow> b | BodyJson _ \<Rightarrow> [])"

lemma delivered_chunks:
  "set is \<subseteq> {..<nat (tr_total_chunks x)} \<Longrightarrow>
   map (\<lambda>i. delivered (chunk_messages x content ! i)) is = map (chunk_message x content) is"
  by (induction "is") (auto simp: chunk_messages_def delivered_def split: prod.split)

lemma read_operation_id: "db_operation i d = Some op \<Longrightarrow> op_id op = i"
  by (drule db_operation_Some) auto

end
