(* ===== verification/Arrival.thy ===== *)
theory Arrival
  imports Delivery Storage_Properties
begin

text \<open>
  The parts of the program put together: the body of an upload at one node becomes a file on the disk of
  another. The rest of the theory is a run of it, from the defaults of the configuration on.
\<close>

section \<open>From the upload to the worker\<close>

text \<open>The worker that a transfer was created for takes its command and its chunks, and has the file.\<close>

lemma worker_takes_transfer:
  assumes x: "x = dispatch_transfer d op f (nc_id wn) aid t"
    and f: "if_size_bytes f = int (length body)" "if_sha256 f = sha256_hex body"
    and body: "body \<noteq> []" "int (length body) \<le> 2 ^ 53"
    and q: "quiet w2" and ts: "keys_distinct tr_id ts" and stored: "t_transfers (db w2) = ts @ [transfer_create_row x]"
      "tr_id x \<notin> tr_id ` set ts" "transfer_row_fits (transfer_create_row x)"
    and wn: "nc_has_receiver wn"
  obtains st1 w3 a where "handle_command wn obs cancelled st (BodyJson (start_transfer_command cid jid x)) w2 =
      Some (Inr (st1, Ack), w3)" and "map_of (wk_open st1) (tr_id x) = Some a"
    and "\<forall>is. set is = {..<length (chunk_messages x body)} \<longrightarrow> (\<exists>a' w4.
      receive_all (receiver_of wn) a (map (\<lambda>i. delivered (chunk_messages x body ! i)) is) w3 = (Inr a', w4) \<and>
      disk w4 (nc_id wn) (final_path (receiver_of wn) (json_map_any (start_transfer_payload x))) = Some body)"
proof -
  have row: "tr_id (transfer_create_row x) = tr_id x"
    "tr_destination_node_id (transfer_create_row x) = rc_node_id (receiver_of wn)"
    using x by (simp_all add: transfer_create_row_def file_transfer.defs receiver_of_def)
  have chunked: "tr_chunk_size_bytes x = 65536" "tr_total_chunks x = int (chunk_count 65536 (length body))"
    "tr_file_size_bytes x = int (length body)" "tr_file_checksum x = sha256_hex body"
    using x f by (simp_all add: dispatch_transfer_chunks)
  have keys: "keys_distinct tr_id (t_transfers (db w2))"
    using ts stored(1,2) row(1) by (simp add: keys_distinct_def)
  have get: "transfer_lookup (tr_id x) (t_transfers (db w2)) = Some (transfer_create_row x)"
    using transfer_table.get_Some_iff [OF keys] stored(1) row(1) by simp
  have count: "tr_total_chunks x = int (chunk_count (nat (tr_chunk_size_bytes x)) (length body))"
    by (simp add: chunked)
  have fitting: "transfer_row_fits (transfer_create_row x) \<and> sql_int (tr_version (transfer_create_row x) + 1)"
    using stored(3) by (simp add: x dispatch_transfer_def transfer_create_row_def file_transfer.defs sql_int_def)
  obtain a w3 where acc: "accept_transfer (receiver_of wn) (json_map_any (start_transfer_payload x)) w2 = (Inr a, w3)"
    and rec: "receiving (receiver_of wn) (final_path (receiver_of wn) (json_map_any (start_transfer_payload x)))
      (nat (tr_chunk_size_bytes x)) body {} a w3"
    using accept_receiving [OF q keys get fitting row(2) body chunked(3,4) _ count] chunked(1) by auto
  obtain st1 where start: "handle_command wn obs cancelled st (BodyJson (start_transfer_command cid jid x)) w2 =
      Some (Inr (st1, Ack), w3)" "map_of (wk_open st1) (tr_id x) = Some a"
    using worker_starts [OF wn acc] by metis
  have len: "length (chunk_messages x body) = nat (tr_total_chunks x)" by (simp add: chunk_messages_def)
  have small: "int (length body) \<le> max_int64" using body(2) by (simp add: max_int64_def)
  have arrive: "\<exists>a' w4. receive_all (receiver_of wn) a (map (\<lambda>i. delivered (chunk_messages x body ! i)) is) w3 = (Inr a', w4) \<and>
    disk w4 (nc_id wn) (final_path (receiver_of wn) (json_map_any (start_transfer_payload x))) = Some body"
    if "set is = {..<length (chunk_messages x body)}" for "is"
    using receive_all_run [OF rec, of "is"] that len chunked small
    by (auto simp: delivered_chunks assembled_def receiver_of_def)
  then show ?thesis using that start by blast
qed

text \<open>
  C4: an uploaded file arrives. The upload of a started process is followed by the dispatch of that
  process; no call fails from then on. What the dispatch publishes is a command for the worker, the
  chunks, and a second command. The worker takes the first, and when it is then given the chunks in any
  order and any number of times, each at least once, the body of the upload lies on its disk, byte for
  byte. The body must not be empty, its length must be one that JSON numbers carry exactly, and the
  configured size limit must be below the largest \<open>int64\<close>.
\<close>

theorem uploaded_file_arrives:
  assumes "wiring lib e connected (w0, []) = (Inr (h, d, n), s)"
    and "file_execute (ha_file h) inp w = (Inr out, w1)"
    and "quiet w1" and "keys_distinct tr_id (t_transfers (db w1))"
    and "dispatch_execute d (fi_operation_id inp) p w1 = (Inr dout, w2)"
    and "nc_id wn = do_worker_node_id dout" and "nc_has_receiver wn"
    and "fi_body inp \<noteq> []" and "int (length (fi_body inp)) \<le> 2 ^ 53"
    and "fc_max_file_size (ha_file h) < max_int64"
  shows "\<exists>start chunks process tid path. published w2 = published w1 @ start # chunks @ [process] \<and>
    bm_subject start = node_command_subject (nc_id wn) \<and>
    list_all (\<lambda>m. bm_subject m = transfer_chunks_subject tid) chunks \<and>
    (\<forall>is. set is = {..<length chunks} \<longrightarrow>
      (\<exists>st1 w3 a a' w4. handle_command wn obs cancelled st (bm_body start) w2 = Some (Inr (st1, Ack), w3) \<and>
         map_of (wk_open st1) tid = Some a \<and>
         receive_all (receiver_of wn) a (map (\<lambda>i. delivered (chunks ! i)) is) w3 = (Inr a', w4) \<and>
         disk w4 (nc_id wn) path = Some (fi_body inp)))"
proof -
  note parts = parts_agree [OF assms(1)]
  let ?body = "fi_body inp"
  obtain op now where op: "db_operation (fi_operation_id inp) (db w1) = Some (op_overwrite
      (uploaded_struct ?body (fi_headers inp ''X-File-Name'') now op) op)" (is "_ = Some ?op1")
    and body: "disk w1 (fc_node (ha_file h)) (input_path (ha_file h) (fi_operation_id inp)) = Some ?body"
    using file_execute_run [OF assms(2)] received_whole [OF _ assms(10), of inp] by auto
  have id: "op_id ?op1 = fi_operation_id inp"
    by (rule read_operation_id [OF op])
  have f: "op_input_file ?op1 = Some \<lparr>if_size_bytes = int (length ?body), if_sha256 = sha256_hex ?body,
      if_file_name = fi_headers inp ''X-File-Name''\<rparr>" (is "_ = Some ?f")
    by (simp add: op_overwrite_def uploaded_struct_def)
  have at: "disk w1 (dc_node d) (filepath_join [filepath_join [dc_staging_dir d, op_id ?op1], ''input'']) = Some ?body"
    using body parts unfolding id by (simp add: input_path_def staging_path_def del: filepath_join.simps)
  obtain x aid t cid jid fin where x: "x = dispatch_transfer d ?op1 ?f (do_worker_node_id dout) aid t"
    and out: "published w2 = published w1 @
      \<lparr>bm_subject = node_command_subject (do_worker_node_id dout), bm_headers = [],
       bm_body = BodyJson (start_transfer_command cid jid x)\<rparr> # chunk_messages x ?body @ [fin]"
    and stored: "t_transfers (db w2) = t_transfers (db w1) @ [transfer_create_row x]"
      "tr_id x \<notin> tr_id ` set (t_transfers (db w1))" "transfer_row_fits (transfer_create_row x)"
    and q: "quiet w2"
    by (rule dispatch_runs [OF assms(3,5) op f at]) simp_all
  have w: "do_worker_node_id dout = nc_id wn" using assms(6) by simp
  obtain st1 w3 a where start: "handle_command wn obs cancelled st (BodyJson (start_transfer_command cid jid x)) w2 =
      Some (Inr (st1, Ack), w3)" "map_of (wk_open st1) (tr_id x) = Some a"
    and arrive: "\<forall>is. set is = {..<length (chunk_messages x ?body)} \<longrightarrow> (\<exists>a' w4.
      receive_all (receiver_of wn) a (map (\<lambda>i. delivered (chunk_messages x ?body ! i)) is) w3 = (Inr a', w4) \<and>
      disk w4 (nc_id wn) (final_path (receiver_of wn) (json_map_any (start_transfer_payload x))) = Some ?body)"
    by (rule worker_takes_transfer [OF x [unfolded w] _ _ assms(8,9) q assms(4) stored assms(7)]) simp_all
  have subj: "list_all (\<lambda>m. bm_subject m = transfer_chunks_subject (tr_id x)) (chunk_messages x ?body)"
    by (auto simp: chunk_messages_def list_all_iff split: prod.split)
  show ?thesis
    using out start arrive subj assms(6) by fastforce
qed

section \<open>A run\<close>

text \<open>What leaves the oracle and some tables alone.\<close>

definition alongside :: "(db \<Rightarrow> 'a) \<Rightarrow> world \<Rightarrow> world \<Rightarrow> bool" where
  "alongside f w w' = (outcome_of w' = outcome_of w \<and> clock w' = clock w \<and> f (db w') = f (db w))"

interpretation beside: world_guarantee "alongside f" for f
  by unfold_locales (simp_all add: alongside_def)

definition side_tables :: "db \<Rightarrow> node list \<times> transfer_row list \<times> job_row list \<times> attempt_row list" where
  "side_tables d = (t_nodes d, t_transfers d, t_jobs d, t_attempts d)"

lemma upload_beside: "maintains (alongside side_tables) (file_stage cfg inp op)"
proof -
  have dfr: "maintains R m \<Longrightarrow> maintains R c \<Longrightarrow> world_guarantee R \<Longrightarrow> maintains R (with_defer c m)"
    for R and m :: "'b io" and c :: "unit io"
    unfolding maintains_def with_defer_def by (metis (no_types, lifting) case_prod_beta snd_conv world_guarantee.trans)
  have r: "maintains (alongside f) random16" for f :: "db \<Rightarrow> 'a"
    by (simp add: maintains_def random16_def alongside_def)
  have st: "maintains (alongside side_tables) (op_update o')" "maintains (alongside side_tables) (event_append e)" for o' e
    unfolding op_update_def event_append_def
    by (rule beside.m_exec_db, auto simp: alongside_def side_tables_def op_update_stmt_def event_append_stmt_def
      Let_def split: if_splits sum.splits)+
  show ?thesis
    unfolding file_stage_def file_receive_def file_commit_def Let_def spawn_def
    by (intro beside.m_intros beside.m_modify r st dfr) (simp_all add: alongside_def beside.world_guarantee_axioms)
qed

lemma wp_exec_quiet:
  "quiet w \<Longrightarrow> wp (exec_db what g) Q F w =
     (case g (db w) of Inl e \<Rightarrow> F e (w\<lparr>calls := Suc (calls w)\<rparr>)
      | Inr (x, d) \<Rightarrow> Q x (w\<lparr>calls := Suc (calls w), db := d\<rparr>))"
  by (simp add: wp_def exec_db_quiet split: sum.split prod.split)

lemma wp_query_quiet:
  "quiet w \<Longrightarrow> wp (query_db what q) Q F w =
     (case q (db w) of Inl e \<Rightarrow> F e (w\<lparr>calls := Suc (calls w)\<rparr>) | Inr x \<Rightarrow> Q x (w\<lparr>calls := Suc (calls w)\<rparr>))"
  by (simp add: wp_def query_db_quiet split: sum.split)

lemma wp_command_quiet:
  "quiet w \<Longrightarrow> wp (publish_command n t j) Q F w = Q () (w\<lparr>calls := Suc (calls w), published := published w @
     [\<lparr>bm_subject = node_command_subject n, bm_headers = [], bm_body = BodyJson j\<rparr>]\<rparr>)"
  by (simp add: wp_def publish_command_quiet)

lemma wp_now: "wp time_now Q F w = Q (clock w (ticks w)) (w\<lparr>ticks := Suc (ticks w)\<rparr>)"
  by (simp add: wp_def time_now_simp)

lemma wp_id: "wp (generate_id p) Q F w = Q (id_of p (map (rnd w (draws w)) [0..<16])) (w\<lparr>draws := Suc (draws w)\<rparr>)"
  by (simp add: wp_def generate_id_simp)

lemma wp_ignored:
  assumes "calm m" and "maintains R m" and "\<And>w'. R w w' \<Longrightarrow> Q () w'"
  shows "wp (ignore_err m) Q F w"
  using assms by (simp add: wp_def ignore_err_calm maintains_def)

definition record_tables :: "db \<Rightarrow> op_row list \<times> job_row list \<times> attempt_row list" where
  "record_tables d = (t_operations d, t_jobs d, t_attempts d)"

lemma chunks_beside: "maintains (alongside record_tables) (publish_file_chunks cfg x)"
proof -
  have up: "maintains (alongside record_tables) (chunk_upsert c)" for c
    unfolding chunk_upsert_def
    by (rule beside.m_exec_db) (auto simp: alongside_def record_tables_def chunk_upsert_stmt_def Let_def split: if_splits)
  have pub: "maintains (alongside record_tables) (publish subj hs b)" for subj hs b
    by (rule beside.m_publish) (simp add: alongside_def)
  have "maintains (alongside record_tables) (publish_chunks x k idx rest)" for k idx rest
    by (induction k arbitrary: idx rest)
      (auto simp: Let_def publish_with_headers_def intro!: beside.m_intros up pub)
  then show ?thesis
    unfolding publish_file_chunks_def
    by (intro beside.m_intros) (simp_all add: maintains_def alongside_def split: option.split)
qed

lemma chunks_calm: "calm (publish_file_chunks cfg x)"
proof -
  have "calm (publish_chunks x k idx rest)" for k idx rest
    by (induction k arbitrary: idx rest)
      (auto simp: Let_def publish_with_headers_def intro!: calm_intros calm_statements)
  then show ?thesis
    unfolding publish_file_chunks_def by (intro calm_intros) (simp_all add: calm_def split: option.split)
qed

text \<open>The rows of the dispatch of a small file fit.\<close>

lemma small_transfer_fits:
  assumes "op_id op = ''op-1''" and "length aid \<le> 64" and "if_size_bytes f = 1" and "length (if_sha256 f) \<le> 64"
    and "length (filepath_join [dc_staging_dir cfg, ''op-1'']) \<le> 512"
  shows "transfer_row_fits (transfer_create_row (dispatch_transfer cfg op f ''w'' aid 0))"
  using assms dispatch_transfer_chunks [of f 1 cfg op "''w''" aid 0]
  by (simp add: transfer_row_fits_def transfer_create_row_def file_transfer.defs varchar_short
        varchar_opt_def sql_ranges err_cols_fit_def no_err_cols_def chunk_count_def del: filepath_join.simps)
    (simp add: dispatch_transfer_def transfer_id_of_def fmt_d_def show_base.simps varchar_short del: filepath_join.simps)

text \<open>What every statement keeps: the rows of the operations fit their columns.\<close>

definition ops_fit :: "db \<Rightarrow> bool" where
  "ops_fit d = list_all op_row_fits (t_operations d)"

lemma same_ops_fit: "same_ops d d' \<Longrightarrow> ops_fit d' = ops_fit d"
  by (simp add: same_ops_def ops_fit_def)

lemma op_insert_ops_fit: "op_insert op d = Inr (x, d') \<Longrightarrow> ops_fit d \<Longrightarrow> ops_fit d'"
  by (auto simp: op_insert_def ops_fit_def sql_insert_def split: if_splits sum.splits)

lemma op_update_ops_fit: "op_update_stmt op d = Inr (x, d') \<Longrightarrow> ops_fit d \<Longrightarrow> ops_fit d'"
  by (auto simp: op_update_stmt_def ops_fit_def sql_update_def list_all_iff split: if_splits)

interpretation fitting: handler_guarantee "inv_rel ops_fit" "\<lambda>_. True" "\<lambda>_. True"
  by unfold_locales
    (auto intro!: same_ops_inv other_tables_same_ops same_ops_fit
      simp: stmt_keeps_def [of _ "op_insert _"] stmt_keeps_def [of _ "op_update_stmt _"] inv_rel_def
      intro: op_insert_ops_fit op_update_ops_fit)

lemma dispatched_fits:
  assumes "op_ids_distinct d" and "ops_fit d" and "db_operation i d = Some op"
    and "length jid \<le> 64" and "length aid \<le> 64" and "op_error op = None"
    and "op_version op < 2 ^ 31 - 1" and "- (2 ^ 31) \<le> op_version op"
  shows "\<exists>d'. op_update_stmt (dispatched_struct jid aid now op) d = Inr ((), d')"
proof -
  obtain r where r: "op_lookup i (t_operations d) = Some r" "op = row_to_operation r" "r_id r = i"
    using db_operation_Some [OF assms(3)] by blast
  then have "r \<in> set (t_operations d)" using op_lookup_Some by blast
  then have fits: "op_row_fits r" using assms(2) by (simp add: ops_fit_def list_all_iff)
  have "op_row_fits (op_update_row (dispatched_struct jid aid now op) r)"
    using fits assms(4-8)
    by (auto simp: r(2) op_row_fits_def op_update_row_def dispatched_struct_def row_to_operation_def varchar_short
        varchar_opt_def sql_ranges null_string_def string_of_null_def err_cols_fit_def error_to_cols_def
        no_err_cols_def split: option.split)
  then show ?thesis using loaded_update_fits [OF assms(1) r(1), of "dispatched_struct jid aid now op"] r
    by (simp add: dispatched_struct_def)
qed


lemma transfer_created:
  "t_transfers d = [] \<Longrightarrow> transfer_row_fits (transfer_create_row x) \<Longrightarrow>
   transfer_insert x d = Inr ((), d\<lparr>t_transfers := [transfer_create_row x]\<rparr>)"
  by (simp add: transfer_insert_def sql_insert_def)

lemma job_created:
  "t_jobs d = [] \<Longrightarrow> job_row_fits (job_create_row j) \<Longrightarrow> job_insert j d = Inr ((), d\<lparr>t_jobs := [job_create_row j]\<rparr>)"
  by (simp add: job_insert_def sql_insert_def)

lemma attempt_created:
  "t_attempts d = [] \<Longrightarrow> attempt_row_fits (attempt_create_row a) \<Longrightarrow>
   attempt_insert a d = Inr ((), d\<lparr>t_attempts := [attempt_create_row a]\<rparr>)"
  by (simp add: attempt_insert_def sql_insert_def)

lemma record_of_sample_runs:
  assumes "quiet w" and "t_jobs (db w) = []" and "t_attempts (db w) = []"
    and "\<And>now d. t_operations d = t_operations (db w) \<Longrightarrow>
      \<exists>d'. op_update_stmt (dispatched_struct jid aid now op) d = Inr ((), d')"
    and "op_id op = ''op-1''" and "op_retry_count op = 0"
    and "length jid \<le> 64" and "length aid \<le> 64" and "length cid \<le> 128" and "length tok \<le> 128"
  shows "wp (dispatch_record cfg ''demo'' op ''w'' jid aid cid tok tid t)
    (\<lambda>out _. do_worker_node_id out = ''w'') (\<lambda>_ _. False) w"
proof -
  let ?j = "\<lparr>job_id = jid, job_operation_id = op_id op, job_worker_node_id = ''w'',
        job_status = JobStatusDispatched, job_processor = ''demo'', job_requirements = None,
        job_assigned_at = t, job_dispatched_at = Some (clock w (ticks w)), job_acknowledged_at = None,
        job_completed_at = None, job_error = None, job_version = 1\<rparr>"
  let ?a = "\<lparr>att_id = aid, att_job_id = jid, att_operation_id = op_id op, att_node_id = ''w'',
        att_attempt_number = op_retry_count op + 1, att_status = AttemptStatusCommandSent,
        att_command_id = cid, att_claim_token = tok, att_lease_until = t + minutes 5,
        att_processing_id = None, att_error = None, att_started_at = None,
        att_completed_at = None, att_version = 1\<rparr>"
  have "job_row_fits (job_create_row ?j)"
    using assms(5,7) by (simp add: job_row_fits_def job_create_row_def varchar_short sql_ranges err_cols_fit_def error_to_cols_def no_err_cols_def)
  moreover have "attempt_row_fits (attempt_create_row ?a)"
    using assms(5-10) by (simp add: attempt_row_fits_def attempt_create_row_def varchar_short varchar_opt_def sql_ranges
        err_cols_fit_def error_to_cols_def no_err_cols_def)
  moreover obtain d' where "op_update_stmt (dispatched_struct jid aid (clock w (ticks w)) op)
      ((db w)\<lparr>t_jobs := [job_create_row ?j], t_attempts := [attempt_create_row ?a]\<rparr>) = Inr ((), d')"
    using assms(4) [of "(db w)\<lparr>t_jobs := [job_create_row ?j], t_attempts := [attempt_create_row ?a]\<rparr>"] by auto
  ultimately show ?thesis
    using assms(1-3)
    by (simp add: dispatch_record_def job_create_def attempt_create_def op_update_def Let_def wp_simps wp_now wp_id
        wp_exec_quiet job_created attempt_created del: wp_ignore_err)
      (rule wp_ignored [OF calm_statements(2) apart_statements(2)], simp add: wp_simps)
qed

lemma worker_selected:
  assumes "quiet w" and "t_nodes (db w) = [healthy_node ''w'' 1000]"
  shows "wp select_worker Q F w = Q \<lparr>sr_node_id = ''w'', sr_reason = ''first_healthy_worker''\<rparr> (w\<lparr>calls := Suc (calls w)\<rparr>)"
proof -
  have "map row_to_node (healthy_nodes (t_nodes (db w))) = [healthy_node ''w'' 1000]"
    by (simp add: assms(2) healthy_nodes_def sql_order_by_def healthy_node_def row_to_node_def)
  then show ?thesis
    by (simp add: select_worker_def node_list_healthy_def wp_simps wp_query_quiet assms(1))
      (simp add: healthy_node_def wp_simps)
qed

lemma dispatch_of_sample_runs:
  assumes "quiet w" and "clock w = (\<lambda>_. 0)" and "side_tables (db w) = ([healthy_node ''w'' 1000], [], [], [])"
    and "db_operation ''op-1'' (db w) = Some op" and "op_input_file op = Some f" and "length (if_sha256 f) \<le> 64"
    and "op_ids_distinct (db w)" and "ops_fit (db w)" and "if_size_bytes f = 1"
    and "length (filepath_join [dc_staging_dir cfg, ''op-1'']) \<le> 512"
    and "op_error op = None" and "op_retry_count op = 0" and "op_version op = 2"
  shows "\<exists>out w'. dispatch_execute cfg ''op-1'' ''demo'' w = (Inr out, w') \<and> do_worker_node_id out = ''w''"
proof -
  have tables: "t_nodes (db w) = [healthy_node ''w'' 1000]" "t_transfers (db w) = []" "t_jobs (db w) = []" "t_attempts (db w) = []"
    using assms(3) by (simp_all add: side_tables_def)
  have id: "op_id op = ''op-1''" by (rule read_operation_id [OF assms(4)])
  have fits: "transfer_row_fits (transfer_create_row (dispatch_transfer cfg op f ''w'' aid 0))" if "length aid \<le> 64" for aid
    by (rule small_transfer_fits [OF id that assms(9,6,10)])
  have "wp (dispatch_execute cfg ''op-1'' ''demo'') (\<lambda>out _. do_worker_node_id out = ''w'') (\<lambda>_ _. False) w"
    unfolding dispatch_execute_def op_get_by_id_def dispatch_loaded_def transfer_create_def Let_def
    apply (simp add: wp_simps wp_query_quiet wp_now wp_id wp_exec_quiet wp_command_quiet assms(1,2,4,5)
      worker_selected transfer_created tables fits id del: wp_ignore_err)
    apply (rule wp_ignored [OF chunks_calm chunks_beside])
    subgoal premises side for w'
    proof -
      have same: "quiet w'" "t_jobs (db w') = []" "t_attempts (db w') = []" "t_operations (db w') = t_operations (db w)"
        using side assms(1) tables by (simp_all add: alongside_def record_tables_def quiet_def)
      have upd: "\<exists>d'. op_update_stmt (dispatched_struct jid aid now op) d = Inr ((), d')"
        if "t_operations d = t_operations (db w')" "length jid \<le> 64" "length aid \<le> 64" for jid aid now d
        using dispatched_fits [OF assms(7,8,4) that(2,3) assms(11), of now] assms(13) that(1) same(4)
        by (auto simp: op_update_stmt_def split: if_splits)
      show ?thesis
        using same(1) by (simp add: wp_simps wp_command_quiet del: wp_ignore_err)
          (rule wp_mono [OF record_of_sample_runs], simp_all add: same id assms(12) upd)
    qed
    done
  then show ?thesis by (auto simp: wp_def split: prod.splits sum.splits)
qed


definition arrival_world :: world where
  "arrival_world = initial_world (\<lambda>_. 0) (\<lambda>_ _. 0) (\<lambda>_. Done)
     ((sample_db StatusCreated)\<lparr>t_nodes := [healthy_node ''w'' 1000]\<rparr>)"

lemma arrival_fits: "ops_fit (db arrival_world)"
  by (simp add: arrival_world_def initial_world_def ops_fit_def fits_simps varchar_opt_def)

lemma upload_of_sample_leaves:
  assumes "file_execute cfg (sample_body b) arrival_world = (Inr out, w1)"
  shows "quiet w1 \<and> clock w1 = (\<lambda>_. 0) \<and> side_tables (db w1) = ([healthy_node ''w'' 1000], [], [], []) \<and>
    op_ids_distinct (db w1) \<and> ops_fit (db w1)"
proof -
  let ?w = "arrival_world\<lparr>calls := Suc (calls arrival_world)\<rparr>"
  have q: "quiet arrival_world" by (simp add: arrival_world_def initial_world_def quiet_def)
  have d: "op_ids_distinct (db arrival_world)"
    using sample_ids_distinct [of StatusCreated] by (simp add: arrival_world_def initial_world_def op_ids_distinct_def)
  obtain op where st: "file_stage cfg (sample_body b) op ?w = (Inr out, w1)"
    using assms q by (auto simp: file_execute_def bindE_def op_get_run fail_def split: option.splits if_splits)
  have "alongside side_tables ?w w1" by (rule beside.maintainsD [OF upload_beside st])
  moreover have "op_ids_distinct (db w1)"
    using invs.keepsD [OF distinct_ids.h_upload, of ?w cfg "sample_body b" op] st d
    by (simp add: inv_rel_def)
  moreover have "ops_fit (db w1)"
    using invs.keepsD [OF fitting.h_upload, of ?w cfg "sample_body b" op] st arrival_fits
    by (simp add: inv_rel_def)
  ultimately show ?thesis
    using q by (simp add: alongside_def quiet_def)
      (simp add: arrival_world_def initial_world_def side_tables_def sample_db_def empty_db_def)
qed

lemma default_wiring:
  "case fst (wiring sample_libraries (\<lambda>_. None) True (tick_world empty_db, [])) of
     Inl _ \<Rightarrow> False
   | Inr (h, d, n) \<Rightarrow> fc_max_file_size (ha_file h) = 2 ^ 30 \<and> dc_staging_dir d = ''/tmp/transfers''"
  by code_simp

theorem uploaded_file_arrives_witness:
  "\<exists>h d n s out w1 dout w2. wiring sample_libraries (\<lambda>_. None) True (tick_world empty_db, []) = (Inr (h, d, n), s) \<and>
     file_execute (ha_file h) (sample_body [7]) arrival_world = (Inr out, w1) \<and>
     dispatch_execute d ''op-1'' ''demo'' w1 = (Inr dout, w2) \<and>
     (\<exists>start st1 w3 a ms a' w4 path. start \<in> set (published w2) \<and>
        handle_command (sample_node ''worker'') (\<lambda>_. {}) False idle_worker (bm_body start) w2 =
          Some (Inr (st1, Ack), w3) \<and>
        receive_all (receiver_of (sample_node ''worker'')) a ms w3 = (Inr a', w4) \<and>
        disk w4 ''w'' path = Some [7])"
proof -
  obtain h d n s where wired: "wiring sample_libraries (\<lambda>_. None) True (tick_world empty_db, []) = (Inr (h, d, n), s)"
    and set: "fc_max_file_size (ha_file h) = 2 ^ 30" "dc_staging_dir d = ''/tmp/transfers''"
    using default_wiring by (auto split: sum.splits prod.splits) (metis prod.collapse)
  have loaded: "db_operation ''op-1'' (db arrival_world) =
      Some ((sample_operation StatusCreated)\<lparr>op_created_at := 1000, op_updated_at := 2000\<rparr>)"
    using sample_loaded [of StatusCreated] by (simp add: arrival_world_def initial_world_def db_operation_def)
  obtain out w1 where up: "file_execute (ha_file h) (sample_body [7]) arrival_world = (Inr out, w1)"
    using upload_of_sample_runs [of arrival_world "ha_file h" "[7]"] set(1)
    by (auto simp: arrival_world_def initial_world_def quiet_def max_int64_def received_def int64_add_def sample_body_def)
  obtain op now where stored: "db_operation ''op-1'' (db w1) = Some op"
    and op: "op = op_overwrite (uploaded_struct [7] [] now
      ((sample_operation StatusCreated)\<lparr>op_created_at := 1000, op_updated_at := 2000\<rparr>))
      ((sample_operation StatusCreated)\<lparr>op_created_at := 1000, op_updated_at := 2000\<rparr>)"
    using file_execute_run [OF up] loaded received_fitting [of "sample_body [7]" "ha_file h"] set(1)
    by (auto simp: sample_body_def max_int64_def)
  note after = upload_of_sample_leaves [OF up]
  have "\<exists>dout w2. dispatch_execute d ''op-1'' ''demo'' w1 = (Inr dout, w2) \<and> do_worker_node_id dout = ''w''"
    by (rule dispatch_of_sample_runs [where op = op and f = "\<lparr>if_size_bytes = 1, if_sha256 = sha256_hex [7], if_file_name = []\<rparr>"])
      (use after stored in \<open>simp_all add: op op_overwrite_def uploaded_struct_def sample_operation_def stored_error_def set\<close>)
  then obtain dout w2 where disp: "dispatch_execute d ''op-1'' ''demo'' w1 = (Inr dout, w2)" and w: "do_worker_node_id dout = ''w''"
    by blast
  have keys: "keys_distinct tr_id (t_transfers (db w1))" using after by (simp add: side_tables_def keys_distinct_def)
  let ?wn = "sample_node ''worker''"
  from uploaded_file_arrives [OF wired up _ keys, of "''demo''" dout w2 ?wn "\<lambda>_. {}" False idle_worker] disp w after set(1)
  obtain start chunks process tid path where "published w2 = published w1 @ start # chunks @ [process]" and
    all: "\<forall>is. set is = {..<length chunks} \<longrightarrow>
      (\<exists>st1 w3 a a' w4. handle_command ?wn (\<lambda>_. {}) False idle_worker (bm_body start) w2 = Some (Inr (st1, Ack), w3) \<and>
         map_of (wk_open st1) tid = Some a \<and>
         receive_all (receiver_of ?wn) a (map (\<lambda>i. delivered (chunks ! i)) is) w3 = (Inr a', w4) \<and>
         disk w4 (nc_id ?wn) path = Some (fi_body (sample_body [7])))"
    by (auto simp: sample_body_def sample_node_def max_int64_def)
  moreover from all have "\<exists>st1 w3 a a' w4. handle_command ?wn (\<lambda>_. {}) False idle_worker (bm_body start) w2 = Some (Inr (st1, Ack), w3) \<and>
         map_of (wk_open st1) tid = Some a \<and>
         receive_all (receiver_of ?wn) a (map (\<lambda>i. delivered (chunks ! i)) [0..<length chunks]) w3 = (Inr a', w4) \<and>
         disk w4 (nc_id ?wn) path = Some (fi_body (sample_body [7]))"
    by (rule allE [of _ "[0..<length chunks]"]) auto
  ultimately have "\<exists>start st1 w3 a ms a' w4 path. start \<in> set (published w2) \<and>
        handle_command ?wn (\<lambda>_. {}) False idle_worker (bm_body start) w2 = Some (Inr (st1, Ack), w3) \<and>
        receive_all (receiver_of ?wn) a ms w3 = (Inr a', w4) \<and> disk w4 ''w'' path = Some [7]"
    by (fastforce simp: sample_body_def sample_node_def)
  with wired up disp show ?thesis by blast
qed

end
