(* ===== verification/Api_Docs.thy ===== *)
theory Api_Docs
  imports Api_Types
begin

text \<open>
  The Swagger document that the service hands out (\<open>docs/docs.go\<close>), which is generated from the annotations
  of the handlers: its operations with their parameters and responses, and the schemas they refer to.
\<close>

datatype schema =
    SRef string
  | SString
  | SInteger
  | SBoolean
  | SFile
  | SArray schema
  | SMap "schema option"
  | SObject "string list" "(string \<times> schema) list"

record doc_parameter =
  dp_name :: string
  dp_in :: string
  dp_required :: bool
  dp_schema :: schema
  dp_description :: string
  dp_example :: "json option"

record doc_operation =
  dx_description :: string
  dx_consumes :: "string list"
  dx_produces :: "string list"
  dx_tags :: "string list"
  dx_summary :: string
  dx_parameters :: "doc_parameter list"
  dx_responses :: "(int \<times> string \<times> schema) list"

section \<open>The operations\<close>

definition docs_health :: doc_operation where
  "docs_health =
     \<lparr>dx_description = ''Returns the service health status'',
      dx_consumes = [], dx_produces = [''application/json''],
      dx_tags = [''health''], dx_summary = ''Health check'',
      dx_parameters = [],
      dx_responses =
      [(200, ''OK'', SRef ''gin.H'')]\<rparr>"

definition docs_health_live :: doc_operation where
  "docs_health_live =
     \<lparr>dx_description = ''Returns the service liveness status'',
      dx_consumes = [], dx_produces = [''application/json''],
      dx_tags = [''health''], dx_summary = ''Liveness check'',
      dx_parameters = [],
      dx_responses =
      [(200, ''OK'', SRef ''gin.H'')]\<rparr>"

definition docs_health_ready :: doc_operation where
  "docs_health_ready =
     \<lparr>dx_description = ''Returns the service readiness status including dependency checks'',
      dx_consumes = [], dx_produces = [''application/json''],
      dx_tags = [''health''], dx_summary = ''Readiness check'',
      dx_parameters = [],
      dx_responses =
      [(200, ''OK'', SRef ''gin.H''), (503, ''Service Unavailable'', SRef ''gin.H'')]\<rparr>"

definition docs_list :: doc_operation where
  "docs_list =
     \<lparr>dx_description = ''Returns a paginated list of operations. Status reads are authoritative MariaDB reads.'',
      dx_consumes = [''application/json''], dx_produces = [''application/json''],
      dx_tags = [''operations''], dx_summary = ''List operations'',
      dx_parameters = [\<lparr>dp_name = ''status'', dp_in = ''query'', dp_required = False,
         dp_schema = SString,
         dp_description = ''Filter by operation status (e.g. QUEUED, COMPLETED)'', dp_example = Some (JStr ''QUEUED'')\<rparr>,
       \<lparr>dp_name = ''processor'', dp_in = ''query'', dp_required = False,
         dp_schema = SString,
         dp_description = ''Filter by processor name'', dp_example = Some (JStr ''image-processor'')\<rparr>,
       \<lparr>dp_name = ''cursor'', dp_in = ''query'', dp_required = False,
         dp_schema = SString,
         dp_description = ''Pagination cursor'', dp_example = Some (JStr ''cursor-abc'')\<rparr>,
       \<lparr>dp_name = ''limit'', dp_in = ''query'', dp_required = False,
         dp_schema = SInteger,
         dp_description = ''Page size (default 50)'', dp_example = Some (JInt 20)\<rparr>],
      dx_responses =
      [(200, ''OK'', SRef ''internal_operation.ListOperationsResponse''),
       (401, ''Unauthorized'', SRef ''internal_operation.ErrorResponse''),
       (403, ''Forbidden'', SRef ''internal_operation.ErrorResponse''),
       (503, ''Service Unavailable'', SRef ''internal_operation.ErrorResponse'')]\<rparr>"

definition docs_create :: doc_operation where
  "docs_create =
     \<lparr>dx_description = ''Creates the durable operation row and initial append-only event. Does not schedule work before the input upload is complete.'',
      dx_consumes = [''application/json''], dx_produces = [''application/json''],
      dx_tags = [''operations''], dx_summary = ''Create an operation'',
      dx_parameters = [\<lparr>dp_name = ''Idempotency-Key'', dp_in = ''header'', dp_required = True,
         dp_schema = SString,
         dp_description = ''Idempotency key'', dp_example = Some (JStr ''ops-create-001'')\<rparr>,
       \<lparr>dp_name = ''createOperationRequest'', dp_in = ''body'', dp_required = True,
         dp_schema = SRef ''internal_operation.CreateOperationRequest'',
         dp_description = ''Create operation request'', dp_example = None\<rparr>],
      dx_responses =
      [(202, ''Accepted'', SRef ''internal_operation.CreateOperationResponse''),
       (400, ''Bad Request'', SRef ''internal_operation.ErrorResponse''),
       (401, ''Unauthorized'', SRef ''internal_operation.ErrorResponse''),
       (403, ''Forbidden'', SRef ''internal_operation.ErrorResponse''),
       (409, ''Conflict'', SRef ''internal_operation.ErrorResponse''),
       (422, ''Unprocessable Entity'', SRef ''internal_operation.ErrorResponse''),
       (503, ''Service Unavailable'', SRef ''internal_operation.ErrorResponse'')]\<rparr>"

definition docs_get :: doc_operation where
  "docs_get =
     \<lparr>dx_description = ''Status reads are authoritative MariaDB reads served by an entry-capable instance.'',
      dx_consumes = [''application/json''], dx_produces = [''application/json''],
      dx_tags = [''operations''], dx_summary = ''Read operation status'',
      dx_parameters = [\<lparr>dp_name = ''If-None-Match'', dp_in = ''header'', dp_required = False,
         dp_schema = SString,
         dp_description = ''ETag for conditional request'', dp_example = Some (JStr ''\"1\"'')\<rparr>,
       \<lparr>dp_name = ''id'', dp_in = ''path'', dp_required = True,
         dp_schema = SString,
         dp_description = ''Operation ID'', dp_example = Some (JStr ''op-abc123'')\<rparr>],
      dx_responses =
      [(200, ''OK'', SRef ''internal_operation.OperationResponse''),
       (304, ''Not Modified'', SRef ''internal_operation.OperationResponse''),
       (401, ''Unauthorized'', SRef ''internal_operation.ErrorResponse''),
       (403, ''Forbidden'', SRef ''internal_operation.ErrorResponse''),
       (404, ''Not Found'', SRef ''internal_operation.ErrorResponse''),
       (503, ''Service Unavailable'', SRef ''internal_operation.ErrorResponse'')]\<rparr>"

definition docs_cancel :: doc_operation where
  "docs_cancel =
     \<lparr>dx_description = ''Cancellation is an idempotent intent. Persists cancel_requested_at and emits an event.'',
      dx_consumes = [''application/json''], dx_produces = [''application/json''],
      dx_tags = [''operations''], dx_summary = ''Cancel an operation'',
      dx_parameters = [\<lparr>dp_name = ''Idempotency-Key'', dp_in = ''header'', dp_required = True,
         dp_schema = SString,
         dp_description = ''Idempotency key'', dp_example = Some (JStr ''ops-cancel-001'')\<rparr>,
       \<lparr>dp_name = ''If-Match'', dp_in = ''header'', dp_required = False,
         dp_schema = SString,
         dp_description = ''Operation version precondition'', dp_example = Some (JStr ''\"2\"'')\<rparr>,
       \<lparr>dp_name = ''id'', dp_in = ''path'', dp_required = True,
         dp_schema = SString,
         dp_description = ''Operation ID'', dp_example = Some (JStr ''op-abc123'')\<rparr>,
       \<lparr>dp_name = ''cancelRequest'', dp_in = ''body'', dp_required = False,
         dp_schema = SRef ''internal_operation.CancelOperationInput'',
         dp_description = ''Cancellation reason'', dp_example = None\<rparr>],
      dx_responses =
      [(200, ''OK'', SRef ''internal_operation.CancelOperationResponse''),
       (202, ''Accepted'', SRef ''internal_operation.CancelOperationResponse''),
       (400, ''Bad Request'', SRef ''internal_operation.ErrorResponse''),
       (401, ''Unauthorized'', SRef ''internal_operation.ErrorResponse''),
       (403, ''Forbidden'', SRef ''internal_operation.ErrorResponse''),
       (404, ''Not Found'', SRef ''internal_operation.ErrorResponse''),
       (409, ''Conflict'', SRef ''internal_operation.ErrorResponse''),
       (412, ''Precondition Failed'', SRef ''internal_operation.ErrorResponse''),
       (503, ''Service Unavailable'', SRef ''internal_operation.ErrorResponse'')]\<rparr>"

definition docs_file :: doc_operation where
  "docs_file =
     \<lparr>dx_description = ''The client streams bytes to the entry upload endpoint. The entry streams them to a node-local ingress file, enforces size limits, computes SHA-256 incrementally, and records the file metadata. Supports raw binary body (application/octet-stream) or multipart form data with a \"file\" field.'',
      dx_consumes = [''multipart/form-data'', ''application/octet-stream''], dx_produces = [''application/json''],
      dx_tags = [''operations''], dx_summary = ''Stream the input file'',
      dx_parameters = [\<lparr>dp_name = ''Idempotency-Key'', dp_in = ''header'', dp_required = True,
         dp_schema = SString,
         dp_description = ''Idempotency key'', dp_example = Some (JStr ''ops-file-001'')\<rparr>,
       \<lparr>dp_name = ''If-Match'', dp_in = ''header'', dp_required = False,
         dp_schema = SString,
         dp_description = ''Operation version precondition'', dp_example = Some (JStr ''\"1\"'')\<rparr>,
       \<lparr>dp_name = ''Content-Length'', dp_in = ''header'', dp_required = False,
         dp_schema = SInteger,
         dp_description = ''Optional, must match bytes received'', dp_example = Some (JInt 1048576)\<rparr>,
       \<lparr>dp_name = ''Digest'', dp_in = ''header'', dp_required = False,
         dp_schema = SString,
         dp_description = ''SHA-256 digest of request body'', dp_example = Some (JStr ''sha256=abc123...'')\<rparr>,
       \<lparr>dp_name = ''X-File-Size'', dp_in = ''header'', dp_required = False,
         dp_schema = SInteger,
         dp_description = ''Declared byte count'', dp_example = Some (JInt 1048576)\<rparr>,
       \<lparr>dp_name = ''X-File-Name'', dp_in = ''header'', dp_required = False,
         dp_schema = SString,
         dp_description = ''Client filename metadata'', dp_example = Some (JStr ''image.png'')\<rparr>,
       \<lparr>dp_name = ''id'', dp_in = ''path'', dp_required = True,
         dp_schema = SString,
         dp_description = ''Operation ID'', dp_example = Some (JStr ''op-abc123'')\<rparr>,
       \<lparr>dp_name = ''file'', dp_in = ''formData'', dp_required = True,
         dp_schema = SFile,
         dp_description = ''File to upload'', dp_example = None\<rparr>],
      dx_responses =
      [(200, ''OK'', SRef ''internal_operation.FileOperationResponse''),
       (202, ''Accepted'', SRef ''internal_operation.FileOperationResponse''),
       (400, ''Bad Request'', SRef ''internal_operation.ErrorResponse''),
       (401, ''Unauthorized'', SRef ''internal_operation.ErrorResponse''),
       (403, ''Forbidden'', SRef ''internal_operation.ErrorResponse''),
       (404, ''Not Found'', SRef ''internal_operation.ErrorResponse''),
       (409, ''Conflict'', SRef ''internal_operation.ErrorResponse''),
       (412, ''Precondition Failed'', SRef ''internal_operation.ErrorResponse''),
       (413, ''Request Entity Too Large'', SRef ''internal_operation.ErrorResponse''),
       (422, ''Unprocessable Entity'', SRef ''internal_operation.ErrorResponse''),
       (503, ''Service Unavailable'', SRef ''internal_operation.ErrorResponse'')]\<rparr>"

definition docs_result :: doc_operation where
  "docs_result =
     \<lparr>dx_description = ''Returns the single structured result for a completed operation.'',
      dx_consumes = [''application/json''], dx_produces = [''application/json''],
      dx_tags = [''operations''], dx_summary = ''Retrieve a result'',
      dx_parameters = [\<lparr>dp_name = ''id'', dp_in = ''path'', dp_required = True,
         dp_schema = SString,
         dp_description = ''Operation ID'', dp_example = None\<rparr>],
      dx_responses =
      [(200, ''OK'', SRef ''internal_operation.ResultResponse''),
       (401, ''Unauthorized'', SRef ''internal_operation.ErrorResponse''),
       (403, ''Forbidden'', SRef ''internal_operation.ErrorResponse''),
       (404, ''Not Found'', SRef ''internal_operation.ErrorResponse''),
       (409, ''Conflict'', SRef ''internal_operation.ErrorResponse''),
       (410, ''Gone'', SRef ''internal_operation.ErrorResponse''),
       (503, ''Service Unavailable'', SRef ''internal_operation.ErrorResponse'')]\<rparr>"

definition docs_retry :: doc_operation where
  "docs_retry =
     \<lparr>dx_description = ''Retry is allowed only from FAILED or TIMEOUT, subject to budget and policy.'',
      dx_consumes = [''application/json''], dx_produces = [''application/json''],
      dx_tags = [''operations''], dx_summary = ''Retry an operation'',
      dx_parameters = [\<lparr>dp_name = ''Idempotency-Key'', dp_in = ''header'', dp_required = True,
         dp_schema = SString,
         dp_description = ''Idempotency key'', dp_example = Some (JStr ''ops-retry-001'')\<rparr>,
       \<lparr>dp_name = ''If-Match'', dp_in = ''header'', dp_required = False,
         dp_schema = SString,
         dp_description = ''Operation version precondition'', dp_example = Some (JStr ''\"2\"'')\<rparr>,
       \<lparr>dp_name = ''id'', dp_in = ''path'', dp_required = True,
         dp_schema = SString,
         dp_description = ''Operation ID'', dp_example = Some (JStr ''op-abc123'')\<rparr>,
       \<lparr>dp_name = ''retryRequest'', dp_in = ''body'', dp_required = False,
         dp_schema = SRef ''internal_operation.RetryOperationInput'',
         dp_description = ''Retry reason'', dp_example = None\<rparr>],
      dx_responses =
      [(200, ''OK'', SRef ''internal_operation.RetryOperationResponse''),
       (202, ''Accepted'', SRef ''internal_operation.RetryOperationResponse''),
       (401, ''Unauthorized'', SRef ''internal_operation.ErrorResponse''),
       (403, ''Forbidden'', SRef ''internal_operation.ErrorResponse''),
       (404, ''Not Found'', SRef ''internal_operation.ErrorResponse''),
       (409, ''Conflict'', SRef ''internal_operation.ErrorResponse''),
       (412, ''Precondition Failed'', SRef ''internal_operation.ErrorResponse''),
       (422, ''Unprocessable Entity'', SRef ''internal_operation.ErrorResponse''),
       (503, ''Service Unavailable'', SRef ''internal_operation.ErrorResponse'')]\<rparr>"

section \<open>The schemas\<close>

text \<open>A schema has the names that are required and the properties; \<open>SMap None\<close> allows anything.\<close>

definition schema_gin_h :: schema where
  "schema_gin_h = SMap None"

definition schema_cancel_operation_input :: schema where
  "schema_cancel_operation_input = SObject []
     [(''reason'', SString)]"

definition schema_cancel_operation_response :: schema where
  "schema_cancel_operation_response = SObject []
     [(''cancel_requested_at'', SString), (''operation_id'', SString), (''status'', SString),
      (''status_url'', SString), (''version'', SInteger)]"

definition schema_create_operation_request :: schema where
  "schema_create_operation_request = SObject [''processor'']
     [(''client_reference'', SString), (''deadline'', SString), (''metadata'', SMap None),
      (''options'', SMap None), (''processor'', SString),
      (''retry_policy'', SRef ''internal_operation.RetryPolicyReq'')]"

definition schema_create_operation_response :: schema where
  "schema_create_operation_response = SObject []
     [(''created_at'', SString), (''operation_id'', SString), (''result_url'', SString),
      (''stage'', SString), (''status'', SString), (''status_url'', SString),
      (''upload_target'', SRef ''internal_operation.UploadTarget''), (''version'', SInteger)]"

definition schema_error_detail :: schema where
  "schema_error_detail = SObject []
     [(''code'', SString), (''details'', SArray (SRef ''internal_operation.ErrorDetailItem'')),
      (''message'', SString), (''operation_id'', SString), (''request_id'', SString),
      (''retryable'', SBoolean)]"

definition schema_error_detail_item :: schema where
  "schema_error_detail_item = SObject []
     [(''field'', SString), (''reason'', SString)]"

definition schema_error_response :: schema where
  "schema_error_response = SObject []
     [(''error'', SRef ''internal_operation.ErrorDetail'')]"

definition schema_file_operation_response :: schema where
  "schema_file_operation_response = SObject []
     [(''input_file'', SRef ''internal_operation.InputFile''), (''operation_id'', SString),
      (''result_url'', SString), (''stage'', SString), (''status'', SString),
      (''status_url'', SString), (''updated_at'', SString), (''version'', SInteger)]"

definition schema_input_file :: schema where
  "schema_input_file = SObject []
     [(''file_name'', SString), (''sha256'', SString), (''size_bytes'', SInteger)]"

definition schema_list_operations_response :: schema where
  "schema_list_operations_response = SObject []
     [(''items'', SArray (SRef ''internal_operation.OperationItem'')), (''next_cursor'', SString)]"

definition schema_operation_error :: schema where
  "schema_operation_error = SObject []
     [(''code'', SString), (''message'', SString)]"

definition schema_operation_item :: schema where
  "schema_operation_item = SObject []
     [(''created_at'', SString), (''max_attempts'', SInteger), (''operation_id'', SString),
      (''processor'', SString), (''retry_count'', SInteger), (''stage'', SString),
      (''status'', SString), (''updated_at'', SString), (''version'', SInteger)]"

definition schema_operation_response :: schema where
  "schema_operation_response = SObject []
     [(''cancel_requested_at'', SString), (''created_at'', SString), (''current_attempt_id'', SString),
      (''current_job_id'', SString), (''current_transfer_id'', SString), (''deadline'', SString),
      (''error'', SRef ''internal_operation.OperationError''),
      (''input_file'', SRef ''internal_operation.InputFile''), (''max_attempts'', SInteger),
      (''operation_id'', SString), (''processor'', SString), (''result_url'', SString),
      (''retry_count'', SInteger), (''stage'', SString), (''status'', SString),
      (''status_url'', SString), (''updated_at'', SString), (''version'', SInteger)]"

definition schema_result_response :: schema where
  "schema_result_response = SObject []
     [(''operation_id'', SString), (''processor'', SString), (''produced_at'', SString),
      (''result_id'', SString), (''schema_version'', SInteger), (''value'', SMap None)]"

definition schema_retry_operation_input :: schema where
  "schema_retry_operation_input = SObject []
     [(''reason'', SString)]"

definition schema_retry_operation_response :: schema where
  "schema_retry_operation_response = SObject []
     [(''current_attempt_id'', SString), (''current_job_id'', SString), (''max_attempts'', SInteger),
      (''operation_id'', SString), (''retry_count'', SInteger), (''status'', SString),
      (''status_url'', SString), (''updated_at'', SString), (''version'', SInteger)]"

definition schema_retry_policy_req :: schema where
  "schema_retry_policy_req = SObject []
     [(''max_attempts'', SInteger)]"

definition schema_upload_target :: schema where
  "schema_upload_target = SObject []
     [(''expires_at'', SString), (''headers'', SMap (Some SString)), (''max_bytes'', SInteger),
      (''method'', SString), (''url'', SString)]"

section \<open>The document\<close>

definition docs_paths :: "(string \<times> string \<times> doc_operation) list" where
  "docs_paths =
     [(''/health'', ''get'', docs_health), (''/health/live'', ''get'', docs_health_live),
      (''/health/ready'', ''get'', docs_health_ready), (''/operations'', ''get'', docs_list),
      (''/operations'', ''post'', docs_create), (''/operations/{id}'', ''get'', docs_get),
      (''/operations/{id}/cancel'', ''post'', docs_cancel),
      (''/operations/{id}/file'', ''put'', docs_file),
      (''/operations/{id}/result'', ''get'', docs_result),
      (''/operations/{id}/retry'', ''post'', docs_retry)]"

definition docs_definitions :: "(string \<times> schema) list" where
  "docs_definitions =
     [(''gin.H'', schema_gin_h),
      (''internal_operation.CancelOperationInput'', schema_cancel_operation_input),
      (''internal_operation.CancelOperationResponse'', schema_cancel_operation_response),
      (''internal_operation.CreateOperationRequest'', schema_create_operation_request),
      (''internal_operation.CreateOperationResponse'', schema_create_operation_response),
      (''internal_operation.ErrorDetail'', schema_error_detail),
      (''internal_operation.ErrorDetailItem'', schema_error_detail_item),
      (''internal_operation.ErrorResponse'', schema_error_response),
      (''internal_operation.FileOperationResponse'', schema_file_operation_response),
      (''internal_operation.InputFile'', schema_input_file),
      (''internal_operation.ListOperationsResponse'', schema_list_operations_response),
      (''internal_operation.OperationError'', schema_operation_error),
      (''internal_operation.OperationItem'', schema_operation_item),
      (''internal_operation.OperationResponse'', schema_operation_response),
      (''internal_operation.ResultResponse'', schema_result_response),
      (''internal_operation.RetryOperationInput'', schema_retry_operation_input),
      (''internal_operation.RetryOperationResponse'', schema_retry_operation_response),
      (''internal_operation.RetryPolicyReq'', schema_retry_policy_req),
      (''internal_operation.UploadTarget'', schema_upload_target)]"

record swagger_spec =
  sw_version :: string
  sw_host :: string
  sw_base_path :: string
  sw_schemes :: "string list"
  sw_title :: string
  sw_description :: string

definition swagger_info :: swagger_spec where
  "swagger_info =
     \<lparr>sw_version = ''1.0'', sw_host = ''localhost:8080'', sw_base_path = ''/api/v1'',
      sw_schemes = [''http'', ''https''], sw_title = ''File Processing Service API'',
      sw_description = ''HTTP API for file upload, processing orchestration, and result retrieval''\<rparr>"

text \<open>A header a client may authenticate with.\<close>

definition docs_security :: "(string \<times> string \<times> string) list" where
  "docs_security =
     [(''Authorization'', ''header'', ''Type \"Bearer <token>\" or \"Basic <credentials>\"''),
      (''Idempotency-Key'', ''header'', ''Required for create, upload, cancel, and retry requests'')]"

end
