(* ===== verification/Docs_Properties.thy ===== *)
theory Docs_Properties
  imports Api_Docs Http_Properties
begin

text \<open>
  The document against the program: its operations, statuses and schemas are those of the endpoints, of
  the annotations and of the response structs, and what it says of preconditions and of authentication the
  handlers do not look at.
\<close>

section \<open>Schemas of types\<close>

text \<open>References resolved, as deep as given; one that leads nowhere stays.\<close>

fun expand :: "nat \<Rightarrow> schema \<Rightarrow> schema" where
  "expand 0 s = s"
| "expand (Suc n) (SRef x) = (case map_of docs_definitions x of None \<Rightarrow> SRef x | Some s \<Rightarrow> expand n s)"
| "expand (Suc n) (SArray s) = SArray (expand n s)"
| "expand (Suc n) (SMap s) = SMap (map_option (expand n) s)"
| "expand (Suc n) (SObject req ps) = SObject req (map (\<lambda>(k, s). (k, expand n s)) ps)"
| "expand (Suc n) s = s"

text \<open>
  The schema that the generator gives a type: the members in the order of their names, and nothing of
  what may be null or missing.
\<close>

fun schema_of :: "json_type \<Rightarrow> schema" where
  "schema_of TStr = SString"
| "schema_of TInt = SInteger"
| "schema_of TBool = SBoolean"
| "schema_of TStrOrNull = SString"
| "schema_of TAny = SMap None"
| "schema_of (TArr t) = SArray (schema_of t)"
| "schema_of (TMap t) = SMap (if t = TAny then None else Some (schema_of t))"
| "schema_of (TObj fs) = SObject [] (sort_key fst (map (\<lambda>(k, _, t). (k, schema_of t)) fs))"

section \<open>The operations of the document\<close>

definition documented_endpoints :: "endpoint list" where
  "documented_endpoints =
     [EpHealth, EpLive, EpReady, EpList, EpCreate, EpGet ''{id}'', EpCancel ''{id}'', EpFile ''{id}'',
      EpResult ''{id}'', EpRetry ''{id}'']"

definition documented_route :: "string \<times> string \<times> doc_operation \<Rightarrow> string \<times> string" where
  "documented_route p = (fst (snd p), sw_base_path swagger_info @ fst p)"

definition method_name :: "string \<Rightarrow> string" where
  "method_name m = (if m = ''GET'' then ''get'' else if m = ''PUT'' then ''put'' else if m = ''POST'' then ''post'' else m)"

definition documented :: "endpoint \<Rightarrow> doc_operation option" where
  "documented ep = map_of (map (\<lambda>p. (documented_route p, snd (snd p))) docs_paths)
     (method_name (fst (endpoint_route ep)), snd (endpoint_route ep))"

definition response_type :: "endpoint \<Rightarrow> int \<Rightarrow> json_type" where
  "response_type ep code =
     (if code < 400 then success_type ep else if ep = EpReady then TMap TAny else error_response_type)"

text \<open>
  The tables of the document agree with those of the program: the ten endpoints below the base path are its
  operations (the route of the Swagger page itself is not documented), and each has the statuses of its
  annotations, every one with the schema of the struct that the annotation names.
\<close>

lemma docs_match_program:
  "map documented_route docs_paths =
     map (\<lambda>ep. (method_name (fst (endpoint_route ep)), snd (endpoint_route ep))) documented_endpoints \<and>
   list_all (\<lambda>ep. case documented ep of
       None \<Rightarrow> False
     | Some o' \<Rightarrow> set (map fst (dx_responses o')) = set (documented_codes ep) \<and>
         list_all (\<lambda>(code, _, s). expand 6 s = schema_of (response_type ep code)) (dx_responses o'))
     documented_endpoints"
  by (rule conjI; code_simp)

section \<open>What is documented and not looked at\<close>

definition set_header :: "string \<Rightarrow> string \<Rightarrow> http_request \<Rightarrow> http_request" where
  "set_header h v rq = rq\<lparr>hr_headers := (hr_headers rq)(h := v)\<rparr>"

definition set_query :: "string \<Rightarrow> string \<Rightarrow> http_request \<Rightarrow> http_request" where
  "set_query q v rq = rq\<lparr>hr_query := (hr_query rq)(q := v)\<rparr>"

definition read_headers :: "string list" where
  "read_headers = [''X-Request-ID'', ''Content-Type'', ''Idempotency-Key'', ''Digest'', ''X-File-Name'',
     ''Content-Length'']"

definition documented_headers :: "string list" where
  "documented_headers = remdups (map fst docs_security @
     map dp_name (filter (\<lambda>p. dp_in p = ''header'') (concat (map (\<lambda>p. dx_parameters (snd (snd p))) docs_paths))))"

lemma file_execute_headers:
  assumes "f ''Digest'' = g ''Digest''" and "f ''X-File-Name'' = g ''X-File-Name''"
  shows "file_execute cfg \<lparr>fi_operation_id = i, fi_body = b, fi_headers = f\<rparr> =
    file_execute cfg \<lparr>fi_operation_id = i, fi_body = b, fi_headers = g\<rparr>"
  unfolding file_execute_def file_stage_def file_receive_def file_commit_def Let_def file_input.select_convs
    assms ..

lemma set_header_simps [simp]:
  "hr_method (set_header h v rq) = hr_method rq" "hr_path (set_header h v rq) = hr_path rq"
  "hr_query (set_header h v rq) = hr_query rq" "hr_json (set_header h v rq) = hr_json rq"
  "hr_body (set_header h v rq) = hr_body rq" "hr_form (set_header h v rq) = hr_form rq"
  "hr_content_length (set_header h v rq) = hr_content_length rq"
  "k \<noteq> h \<Longrightarrow> hr_headers (set_header h v rq) k = hr_headers rq k"
  by (simp_all add: set_header_def)

lemma handler_header:
  assumes "h \<notin> set read_headers"
  shows "endpoint_handler app ep (set_header h v rq) = endpoint_handler app ep rq"
proof -
  have k: "hr_headers (set_header h v rq) ''Idempotency-Key'' = hr_headers rq ''Idempotency-Key''"
    "hr_headers (set_header h v rq) ''Content-Type'' = hr_headers rq ''Content-Type''"
    "hr_headers (set_header h v rq) ''Digest'' = hr_headers rq ''Digest''"
    "hr_headers (set_header h v rq) ''X-File-Name'' = hr_headers rq ''X-File-Name''"
    using assms by (auto simp: read_headers_def intro!: set_header_simps(8))
  have up: "upload_body (set_header h v rq) = upload_body rq" by (simp add: upload_body_def k(2))
  have ty: "content_type (set_header h v rq) = content_type rq" by (simp add: content_type_def k(2))
  have ex: "file_execute cfg \<lparr>fi_operation_id = i, fi_body = b, fi_headers = upload_headers (hr_headers (set_header h v rq))\<rparr> =
    file_execute cfg \<lparr>fi_operation_id = i, fi_body = b, fi_headers = upload_headers (hr_headers rq)\<rparr>" for cfg i b
    by (rule file_execute_headers) (simp_all add: upload_headers_def k)
  show ?thesis
    by (cases ep; rule ext)
      (simp_all add: health_def health_live_def health_ready_def auth_middleware_def content_type_middleware_def
        request_size_limit_middleware_def ty create_operations_def list_operations_def get_operation_def
        file_operations_def ex up cancel_operations_def retry_operations_def with_reason_def
        result_operations_def k(1) cong del: option.case_cong_weak if_weak_cong sum.case_cong_weak)
qed

text \<open>The outer middleware looks at the request id only.\<close>

lemma serve_cong:
  assumes "endpoint_handler app ep rq' = endpoint_handler app ep rq"
    and "hr_headers rq' ''X-Request-ID'' = hr_headers rq ''X-Request-ID''"
  shows "serve app ep rq' = serve app ep rq"
proof -
  have "recovery_middleware (sanitize_error_middleware (endpoint_handler app ep)) rq' =
    recovery_middleware (sanitize_error_middleware (endpoint_handler app ep)) rq"
    by (intro ext) (simp add: recovery_middleware_def sanitize_error_middleware_def assms(1))
  then show ?thesis unfolding serve_def correlation_middleware_def assms(2) by (simp only:)
qed

lemma serve_header:
  assumes "h \<notin> set read_headers"
  shows "serve app ep (set_header h v rq) = serve app ep rq"
  using assms by (intro serve_cong handler_header) (auto simp: read_headers_def intro!: set_header_simps(8))

lemma set_query_simps [simp]:
  "hr_method (set_query q v rq) = hr_method rq" "hr_path (set_query q v rq) = hr_path rq"
  "hr_headers (set_query q v rq) = hr_headers rq" "hr_json (set_query q v rq) = hr_json rq"
  "hr_body (set_query q v rq) = hr_body rq" "hr_form (set_query q v rq) = hr_form rq"
  "hr_content_length (set_query q v rq) = hr_content_length rq"
  "k \<noteq> q \<Longrightarrow> hr_query (set_query q v rq) k = hr_query rq k"
  by (simp_all add: set_query_def)

lemma handler_limit: "endpoint_handler app ep (set_query ''limit'' v rq) = endpoint_handler app ep rq"
proof -
  have up: "upload_body (set_query ''limit'' v rq) = upload_body rq" by (simp add: upload_body_def)
  have ty: "content_type (set_query ''limit'' v rq) = content_type rq" by (simp add: content_type_def)
  show ?thesis
    by (cases ep; rule ext)
      (simp_all add: health_def health_live_def health_ready_def auth_middleware_def content_type_middleware_def
        request_size_limit_middleware_def ty create_operations_def list_operations_def get_operation_def
        file_operations_def up cancel_operations_def retry_operations_def with_reason_def
        result_operations_def cong del: option.case_cong_weak if_weak_cong sum.case_cong_weak)
qed

lemma serve_limit: "serve app ep (set_query ''limit'' v rq) = serve app ep rq"
  by (rule serve_cong [OF handler_limit]) simp

text \<open>
  C21: of the headers that the document names, \<open>Authorization\<close>, \<open>If-Match\<close>, \<open>If-None-Match\<close> and \<open>X-File-Size\<close> make
  no difference to any request, nor does the page size \<open>limit\<close>: nobody is asked who he is and no version
  is compared. The statuses that the document gives for a request without credentials or with an old
  version, 304, 401, 403 and 412, are never answered.
\<close>

theorem documented_guards_ignored:
  "list_all (\<lambda>h. serve app ep (set_header h v rq) = serve app ep rq)
     (filter (\<lambda>h. h \<notin> set read_headers) documented_headers) \<and>
   list_all (\<lambda>h. h \<in> set documented_headers)
     [''Authorization'', ''If-Match'', ''If-None-Match'', ''X-File-Size''] \<and>
   serve app ep (set_query ''limit'' v rq) = serve app ep rq \<and>
   (\<exists>cx w'. serve app ep rq w = (Inr cx, w') \<and> cx_status cx \<notin> {304, 401, 403, 412})"
proof (intro conjI)
  show "list_all (\<lambda>h. serve app ep (set_header h v rq) = serve app ep rq)
     (filter (\<lambda>h. h \<notin> set read_headers) documented_headers)"
    unfolding list_all_iff set_filter by (auto intro: serve_header)
  show "list_all (\<lambda>h. h \<in> set documented_headers)
     [''Authorization'', ''If-Match'', ''If-None-Match'', ''X-File-Size'']"
    by code_simp
  show "serve app ep (set_query ''limit'' v rq) = serve app ep rq" by (rule serve_limit)
  have "set (endpoint_codes ep) \<inter> {304, 401, 403, 412} = {}" by (cases ep) simp_all
  moreover obtain cx w' code b where "serve app ep rq w = (Inr cx, w')" "cx_writes cx = [(code, b)]"
    "code \<in> set (endpoint_codes ep)"
    using serve_answered [of app ep rq w] by auto
  ultimately show "\<exists>cx w'. serve app ep rq w = (Inr cx, w') \<and> cx_status cx \<notin> {304, 401, 403, 412}"
    by (intro exI [of _ cx] exI [of _ w']) (auto simp: cx_status_def)
qed

end
