(* ===== verification/Time_Codec.thy ===== *)
theory Time_Codec
  imports Create_Op
begin

text \<open>
  Times as the program writes and reads them: the calendar arithmetic, RFC 3339 to the second and to the
  nanosecond, and that reading a written time gives the time back. The years of the format have four digits.
\<close>

section \<open>Dates\<close>

text \<open>Within an era of 400 years: the year of a day and the day of that year are in range.\<close>

lemma day_of_era:
  fixes doe :: int
  assumes "0 \<le> doe" "doe < 146097"
  defines "yoe \<equiv> (doe - doe div 1460 + doe div 36524 - doe div 146096) div 365"
  shows "0 \<le> yoe \<and> yoe < 400 \<and> 0 \<le> doe - (365 * yoe + yoe div 4 - yoe div 100) \<and>
    doe - (365 * yoe + yoe div 4 - yoe div 100) \<le> 365"
proof (cases "doe = 146096")
  case True
  then show ?thesis unfolding yoe_def by simp
next
  case False
  then have last: "doe div 146096 = 0" using assms(1,2) by simp
  define c where "c = doe div 36524"
  define q where "q = doe mod 36524 div 1461"
  define s where "s = doe mod 36524 mod 1461"
  define k where "k = (24 * c + q + s) div 1460"
  have doe: "doe = 36524 * c + 1461 * q + s"
    unfolding c_def q_def s_def by (metis add.assoc mult_div_mod_eq)
  have c: "0 \<le> c" "c \<le> 3" using assms(1,2) False unfolding c_def by auto
  have "0 \<le> doe mod 36524" "doe mod 36524 < 36524" by simp_all
  then have q: "0 \<le> q" "q \<le> 24" and s: "0 \<le> s" "s \<le> 1460" unfolding q_def s_def by auto
  have k: "0 \<le> k" "k \<le> 1" "s = 1460 \<Longrightarrow> k = 1" "s < 1364 \<Longrightarrow> k = 0"
    unfolding k_def using c q s by auto
  have "doe = 1460 * (25 * c + q) + (24 * c + q + s)" using doe by simp
  then have a: "doe div 1460 = 25 * c + q + k" unfolding k_def by simp
  define y where "y = (s - k) div 365"
  have y: "0 \<le> y" "y \<le> 3" "0 \<le> s - 365 * y" "s - 365 * y \<le> 365"
    using s k unfolding y_def by (cases "s < 1364"; force)+
  have "doe - doe div 1460 + doe div 36524 - doe div 146096 = 365 * (100 * c + 4 * q) + (s - k)"
    unfolding a last c_def [symmetric] using doe by simp
  then have yoe: "yoe = 100 * c + 4 * q + y" unfolding yoe_def y_def by simp
  have "yoe = 4 * (25 * c + q) + y" using yoe by simp
  then have "yoe div 4 = 25 * c + q" using y by simp
  moreover have "yoe = 100 * c + (4 * q + y)" using yoe by simp
  then have "yoe div 100 = c" using y q by simp
  ultimately show ?thesis using yoe doe y q c by auto
qed

text \<open>A date is the number of its day.\<close>

lemma div_floor:
  fixes a c :: int
  assumes "0 < c"
  shows "c * (a div c) \<le> a" "a < c * (a div c) + c"
  using assms mult_div_mod_eq [of c a] pos_mod_sign [of c a] pos_mod_bound [of c a] by linarith+

lemma civil_round_trip:
  assumes "civil_from_days n = (y, m, d)"
  shows "days_from_civil y m d = n" and "1 \<le> m" "m \<le> 12" "1 \<le> d" "d \<le> 31"
proof -
  define era where "era = (n + 719468) div 146097"
  define doe where "doe = (n + 719468) mod 146097"
  define yoe where "yoe = (doe - doe div 1460 + doe div 36524 - doe div 146096) div 365"
  define doy where "doy = doe - (365 * yoe + yoe div 4 - yoe div 100)"
  define mp where "mp = (5 * doy + 2) div 153"
  have z: "n + 719468 = 146097 * era + doe" by (simp add: era_def doe_def)
  have doe: "0 \<le> doe" "doe < 146097" by (simp_all add: doe_def)
  have yoe: "0 \<le> yoe" "yoe < 400" and doy: "0 \<le> doy" "doy \<le> 365"
    using day_of_era [OF doe] unfolding yoe_def doy_def by simp_all
  have mp: "0 \<le> mp" "mp \<le> 11" using doy unfolding mp_def by auto
  have ymd: "m = (if mp < 10 then mp + 3 else mp - 9)"
    "y = (if m \<le> 2 then yoe + era * 400 + 1 else yoe + era * 400)"
    "d = doy - (153 * mp + 2) div 5 + 1"
    using assms [unfolded civil_from_days_def Let_def, folded era_def doe_def, folded yoe_def,
        folded doy_def, folded mp_def, unfolded prod.inject] by (elim conjE; simp only: )+
  show "1 \<le> m" "m \<le> 12" using mp unfolding ymd(1) by (auto split: if_splits)
  have "153 * mp \<le> 5 * doy + 2" "5 * doy + 2 < 153 * mp + 153"
    "5 * ((153 * mp + 2) div 5) \<le> 153 * mp + 2" "153 * mp + 2 < 5 * ((153 * mp + 2) div 5) + 5"
    using div_floor [of 153 "5 * doy + 2"] div_floor [of 5 "153 * mp + 2"] by (simp_all add: mp_def)
  then show "1 \<le> d" "d \<le> 31" unfolding ymd(3) by linarith+
  have month: "(if m > 2 then m - 3 else m + 9) = mp"
    using mp unfolding ymd(1) by (cases "mp < 10") simp_all
  have year: "(if m \<le> 2 then y - 1 else y) = yoe + 400 * era"
    unfolding ymd(2) by (cases "m \<le> 2") simp_all
  have "(yoe + 400 * era) div 400 = era" "(yoe + 400 * era) mod 400 = yoe" using yoe by simp_all
  then show "days_from_civil y m d = n"
    unfolding days_from_civil_def Let_def month year ymd(3) using z doy_def by simp
qed

section \<open>Digits\<close>

lemma digits_value_zeros [simp]: "digits_value (replicate k (CHR ''0'') @ s) = digits_value s"
proof (induction k)
  case (Suc k)
  then show ?case by (simp add: digits_value_def char_digit_def)
qed simp

lemma pad_d_digits:
  assumes "0 \<le> i" "i < 10 ^ w" "0 < w"
  shows "length (pad_d w i) = w" "list_all is_digit (pad_d w i)" "int (digits_value (pad_d w i)) = i"
proof -
  have f: "fmt_d i = show_base 10 (nat i)" using assms(1) by (simp add: fmt_d_def)
  have "nat i < 10 ^ w" using assms(1,2) by (simp add: nat_less_iff)
  from length_show_base_10 [OF this assms(3)]
  show "length (pad_d w i) = w" by (simp add: pad_d_def f Let_def)
  show "list_all is_digit (pad_d w i)"
    using show_base_10_digits [of "nat i"]
    by (auto simp: pad_d_def f Let_def list_all_iff is_digit_def)
  show "int (digits_value (pad_d w i)) = i"
    using assms(1) by (simp add: pad_d_def f Let_def digits_value_show)
qed


section \<open>Reading what was written\<close>

definition four_digit_year :: "int \<Rightarrow> bool" where
  "four_digit_year t =
     (let y = fst (civil_from_days (t div 1000000000 div 86400)) in 0 \<le> y \<and> y \<le> 9999)"

text \<open>The fraction is written without its trailing zeros, and read with zeros appended.\<close>

lemma trailing_zeros:
  fixes s :: string
  defines "f \<equiv> rev (dropWhile (\<lambda>c. c = CHR ''0'') (rev s))"
  shows "s = f @ replicate (length s - length f) (CHR ''0'')" and "length f \<le> length s"
proof -
  have t: "takeWhile (\<lambda>c. c = CHR ''0'') (rev s) = replicate (length s - length f) (CHR ''0'')"
  proof (rule replicate_eqI)
    show "length (takeWhile (\<lambda>c. c = CHR ''0'') (rev s)) = length s - length f"
      unfolding f_def
      using arg_cong [OF takeWhile_dropWhile_id [of "\<lambda>c. c = CHR ''0''" "rev s"], of length]
      by (simp only: length_append length_rev)
  qed (auto dest: set_takeWhileD)
  have "rev s = takeWhile (\<lambda>c. c = CHR ''0'') (rev s) @ rev f" by (simp add: f_def)
  then have "s = rev (takeWhile (\<lambda>c. c = CHR ''0'') (rev s) @ rev f)" by (metis rev_rev_ident)
  then show "s = f @ replicate (length s - length f) (CHR ''0'')" by (simp add: t)
  then show "length f \<le> length s" by (metis length_append le_add1)
qed

lemma fraction_digits:
  assumes "0 \<le> ns" "ns < 1000000000"
  defines "f \<equiv> rev (dropWhile (\<lambda>c. c = CHR ''0'') (rev (pad_d 9 ns)))"
  shows "int (digits_value (take 9 (f @ replicate 9 (CHR ''0'')))) = ns" "length f \<le> 9"
    "list_all is_digit f" "f = [] \<Longrightarrow> ns = 0"
proof -
  have p: "length (pad_d 9 ns) = 9" "list_all is_digit (pad_d 9 ns)" "int (digits_value (pad_d 9 ns)) = ns"
    using pad_d_digits [of ns 9] assms(1,2) by simp_all
  note z = trailing_zeros [of "pad_d 9 ns", folded f_def, unfolded p(1)]
  show l: "length f \<le> 9" by (rule z(2))
  have "take 9 (f @ replicate 9 (CHR ''0'')) = pad_d 9 ns"
    using l by (subst z(1)) (simp add: min_def)
  then show "int (digits_value (take 9 (f @ replicate 9 (CHR ''0'')))) = ns" using p(3) by simp
  show "list_all is_digit f" using p(2) by (subst (asm) z(1)) simp
  show "ns = 0" if "f = []"
    using z(1) p(3) that digits_value_zeros [of 9 "[]"] by (simp add: digits_value_def)
qed


text \<open>The parts of a time are where the parser looks for them.\<close>

lemma parse_parts:
  assumes "length Y = 4" "length M = 2" "length D = 2" "length H = 2" "length I = 2" "length S = 2"
    and "list_all is_digit Y" "list_all is_digit M" "list_all is_digit D" "list_all is_digit H"
      "list_all is_digit I" "list_all is_digit S"
    and "s = Y @ ''-'' @ M @ ''-'' @ D @ ''T'' @ H @ '':'' @ I @ '':'' @ S @
           (if F = [] then [] else ''.'' @ F) @ ''Z''"
    and "length F \<le> 9" "list_all is_digit F"
    and "y = int (digits_value Y)" "m = int (digits_value M)" "d = int (digits_value D)"
    and "civil_from_days n = (y, m, d)"
    and "int (digits_value H) \<le> 23" "int (digits_value I) \<le> 59" "int (digits_value S) \<le> 59"
  shows "parse_rfc3339 s = Some ((n * 86400 + int (digits_value H) * 3600 + int (digits_value I) * 60 +
     int (digits_value S)) * 1000000000 + int (digits_value (take 9 (F @ replicate 9 (CHR ''0'')))))"
proof -
  note len = assms(1-6)
  have tk: "take 4 s = Y" "take 2 (drop 5 s) = M" "take 2 (drop 8 s) = D" "take 2 (drop 11 s) = H"
    "take 2 (drop 14 s) = I" "take 2 (drop 17 s) = S"
    unfolding assms(13) by (simp_all add: len)
  have nt: "s ! 4 = CHR ''-''" "s ! 7 = CHR ''-''" "s ! 10 = CHR ''T''" "s ! 13 = CHR '':''"
    "s ! 16 = CHR '':''"
    unfolding assms(13) by (simp_all add: len nth_append)
  have ln: "length s = (if F = [] then 20 else 21 + length F)" and la: "last s = CHR ''Z''"
    unfolding assms(13) by (simp_all add: len)
  have fr: "(if length s > 20 then butlast (drop 20 s) else []) = F"
    unfolding ln unfolding assms(13) by (simp add: len butlast_append)
  have dot: "F \<noteq> [] \<Longrightarrow> s ! 19 = CHR ''.''"
    unfolding assms(13) by (simp add: len nth_append)
  note civ = civil_round_trip [OF assms(19)]
  show ?thesis
    unfolding parse_rfc3339_def Let_def drop_0 tk fr assms(16-18) [symmetric] civ(1) assms(19)
    using assms(7-12,14,15,20-22) nt ln la dot civ(2,3) by (cases "F = []") simp_all
qed

lemma time_digits:
  assumes "0 \<le> x" "x < 100"
  shows "length (pad_d 2 x) = 2" "list_all is_digit (pad_d 2 x)" "int (digits_value (pad_d 2 x)) = x"
  using pad_d_digits [of x 2] assms by simp_all

lemma rfc3339_nano_parses:
  assumes "four_digit_year t"
  shows "parse_rfc3339 (rfc3339_nano t) = Some t"
proof -
  define secs where "secs = t div 1000000000"
  define ns where "ns = t mod 1000000000"
  define sod where "sod = secs mod 86400"
  define F where "F = (if ns = 0 then [] else rev (dropWhile (\<lambda>c. c = CHR ''0'') (rev (pad_d 9 ns))))"
  obtain y m d where c: "civil_from_days (secs div 86400) = (y, m, d)" by (metis prod_cases3)
  have y: "length (pad_d 4 y) = 4" "list_all is_digit (pad_d 4 y)" "int (digits_value (pad_d 4 y)) = y"
    using pad_d_digits [of y 4] assms c by (simp_all add: four_digit_year_def Let_def secs_def)
  have ns: "0 \<le> ns" "ns < 1000000000" by (simp_all add: ns_def)
  note f = fraction_digits [OF ns]
  have F: "length F \<le> 9" "list_all is_digit F" "ns \<noteq> 0 \<Longrightarrow> F \<noteq> []"
    "int (digits_value (take 9 (F @ replicate 9 (CHR ''0'')))) = ns"
    using f by (auto simp: F_def) (simp add: digits_value_def char_digit_def numeral_eq_Suc)
  have b: "0 \<le> sod" "sod < 86400" by (simp_all add: sod_def)
  note md = civil_round_trip(2-5) [OF c]
  have h: "0 \<le> sod div 3600" "sod div 3600 \<le> 23" "0 \<le> sod mod 3600 div 60" "sod mod 3600 div 60 \<le> 59"
    "0 \<le> sod mod 60" "sod mod 60 \<le> 59"
    using b by auto
  have tx: "rfc3339_nano t = pad_d 4 y @ ''-'' @ pad_d 2 m @ ''-'' @ pad_d 2 d @ ''T'' @
      pad_d 2 (sod div 3600) @ '':'' @ pad_d 2 (sod mod 3600 div 60) @ '':'' @ pad_d 2 (sod mod 60) @
      (if F = [] then [] else ''.'' @ F) @ ''Z''"
    unfolding rfc3339_nano_def rfc3339_def Let_def
    unfolding secs_def [symmetric] ns_def [symmetric] sod_def [symmetric] c
    using F(3) by (cases "ns = 0") (simp_all add: F_def butlast_append)
  have "sod mod 3600 mod 60 = sod mod 60" by (rule mod_mod_cancel) simp
  then have sod: "sod div 3600 * 3600 + sod mod 3600 div 60 * 60 + sod mod 60 = sod"
    using div_mult_mod_eq [of sod 3600] div_mult_mod_eq [of "sod mod 3600" 60]
    by linarith
  have M: "0 \<le> m" "m < 100" and D: "0 \<le> d" "d < 100" and H: "sod div 3600 < 100"
    and I: "sod mod 3600 div 60 < 100" and S: "sod mod 60 < 100" using md h by linarith+
  note M = time_digits [OF M] and D = time_digits [OF D] and H = time_digits [OF h(1) H]
    and I = time_digits [OF h(3) I] and S = time_digits [OF h(5) S]
  have "parse_rfc3339 (rfc3339_nano t) = Some ((secs div 86400 * 86400 + sod div 3600 * 3600 +
      sod mod 3600 div 60 * 60 + sod mod 60) * 1000000000 + ns)"
    using parse_parts [OF y(1) M(1) D(1) H(1) I(1) S(1) y(2) M(2) D(2) H(2) I(2) S(2) tx F(1,2)
        y(3) [symmetric] M(3) [symmetric] D(3) [symmetric] c, unfolded H(3) I(3) S(3) F(4)] h(2,4,6)
    by (simp only: simp_thms)
  also have "secs div 86400 * 86400 + sod div 3600 * 3600 + sod mod 3600 div 60 * 60 + sod mod 60 = secs"
    using sod div_mult_mod_eq [of secs 86400] unfolding sod_def [symmetric] by linarith
  also have "secs * 1000000000 + ns = t" unfolding secs_def ns_def by (rule div_mult_mod_eq)
  finally show ?thesis .
qed


text \<open>A time to the second is written as one with the fraction zero.\<close>

lemma rfc3339_seconds: "rfc3339 (t - t mod 1000000000) = rfc3339 t"
proof -
  have "(t - t mod 1000000000) div 1000000000 = t div 1000000000" by (simp add: minus_mod_eq_mult_div)
  then show ?thesis by (simp add: rfc3339_def)
qed

lemma rfc3339_whole: "rfc3339 t = rfc3339_nano (t - t mod 1000000000)"
proof -
  have z: "(t - t mod 1000000000) mod 1000000000 = 0" by (simp add: minus_mod_eq_mult_div)
  have "rfc3339 t = butlast (rfc3339 t) @ ''Z''"
    by (simp add: rfc3339_def Let_def butlast_append split: prod.split)
  then show ?thesis by (simp add: rfc3339_nano_def z rfc3339_seconds)
qed

lemma rfc3339_length:
  assumes "four_digit_year t"
  shows "length (rfc3339 t) = 20"
proof -
  obtain y m d where c: "civil_from_days (t div 1000000000 div 86400) = (y, m, d)" by (metis prod_cases3)
  have y: "length (pad_d 4 y) = 4"
    using pad_d_digits [of y 4] assms c by (simp add: four_digit_year_def Let_def)
  define sod where "sod = t div 1000000000 mod 86400"
  have b: "0 \<le> sod" "sod < 86400" by (simp_all add: sod_def)
  then have h: "0 \<le> sod div 3600" "sod div 3600 < 100" "0 \<le> sod mod 3600 div 60" "sod mod 3600 div 60 < 100"
    "0 \<le> sod mod 60" "sod mod 60 < 100"
    by (auto intro: order.strict_trans [OF pos_mod_bound])
  have "m < 100" "d < 100" "0 \<le> m" "0 \<le> d" using civil_round_trip(2-5) [OF c] by simp_all
  then show ?thesis
    using time_digits(1) h y by (simp add: rfc3339_def Let_def c sod_def [symmetric])
qed

lemma rfc3339_microseconds: "rfc3339 (datetime6 t) = rfc3339 t"
proof -
  have "(t - t mod 1000) div 1000000000 = t div 1000 * 1000 div (1000000 * 1000)"
    by (simp add: minus_mod_eq_div_mult)
  also have "\<dots> = t div 1000 div 1000000" by (rule div_mult_mult2) simp
  also have "\<dots> = t div 1000000000" using zdiv_zmult2_eq [of 1000000 t 1000] by simp
  finally show ?thesis by (simp add: rfc3339_def datetime6_def)
qed

section \<open>The response of a create\<close>

text \<open>The keys of the response as they are compared.\<close>

lemma folded_response_keys:
  "fold_case ''OperationID'' = ''operationid''" "fold_case ''Status'' = ''status''"
  "fold_case ''Stage'' = ''stage''" "fold_case ''UploadTarget'' = ''uploadtarget''"
  "fold_case ''StatusURL'' = ''statusurl''" "fold_case ''ResultURL'' = ''resulturl''"
  "fold_case ''CreatedAt'' = ''createdat''" "fold_case ''Version'' = ''version''"
  "fold_case ''Method'' = ''method''" "fold_case ''URL'' = ''url''" "fold_case ''Headers'' = ''headers''"
  "fold_case ''Expires'' = ''expires''" "fold_case ''MaxBytes'' = ''maxbytes''"
  by code_simp+

lemma created_names:
  "op_status_of_string ''CREATED'' = StatusCreated"
  "op_stage_of_string ''WAITING_FOR_UPLOAD'' = StageWaitingForUpload"
  by code_simp+

text \<open>
  The response of a create is read back from its encoding. What the program stores is not that encoding
  but a JSON string of its text, which does not decode (\<open>stored_response_undecodable\<close>).
\<close>

lemma response_round_trip:
  assumes "four_digit_year now" and "four_digit_year (now + hours 1)"
  shows "unmarshal_create_output (marshal_create_output (create_result base i now)) =
    Some (create_result base i now)"
proof -
  have t: "parse_rfc3339 (rfc3339_nano now) = Some now"
    "parse_rfc3339 (rfc3339_nano (now + hours 1)) = Some (now + hours 1)"
    using rfc3339_nano_parses assms by simp_all
  define u where "u = co_upload_target (create_result base i now)"
  define m where "m = (case marshal_upload_target u of JObj m \<Rightarrow> m | _ \<Rightarrow> [])"
  have m: "unmarshal_upload_target m = Some u"
    by (simp add: m_def u_def create_result_def marshal_upload_target_def unmarshal_upload_target_def
        struct_string_def struct_map_def struct_time_def struct_int_def struct_values_def
        folded_response_keys json_map_any_def min_int64_def max_int64_def t)
  have "marshal_upload_target u = JObj m" by (simp add: m_def marshal_upload_target_def)
  then show ?thesis using m
    by (simp add: unmarshal_create_output_def marshal_create_output_def u_def [symmetric] struct_string_def
        struct_object_def struct_time_def struct_int_def struct_values_def folded_response_keys)
      (simp add: create_result_def created_names t u_def min_int64_def max_int64_def)
qed

end
