(* ===== verification/Time_Properties.thy ===== *)
theory Time_Properties
  imports Http_Properties Time_Codec
begin

text \<open>
  The deadline of an operation through the service: what a client sends, what is stored, and what the
  client reads.
\<close>

lemma parse_time_rfc3339:
  assumes "four_digit_year t"
  shows "parse_time (rfc3339 t) = Some (t - t mod 1000000000)"
proof -
  have y: "four_digit_year (t - t mod 1000000000)"
    using assms by (simp add: four_digit_year_def Let_def minus_mod_eq_mult_div)
  have p: "parse_rfc3339 (rfc3339 t) = Some (t - t mod 1000000000)"
    using rfc3339_nano_parses [OF y] by (simp add: rfc3339_whole [symmetric])
  then have n: "rfc3339 t \<noteq> []" "last (rfc3339 t) = CHR ''Z''"
    by (auto simp: parse_rfc3339_def Let_def split: if_splits)
  have "butlast (rfc3339 t) @ ''Z'' = rfc3339 t" using append_butlast_last_id [OF n(1)] n(2) by simp
  then show ?thesis using p n rfc3339_length [OF assms] by (simp add: parse_time_def Let_def)
qed

lemma deadline_decoded:
  assumes "struct_values m ''deadline'' = [JStr s]" and "decode_create (JObj m) = Some r"
  shows "cr_deadline r = parse_time s" "parse_time s \<noteq> None"
  using assms by (auto simp: decode_create_def struct_opt_time_def split: option.splits)

text \<open>
  C24: the deadline that was sent with a create answered with 202 is what every later successful read of
  the operation returns, whatever ran in between: its instant to the second in UTC, and letter for letter
  what was sent when that was a time in UTC to the second.
\<close>

theorem deadline_is_echoed:
  assumes "ha_key_columns app = idempotency_keys_columns"
    and "serve app EpCreate rq w = (Inr cx, w1)" and "cx_status cx = 202"
    and "steps (w1, L) (w2, L')" and "serve app (EpGet i) rq2 w2 = (Inr cx2, w3)"
    and "cx_writes cx = [(202, JObj bd)]" and "map_of bd ''operation_id'' = Some (JStr i)"
    and "cx_writes cx2 = [(200, JObj bd2)]"
    and "hr_json rq = Some (JObj m)" and "struct_values m ''deadline'' = [JStr s]"
  shows "\<exists>t. parse_time s = Some t \<and> map_of bd2 ''deadline'' = Some (JStr (rfc3339 t)) \<and>
    (\<forall>t'. four_digit_year t' \<and> s = rfc3339 t' \<longrightarrow> map_of bd2 ''deadline'' = Some (JStr s))"
proof -
  from assms(1-7) obtain r inp now row where r: "Option.bind (hr_json rq) decode_create = Some r"
    "ci_deadline inp = cr_deadline r" and row: "row_evolves (op_create_row (new_operation inp i now)) row"
    and get: "quiet w2 \<or> cx_status cx2 = 200 \<longrightarrow>
      cx_writes cx2 = [(200, operation_body (ha_base app) (row_to_operation row))]"
    by (rule created_then_get)
  obtain t where t: "parse_time s = Some t" "cr_deadline r = Some t"
    using deadline_decoded [OF assms(10)] r(1) assms(9) by auto
  then have "r_deadline row = Some (datetime6 t)"
    using row r(2) by (simp add: row_evolves_def op_create_row_def new_operation_def)
  moreover have "JObj bd2 = operation_body (ha_base app) (row_to_operation row)"
    using get assms(8) by (simp add: cx_status_def)
  ultimately have "map_of bd2 ''deadline'' = Some (JStr (rfc3339 (datetime6 t)))"
    by (simp add: operation_body_def opt_member_def row_to_operation_def map_add_def split: option.splits)
  then have d: "map_of bd2 ''deadline'' = Some (JStr (rfc3339 t))"
    unfolding rfc3339_microseconds .
  have "rfc3339 t = s" if "four_digit_year t'" "s = rfc3339 t'" for t'
  proof -
    have "t = t' - t' mod 1000000000"
      using parse_time_rfc3339 [OF that(1)] t(1) unfolding that(2) by (metis option.inject)
    then show ?thesis unfolding that(2) by (simp only: rfc3339_seconds)
  qed
  then have "\<forall>t'. four_digit_year t' \<and> s = rfc3339 t' \<longrightarrow> map_of bd2 ''deadline'' = Some (JStr s)"
    using d by metis
  with t(1) d show ?thesis by (intro exI conjI)
qed


definition deadline_post :: http_request where
  "deadline_post = sample_post\<lparr>hr_json := Some (JObj [(''processor'', JStr ''demo''),
     (''deadline'', JStr ''2032-02-29T23:59:59Z'')])\<rparr>"

lemma deadline_post_decoded:
  "Option.bind (hr_json deadline_post) decode_create = Some \<lparr>cr_processor = ''demo'', cr_options = [],
     cr_metadata = [], cr_deadline = Some 1961711999000000000, cr_max_attempts = None, cr_client_reference = []\<rparr>"
  by (simp add: deadline_post_def) code_simp

theorem deadline_is_echoed_witness:
  "\<exists>cx bd i cx2 bd2. fst (serve sample_app EpCreate deadline_post (sample_world empty_db)) = Inr cx \<and>
     cx_writes cx = [(202, JObj bd)] \<and> map_of bd ''operation_id'' = Some (JStr i) \<and>
     fst (serve sample_app (EpGet i) sample_post
       (snd (serve sample_app EpCreate deadline_post (sample_world empty_db)))) = Inr cx2 \<and>
     cx_writes cx2 = [(200, JObj bd2)] \<and> map_of bd2 ''deadline'' = Some (JStr ''2032-02-29T23:59:59Z'')"
proof -
  have h: "content_type deadline_post = ''application/json''" "hr_headers deadline_post ''Idempotency-Key'' = ''k''"
    by (simp_all add: deadline_post_def sample_post_def sample_request_def content_type_def)
  have js: "hr_json deadline_post = Some (JObj [(''processor'', JStr ''demo''),
      (''deadline'', JStr ''2032-02-29T23:59:59Z'')])" "struct_values [(''processor'', JStr ''demo''),
      (''deadline'', JStr ''2032-02-29T23:59:59Z'')] ''deadline'' = [JStr ''2032-02-29T23:59:59Z'']"
    by (simp add: deadline_post_def) code_simp
  have canonical: "four_digit_year 1961711999000000000" "''2032-02-29T23:59:59Z'' = rfc3339 1961711999000000000"
    by code_simp+
  obtain cx w1 i bd where run: "serve sample_app EpCreate deadline_post (sample_world empty_db) = (Inr cx, w1)"
    "cx_writes cx = [(202, JObj bd)]" "map_of bd ''operation_id'' = Some (JStr i)" and q: "quiet w1"
    by (rule posted_runs [OF _ _ h deadline_post_decoded, of "sample_world empty_db"]) simp_all
  obtain cx2 w3 where get: "serve sample_app (EpGet i) sample_post w1 = (Inr cx2, w3)"
    by (rule serve_run) blast
  have app: "ha_key_columns sample_app = idempotency_keys_columns" and st: "cx_status cx = 202"
    using run(2) by (simp_all add: sample_app_def cx_status_def)
  have "\<exists>op. cx_writes cx2 = [(200, operation_body (ha_base sample_app) op)]"
    using created_then_get [OF app run(1) st rtranclp.rtrancl_refl get run(2,3)] q by metis
  then obtain bd2 where bd2: "cx_writes cx2 = [(200, JObj bd2)]" by (auto simp: operation_body_def)
  have "map_of bd2 ''deadline'' = Some (JStr ''2032-02-29T23:59:59Z'')"
    using deadline_is_echoed [OF app run(1) st rtranclp.rtrancl_refl get run(2,3) bd2 js(1,2)] canonical
    by metis
  then show ?thesis using run get bd2 by auto
qed

end
