(* ===== verification/Spec2Isabelle.thy ===== *)
theory Spec2Isabelle
  imports Sha256_Vector Storage_Properties Usecase_Properties Upload_Properties Transfer_Properties
    Role_Properties Transfer_Sender System_Properties Config_Properties Http_Properties
    Indexer_Properties Nats_Stream Store_Refinement Application_Properties Arrival
    Docs_Properties Time_Properties
begin

text \<open>
  A model of the file processing service: an HTTP entry that creates operations and takes their input
  files, a coordinator that dispatches a file to a worker in chunks over NATS JetStream, workers that
  take the chunks and report back in events, and a search index of completed operations. All nodes
  share one MariaDB database. This theory imports the rest and says what is where.

  \<^bold>\<open>The program and its parts.\<close> A request passes the middleware and a handler of \<open>operation/handler.go\<close>,
  which calls a use case of \<open>application/operations\<close>. \<open>CreateOperation\<close> stores a row in status \<open>CREATED\<close>.
  \<open>FileOperation\<close> writes the body to a temporary file, checks its length and digest, moves the operation
  to \<open>QUEUED\<close> and starts \<open>DispatchOperation\<close> in the background, which selects a worker, sends it
  \<open>START_TRANSFER\<close>, publishes the chunks, sends \<open>PROCESS_UPDATE\<close> and writes a job, an attempt, a transfer and
  the status \<open>DISPATCHED\<close>. On the worker the role manager (\<open>app/role.go\<close>) hands the first command to the
  transfer receiver (\<open>infrastructure/transfer/receiver.go\<close>) and waits with the second until no transfer
  of the operation is active. On the coordinator it consumes the events and updates the operation.

  \<^bold>\<open>Foundations.\<close>
  \<^item> \<open>Go_Prelude\<close>: what the source uses of Go and its library: errors with their wrapping, strings, the
    formatting and parsing of numbers, hex, times in nanoseconds since 1970, JSON values and
    the decoding of struct fields. \<open>Sha256\<close> is the digest, tested against a published vector in
    \<open>Sha256_Vector\<close>.
  \<^item> \<open>Domain\<close>: the records and enumerations of \<open>internal/domain\<close>. \<open>Transition_Guard\<close>: \<open>transition.go\<close>.
  \<^item> \<open>Schema\<close>: the tables of the migrations as lists of rows in insertion order, with the insert, update
    and upsert of SQL, the widths and ranges of the columns and the uniqueness of keys (locale
    \<open>keyed_table\<close>). A width counts the characters of a string, whose bytes are taken to be well-formed
    UTF-8.
  \<^item> \<open>World\<close>: the state that effects act on: the database, the disks of the nodes, the messages
    published, the consumers subscribed, the goroutines started, and oracles for the clock, the random
    bytes and the outcome of every call that leaves the process. A call is done, lost, or done without
    its acknowledgement; theorems without the hypothesis \<open>quiet\<close> hold for every pattern of failures. An
    effectful function maps a world to an error or a value and the world after it; a panic is an error
    that handlers of errors do not catch. The combinators are polymorphic in the state, so that the
    process can carry its log of actions beside the world. The locales \<open>db_guarantee\<close> and \<open>world_guarantee\<close> lift a
    reflexive and transitive relation from statements and calls to whole functions.

  \<^bold>\<open>The components\<close>, one theory each: \<open>Operation_Repo\<close>, \<open>Job_Repos\<close> (jobs, attempts, transfers, chunks),
  \<open>Log_Repos\<close> (events, results, idempotency keys) and \<open>Node_Repo\<close> (nodes, heartbeats) for
  \<open>infrastructure/mariadb/repositories\<close>; \<open>Create_Op\<close>, \<open>File_Op\<close>, \<open>Dispatch_Op\<close>, \<open>Cancel_Retry\<close> and
  \<open>Query_Ops\<close> for the use cases and the scheduler; \<open>Nats_Client\<close> and \<open>Nats_Stream\<close> for
  \<open>infrastructure/nats\<close>; \<open>Event_Codec\<close> for the two encodings of events; \<open>Transfer_Receiver\<close> and
  \<open>Transfer_Sender\<close> for \<open>infrastructure/transfer\<close>; \<open>Role_Manager\<close> for \<open>app/role.go\<close>; \<open>Indexer\<close> for
  \<open>infrastructure/elasticsearch\<close>; \<open>Config\<close> for \<open>config.go\<close>; \<open>Http\<close> for the handlers, the middleware and
  the chain of each route; \<open>Api_Types\<close> for the documented responses (\<open>operation/swagger_types.go\<close>, the
  annotations of \<open>handler.go\<close>) and \<open>Api_Docs\<close> for the Swagger document (\<open>docs/docs.go\<close>) as data;
  \<open>Application\<close> for \<open>main\<close>, \<open>Bootstrap\<close>, \<open>RegisterRouter\<close> and \<open>Run\<close> with the connection to NATS and
  Elasticsearch. There a call to a library is an action, which succeeds or fails, and the process is the
  function that writes their log. Definitions keep the names of the functions they translate, in the
  order of the source; a handler is cut after the load of the operation (\<open>..._loaded\<close>), where another
  handler can come between, so that interleavings can be stated.

  \<^bold>\<open>What the lemmas show.\<close>
  \<^item> \<open>Versioned\<close> and \<open>Store_Refinement\<close>: optimistic updates (locale \<open>versioned_table\<close>, interpreted by the
    operations and the transfers), and the repository as an implementation of an abstract store (locale
    \<open>store_implementation\<close>). \<open>Storage_Properties\<close>: writes followed by reads, the list, the scheduler, the
    upserts.
  \<^item> \<open>Transfer_Facts\<close> and \<open>Transfer_Properties\<close>: a file cut into chunks, sent, and delivered in any order
    with repetitions is the file again (locale \<open>block_store\<close>); what deliveries never do.
  \<^item> \<open>Usecase_Properties\<close>, \<open>Upload_Properties\<close>: the results and effects of the use cases; what an upload
    leaves behind when its file name is too long or its size limit is the largest \<open>int64\<close>.
  \<^item> \<open>Role_Facts\<close>, \<open>Role_Properties\<close>: commands and events at the role manager.
  \<^item> \<open>Handlers\<close> (locale \<open>handler_guarantee\<close>, one lemma per handler, interpreted by each guarantee) takes what
    the statements keep to the handlers. \<open>Statements\<close> is the system at the grain of the database: the
    statements of any number of handlers in any order, over the operations that some handler has loaded;
    its invariants are proved there. \<open>System\<close> is the system at the grain of the handlers: a step is a load, or
    the rest of a handler with a struct that some load returned before, or a change outside the database.
    Its runs are runs of statements. \<open>System_Properties\<close> states the invariants at both grains.
  \<^item> \<open>Http_Properties\<close>: every request is answered once (locale \<open>gate\<close> for the middleware), with a status and a
    body that are compared with the documented ones, and what the endpoints do over a run of the system.
    \<open>Docs_Properties\<close>: the Swagger document against the ten endpoints, the annotations and the response
    structs, and the documented preconditions that no handler reads.
    \<open>Time_Codec\<close> and \<open>Time_Properties\<close>: the calendar, written times are read back, and the deadline
    of an operation from the create to every later read.
    \<open>Indexer_Properties\<close>: conservation of documents (locale \<open>indexer_invariant\<close>), which needs a writable
    dead letter file and a server that has stored what it answers below 400, and the stop, during which
    documents are still handed over.
    \<open>Config_Properties\<close>: the reading of the environment.
  \<^item> \<open>Application_Properties\<close>: a calculus of weakest preconditions for processes; when a start succeeds, what it
    leaves open, the order of the shutdown, and the settings without effect.
  \<^item> \<open>Delivery\<close> and \<open>Arrival\<close> put the parts together: what an upload at one node stores and its dispatch
    publishes is, at the worker that takes it, the file on the disk.
  \<^item> \<open>Samples\<close> holds concrete values for the witnesses.

  \<^bold>\<open>Loops and bounds.\<close> Loops over data are structural recursions. The wait of a processing job is a
  \<open>partial_function\<close>: that it returns is stated as such, and that it does not as \<open>None\<close>. The heartbeat
  loop takes the number of its ticks; the chunk loop the number of chunks, which the file size fixes.
  Integers are unbounded except where a width shows: configuration sizes and the limit of an upload wrap at
  64 bits, integer columns have their ranges, and durations saturate. The stop of the indexer is bounded by
  the work left in its channel and hands, and three steps for each document handed over meanwhile.

  \<^bold>\<open>Not modelled.\<close> The ranges of dates and of JSON columns, and the bound of the version count of a chunk,
  which its deliveries raise. Log lines and the fields that are extracted for them; what is inside the libraries:
  connections and their reconnects, the pool of database connections, the migration tool, the choice of
  a route by the router, the validator and the parser of URLs, which are parameters or actions; \<open>ReadJSON\<close> in
  \<open>app/json.go\<close>, which nothing calls, since a request carries its JSON value and not the bytes of it. The database
  compares strings exactly, where the collation of the schema takes upper and lower case for the same:
  the ids that the program makes are in lower case. Contexts with deadlines appear as calls that fail. In \<open>Run\<close> two goroutines are put in line: a server that cannot
  listen ends the process at once, and the ticker of an interval that is not positive panics when the
  process begins to wait.
\<close>

end
